(* ===== verification/ExPrelude.thy ===== *)
theory ExPrelude
  imports Main "HOL-Library.Word"
begin

text \<open>
  What every component of the development shares.

  \<^item> The shape of a C++ member function: a program over a state that ends with a value
    (\<open>Ok\<close>), with an exception that was thrown (\<open>Exn\<close>), in undefined behaviour (\<open>Undef\<close>),
    or, for the loops that wait for the ODBC driver to say \<open>SQL_NO_DATA\<close>, with its fuel used
    up (\<open>OutOfFuel\<close>). The state reached when an exception leaves a function is kept: C++ does
    not roll assignments back.
  \<^item> The statements of the language as combinators (\<open>thenM\<close>, \<open>bindM\<close>, \<open>ifM\<close>, \<open>catchM\<close>,
    \<open>forM\<close>), each with its equation in the collection \<open>exec\<close>.
  \<^item> The frame calculus \<open>preserves f m\<close> (the program \<open>m\<close> never changes what \<open>f\<close> reads) and
    the logic \<open>valid\<close> with a postcondition for each of the two ways to leave.
  \<^item> \<open>std::map\<close> with unsigned keys as a sorted association list, behind the locale
    \<open>ordered_map\<close> that states what the clients rely on.
  \<^item> Joining strings with a separator.
\<close>

named_theorems exec "equations that run a program on a state"
named_theorems pres "frame rules: what a program leaves unchanged"
named_theorems keep "programs that keep an invariant"
named_theorems quiet "programs that never end with an exception"
named_theorems vcg "rules of the exception logic"

section \<open>Programs\<close>

datatype ('e, 'a) res = Ok 'a | Exn 'e | Undef | OutOfFuel

type_synonym ('e, 's, 'a) prog = "'s \<Rightarrow> ('e, 'a) res \<times> 's"

definition returnM :: "'a \<Rightarrow> ('e, 's, 'a) prog" where
  "returnM x s = (Ok x, s)"

definition throwM :: "'e \<Rightarrow> ('e, 's, 'a) prog" where
  "throwM e s = (Exn e, s)"

definition undefM :: "('e, 's, 'a) prog" where
  "undefM s = (Undef, s)"

definition fuelM :: "('e, 's, 'a) prog" where
  "fuelM s = (OutOfFuel, s)"

definition bindM :: "('e, 's, 'a) prog \<Rightarrow> ('a \<Rightarrow> ('e, 's, 'b) prog) \<Rightarrow> ('e, 's, 'b) prog" where
  "bindM m f s =
     (case m s of
        (Ok x, s') \<Rightarrow> f x s'
      | (Exn e, s') \<Rightarrow> (Exn e, s')
      | (Undef, s') \<Rightarrow> (Undef, s')
      | (OutOfFuel, s') \<Rightarrow> (OutOfFuel, s'))"

definition thenM :: "('e, 's, 'a) prog \<Rightarrow> ('e, 's, 'b) prog \<Rightarrow> ('e, 's, 'b) prog" where
  "thenM m n = bindM m (\<lambda>_. n)"

definition catchM :: "('e, 's, 'a) prog \<Rightarrow> ('e \<Rightarrow> ('e, 's, 'a) prog) \<Rightarrow> ('e, 's, 'a) prog" where
  "catchM m h s = (case m s of (Exn e, s') \<Rightarrow> h e s' | (r, s') \<Rightarrow> (r, s'))"

definition getsM :: "('s \<Rightarrow> 'a) \<Rightarrow> ('e, 's, 'a) prog" where
  "getsM f s = (Ok (f s), s)"

definition modifyM :: "('s \<Rightarrow> 's) \<Rightarrow> ('e, 's, unit) prog" where
  "modifyM f s = (Ok (), f s)"

definition ifM :: "('s \<Rightarrow> bool) \<Rightarrow> ('e, 's, 'a) prog \<Rightarrow> ('e, 's, 'a) prog \<Rightarrow> ('e, 's, 'a) prog" where
  "ifM c m n s = (if c s then m s else n s)"

definition skipM :: "('e, 's, unit) prog" where
  "skipM = returnM ()"

definition whenM :: "('s \<Rightarrow> bool) \<Rightarrow> ('e, 's, unit) prog \<Rightarrow> ('e, 's, unit) prog" where
  "whenM c m = ifM c m skipM"

fun seqM :: "('e, 's, unit) prog list \<Rightarrow> ('e, 's, unit) prog" where
  "seqM [] = skipM"
| "seqM (m # ms) = thenM m (seqM ms)"

fun forM :: "'i list \<Rightarrow> ('i \<Rightarrow> ('e, 's, unit) prog) \<Rightarrow> ('e, 's, unit) prog" where
  "forM [] f = skipM"
| "forM (x # xs) f = thenM (f x) (forM xs f)"

text \<open>
  \<open>tryM m\<close> is \<open>try { m } catch (const Exception& ex) { LOG_ERROR(...); }\<close>, the shape of the
  destructors; \<open>finallyM m d\<close> runs \<open>m\<close> in the scope of a local object whose destructor \<open>d\<close> runs
  however \<open>m\<close> is left.
\<close>

definition tryM :: "('e, 's, unit) prog \<Rightarrow> ('e, 's, unit) prog" where
  "tryM m = catchM m (\<lambda>_. skipM)"

definition finallyM :: "('e, 's, 'a) prog \<Rightarrow> ('e, 's, unit) prog \<Rightarrow> ('e, 's, 'a) prog" where
  "finallyM m d s =
     (case m s of
        (Ok x, s') \<Rightarrow> thenM d (returnM x) s'
      | (Exn e, s') \<Rightarrow> thenM d (throwM e) s'
      | (Undef, s') \<Rightarrow> (Undef, s')
      | (OutOfFuel, s') \<Rightarrow> (OutOfFuel, s'))"

text \<open>A result as a program that leaves the state alone.\<close>

definition liftM :: "('e, 'a) res \<Rightarrow> ('e, 's, 'a) prog" where
  "liftM r s = (r, s)"

lemma liftM_exec [exec, simp]: "liftM r s = (r, s)"
  by (simp add: liftM_def)

lemma returnM_exec [exec, simp]: "returnM x s = (Ok x, s)"
  by (simp add: returnM_def)

lemma throwM_exec [exec, simp]: "throwM e s = (Exn e, s)"
  by (simp add: throwM_def)

lemma undefM_exec [exec, simp]: "undefM s = (Undef, s)"
  by (simp add: undefM_def)

lemma fuelM_exec [exec, simp]: "fuelM s = (OutOfFuel, s)"
  by (simp add: fuelM_def)

lemma getsM_exec [exec, simp]: "getsM f s = (Ok (f s), s)"
  by (simp add: getsM_def)

lemma modifyM_exec [exec, simp]: "modifyM f s = (Ok (), f s)"
  by (simp add: modifyM_def)

lemma skipM_exec [exec, simp]: "skipM s = (Ok (), s)"
  by (simp add: skipM_def)

lemma ifM_exec [exec, simp]: "ifM c m n s = (if c s then m s else n s)"
  by (simp add: ifM_def)

lemma whenM_exec [exec, simp]: "whenM c m s = (if c s then m s else (Ok (), s))"
  by (simp add: whenM_def)

lemma bindM_exec [exec]:
  "bindM m f s =
     (case m s of
        (Ok x, s') \<Rightarrow> f x s'
      | (Exn e, s') \<Rightarrow> (Exn e, s')
      | (Undef, s') \<Rightarrow> (Undef, s')
      | (OutOfFuel, s') \<Rightarrow> (OutOfFuel, s'))"
  by (simp add: bindM_def)

lemma thenM_exec [exec]:
  "thenM m n s =
     (case m s of
        (Ok x, s') \<Rightarrow> n s'
      | (Exn e, s') \<Rightarrow> (Exn e, s')
      | (Undef, s') \<Rightarrow> (Undef, s')
      | (OutOfFuel, s') \<Rightarrow> (OutOfFuel, s'))"
  by (simp add: thenM_def bindM_def)

lemma catchM_exec [exec]:
  "catchM m h s =
     (case m s of
        (Ok x, s') \<Rightarrow> (Ok x, s')
      | (Exn e, s') \<Rightarrow> h e s'
      | (Undef, s') \<Rightarrow> (Undef, s')
      | (OutOfFuel, s') \<Rightarrow> (OutOfFuel, s'))"
  by (simp add: catchM_def split: prod.split res.split)

lemma finallyM_step [simp]:
  "m s = (Ok x, s') \<Longrightarrow> finallyM m d s = thenM d (returnM x) s'"
  "m s = (Exn e, s') \<Longrightarrow> finallyM m d s = thenM d (throwM e) s'"
  by (simp_all add: finallyM_def)

lemma seqM_exec [exec]:
  "seqM [] s = (Ok (), s)"
  "seqM (m # ms) s =
     (case m s of
        (Ok x, s') \<Rightarrow> seqM ms s'
      | (Exn e, s') \<Rightarrow> (Exn e, s')
      | (Undef, s') \<Rightarrow> (Undef, s')
      | (OutOfFuel, s') \<Rightarrow> (OutOfFuel, s'))"
  by (simp_all add: thenM_exec)

text \<open>One step of a sequence, once the outcome of the first program is known.\<close>

lemma bindM_step [simp]:
  "m s = (Ok x, s') \<Longrightarrow> bindM m f s = f x s'"
  "m s = (Exn e, s') \<Longrightarrow> bindM m f s = (Exn e, s')"
  by (simp_all add: bindM_def)

lemma thenM_step [simp]:
  "m s = (Ok x, s') \<Longrightarrow> thenM m n s = n s'"
  "m s = (Exn e, s') \<Longrightarrow> thenM m n s = (Exn e, s')"
  by (simp_all add: thenM_def)

lemma catchM_step [simp]:
  "m s = (Ok x, s') \<Longrightarrow> catchM m h s = (Ok x, s')"
  "m s = (Exn e, s') \<Longrightarrow> catchM m h s = h e s'"
  by (simp_all add: catchM_def)

lemma bindM_OkE:
  assumes "bindM m f s = (Ok y, s'')"
  obtains x s' where "m s = (Ok x, s')" and "f x s' = (Ok y, s'')"
  using assms by (auto simp: bindM_def split: prod.splits res.splits)

lemma thenM_OkE:
  assumes "thenM m n s = (Ok y, s'')"
  obtains x s' where "m s = (Ok x, s')" and "n s' = (Ok y, s'')"
  using assms by (auto simp: thenM_def elim: bindM_OkE)

lemma seqM_ConsE:
  assumes "seqM (m # ms) s = (Ok y, s'')"
  obtains s' where "m s = (Ok (), s')" and "seqM ms s' = (Ok y, s'')"
  using assms by (auto elim: thenM_OkE)

lemma catchM_cases:
  assumes "catchM m h s = (r, s'')"
  obtains (handled) e s' where "m s = (Exn e, s')" and "h e s' = (r, s'')"
    | (through) "m s = (r, s'')" and "\<forall>e. r \<noteq> Exn e"
  using assms by (auto simp: catchM_def split: prod.splits res.splits)

section \<open>Frames\<close>

definition preserves :: "('s \<Rightarrow> 'b) \<Rightarrow> ('e, 's, 'a) prog \<Rightarrow> bool" where
  "preserves f m \<longleftrightarrow> (\<forall>s. f (snd (m s)) = f s)"

lemma preservesD: "preserves f m \<Longrightarrow> m s = (r, s') \<Longrightarrow> f s' = f s"
  unfolding preserves_def by (metis snd_conv)

lemma preserves_returnM [pres]: "preserves f (returnM x)"
  and preserves_throwM [pres]: "preserves f (throwM e)"
  and preserves_undefM [pres]: "preserves f undefM"
  and preserves_fuelM [pres]: "preserves f fuelM"
  and preserves_getsM [pres]: "preserves f (getsM g)"
  and preserves_skipM [pres]: "preserves f skipM"
  and preserves_liftM [pres]: "preserves f (liftM r)"
  by (simp_all add: preserves_def)

lemma preserves_modifyM [pres]: "(\<And>s. f (g s) = f s) \<Longrightarrow> preserves f (modifyM g)"
  by (simp add: preserves_def)

lemma preserves_bindM [pres]:
  "preserves f m \<Longrightarrow> (\<And>x. preserves f (g x)) \<Longrightarrow> preserves f (bindM m g)"
  unfolding preserves_def bindM_def
  by (auto split: prod.split res.split) (metis snd_conv)+

lemma preserves_thenM [pres]: "preserves f m \<Longrightarrow> preserves f n \<Longrightarrow> preserves f (thenM m n)"
  by (simp add: thenM_def preserves_bindM)

lemma preserves_catchM [pres]:
  "preserves f m \<Longrightarrow> (\<And>e. preserves f (h e)) \<Longrightarrow> preserves f (catchM m h)"
  unfolding preserves_def catchM_def
  by (auto split: prod.split res.split) (metis snd_conv)+

lemma preserves_tryM [pres]: "preserves f m \<Longrightarrow> preserves f (tryM m)"
  by (simp add: tryM_def pres)

lemma preserves_finallyM [pres]:
  "preserves f m \<Longrightarrow> preserves f d \<Longrightarrow> preserves f (finallyM m d)"
  unfolding preserves_def finallyM_def thenM_def bindM_def
  by (auto split: prod.split res.split) (metis snd_conv)+

lemma preserves_ifM [pres]: "preserves f m \<Longrightarrow> preserves f n \<Longrightarrow> preserves f (ifM c m n)"
  by (simp add: preserves_def)

lemma preserves_whenM [pres]: "preserves f m \<Longrightarrow> preserves f (whenM c m)"
  by (simp add: preserves_def)

lemma preserves_seqM [pres]:
  "preserves f (seqM [])"
  "preserves f m \<Longrightarrow> preserves f (seqM ms) \<Longrightarrow> preserves f (seqM (m # ms))"
  by (simp_all add: pres)

lemma preserves_forM [pres]: "(\<And>x. preserves f (g x)) \<Longrightarrow> preserves f (forM xs g)"
  by (induction xs) (auto intro: pres)

lemma preserves_if [pres]:
  "(c \<Longrightarrow> preserves f m) \<Longrightarrow> (\<not> c \<Longrightarrow> preserves f n) \<Longrightarrow> preserves f (if c then m else n)"
  by simp

lemma preserves_option [pres]:
  "preserves f m \<Longrightarrow> (\<And>x. preserves f (g x)) \<Longrightarrow>
     preserves f (case v of None \<Rightarrow> m | Some x \<Rightarrow> g x)"
  by (cases v) simp_all

lemma preserves_prod [pres]:
  "(\<And>x y. preserves f (g x y)) \<Longrightarrow> preserves f (case v of (x, y) \<Rightarrow> g x y)"
  by (cases v) simp

section \<open>Invariants of programs\<close>

text \<open>\<open>keeps I m\<close>: the program never breaks \<open>I\<close>, however it ends.\<close>

definition keeps :: "('s \<Rightarrow> bool) \<Rightarrow> ('e, 's, 'a) prog \<Rightarrow> bool" where
  "keeps I m \<longleftrightarrow> (\<forall>s. I s \<longrightarrow> I (snd (m s)))"

lemma keepsI: "(\<And>s. I s \<Longrightarrow> I (snd (m s))) \<Longrightarrow> keeps I m"
  by (simp add: keeps_def)

lemma keeps_snd: "keeps I m \<Longrightarrow> I s \<Longrightarrow> I (snd (m s))"
  by (simp add: keeps_def)

lemma keepsD: "keeps I m \<Longrightarrow> I s \<Longrightarrow> m s = (r, s') \<Longrightarrow> I s'"
  unfolding keeps_def by (metis snd_conv)

lemma keeps_simple [keep]:
  "keeps I (returnM x)" "keeps I (throwM e)" "keeps I undefM" "keeps I fuelM" "keeps I (getsM g)"
  "keeps I skipM" "keeps I (liftM r)"
  by (simp_all add: keeps_def)

lemma keeps_modifyM [keep]: "(\<And>s. I s \<Longrightarrow> I (g s)) \<Longrightarrow> keeps I (modifyM g)"
  by (simp add: keeps_def)

lemma keeps_bindM [keep]: "keeps I m \<Longrightarrow> (\<And>x. keeps I (g x)) \<Longrightarrow> keeps I (bindM m g)"
  unfolding keeps_def bindM_def by (fastforce split: prod.split res.split)

lemma keeps_thenM [keep]: "keeps I m \<Longrightarrow> keeps I n \<Longrightarrow> keeps I (thenM m n)"
  by (simp add: thenM_def keeps_bindM)

lemma keeps_catchM [keep]: "keeps I m \<Longrightarrow> (\<And>e. keeps I (h e)) \<Longrightarrow> keeps I (catchM m h)"
  unfolding keeps_def catchM_def by (fastforce split: prod.split res.split)

lemma keeps_ifM [keep]: "keeps I m \<Longrightarrow> keeps I n \<Longrightarrow> keeps I (ifM c m n)"
  by (simp add: keeps_def)

lemma keeps_whenM [keep]: "keeps I m \<Longrightarrow> keeps I (whenM c m)"
  by (simp add: keeps_def)

lemma keeps_if [keep]: "(c \<Longrightarrow> keeps I m) \<Longrightarrow> (\<not> c \<Longrightarrow> keeps I n) \<Longrightarrow> keeps I (if c then m else n)"
  by simp

lemma keeps_option [keep]:
  "keeps I m \<Longrightarrow> (\<And>x. keeps I (g x)) \<Longrightarrow> keeps I (case v of None \<Rightarrow> m | Some x \<Rightarrow> g x)"
  by (cases v) simp_all

lemma keeps_prod [keep]: "(\<And>x y. keeps I (g x y)) \<Longrightarrow> keeps I (case v of (x, y) \<Rightarrow> g x y)"
  by (cases v) simp

lemma keeps_seqM [keep]:
  "keeps I (seqM [])" "keeps I m \<Longrightarrow> keeps I (seqM ms) \<Longrightarrow> keeps I (seqM (m # ms))"
  by (simp_all add: keep)

lemma keeps_forM [keep]: "(\<And>x. x \<in> set xs \<Longrightarrow> keeps I (g x)) \<Longrightarrow> keeps I (forM xs g)"
  by (induction xs) (auto intro: keep)

lemma keeps_tryM [keep]: "keeps I m \<Longrightarrow> keeps I (tryM m)"
  by (simp add: tryM_def keep)

text \<open>Code that does not touch what the invariant reads keeps it.\<close>

lemma keeps_preserves: "preserves f m \<Longrightarrow> (\<And>s s'. f s = f s' \<Longrightarrow> I s = I s') \<Longrightarrow> keeps I m"
  unfolding preserves_def keeps_def by blast

section \<open>Programs that never throw\<close>

definition nothrow :: "('e, 's, 'a) prog \<Rightarrow> bool" where
  "nothrow m \<longleftrightarrow> (\<forall>s e. fst (m s) \<noteq> Exn e)"

lemma nothrowD: "nothrow m \<Longrightarrow> m s \<noteq> (Exn e, s')"
  unfolding nothrow_def by (metis fst_conv)

lemma nothrow_simple [quiet]:
  "nothrow (returnM x)" "nothrow undefM" "nothrow fuelM" "nothrow (getsM g)" "nothrow skipM"
  "nothrow (modifyM h)"
  by (simp_all add: nothrow_def)

lemma nothrow_bindM [quiet]: "nothrow m \<Longrightarrow> (\<And>x. nothrow (g x)) \<Longrightarrow> nothrow (bindM m g)"
  by (auto simp: nothrow_def bindM_def dest: nothrowD split: prod.split res.split)
    (metis fst_conv)+

lemma nothrow_thenM [quiet]: "nothrow m \<Longrightarrow> nothrow n \<Longrightarrow> nothrow (thenM m n)"
  by (simp add: thenM_def nothrow_bindM)

lemma nothrow_ifM [quiet]: "nothrow m \<Longrightarrow> nothrow n \<Longrightarrow> nothrow (ifM c m n)"
  by (simp add: nothrow_def)

lemma nothrow_whenM [quiet]: "nothrow m \<Longrightarrow> nothrow (whenM c m)"
  by (simp add: nothrow_def)

lemma nothrow_if [quiet]: "(c \<Longrightarrow> nothrow m) \<Longrightarrow> (\<not> c \<Longrightarrow> nothrow n) \<Longrightarrow> nothrow (if c then m else n)"
  by simp

lemma nothrow_option [quiet]:
  "nothrow m \<Longrightarrow> (\<And>x. nothrow (g x)) \<Longrightarrow> nothrow (case v of None \<Rightarrow> m | Some x \<Rightarrow> g x)"
  by (cases v) simp_all

lemma nothrow_seqM [quiet]:
  "nothrow (seqM [])" "nothrow m \<Longrightarrow> nothrow (seqM ms) \<Longrightarrow> nothrow (seqM (m # ms))"
  by (simp_all add: quiet)

lemma nothrow_prod [quiet]: "(\<And>x y. nothrow (g x y)) \<Longrightarrow> nothrow (case v of (x, y) \<Rightarrow> g x y)"
  by (cases v) simp

lemma nothrow_forM [quiet]: "(\<And>x. nothrow (g x)) \<Longrightarrow> nothrow (forM xs g)"
  by (induction xs) (auto intro: quiet)

lemma nothrow_tryM [quiet]: "nothrow (tryM m)"
  by (auto simp: nothrow_def tryM_def catchM_def split: prod.split res.split)

section \<open>The exception logic\<close>

definition valid ::
  "('s \<Rightarrow> bool) \<Rightarrow> ('e, 's, 'a) prog \<Rightarrow> ('a \<Rightarrow> 's \<Rightarrow> bool) \<Rightarrow> ('e \<Rightarrow> 's \<Rightarrow> bool) \<Rightarrow> bool" where
  "valid P m Q E \<longleftrightarrow>
     (\<forall>s. P s \<longrightarrow> (case m s of
        (Ok x, s') \<Rightarrow> Q x s' | (Exn e, s') \<Rightarrow> E e s' | (Undef, s') \<Rightarrow> True | (OutOfFuel, s') \<Rightarrow> True))"

lemma validI:
  "(\<And>s x s'. P s \<Longrightarrow> m s = (Ok x, s') \<Longrightarrow> Q x s') \<Longrightarrow>
   (\<And>s e s'. P s \<Longrightarrow> m s = (Exn e, s') \<Longrightarrow> E e s') \<Longrightarrow> valid P m Q E"
  by (auto simp: valid_def split: prod.split res.split)

lemma valid_Ok: "valid P m Q E \<Longrightarrow> P s \<Longrightarrow> m s = (Ok x, s') \<Longrightarrow> Q x s'"
  by (force simp: valid_def)

lemma valid_Exn: "valid P m Q E \<Longrightarrow> P s \<Longrightarrow> m s = (Exn e, s') \<Longrightarrow> E e s'"
  by (force simp: valid_def)

lemma valid_weaken:
  "valid P' m Q' E' \<Longrightarrow> (\<And>s. P s \<Longrightarrow> P' s) \<Longrightarrow> (\<And>x s. Q' x s \<Longrightarrow> Q x s) \<Longrightarrow>
   (\<And>e s. E' e s \<Longrightarrow> E e s) \<Longrightarrow> valid P m Q E"
  by (fastforce simp: valid_def split: prod.splits res.splits)

lemma valid_bindM:
  "valid P m R E \<Longrightarrow> (\<And>x. valid (R x) (f x) Q E) \<Longrightarrow> valid P (bindM m f) Q E"
  by (rule validI) (auto simp: bindM_def split: prod.splits res.splits dest: valid_Ok valid_Exn)

lemma valid_thenM:
  "valid P m (\<lambda>_. R) E \<Longrightarrow> valid R n Q E \<Longrightarrow> valid P (thenM m n) Q E"
  unfolding thenM_def by (rule valid_bindM) auto

lemma valid_catchM:
  "valid P m Q R \<Longrightarrow> (\<And>e. valid (R e) (h e) Q E) \<Longrightarrow> valid P (catchM m h) Q E"
  by (rule validI) (auto simp: catchM_def split: prod.splits res.splits dest: valid_Ok valid_Exn)

lemma valid_invariant:
  "preserves f m \<Longrightarrow> valid (\<lambda>s. f s = v) m (\<lambda>_ s. f s = v) (\<lambda>_ s. f s = v)"
  by (auto intro!: validI dest: preservesD)

section \<open>std::map\<close>

text \<open>
  \<open>std::map\<close> iterates in key order, and the order in which exOdbc builds SQL text and binds
  columns is the order of that iteration. The clients use \<open>operator[]\<close> on the left of an
  assignment (\<open>put\<close>), \<open>insert\<close> (which keeps an element that is already there), \<open>find\<close>,
  \<open>erase\<close> and iteration.
\<close>

locale ordered_map =
  fixes find :: "'m \<Rightarrow> 'k::linorder \<Rightarrow> 'v option"
    and put :: "'k \<Rightarrow> 'v \<Rightarrow> 'm \<Rightarrow> 'm"
    and insert_new :: "'k \<Rightarrow> 'v \<Rightarrow> 'm \<Rightarrow> 'm"
    and del :: "'k \<Rightarrow> 'm \<Rightarrow> 'm"
    and entries :: "'m \<Rightarrow> ('k \<times> 'v) list"
    and inv :: "'m \<Rightarrow> bool"
  assumes find_entries: "inv m \<Longrightarrow> find m k = map_of (entries m) k"
    and entries_sorted: "inv m \<Longrightarrow> sorted_wrt (<) (map fst (entries m))"
    and find_put: "inv m \<Longrightarrow> find (put k v m) = (find m)(k \<mapsto> v)"
    and find_del: "inv m \<Longrightarrow> find (del k m) = (find m)(k := None)"
    and insert_new_eq: "insert_new k v m = (if find m k = None then put k v m else m)"
    and inv_put: "inv m \<Longrightarrow> inv (put k v m)"
    and inv_del: "inv m \<Longrightarrow> inv (del k m)"
begin

lemma inv_insert_new: "inv m \<Longrightarrow> inv (insert_new k v m)"
  by (simp add: insert_new_eq inv_put)

lemma find_insert_new_same:
  "inv m \<Longrightarrow> find (insert_new k v m) k = Some (case find m k of None \<Rightarrow> v | Some w \<Rightarrow> w)"
  by (auto simp: insert_new_eq find_put)

lemma find_insert_new_other: "inv m \<Longrightarrow> k' \<noteq> k \<Longrightarrow> find (insert_new k v m) k' = find m k'"
  by (auto simp: insert_new_eq find_put)

lemma keys_dom: "inv m \<Longrightarrow> fst ` set (entries m) = dom (find m)"
proof -
  assume "inv m"
  then have "find m = map_of (entries m)" by (simp add: fun_eq_iff find_entries)
  then show ?thesis by (simp add: dom_map_of_conv_image_fst)
qed

lemma keys_put: "inv m \<Longrightarrow> fst ` set (entries (put k v m)) = insert k (fst ` set (entries m))"
  by (simp add: keys_dom inv_put find_put)

lemma entry_find: "inv m \<Longrightarrow> (k, v) \<in> set (entries m) \<longleftrightarrow> find m k = Some v"
  by (metis entries_sorted find_entries map_of_eq_Some_iff strict_sorted_iff)

end

fun map_put :: "'k::linorder \<Rightarrow> 'v \<Rightarrow> ('k \<times> 'v) list \<Rightarrow> ('k \<times> 'v) list" where
  "map_put k v [] = [(k, v)]"
| "map_put k v ((k', v') # m) =
     (if k < k' then (k, v) # (k', v') # m
      else if k = k' then (k, v) # m
      else (k', v') # map_put k v m)"

fun map_del :: "'k \<Rightarrow> ('k \<times> 'v) list \<Rightarrow> ('k \<times> 'v) list" where
  "map_del k [] = []"
| "map_del k ((k', v') # m) = (if k = k' then m else (k', v') # map_del k m)"

definition map_insert_new :: "'k::linorder \<Rightarrow> 'v \<Rightarrow> ('k \<times> 'v) list \<Rightarrow> ('k \<times> 'v) list" where
  "map_insert_new k v m = (if map_of m k = None then map_put k v m else m)"

definition map_inv :: "('k::linorder \<times> 'v) list \<Rightarrow> bool" where
  "map_inv m \<longleftrightarrow> sorted_wrt (<) (map fst m)"

lemma map_of_map_put [simp]: "map_inv m \<Longrightarrow> map_of (map_put k v m) = (map_of m)(k \<mapsto> v)"
  by (induction k v m rule: map_put.induct) (auto simp: map_inv_def fun_eq_iff)

lemma set_map_put_keys: "fst ` set (map_put k v m) = insert k (fst ` set m)"
  by (induction k v m rule: map_put.induct) auto

lemma map_inv_map_put [simp, intro]: "map_inv m \<Longrightarrow> map_inv (map_put k v m)"
proof (induction k v m rule: map_put.induct)
  case (2 k v k' v' m)
  then show ?case
    using set_map_put_keys[of k v m] by (auto simp: map_inv_def image_iff)
qed (simp add: map_inv_def)

lemma set_map_del: "set (map_del k m) \<subseteq> set m"
  by (induction k m rule: map_del.induct) auto

lemma map_inv_map_del [simp, intro]: "map_inv m \<Longrightarrow> map_inv (map_del k m)"
  by (induction k m rule: map_del.induct) (use set_map_del in \<open>fastforce simp: map_inv_def\<close>)+

lemma map_of_map_del [simp]: "map_inv m \<Longrightarrow> map_of (map_del k m) = (map_of m)(k := None)"
proof (induction k m rule: map_del.induct)
  case (2 k k' v' m)
  then have "k' \<notin> fst ` set m" by (auto simp: map_inv_def)
  with 2 show ?case
    by (auto simp: map_inv_def fun_eq_iff map_of_eq_None_iff)
qed simp

lemma map_inv_Nil [simp]: "map_inv []"
  by (simp add: map_inv_def)

interpretation smap: ordered_map map_of map_put map_insert_new map_del "\<lambda>m. m" map_inv
  by unfold_locales (auto simp: map_insert_new_def map_inv_def[symmetric] simp flip: map_inv_def)

section \<open>Text\<close>

fun join :: "string \<Rightarrow> string list \<Rightarrow> string" where
  "join sep [] = []"
| "join sep [x] = x"
| "join sep (x # y # ys) = x @ sep @ join sep (y # ys)"

lemma concat_sep_join: "xs \<noteq> [] \<Longrightarrow> concat (map (\<lambda>x. x @ sep) xs) = join sep xs @ sep"
  by (induction sep xs rule: join.induct) auto

text \<open>How \<open>std::ostream\<close> prints an integer, in decimal and (with \<open>std::hex\<close>) in base 16.\<close>

fun show_base :: "nat \<Rightarrow> nat \<Rightarrow> string" where
  "show_base b n =
     (let d = n mod b; c = (if d < 10 then CHR ''0'' else CHR 0x57)
      in (if n < b \<or> b < 2 then [] else show_base b (n div b)) @ [char_of (of_char c + d)])"

definition show_nat :: "nat \<Rightarrow> string" where
  "show_nat n = show_base 10 n"

definition show_hex :: "nat \<Rightarrow> string" where
  "show_hex n = show_base 16 n"

definition show_int :: "int \<Rightarrow> string" where
  "show_int i = (if i < 0 then ''-'' @ show_nat (nat (- i)) else show_nat (nat i))"

declare show_base.simps [simp del]

end
