(* ===== verification/OdbcTypes.thy ===== *)
theory OdbcTypes
  imports ExPrelude
begin

text \<open>
  The vocabulary of the ODBC API and the enumerations of \<open>include/exodbc/exOdbc.h\<close>.

  The macros of \<open>sql.h\<close>, \<open>sqlext.h\<close> and \<open>sqlucode.h\<close> are the values the ODBC 3.8
  specification fixes; they are input abbreviations, so that a term shows the number the
  driver sees. A type code, a return code or an attribute (\<open>SQLSMALLINT\<close>, \<open>SQLRETURN\<close>,
  \<open>SQLINTEGER\<close>) is an \<open>int\<close> here: exOdbc compares these values and never does arithmetic
  on them. Where arithmetic happens (\<open>CalculateDisplaySize\<close>, the flag words) the width is
  written out in the component.

  The second half is \<open>src/Sql2StringHelper.cpp\<close>: each \<open>switch\<close> as a table that is searched
  in the order of its labels, with the \<open>default\<close> branch for what is not in the table.
\<close>

section \<open>Constants of the ODBC headers\<close>

abbreviation (input) SQL_SUCCESS :: int where "SQL_SUCCESS \<equiv> 0"
abbreviation (input) SQL_SUCCESS_WITH_INFO :: int where "SQL_SUCCESS_WITH_INFO \<equiv> 1"
abbreviation (input) SQL_NO_DATA :: int where "SQL_NO_DATA \<equiv> 100"
abbreviation (input) SQL_ERROR :: int where "SQL_ERROR \<equiv> - 1"
abbreviation (input) SQL_INVALID_HANDLE :: int where "SQL_INVALID_HANDLE \<equiv> - 2"
abbreviation (input) SQL_NEED_DATA :: int where "SQL_NEED_DATA \<equiv> 99"
abbreviation (input) SQL_TRUE :: int where "SQL_TRUE \<equiv> 1"
abbreviation (input) SQL_FALSE :: int where "SQL_FALSE \<equiv> 0"
abbreviation (input) SQL_NTS :: int where "SQL_NTS \<equiv> - 3"
abbreviation (input) SQL_NULL_DATA :: int where "SQL_NULL_DATA \<equiv> - 1"
abbreviation (input) SQL_NO_TOTAL :: int where "SQL_NO_TOTAL \<equiv> - 4"
abbreviation (input) SHRT_MAX :: int where "SHRT_MAX \<equiv> 32767"
abbreviation (input) SQL_HANDLE_ENV :: int where "SQL_HANDLE_ENV \<equiv> 1"
abbreviation (input) SQL_HANDLE_DBC :: int where "SQL_HANDLE_DBC \<equiv> 2"
abbreviation (input) SQL_HANDLE_STMT :: int where "SQL_HANDLE_STMT \<equiv> 3"
abbreviation (input) SQL_HANDLE_DESC :: int where "SQL_HANDLE_DESC \<equiv> 4"
abbreviation (input) SQL_CLOSE :: int where "SQL_CLOSE \<equiv> 0"
abbreviation (input) SQL_UNBIND :: int where "SQL_UNBIND \<equiv> 2"
abbreviation (input) SQL_RESET_PARAMS :: int where "SQL_RESET_PARAMS \<equiv> 3"
abbreviation (input) SQL_ATTR_CURSOR_SCROLLABLE :: int where "SQL_ATTR_CURSOR_SCROLLABLE \<equiv> - 1"
abbreviation (input) SQL_NONSCROLLABLE :: int where "SQL_NONSCROLLABLE \<equiv> 0"
abbreviation (input) SQL_SCROLLABLE :: int where "SQL_SCROLLABLE \<equiv> 1"
abbreviation (input) SQL_ATTR_METADATA_ID :: int where "SQL_ATTR_METADATA_ID \<equiv> 10014"
abbreviation (input) SQL_ATTR_APP_ROW_DESC :: int where "SQL_ATTR_APP_ROW_DESC \<equiv> 10010"
abbreviation (input) SQL_ATTR_APP_PARAM_DESC :: int where "SQL_ATTR_APP_PARAM_DESC \<equiv> 10011"
abbreviation (input) SQL_ATTR_AUTOCOMMIT :: int where "SQL_ATTR_AUTOCOMMIT \<equiv> 102"
abbreviation (input) SQL_AUTOCOMMIT_OFF :: int where "SQL_AUTOCOMMIT_OFF \<equiv> 0"
abbreviation (input) SQL_AUTOCOMMIT_ON :: int where "SQL_AUTOCOMMIT_ON \<equiv> 1"
abbreviation (input) SQL_ATTR_TXN_ISOLATION :: int where "SQL_ATTR_TXN_ISOLATION \<equiv> 108"
abbreviation (input) SQL_TXN_READ_UNCOMMITTED :: int where "SQL_TXN_READ_UNCOMMITTED \<equiv> 1"
abbreviation (input) SQL_TXN_READ_COMMITTED :: int where "SQL_TXN_READ_COMMITTED \<equiv> 2"
abbreviation (input) SQL_TXN_REPEATABLE_READ :: int where "SQL_TXN_REPEATABLE_READ \<equiv> 4"
abbreviation (input) SQL_TXN_SERIALIZABLE :: int where "SQL_TXN_SERIALIZABLE \<equiv> 8"
abbreviation (input) SQL_ATTR_TRACE :: int where "SQL_ATTR_TRACE \<equiv> 104"
abbreviation (input) SQL_ATTR_TRACEFILE :: int where "SQL_ATTR_TRACEFILE \<equiv> 105"
abbreviation (input) SQL_OPT_TRACE_OFF :: int where "SQL_OPT_TRACE_OFF \<equiv> 0"
abbreviation (input) SQL_OPT_TRACE_ON :: int where "SQL_OPT_TRACE_ON \<equiv> 1"
abbreviation (input) SQL_COMMIT :: int where "SQL_COMMIT \<equiv> 0"
abbreviation (input) SQL_ROLLBACK :: int where "SQL_ROLLBACK \<equiv> 1"
abbreviation (input) SQL_ATTR_ODBC_VERSION :: int where "SQL_ATTR_ODBC_VERSION \<equiv> 200"
abbreviation (input) SQL_ATTR_CONNECTION_POOLING :: int where "SQL_ATTR_CONNECTION_POOLING \<equiv> 201"
abbreviation (input) SQL_ATTR_CP_MATCH :: int where "SQL_ATTR_CP_MATCH \<equiv> 202"
abbreviation (input) SQL_OV_ODBC2 :: int where "SQL_OV_ODBC2 \<equiv> 2"
abbreviation (input) SQL_OV_ODBC3 :: int where "SQL_OV_ODBC3 \<equiv> 3"
abbreviation (input) SQL_OV_ODBC3_80 :: int where "SQL_OV_ODBC3_80 \<equiv> 380"
abbreviation (input) SQL_FETCH_NEXT :: int where "SQL_FETCH_NEXT \<equiv> 1"
abbreviation (input) SQL_FETCH_FIRST :: int where "SQL_FETCH_FIRST \<equiv> 2"
abbreviation (input) SQL_FETCH_LAST :: int where "SQL_FETCH_LAST \<equiv> 3"
abbreviation (input) SQL_FETCH_PREV :: int where "SQL_FETCH_PREV \<equiv> 4"
abbreviation (input) SQL_FETCH_ABSOLUTE :: int where "SQL_FETCH_ABSOLUTE \<equiv> 5"
abbreviation (input) SQL_FETCH_RELATIVE :: int where "SQL_FETCH_RELATIVE \<equiv> 6"
abbreviation (input) SQL_FETCH_FIRST_USER :: int where "SQL_FETCH_FIRST_USER \<equiv> 31"
abbreviation (input) SQL_FETCH_FIRST_SYSTEM :: int where "SQL_FETCH_FIRST_SYSTEM \<equiv> 32"
abbreviation (input) SQL_DRIVER_NOPROMPT :: int where "SQL_DRIVER_NOPROMPT \<equiv> 0"
abbreviation (input) SQL_DRIVER_COMPLETE :: int where "SQL_DRIVER_COMPLETE \<equiv> 1"
abbreviation (input) SQL_DESC_TYPE :: int where "SQL_DESC_TYPE \<equiv> 1002"
abbreviation (input) SQL_DESC_OCTET_LENGTH_PTR :: int where "SQL_DESC_OCTET_LENGTH_PTR \<equiv> 1004"
abbreviation (input) SQL_DESC_PRECISION :: int where "SQL_DESC_PRECISION \<equiv> 1005"
abbreviation (input) SQL_DESC_SCALE :: int where "SQL_DESC_SCALE \<equiv> 1006"
abbreviation (input) SQL_DESC_INDICATOR_PTR :: int where "SQL_DESC_INDICATOR_PTR \<equiv> 1009"
abbreviation (input) SQL_DESC_DATA_PTR :: int where "SQL_DESC_DATA_PTR \<equiv> 1010"
abbreviation (input) SQL_PARAM_INPUT :: int where "SQL_PARAM_INPUT \<equiv> 1"
abbreviation (input) SQL_NO_NULLS :: int where "SQL_NO_NULLS \<equiv> 0"
abbreviation (input) SQL_NULLABLE :: int where "SQL_NULLABLE \<equiv> 1"
abbreviation (input) SQL_NULLABLE_UNKNOWN :: int where "SQL_NULLABLE_UNKNOWN \<equiv> 2"
abbreviation (input) SQL_PRED_NONE :: int where "SQL_PRED_NONE \<equiv> 0"
abbreviation (input) SQL_PRED_CHAR :: int where "SQL_PRED_CHAR \<equiv> 1"
abbreviation (input) SQL_PRED_BASIC :: int where "SQL_PRED_BASIC \<equiv> 2"
abbreviation (input) SQL_SEARCHABLE :: int where "SQL_SEARCHABLE \<equiv> 3"
abbreviation (input) SQL_TC_NONE :: int where "SQL_TC_NONE \<equiv> 0"
abbreviation (input) SQL_ALL_TYPES :: int where "SQL_ALL_TYPES \<equiv> 0"
abbreviation (input) SQL_UNKNOWN_TYPE :: int where "SQL_UNKNOWN_TYPE \<equiv> 0"
abbreviation (input) SQL_CHAR :: int where "SQL_CHAR \<equiv> 1"
abbreviation (input) SQL_NUMERIC :: int where "SQL_NUMERIC \<equiv> 2"
abbreviation (input) SQL_DECIMAL :: int where "SQL_DECIMAL \<equiv> 3"
abbreviation (input) SQL_INTEGER :: int where "SQL_INTEGER \<equiv> 4"
abbreviation (input) SQL_SMALLINT :: int where "SQL_SMALLINT \<equiv> 5"
abbreviation (input) SQL_FLOAT :: int where "SQL_FLOAT \<equiv> 6"
abbreviation (input) SQL_REAL :: int where "SQL_REAL \<equiv> 7"
abbreviation (input) SQL_DOUBLE :: int where "SQL_DOUBLE \<equiv> 8"
abbreviation (input) SQL_DATE :: int where "SQL_DATE \<equiv> 9"
abbreviation (input) SQL_TIME :: int where "SQL_TIME \<equiv> 10"
abbreviation (input) SQL_TIMESTAMP :: int where "SQL_TIMESTAMP \<equiv> 11"
abbreviation (input) SQL_VARCHAR :: int where "SQL_VARCHAR \<equiv> 12"
abbreviation (input) SQL_TYPE_DATE :: int where "SQL_TYPE_DATE \<equiv> 91"
abbreviation (input) SQL_TYPE_TIME :: int where "SQL_TYPE_TIME \<equiv> 92"
abbreviation (input) SQL_TYPE_TIMESTAMP :: int where "SQL_TYPE_TIMESTAMP \<equiv> 93"
abbreviation (input) SQL_LONGVARCHAR :: int where "SQL_LONGVARCHAR \<equiv> - 1"
abbreviation (input) SQL_BINARY :: int where "SQL_BINARY \<equiv> - 2"
abbreviation (input) SQL_VARBINARY :: int where "SQL_VARBINARY \<equiv> - 3"
abbreviation (input) SQL_LONGVARBINARY :: int where "SQL_LONGVARBINARY \<equiv> - 4"
abbreviation (input) SQL_BIGINT :: int where "SQL_BIGINT \<equiv> - 5"
abbreviation (input) SQL_TINYINT :: int where "SQL_TINYINT \<equiv> - 6"
abbreviation (input) SQL_BIT :: int where "SQL_BIT \<equiv> - 7"
abbreviation (input) SQL_WCHAR :: int where "SQL_WCHAR \<equiv> - 8"
abbreviation (input) SQL_WVARCHAR :: int where "SQL_WVARCHAR \<equiv> - 9"
abbreviation (input) SQL_WLONGVARCHAR :: int where "SQL_WLONGVARCHAR \<equiv> - 10"
abbreviation (input) SQL_GUID :: int where "SQL_GUID \<equiv> - 11"
abbreviation (input) SQL_INTERVAL_YEAR :: int where "SQL_INTERVAL_YEAR \<equiv> 101"
abbreviation (input) SQL_INTERVAL_MONTH :: int where "SQL_INTERVAL_MONTH \<equiv> 102"
abbreviation (input) SQL_INTERVAL_DAY :: int where "SQL_INTERVAL_DAY \<equiv> 103"
abbreviation (input) SQL_INTERVAL_HOUR :: int where "SQL_INTERVAL_HOUR \<equiv> 104"
abbreviation (input) SQL_INTERVAL_MINUTE :: int where "SQL_INTERVAL_MINUTE \<equiv> 105"
abbreviation (input) SQL_INTERVAL_SECOND :: int where "SQL_INTERVAL_SECOND \<equiv> 106"
abbreviation (input) SQL_INTERVAL_YEAR_TO_MONTH :: int where "SQL_INTERVAL_YEAR_TO_MONTH \<equiv> 107"
abbreviation (input) SQL_INTERVAL_DAY_TO_HOUR :: int where "SQL_INTERVAL_DAY_TO_HOUR \<equiv> 108"
abbreviation (input) SQL_INTERVAL_DAY_TO_MINUTE :: int where "SQL_INTERVAL_DAY_TO_MINUTE \<equiv> 109"
abbreviation (input) SQL_INTERVAL_DAY_TO_SECOND :: int where "SQL_INTERVAL_DAY_TO_SECOND \<equiv> 110"
abbreviation (input) SQL_INTERVAL_HOUR_TO_MINUTE :: int where "SQL_INTERVAL_HOUR_TO_MINUTE \<equiv> 111"
abbreviation (input) SQL_INTERVAL_HOUR_TO_SECOND :: int where "SQL_INTERVAL_HOUR_TO_SECOND \<equiv> 112"
abbreviation (input) SQL_INTERVAL_MINUTE_TO_SECOND :: int where "SQL_INTERVAL_MINUTE_TO_SECOND \<equiv> 113"
abbreviation (input) SQL_C_CHAR :: int where "SQL_C_CHAR \<equiv> 1"
abbreviation (input) SQL_C_NUMERIC :: int where "SQL_C_NUMERIC \<equiv> 2"
abbreviation (input) SQL_C_FLOAT :: int where "SQL_C_FLOAT \<equiv> 7"
abbreviation (input) SQL_C_DOUBLE :: int where "SQL_C_DOUBLE \<equiv> 8"
abbreviation (input) SQL_C_DATE :: int where "SQL_C_DATE \<equiv> 9"
abbreviation (input) SQL_C_TIME :: int where "SQL_C_TIME \<equiv> 10"
abbreviation (input) SQL_C_TIMESTAMP :: int where "SQL_C_TIMESTAMP \<equiv> 11"
abbreviation (input) SQL_C_TYPE_DATE :: int where "SQL_C_TYPE_DATE \<equiv> 91"
abbreviation (input) SQL_C_TYPE_TIME :: int where "SQL_C_TYPE_TIME \<equiv> 92"
abbreviation (input) SQL_C_TYPE_TIMESTAMP :: int where "SQL_C_TYPE_TIMESTAMP \<equiv> 93"
abbreviation (input) SQL_C_BINARY :: int where "SQL_C_BINARY \<equiv> - 2"
abbreviation (input) SQL_C_BIT :: int where "SQL_C_BIT \<equiv> - 7"
abbreviation (input) SQL_C_WCHAR :: int where "SQL_C_WCHAR \<equiv> - 8"
abbreviation (input) SQL_C_GUID :: int where "SQL_C_GUID \<equiv> - 11"
abbreviation (input) SQL_C_SHORT :: int where "SQL_C_SHORT \<equiv> 5"
abbreviation (input) SQL_C_SSHORT :: int where "SQL_C_SSHORT \<equiv> - 15"
abbreviation (input) SQL_C_SLONG :: int where "SQL_C_SLONG \<equiv> - 16"
abbreviation (input) SQL_C_USHORT :: int where "SQL_C_USHORT \<equiv> - 17"
abbreviation (input) SQL_C_ULONG :: int where "SQL_C_ULONG \<equiv> - 18"
abbreviation (input) SQL_C_SBIGINT :: int where "SQL_C_SBIGINT \<equiv> - 25"
abbreviation (input) SQL_C_STINYINT :: int where "SQL_C_STINYINT \<equiv> - 26"
abbreviation (input) SQL_C_UBIGINT :: int where "SQL_C_UBIGINT \<equiv> - 27"
abbreviation (input) SQL_C_UTINYINT :: int where "SQL_C_UTINYINT \<equiv> - 28"

text \<open>The macro \<open>SQL_SUCCEEDED(rc)\<close>: \<open>((rc) & (~1)) == 0\<close>, that is, 0 or 1.\<close>

definition SQL_SUCCEEDED :: "int \<Rightarrow> bool" where
  "SQL_SUCCEEDED ret \<longleftrightarrow> ret = SQL_SUCCESS \<or> ret = SQL_SUCCESS_WITH_INFO"

lemma SQL_SUCCEEDED_simps [simp]:
  "SQL_SUCCEEDED SQL_SUCCESS" "SQL_SUCCEEDED SQL_SUCCESS_WITH_INFO"
  "\<not> SQL_SUCCEEDED SQL_NO_DATA" "\<not> SQL_SUCCEEDED SQL_ERROR" "\<not> SQL_SUCCEEDED SQL_INVALID_HANDLE"
  by (simp_all add: SQL_SUCCEEDED_def)

section \<open>Enumerations of exOdbc.h\<close>

datatype OdbcVersion = ODBC_UNKNOWN | V_2 | V_3 | V_3_8

text \<open>The enumerators carry the values of the driver manager's macros and are compared by them.\<close>

fun OdbcVersion_value :: "OdbcVersion \<Rightarrow> int" where
  "OdbcVersion_value ODBC_UNKNOWN = 0"
| "OdbcVersion_value V_2 = SQL_OV_ODBC2"
| "OdbcVersion_value V_3 = SQL_OV_ODBC3"
| "OdbcVersion_value V_3_8 = SQL_OV_ODBC3_80"

lemma OdbcVersion_value_inj [simp]: "OdbcVersion_value v = OdbcVersion_value w \<longleftrightarrow> v = w"
  by (cases v; cases w) auto

instantiation OdbcVersion :: linorder
begin

definition less_eq_OdbcVersion :: "OdbcVersion \<Rightarrow> OdbcVersion \<Rightarrow> bool" where
  "v \<le> w \<longleftrightarrow> OdbcVersion_value v \<le> OdbcVersion_value w"

definition less_OdbcVersion :: "OdbcVersion \<Rightarrow> OdbcVersion \<Rightarrow> bool" where
  "v < w \<longleftrightarrow> OdbcVersion_value v < OdbcVersion_value w"

instance
  by standard (auto simp: less_eq_OdbcVersion_def less_OdbcVersion_def)

end

lemma OdbcVersion_order [simp]:
  "V_3 \<le> v \<longleftrightarrow> v = V_3 \<or> v = V_3_8" "V_3_8 \<le> v \<longleftrightarrow> v = V_3_8" "ODBC_UNKNOWN \<le> v"
  by (cases v; simp add: less_eq_OdbcVersion_def)+

datatype DatabaseProduct =
  UNKNOWN_DBMS | MS_SQL_SERVER | MY_SQL | DB2 | EXCEL | ACCESS | POSTGRESQL

text \<open>\<open>operator>>\<close> on a token: \<open>None\<close> is \<open>setstate(failbit)\<close>, which leaves \<open>ov\<close> alone.\<close>

definition read_OdbcVersion :: "string \<Rightarrow> OdbcVersion option" where
  "read_OdbcVersion token =
     (if token = ''2'' then Some V_2
      else if token = ''3'' then Some V_3
      else if token = ''3.8'' then Some V_3_8
      else None)"

fun write_OdbcVersion :: "OdbcVersion \<Rightarrow> string option" where
  "write_OdbcVersion V_2 = Some ''2''"
| "write_OdbcVersion V_3 = Some ''3''"
| "write_OdbcVersion V_3_8 = Some ''3.8''"
| "write_OdbcVersion ODBC_UNKNOWN = None"

section \<open>Sql2StringHelper\<close>

definition switch :: "(int \<times> string) list \<Rightarrow> string \<Rightarrow> int \<Rightarrow> string" where
  "switch tab dflt v = (case map_of tab v of Some s \<Rightarrow> s | None \<Rightarrow> dflt)"

text \<open>
  A table whose labels are distinct, whose strings are distinct and whose default is not one
  of them prints two values alike only when they are equal or neither has a label.
\<close>

lemma switch_injective:
  assumes "distinct (map snd tab)" and "dflt \<notin> snd ` set tab"
    and "v \<in> fst ` set tab" and "switch tab dflt v = switch tab dflt w"
  shows "v = w"
proof -
  from assms(3) obtain s where s: "map_of tab v = Some s"
    by (metis domD dom_map_of_conv_image_fst)
  then have sv: "(v, s) \<in> set tab" by (rule map_of_SomeD)
  show ?thesis
  proof (cases "map_of tab w")
    case None
    with s sv assms(2,4) show ?thesis by (force simp: switch_def)
  next
    case (Some t)
    then have tw: "(w, t) \<in> set tab" by (rule map_of_SomeD)
    from Some s assms(4) have "s = t" by (simp add: switch_def)
    with sv tw assms(1) show ?thesis
      by (metis (no_types, lifting) distinct_map inj_onD prod.inject snd_conv)
  qed
qed

definition SqlTrueFalse2s :: "int \<Rightarrow> string" where
  "SqlTrueFalse2s = switch [(SQL_TRUE, ''TRUE''), (SQL_FALSE, ''FALSE'')] ''?????''"

definition SqlReturn2s :: "int \<Rightarrow> string" where
  "SqlReturn2s = switch
     [(SQL_SUCCESS, ''SUCCESS''), (SQL_SUCCESS_WITH_INFO, ''SUCCESS_WITH_INFO''),
      (SQL_NO_DATA, ''SQL_NO_DATA''), (SQL_ERROR, ''SQL_ERROR''),
      (SQL_NEED_DATA, ''SQL_NEED_DATA''), (SQL_INVALID_HANDLE, ''SQL_INVALID_HANDLE'')] ''???''"

definition SqlType2s_table :: "(int \<times> string) list" where
  "SqlType2s_table =
     [(SQL_CHAR, ''CHAR''), (SQL_VARCHAR, ''VARCHAR''), (SQL_LONGVARCHAR, ''LONGVARCHAR''),
      (SQL_WCHAR, ''WCHAR''), (SQL_WVARCHAR, ''WVARCHAR''), (SQL_WLONGVARCHAR, ''WLONGVARCHAR''),
      (SQL_DECIMAL, ''DECIMAL''), (SQL_NUMERIC, ''NUMERIC''), (SQL_SMALLINT, ''SMALLINT''),
      (SQL_INTEGER, ''INTEGER''), (SQL_REAL, ''REAL''), (SQL_FLOAT, ''FLOAT''),
      (SQL_DOUBLE, ''DOUBLE''), (SQL_BIT, ''BIT''), (SQL_TINYINT, ''TINYINT''),
      (SQL_BIGINT, ''BIGINT''), (SQL_BINARY, ''BINARY''), (SQL_VARBINARY, ''VARBINARY''),
      (SQL_LONGVARBINARY, ''LONGVARBINARY''), (SQL_TYPE_DATE, ''TYPE_DATE''),
      (SQL_TYPE_TIME, ''TYPE_TIME''), (SQL_TYPE_TIMESTAMP, ''TYPE_TIMESTAMP''),
      (SQL_DATE, ''DATE''), (SQL_TIME, ''TIME''), (SQL_TIMESTAMP, ''TIMESTAMP''),
      (SQL_INTERVAL_MONTH, ''INTERVAL_MONTH''), (SQL_INTERVAL_YEAR, ''INTERVAL_YEAR''),
      (SQL_INTERVAL_YEAR_TO_MONTH, ''INTERVAL_YEAR_TO_MONTH''), (SQL_INTERVAL_DAY, ''INTERVAL_DAY''),
      (SQL_INTERVAL_HOUR, ''INTERVAL_HOUR''), (SQL_INTERVAL_MINUTE, ''INTERVAL_MINUTE''),
      (SQL_INTERVAL_SECOND, ''INTERVAL_SECOND''),
      (SQL_INTERVAL_DAY_TO_HOUR, ''INTERVAL_DAY_TO_HOUR''),
      (SQL_INTERVAL_DAY_TO_MINUTE, ''INTERVAL_DAY_TO_MINUTE''),
      (SQL_INTERVAL_DAY_TO_SECOND, ''INTERVAL_DAY_TO_SECOND''),
      (SQL_INTERVAL_HOUR_TO_MINUTE, ''INTERVAL_HOUR_TO_MINUTE''),
      (SQL_INTERVAL_HOUR_TO_SECOND, ''INTERVAL_HOUR_TO_SECOND''),
      (SQL_INTERVAL_MINUTE_TO_SECOND, ''INTERVAL_MINUTE_TO_SECOND''), (SQL_GUID, ''GUID'')]"

definition SqlType2s :: "int \<Rightarrow> string" where
  "SqlType2s = switch SqlType2s_table ''???''"

definition SqLCType2s_table :: "(int \<times> string) list" where
  "SqLCType2s_table =
     [(SQL_C_STINYINT, ''SQL_C_STINYINT''), (SQL_C_UTINYINT, ''SQL_C_UTINYINT''),
      (SQL_C_SSHORT, ''SQL_C_SSHORT''), (SQL_C_USHORT, ''SQL_C_USHORT''),
      (SQL_C_SLONG, ''SQL_C_SLONG''), (SQL_C_ULONG, ''SQL_C_ULONG''),
      (SQL_C_SBIGINT, ''SQL_C_SBIGINT''), (SQL_C_UBIGINT, ''SQL_C_UBIGINT''),
      (SQL_C_CHAR, ''SQL_C_CHAR''), (SQL_C_WCHAR, ''SQL_C_WCHAR''),
      (SQL_C_FLOAT, ''SQL_C_FLOAT''), (SQL_C_DOUBLE, ''SQL_C_DOUBLE''),
      (SQL_C_BIT, ''SQL_C_BIT''), (SQL_C_BINARY, ''SQL_C_BINARY''),
      (SQL_C_TYPE_DATE, ''SQL_C_TYPE_DATE''), (SQL_C_TYPE_TIME, ''SQL_C_TYPE_TIME''),
      (SQL_C_TYPE_TIMESTAMP, ''SQL_C_TYPE_TIMESTAMP''), (SQL_C_NUMERIC, ''SQL_C_NUMERIC''),
      (SQL_C_GUID, ''SQL_C_GUID''), (SQL_C_DATE, ''SQL_C_DATE''),
      (SQL_C_TIME, ''SQL_C_TIME''), (SQL_C_TIMESTAMP, ''SQL_C_TIMESTAMP'')]"

definition SqLCType2s :: "int \<Rightarrow> string" where
  "SqLCType2s = switch SqLCType2s_table ''???''"

definition SqlNullable2s :: "int \<Rightarrow> string" where
  "SqlNullable2s = switch
     [(SQL_NO_NULLS, ''No Nulls''), (SQL_NULLABLE, ''Nullable''),
      (SQL_NULLABLE_UNKNOWN, ''Unknown'')] ''???''"

definition SqlSearchable2s :: "int \<Rightarrow> string" where
  "SqlSearchable2s = switch
     [(SQL_PRED_NONE, ''PRED_NONE''), (SQL_PRED_CHAR, ''PRED_CHAR''),
      (SQL_PRED_BASIC, ''PRED_BASIC''), (SQL_SEARCHABLE, ''SEARCHABLE'')] ''???''"

definition SqlCType2Odbcs :: "int \<Rightarrow> string" where
  "SqlCType2Odbcs = switch
     [(SQL_C_STINYINT, ''SQLSCHAR''), (SQL_C_UTINYINT, ''SQLCHAR''),
      (SQL_C_SSHORT, ''SQLSMALLINT''), (SQL_C_USHORT, ''SQLUSMALLINT''),
      (SQL_C_SLONG, ''SQLINTEGER''), (SQL_C_ULONG, ''SQLUINTEGER''),
      (SQL_C_SBIGINT, ''SQLBIGNT''), (SQL_C_UBIGINT, ''SQLUBIGINT''),
      (SQL_C_CHAR, ''SQLCHAR*''), (SQL_C_WCHAR, ''SQLWCHAR*''),
      (SQL_C_FLOAT, ''SQLREAL''), (SQL_C_DOUBLE, ''SQLDOUBLE''),
      (SQL_C_BIT, ''SQLCHAR''), (SQL_C_BINARY, ''SQLCHAR*''),
      (SQL_C_TYPE_DATE, ''SQL_DATE_STRUCT''), (SQL_C_TYPE_TIME, ''SQL_TIME_STRUCT''),
      (SQL_C_TYPE_TIMESTAMP, ''SQL_TIMESTAMP_STRUCT''), (SQL_C_NUMERIC, ''SQL_NUMERIC_STRUCT''),
      (SQL_C_GUID, ''SQL_GUID''), (SQL_C_DATE, ''SQL_DATE_STRUCT''),
      (SQL_C_TIME, ''SQL_TIME_STRUCT''), (SQL_C_TIMESTAMP, ''SQL_TIMESTAMP_STRUCT'')] ''???''"

fun DatabaseProcudt2s :: "DatabaseProduct \<Rightarrow> string" where
  "DatabaseProcudt2s DB2 = ''DB2''"
| "DatabaseProcudt2s MS_SQL_SERVER = ''SqlServer''"
| "DatabaseProcudt2s MY_SQL = ''MySql''"
| "DatabaseProcudt2s EXCEL = ''Excel''"
| "DatabaseProcudt2s ACCESS = ''Access''"
| "DatabaseProcudt2s POSTGRESQL = ''PostgreSQL''"
| "DatabaseProcudt2s UNKNOWN_DBMS = ''UnknownDbms''"

definition HandleType2s :: "int \<Rightarrow> string" where
  "HandleType2s = switch
     [(SQL_HANDLE_ENV, ''ENV''), (SQL_HANDLE_DBC, ''DBC''), (SQL_HANDLE_STMT, ''STMT''),
      (SQL_HANDLE_DESC, ''DESC'')] ''???''"

section \<open>What the tables promise\<close>

lemma SqlType2s_distinct:
  "distinct (map snd SqlType2s_table)" "''???'' \<notin> snd ` set SqlType2s_table"
  by (simp_all add: SqlType2s_table_def)

lemma SqLCType2s_distinct:
  "distinct (map snd SqLCType2s_table)" "''???'' \<notin> snd ` set SqLCType2s_table"
  by (simp_all add: SqLCType2s_table_def)

text \<open>
  The names of the SQL types and of the SQL C types identify the type: two codes with the same
  name are equal as soon as one of them is in the \<open>switch\<close>.
\<close>

theorem type_names_identify:
  "(v \<in> fst ` set SqlType2s_table \<and> SqlType2s v = SqlType2s w \<longrightarrow> v = w) \<and>
   (v \<in> fst ` set SqLCType2s_table \<and> SqLCType2s v = SqLCType2s w \<longrightarrow> v = w)"
proof (intro conjI impI)
  assume "v \<in> fst ` set SqlType2s_table \<and> SqlType2s v = SqlType2s w"
  then show "v = w"
    using switch_injective[of SqlType2s_table "''???''" v w] SqlType2s_distinct
    by (simp add: SqlType2s_def)
next
  assume "v \<in> fst ` set SqLCType2s_table \<and> SqLCType2s v = SqLCType2s w"
  then show "v = w"
    using switch_injective[of SqLCType2s_table "''???''" v w] SqLCType2s_distinct
    by (simp add: SqLCType2s_def)
qed

theorem type_names_identify_witness:
  "SqlType2s SQL_BIGINT = SqlType2s (- 5) \<and> SqlType2s SQL_BIGINT \<noteq> SqlType2s SQL_INTEGER"
  using type_names_identify[of SQL_BIGINT SQL_INTEGER] by (simp add: SqlType2s_table_def)

text \<open>
  The text of an ODBC version read back is the version, and a text that is read is the text
  written for it; the unknown version is the only one without a text.
\<close>

theorem OdbcVersion_roundtrip:
  "Option.bind (write_OdbcVersion v) read_OdbcVersion = (if v = ODBC_UNKNOWN then None else Some v)
   \<and> (read_OdbcVersion t = Some v) = (write_OdbcVersion v = Some t)"
  by (cases v) (auto simp: read_OdbcVersion_def)

end
