(* ===== verification/Exceptions.thy ===== *)
theory Exceptions
  imports OdbcTypes
begin

text \<open>
  \<open>Exception.h/.cpp\<close>, \<open>SpecializedExceptions.h/.cpp\<close>, \<open>AssertionException.h/.cpp\<close> and the
  record of one ODBC diagnostic (\<open>ErrorHelper::SErrorInfo\<close>).

  A thrown exception is a value of \<open>exn\<close>: its class and what a handler can ask it for (the
  return code and the diagnostics of a \<open>SqlResultException\<close>, the type code of a
  \<open>NotSupportedException\<close>, a message). The place it was thrown from is not part of the value,
  because no handler of the library reads it; \<open>Exception_ToString\<close> takes it as arguments.
\<close>

section \<open>Exception values\<close>

record SErrorInfo =
  ErrorHandleType :: int
  SqlState :: string
  NativeError :: int
  Msg :: string

definition SErrorInfo_ToString :: "SErrorInfo \<Rightarrow> string" where
  "SErrorInfo_ToString e =
     ''SQLSTATE '' @ SqlState e @ ''; Native Error: '' @ show_int (NativeError e) @ ''; '' @ Msg e"

datatype NotSupportedType = NS_SQL_C_TYPE | NS_SQL_TYPE

datatype ConversionType = UTF16_TO_UTF8 | UTF8_TO_UTF16

datatype exn =
    BaseException string
  | AssertionException string
  | SqlResultException string int "SErrorInfo list"
  | IllegalArgumentException string
  | NotSupportedException NotSupportedType int
  | NotAllowedException string
  | WrapperException string
  | NullValueException string
  | NotImplementedException
  | NotFoundException string
  | ConversionException ConversionType

fun GetName :: "exn \<Rightarrow> string" where
  "GetName (BaseException m) = ''exodbc::Exception''"
| "GetName (AssertionException c) = ''exodbc::AssertionException''"
| "GetName (SqlResultException f r es) = ''exodbc::SqlResultException''"
| "GetName (IllegalArgumentException m) = ''exodbc::IllegalArgumentException''"
| "GetName (NotSupportedException t n) = ''exodbc:NotSupportedException''"
| "GetName (NotAllowedException m) = ''exodbc::NotAllowedException''"
| "GetName (WrapperException m) = ''exodbc::WrapperException''"
| "GetName (NullValueException c) = ''exodbc::NullValueException''"
| "GetName NotImplementedException = ''exodbc::NotImplementedException''"
| "GetName (NotFoundException m) = ''exodbc::NotFoundException''"
| "GetName (ConversionException c) = ''exodbc::ConversionException''"

section \<open>Exception::ToString\<close>

fun rfind :: "'a \<Rightarrow> 'a list \<Rightarrow> nat option" where
  "rfind c [] = None"
| "rfind c (x # xs) =
     (case rfind c xs of Some p \<Rightarrow> Some (Suc p) | None \<Rightarrow> if x = c then Some 0 else None)"

lemma rfind_None: "rfind c xs = None \<longleftrightarrow> c \<notin> set xs"
  by (induction xs) (auto split: option.splits)

lemma rfind_append: "c \<notin> set ys \<Longrightarrow> rfind c (xs @ c # ys) = Some (length xs)"
  by (induction xs) (auto simp: rfind_None split: option.splits)

text \<open>The file name printed: what follows the last backslash, unless nothing follows it.\<close>

definition exn_fname :: "string \<Rightarrow> string" where
  "exn_fname file =
     (case rfind (CHR 0x5C) file of
        Some pos \<Rightarrow> if length file > pos + 1 then drop (pos + 1) file else file
      | None \<Rightarrow> file)"

definition Exception_ToString ::
  "string \<Rightarrow> int \<Rightarrow> string \<Rightarrow> string \<Rightarrow> string \<Rightarrow> string" where
  "Exception_ToString name line file functionname msg =
     name @ ''['' @
     (if line > 0
      then exn_fname file @ ''('' @ show_int line @ '')@'' @ functionname
      else []) @
     '']'' @ (if msg \<noteq> [] then '': '' @ msg else [])"

definition BuildErrorMsg :: "string \<Rightarrow> int \<Rightarrow> SErrorInfo list \<Rightarrow> string" where
  "BuildErrorMsg sqlFunctionName ret errs =
     ''SQL-Function '' @ sqlFunctionName @ '' returned '' @ SqlReturn2s ret @ ''('' @ show_int ret @
     '') with '' @ show_nat (length errs) @ '' ODBC-Error(s)'' @ (if errs \<noteq> [] then '':'' else [])"

text \<open>\<open>base\<close> is the text of \<open>Exception::ToString()\<close>, \<open>errorMsg\<close> that of \<open>BuildErrorMsg\<close>.\<close>

definition SqlResultException_ToString :: "string \<Rightarrow> string \<Rightarrow> SErrorInfo list \<Rightarrow> string" where
  "SqlResultException_ToString base errorMsg errs =
     base @ (if errorMsg \<noteq> [] then '': '' @ errorMsg else []) @
     (if errs \<noteq> [] then [CHR 0x0A] else []) @
     concat (map (\<lambda>e. SErrorInfo_ToString e @ [CHR 0x0A]) errs)"

fun NotSupportedException_ToString :: "string \<Rightarrow> NotSupportedType \<Rightarrow> int \<Rightarrow> string" where
  "NotSupportedException_ToString base NS_SQL_C_TYPE n =
     base @ ''Not Supported '' @ ''SQL C Type: '' @ SqLCType2s n @ '' ('' @ show_int n @ '')''"
| "NotSupportedException_ToString base NS_SQL_TYPE n =
     base @ ''Not Supported '' @ ''SQL Type: '' @ SqlType2s n @ '' ('' @ show_int n @ '')''"

definition NullValueException_ToString :: "string \<Rightarrow> string \<Rightarrow> string" where
  "NullValueException_ToString base columnName =
     base @ ''Cannot fetch value of column '' @ [CHR 0x27] @ columnName @ [CHR 0x27] @
     '', the value is NULL.''"

fun ConversionException_ToString :: "string \<Rightarrow> ConversionType \<Rightarrow> string" where
  "ConversionException_ToString base UTF16_TO_UTF8 =
     base @ ''Failed conversion type: '' @ ''utf16 to utf8''"
| "ConversionException_ToString base UTF8_TO_UTF16 =
     base @ ''Failed conversion type: '' @ ''utf8 to utf16''"

section \<open>SqlResultException as a handler sees it\<close>

text \<open>
  \<open>GetRet\<close>. The constructor without a handle initialises \<open>m_ret\<close> with 0 and hands the return
  code to \<open>BuildErrorMsg\<close> only; the constructor with a handle stores it.
\<close>

definition SqlResultException_noHandle :: "string \<Rightarrow> int \<Rightarrow> exn" where
  "SqlResultException_noHandle sqlFunctionName ret = SqlResultException sqlFunctionName 0 []"

definition SqlResultException_handle :: "string \<Rightarrow> int \<Rightarrow> SErrorInfo list \<Rightarrow> exn" where
  "SqlResultException_handle sqlFunctionName ret errs = SqlResultException sqlFunctionName ret errs"

fun GetRet :: "exn \<Rightarrow> int option" where
  "GetRet (SqlResultException f r es) = Some r"
| "GetRet _ = None"

fun HasErrorInfo :: "exn \<Rightarrow> string \<Rightarrow> bool" where
  "HasErrorInfo (SqlResultException f r es) sqlState = list_ex (\<lambda>e. sqlState = SqlState e) es"
| "HasErrorInfo _ sqlState = False"

fun is_SqlResultException :: "exn \<Rightarrow> bool" where
  "is_SqlResultException (SqlResultException f r es) = True"
| "is_SqlResultException _ = False"

fun is_NotSupportedException :: "exn \<Rightarrow> bool" where
  "is_NotSupportedException (NotSupportedException t n) = True"
| "is_NotSupportedException _ = False"

text \<open>\<open>ErrorHelper::SQLSTATE_OPTIONAL_FEATURE_NOT_IMPLEMENTED\<close>.\<close>

definition SQLSTATE_OPTIONAL_FEATURE_NOT_IMPLEMENTED :: string where
  "SQLSTATE_OPTIONAL_FEATURE_NOT_IMPLEMENTED = ''HYC00''"

lemma exn_fname_windows:
  "name \<noteq> [] \<Longrightarrow> CHR 0x5C \<notin> set name \<Longrightarrow> exn_fname (dir @ CHR 0x5C # name) = name"
  by (simp add: exn_fname_def rfind_append)

lemma exn_fname_plain: "CHR 0x5C \<notin> set file \<Longrightarrow> exn_fname file = file"
  by (simp add: exn_fname_def rfind_None[THEN iffD2])

text \<open>
  The constructor without a handle loses the return code: \<open>GetRet\<close> is 0, the code of
  \<open>SQL_SUCCESS\<close>, whatever the driver returned.
\<close>

lemma GetRet_noHandle: "GetRet (SqlResultException_noHandle f ret) = Some SQL_SUCCESS"
  by (simp add: SqlResultException_noHandle_def)

end
