(* ===== verification/OdbcApi.thy ===== *)
theory OdbcApi
  imports Exceptions "HOL-Library.Sublist"
begin

text \<open>
  What exOdbc calls and does not contain: the ODBC driver manager and driver, and the Boost
  functions it uses on strings. Both are fields of the record \<open>ext\<close>, an argument \<open>X\<close> of every
  definition that uses them.

  The driver is any function of the calls made so far: \<open>driver X (c # cs)\<close> is its reply to the
  call \<open>c\<close> after the calls \<open>cs\<close> (newest first). The list of calls is part of the program's
  state, so a theorem can say which calls an operation makes, in which order, with which
  arguments. \<open>SQLGetDiagRec\<close>, which reads diagnostics and changes nothing, is the field
  \<open>getDiagRec\<close> and is not in the list.

  For Boost the documented behaviour is written as an executable function (\<open>..._doc\<close>) and a
  theorem that needs it assumes that the field agrees with it (\<open>format_ok\<close>, \<open>erase_last_ok\<close>,
  ...); \<open>ref_ext\<close> is an instance of \<open>ext\<close> that satisfies all of them.

  The build modelled is the one without \<open>_WIN32\<close>: \<open>SQLAPICHARTYPE\<close> is \<open>SQLCHAR\<close> and the
  conversion macros are the identity on byte strings.
\<close>

section \<open>Calls and replies\<close>

text \<open>
  An \<open>SQLPOINTER\<close> argument is an integer cast to a pointer, a character array, the address of the
  first element of a column buffer, of the \<open>std::vector\<close> in it or of its length indicator, a
  pointer the user of the library supplied, or the address of a local variable that holds a value.
\<close>

datatype sqlptr = PVal int | PStr string | PBuf nat | PVec nat | PUser nat | PLen nat | PLocal int

datatype odbc_call =
    SQLAllocHandle int nat
  | SQLFreeHandle int nat
  | SQLFreeStmt nat int
  | SQLCloseCursor nat
  | SQLGetStmtAttr nat int
  | SQLSetStmtAttr nat int sqlptr
  | SQLExecDirect nat string
  | SQLPrepare nat string
  | SQLExecute nat
  | SQLNumResultCols nat
  | SQLDescribeParam nat nat
  | SQLDescribeCol nat nat nat
  | SQLBindCol nat nat int sqlptr int sqlptr
  | SQLBindParameter nat nat int int int int int sqlptr int sqlptr
  | SQLFetch nat
  | SQLFetchScroll nat int int
  | SQLGetData nat nat int int
  | SQLSetDescField nat nat int sqlptr
  | SQLEndTran int nat int
  | SQLDriverConnect nat string int
  | SQLConnect nat string string string
  | SQLDisconnect nat
  | SQLSetConnectAttr nat int sqlptr
  | SQLGetConnectAttr nat int
  | SQLSetEnvAttr nat int sqlptr
  | SQLGetEnvAttr nat int
  | SQLDataSources nat int int
  | SQLGetInfo nat nat int
  | SQLTables nat "string option" "string option" "string option" "string option"
  | SQLColumns nat "string option" "string option" "string option" "string option"
  | SQLPrimaryKeys nat "string option" "string option" "string option"
  | SQLSpecialColumns nat int "string option" "string option" "string option" int int
  | SQLGetTypeInfo nat int

text \<open>
  The reply: the return code and what the call wrote through its output arguments: a number
  (a handle, an attribute), a second number (a length or indicator), a string, a second string (the
  description of a data source), and the four
  numbers of the two describe functions (SQL type, size, decimal digits, nullable).
\<close>

record reply =
  rc :: int
  onum :: int
  oind :: int
  ostr :: string
  ostr2 :: string
  odesc :: "int \<times> int \<times> int \<times> int"

record diag_reply =
  drc :: int
  dstate :: string
  dnative :: int
  dmsg :: string

text \<open>
  \<open>delivers cs a\<close>: what the last call of the history \<open>cs\<close>, a fetch, stored through the pointers bound to
  the column buffer at address \<open>a\<close>: the elements and the length indicator.
\<close>

record ext =
  driver :: "odbc_call list \<Rightarrow> reply"
  getDiagRec :: "odbc_call list \<Rightarrow> int \<Rightarrow> nat \<Rightarrow> int \<Rightarrow> diag_reply"
  boost_format :: "string \<Rightarrow> string list \<Rightarrow> string"
  boost_erase_last :: "string \<Rightarrow> string \<Rightarrow> string"
  boost_replace_all :: "string \<Rightarrow> string \<Rightarrow> string \<Rightarrow> string"
  boost_contains :: "string \<Rightarrow> string \<Rightarrow> bool"
  boost_iequals :: "string \<Rightarrow> string \<Rightarrow> bool"
  boost_split :: "string \<Rightarrow> char \<Rightarrow> string list"
  boost_lexical_short :: "string \<Rightarrow> int option"
  signal_order :: "nat list \<Rightarrow> nat list"
  delivers :: "odbc_call list \<Rightarrow> nat \<Rightarrow> (int list \<times> int) option"

section \<open>The documented behaviour of the Boost functions\<close>

text \<open>\<open>boost::format\<close> with \<open>%s\<close> directives only: the arguments in order of appearance.\<close>

fun directives :: "string \<Rightarrow> nat option" where
  "directives [] = Some 0"
| "directives [c] = (if c = CHR ''%'' then None else Some 0)"
| "directives (c # d # f) =
     (if c = CHR ''%'' then (if d = CHR ''s'' then map_option Suc (directives f) else None)
      else directives (d # f))"

fun format_doc :: "string \<Rightarrow> string list \<Rightarrow> string" where
  "format_doc [] args = []"
| "format_doc [c] args = [c]"
| "format_doc (c # d # f) args =
     (if c = CHR ''%'' \<and> d = CHR ''s''
      then (case args of [] \<Rightarrow> [] | a # as \<Rightarrow> a @ format_doc f as)
      else c # format_doc (d # f) args)"

definition format_ok :: "ext \<Rightarrow> bool" where
  "format_ok X \<longleftrightarrow>
     (\<forall>f args. directives f = Some (length args) \<longrightarrow> boost_format X f args = format_doc f args)"

text \<open>\<open>boost::algorithm::erase_last\<close>: the last occurrence of the search string is removed.\<close>

fun erase_first_doc :: "string \<Rightarrow> string \<Rightarrow> string" where
  "erase_first_doc t [] = []"
| "erase_first_doc t (c # s) =
     (if prefix t (c # s) then drop (length t) (c # s) else c # erase_first_doc t s)"

definition erase_last_doc :: "string \<Rightarrow> string \<Rightarrow> string" where
  "erase_last_doc s t = (if t = [] then s else rev (erase_first_doc (rev t) (rev s)))"

definition erase_last_ok :: "ext \<Rightarrow> bool" where
  "erase_last_ok X \<longleftrightarrow> (\<forall>s t. boost_erase_last X s t = erase_last_doc s t)"

lemma erase_last_doc_suffix: "t \<noteq> [] \<Longrightarrow> erase_last_doc (s @ t) t = s"
proof -
  assume "t \<noteq> []"
  then obtain c u where cu: "rev (s @ t) = c # u" by (cases "rev (s @ t)") auto
  moreover have "prefix (rev t) (rev (s @ t))" by simp
  ultimately have "erase_first_doc (rev t) (rev (s @ t)) = drop (length t) (rev (s @ t))"
    by simp
  then show ?thesis using \<open>t \<noteq> []\<close> by (simp add: erase_last_doc_def)
qed

lemma erase_last_doc_Nil [simp]: "erase_last_doc [] t = []"
  by (simp add: erase_last_doc_def)

text \<open>\<open>boost::algorithm::replace_all\<close>: every occurrence, from the left, without overlaps.\<close>

function replace_all_doc :: "string \<Rightarrow> string \<Rightarrow> string \<Rightarrow> string" where
  "replace_all_doc s t r =
     (if t = [] \<or> s = [] then s
      else if prefix t s then r @ replace_all_doc (drop (length t) s) t r
      else hd s # replace_all_doc (tl s) t r)"
  by pat_completeness auto
termination
  by (relation "measure (\<lambda>(s, t, r). length s)") (auto simp: neq_Nil_conv)

declare replace_all_doc.simps [simp del]

definition replace_all_ok :: "ext \<Rightarrow> bool" where
  "replace_all_ok X \<longleftrightarrow> (\<forall>s t r. boost_replace_all X s t r = replace_all_doc s t r)"

lemma replace_all_doc_char:
  "replace_all_doc s [c] r = concat (map (\<lambda>d. if d = c then r else [d]) s)"
proof (induction s)
  case Nil
  show ?case by (simp add: replace_all_doc.simps)
next
  case (Cons d s)
  then show ?case by (subst replace_all_doc.simps) auto
qed

fun contains_doc :: "string \<Rightarrow> string \<Rightarrow> bool" where
  "contains_doc [] t = (t = [])"
| "contains_doc (c # s) t = (prefix t (c # s) \<or> contains_doc s t)"

definition contains_ok :: "ext \<Rightarrow> bool" where
  "contains_ok X \<longleftrightarrow> (\<forall>s t. boost_contains X s t = contains_doc s t)"

lemma contains_doc_iff: "contains_doc s t \<longleftrightarrow> (\<exists>u v. s = u @ t @ v)"
proof (induction s)
  case (Cons c s)
  show ?case
  proof
    assume "contains_doc (c # s) t"
    then show "\<exists>u v. c # s = u @ t @ v"
    proof (cases "prefix t (c # s)")
      case True
      then obtain v where "c # s = t @ v" by (rule prefixE)
      then show ?thesis by (metis append_Nil)
    next
      case False
      with \<open>contains_doc (c # s) t\<close> Cons.IH obtain u v where "s = u @ t @ v" by auto
      then have "c # s = (c # u) @ t @ v" by simp
      then show ?thesis by blast
    qed
  next
    assume "\<exists>u v. c # s = u @ t @ v"
    then obtain u v where uv: "c # s = u @ t @ v" by blast
    show "contains_doc (c # s) t"
    proof (cases u)
      case Nil
      with uv have "prefix t (c # s)" by simp
      then show ?thesis by simp
    next
      case (Cons d u')
      with uv have "s = u' @ t @ v" by simp
      with Cons.IH show ?thesis by auto
    qed
  qed
qed auto

text \<open>\<open>boost::split\<close> at one character (adjacent separators are not merged).\<close>

fun split_doc :: "string \<Rightarrow> char \<Rightarrow> string list" where
  "split_doc [] c = [[]]"
| "split_doc (d # s) c =
     (if d = c then [] # split_doc s c
      else (case split_doc s c of [] \<Rightarrow> [[d]] | w # ws \<Rightarrow> (d # w) # ws))"

definition split_ok :: "ext \<Rightarrow> bool" where
  "split_ok X \<longleftrightarrow> (\<forall>s c. boost_split X s c = split_doc s c)"

lemma split_doc_no: "c \<notin> set s \<Longrightarrow> split_doc s c = [s]"
  by (induction s) auto

lemma split_doc_append: "c \<notin> set s \<Longrightarrow> split_doc (s @ c # t) c = s # split_doc t c"
  by (induction s) auto

text \<open>
  \<open>boost::lexical_cast<short>\<close> on a non-empty string of decimal digits: the number it writes, or
  \<open>bad_lexical_cast\<close> (\<open>None\<close>) if a \<open>short\<close> cannot hold it. Nothing is assumed of other strings.
\<close>

definition is_digit :: "char \<Rightarrow> bool" where
  "is_digit c \<longleftrightarrow> 48 \<le> (of_char c :: nat) \<and> (of_char c :: nat) \<le> 57"

definition digits_value :: "string \<Rightarrow> int" where
  "digits_value s = foldl (\<lambda>n c. 10 * n + (of_char c - 48)) 0 s"

definition lexical_short_doc :: "string \<Rightarrow> int option" where
  "lexical_short_doc s =
     (if s \<noteq> [] \<and> list_all is_digit s \<and> digits_value s \<le> SHRT_MAX then Some (digits_value s) else None)"

definition lexical_short_ok :: "ext \<Rightarrow> bool" where
  "lexical_short_ok X \<longleftrightarrow>
     (\<forall>s. s \<noteq> [] \<and> list_all is_digit s \<longrightarrow> boost_lexical_short X s = lexical_short_doc s)"

text \<open>
  \<open>boost::iequals\<close>: equal after folding the case of every character. \<open>boost::signals2\<close> calls
  every connected slot once; the order is the library's.
\<close>

definition upcase :: "char \<Rightarrow> char" where
  "upcase c = (if 97 \<le> (of_char c :: nat) \<and> (of_char c :: nat) \<le> 122 then char_of (of_char c - 32 :: nat) else c)"

definition iequals_doc :: "string \<Rightarrow> string \<Rightarrow> bool" where
  "iequals_doc s t \<longleftrightarrow> map upcase s = map upcase t"

definition iequals_ok :: "ext \<Rightarrow> bool" where
  "iequals_ok X \<longleftrightarrow> (\<forall>s t. boost_iequals X s t = iequals_doc s t)"

definition signal_ok :: "ext \<Rightarrow> bool" where
  "signal_ok X \<longleftrightarrow>
     (\<forall>xs. set (signal_order X xs) = set xs \<and> (distinct xs \<longrightarrow> distinct (signal_order X xs)))"

definition no_diag :: "odbc_call list \<Rightarrow> int \<Rightarrow> nat \<Rightarrow> int \<Rightarrow> diag_reply" where
  "no_diag cs ht h recNr = \<lparr>drc = SQL_NO_DATA, dstate = [], dnative = 0, dmsg = []\<rparr>"

definition ref_ext :: "(odbc_call list \<Rightarrow> reply) \<Rightarrow> ext" where
  "ref_ext drv =
     \<lparr>driver = drv, getDiagRec = no_diag, boost_format = format_doc,
      boost_erase_last = erase_last_doc, boost_replace_all = replace_all_doc,
      boost_contains = contains_doc, boost_iequals = iequals_doc, boost_split = split_doc,
      boost_lexical_short = lexical_short_doc, signal_order = (\<lambda>xs. xs),
      delivers = (\<lambda>cs a. None)\<rparr>"

lemma ref_ext_ok [simp]:
  "format_ok (ref_ext drv)" "erase_last_ok (ref_ext drv)" "replace_all_ok (ref_ext drv)"
  "contains_ok (ref_ext drv)" "split_ok (ref_ext drv)" "lexical_short_ok (ref_ext drv)"
  "iequals_ok (ref_ext drv)" "signal_ok (ref_ext drv)"
  by (simp_all add: ref_ext_def format_ok_def erase_last_ok_def replace_all_ok_def contains_ok_def
      split_ok_def lexical_short_ok_def iequals_ok_def signal_ok_def)

lemma ref_ext_driver [simp]: "driver (ref_ext drv) = drv"
  by (simp add: ref_ext_def)

text \<open>A reply with nothing but a return code, and the driver that always succeeds.\<close>

definition reply_rc :: "int \<Rightarrow> reply" where
  "reply_rc r = \<lparr>rc = r, onum = 0, oind = 0, ostr = [], ostr2 = [], odesc = (0, 0, 0, 0)\<rparr>"

definition good_driver :: "odbc_call list \<Rightarrow> reply" where
  "good_driver cs = (reply_rc SQL_SUCCESS)\<lparr>onum := 1 + int (length cs)\<rparr>"

lemma good_driver_simps [simp]:
  "rc (good_driver cs) = SQL_SUCCESS" "onum (good_driver cs) = 1 + int (length cs)"
  by (simp_all add: good_driver_def reply_rc_def)

section \<open>ErrorHelper::GetAllErrors\<close>

text \<open>
  The loop reads records 1, 2, ... while \<open>SQLGetDiagRec\<close> succeeds. \<open>recNr\<close> is an
  \<open>SQLSMALLINT\<close>: past 32767 it is negative, and the specification has \<open>SQLGetDiagRec\<close> return
  \<open>SQL_ERROR\<close> for a record number that is not positive, which ends the loop there.
\<close>

definition diag_info :: "int \<Rightarrow> diag_reply \<Rightarrow> SErrorInfo" where
  "diag_info ht r =
     \<lparr>ErrorHandleType = ht, SqlState = take 5 (dstate r), NativeError = dnative r, Msg = dmsg r\<rparr>"

function diag_loop ::
  "ext \<Rightarrow> odbc_call list \<Rightarrow> int \<Rightarrow> nat \<Rightarrow> int \<Rightarrow> SErrorInfo list" where
  "diag_loop X cs ht h recNr =
     (if SHRT_MAX < recNr then []
      else let r = getDiagRec X cs ht h recNr
           in if SQL_SUCCEEDED (drc r) then diag_info ht r # diag_loop X cs ht h (recNr + 1)
              else [])"
  by pat_completeness auto
termination
  by (relation "measure (\<lambda>(X, cs, ht, h, recNr). nat (SHRT_MAX + 1 - recNr))") auto

declare diag_loop.simps [simp del]

definition GetAllErrors4 ::
  "ext \<Rightarrow> odbc_call list \<Rightarrow> nat \<Rightarrow> nat \<Rightarrow> nat \<Rightarrow> nat \<Rightarrow> (exn, SErrorInfo list) res" where
  "GetAllErrors4 X cs hEnv hDbc hStmt hDesc =
     (if \<not> (hEnv \<noteq> 0 \<or> hDbc \<noteq> 0 \<or> hStmt \<noteq> 0 \<or> hDesc \<noteq> 0)
      then Exn (AssertionException ''hEnv != SQL_NULL_HENV || hDbc != SQL_NULL_HDBC || ...'')
      else Ok (concat (map (\<lambda>(ht, h). if h = 0 then [] else diag_loop X cs ht h 1)
                 [(SQL_HANDLE_ENV, hEnv), (SQL_HANDLE_DBC, hDbc),
                  (SQL_HANDLE_STMT, hStmt), (SQL_HANDLE_DESC, hDesc)])))"

definition GetAllErrors ::
  "ext \<Rightarrow> odbc_call list \<Rightarrow> int \<Rightarrow> nat \<Rightarrow> (exn, SErrorInfo list) res" where
  "GetAllErrors X cs handleType handle =
     (if handleType = SQL_HANDLE_ENV then GetAllErrors4 X cs handle 0 0 0
      else if handleType = SQL_HANDLE_DBC then GetAllErrors4 X cs 0 handle 0 0
      else if handleType = SQL_HANDLE_STMT then GetAllErrors4 X cs 0 0 handle 0
      else if handleType = SQL_HANDLE_DESC then GetAllErrors4 X cs 0 0 0 handle
      else Exn (AssertionException ''Unknown handleType''))"

text \<open>
  \<open>SqlResultException::FetchErrorInfo\<close> replaces an exception by one made-up record. Its message goes on with
  the text of that exception, which has the path of the source file in it and is left out.
\<close>

definition FetchErrorInfo :: "ext \<Rightarrow> odbc_call list \<Rightarrow> int \<Rightarrow> nat \<Rightarrow> SErrorInfo list" where
  "FetchErrorInfo X cs handleType handle =
     (case GetAllErrors X cs handleType handle of
        Ok errs \<Rightarrow> errs
      | _ \<Rightarrow> [\<lparr>ErrorHandleType = handleType, SqlState = [], NativeError = 0,
               Msg = ''Failed to fetch Error-Info: ''\<rparr>])"

lemma diag_loop_records:
  "(\<forall>i. k \<le> i \<and> i \<le> n \<longrightarrow> SQL_SUCCEEDED (drc (getDiagRec X cs ht h i))) \<Longrightarrow>
   \<not> SQL_SUCCEEDED (drc (getDiagRec X cs ht h (n + 1))) \<Longrightarrow> k \<le> n + 1 \<Longrightarrow> n < SHRT_MAX \<Longrightarrow>
     diag_loop X cs ht h k = map (\<lambda>i. diag_info ht (getDiagRec X cs ht h i)) [k..n]"
proof (induction "nat (n + 1 - k)" arbitrary: k)
  case 0
  then have "k = n + 1" by simp
  with 0 show ?case by (subst diag_loop.simps) (simp add: Let_def)
next
  case (Suc m)
  then have k: "k \<le> n" by simp
  have "diag_loop X cs ht h (k + 1) = map (\<lambda>i. diag_info ht (getDiagRec X cs ht h i)) [k + 1..n]"
    using Suc by simp
  with k Suc.prems show ?case
    by (subst diag_loop.simps) (simp add: Let_def upto_rec1)
qed

text \<open>
  \<open>GetAllErrors\<close> on a handle of any of the four types returns exactly the diagnostic records
  the driver has, in order, each with its \<open>SQLSTATE\<close>, native error and message.
\<close>

theorem GetAllErrors_records:
  assumes "ht \<in> {SQL_HANDLE_ENV, SQL_HANDLE_DBC, SQL_HANDLE_STMT, SQL_HANDLE_DESC}" and "h \<noteq> 0"
    and "0 \<le> n" and "n < SHRT_MAX"
    and "\<forall>i. 1 \<le> i \<and> i \<le> n \<longrightarrow> SQL_SUCCEEDED (drc (getDiagRec X cs ht h i))"
    and "\<not> SQL_SUCCEEDED (drc (getDiagRec X cs ht h (n + 1)))"
  shows "GetAllErrors X cs ht h = Ok (map (\<lambda>i. diag_info ht (getDiagRec X cs ht h i)) [1..n])"
proof -
  have "diag_loop X cs ht h 1 = map (\<lambda>i. diag_info ht (getDiagRec X cs ht h i)) [1..n]"
    using assms by (intro diag_loop_records) auto
  with assms(1,2) show ?thesis by (auto simp: GetAllErrors_def GetAllErrors4_def)
qed

text \<open>A driver with one diagnostic record on every handle.\<close>

definition one_diag :: "odbc_call list \<Rightarrow> int \<Rightarrow> nat \<Rightarrow> int \<Rightarrow> diag_reply" where
  "one_diag cs ht h recNr =
     \<lparr>drc = (if recNr = 1 then SQL_SUCCESS else SQL_NO_DATA), dstate = ''HY000'', dnative = 7, dmsg = ''m''\<rparr>"

theorem GetAllErrors_records_witness:
  "GetAllErrors ((ref_ext good_driver)\<lparr>getDiagRec := one_diag\<rparr>) [] SQL_HANDLE_STMT 5 =
     Ok [\<lparr>ErrorHandleType = SQL_HANDLE_STMT, SqlState = ''HY000'', NativeError = 7, Msg = ''m''\<rparr>]"
  using GetAllErrors_records[of SQL_HANDLE_STMT 5 1 "(ref_ext good_driver)\<lparr>getDiagRec := one_diag\<rparr>" "[]"]
  by (auto simp: one_diag_def diag_info_def)

section \<open>The state under every object, and a call of the driver\<close>

record world0 =
  calls :: "odbc_call list"

type_synonym ('z, 'a) exprog = "(exn, 'z world0_scheme, 'a) prog"

definition odbc :: "ext \<Rightarrow> odbc_call \<Rightarrow> ('z, reply) exprog" where
  "odbc X c w = (let cs = c # calls w in (Ok (driver X cs), w\<lparr>calls := cs\<rparr>))"

definition exASSERT :: "string \<Rightarrow> ('s \<Rightarrow> bool) \<Rightarrow> (exn, 's, unit) prog" where
  "exASSERT condition c = ifM c skipM (throwM (AssertionException condition))"

definition throw_handle :: "ext \<Rightarrow> string \<Rightarrow> int \<Rightarrow> int \<Rightarrow> nat \<Rightarrow> ('z, 'a) exprog" where
  "throw_handle X fn ret handleType handle w =
     (Exn (SqlResultException_handle fn ret (FetchErrorInfo X (calls w) handleType handle)), w)"

definition THROW_IFN_SUCCEEDED :: "ext \<Rightarrow> string \<Rightarrow> int \<Rightarrow> int \<Rightarrow> nat \<Rightarrow> ('z, unit) exprog" where
  "THROW_IFN_SUCCEEDED X fn ret handleType handle =
     (if \<not> SQL_SUCCEEDED ret then throw_handle X fn ret handleType handle else skipM)"

definition THROW_IFN_SUCCESS :: "ext \<Rightarrow> string \<Rightarrow> int \<Rightarrow> int \<Rightarrow> nat \<Rightarrow> ('z, unit) exprog" where
  "THROW_IFN_SUCCESS X fn ret handleType handle =
     (if ret \<noteq> SQL_SUCCESS then throw_handle X fn ret handleType handle else skipM)"

definition THROW_IFN_NO_DATA :: "string \<Rightarrow> int \<Rightarrow> ('z, unit) exprog" where
  "THROW_IFN_NO_DATA fn ret =
     (if ret \<noteq> SQL_NO_DATA then throwM (SqlResultException_noHandle fn ret) else skipM)"

lemma odbc_exec [exec, simp]:
  "odbc X c w = (Ok (driver X (c # calls w)), w\<lparr>calls := c # calls w\<rparr>)"
  by (simp add: odbc_def Let_def)

lemma exASSERT_exec [exec, simp]:
  "exASSERT t c s = (if c s then (Ok (), s) else (Exn (AssertionException t), s))"
  by (simp add: exASSERT_def)

lemma throw_handle_exec [exec, simp]:
  "throw_handle X fn ret ht h w =
     (Exn (SqlResultException fn ret (FetchErrorInfo X (calls w) ht h)), w)"
  by (simp add: throw_handle_def SqlResultException_handle_def)

lemma THROW_IFN_SUCCEEDED_exec [exec, simp]:
  "THROW_IFN_SUCCEEDED X fn ret ht h w =
     (if SQL_SUCCEEDED ret then (Ok (), w)
      else (Exn (SqlResultException fn ret (FetchErrorInfo X (calls w) ht h)), w))"
  by (simp add: THROW_IFN_SUCCEEDED_def)

lemma THROW_IFN_SUCCESS_exec [exec, simp]:
  "THROW_IFN_SUCCESS X fn ret ht h w =
     (if ret = SQL_SUCCESS then (Ok (), w)
      else (Exn (SqlResultException fn ret (FetchErrorInfo X (calls w) ht h)), w))"
  by (simp add: THROW_IFN_SUCCESS_def)

lemma THROW_IFN_NO_DATA_exec [exec, simp]:
  "THROW_IFN_NO_DATA fn ret w =
     (if ret = SQL_NO_DATA then (Ok (), w) else (Exn (SqlResultException fn 0 []), w))"
  by (simp add: THROW_IFN_NO_DATA_def SqlResultException_noHandle_def)

lemma preserves_odbc [pres]: "(\<And>w cs. f (w\<lparr>calls := cs\<rparr>) = f w) \<Longrightarrow> preserves f (odbc X c)"
  by (simp add: preserves_def)

lemma preserves_macros [pres]:
  "preserves f (exASSERT t c)"
  "preserves f (throw_handle X fn ret ht h)"
  "preserves f (THROW_IFN_SUCCEEDED X fn ret ht h)"
  "preserves f (THROW_IFN_SUCCESS X fn ret ht h)"
  "preserves f (THROW_IFN_NO_DATA fn ret)"
  by (simp_all add: preserves_def)

lemma keeps_macros [keep]:
  "keeps I (exASSERT t c)"
  "keeps I (throw_handle X fn ret ht h)"
  "keeps I (THROW_IFN_SUCCEEDED X fn ret ht h)"
  "keeps I (THROW_IFN_SUCCESS X fn ret ht h)"
  "keeps I (THROW_IFN_NO_DATA fn ret)"
  by (simp_all add: keeps_def)

end
