(* ===== verification/Handles.thy ===== *)
theory Handles
  imports OdbcApi
begin

text \<open>
  \<open>include/exodbc/SqlHandle.h\<close>, \<open>SqlStatementCloser\<close>, \<open>SetDescriptionFieldWrapper\<close>,
  \<open>GetDataWrapper\<close> and the notification half of \<open>ColumnBindable\<close> (\<open>ColumnBuffer.h\<close>).

  Objects live in a heap: \<open>hnd w p\<close> is the \<open>SqlHandle\<close> at address \<open>p\<close>, \<open>bnd w b\<close> the
  \<open>ColumnBindable\<close> part of the buffer at address \<open>b\<close>. A handle is owned by \<open>shared_ptr\<close>s, so the
  object carries their count, and it is destroyed (and its ODBC handle freed) when the last one
  lets go. A connection of a \<open>boost::signals2\<close> signal is a number; the signal is the list of
  its connections with the buffer each one calls.

  The template argument \<open>tHandleType\<close> is the argument \<open>l\<close>, the level of the handle in the chain
  environment (0), connection (1), statement (2), because a handle owns its parent and freeing
  it may free the parent: the recursion of \<open>SqlHandle_release\<close> goes down that chain.
\<close>

section \<open>Objects and heap\<close>

record SqlHandle =
  m_handle :: nat
  m_pParentHandle :: "nat option"
  m_resetParamsSignal :: "(nat \<times> nat) list"
  m_unbindColumnsSignal :: "(nat \<times> nat) list"
  use_count :: nat

text \<open>Both maps go from the value of an \<open>SQLHSTMT\<close> to the connection and the handle object.\<close>

record ColumnBindable =
  m_unbindColumnsConnections :: "(nat \<times> nat \<times> nat) list"
  m_resetParamsConnections :: "(nat \<times> nat \<times> nat) list"

record hworld = world0 +
  hnd :: "nat \<Rightarrow> SqlHandle"
  bnd :: "nat \<Rightarrow> ColumnBindable"
  fresh :: nat

type_synonym ('z, 'a) hprog = "(exn, 'z hworld_scheme, 'a) prog"

definition mod_hnd :: "nat \<Rightarrow> (SqlHandle \<Rightarrow> SqlHandle) \<Rightarrow> ('z, unit) hprog" where
  "mod_hnd p f = modifyM (\<lambda>w. w\<lparr>hnd := (hnd w)(p := f (hnd w p))\<rparr>)"

definition mod_bnd :: "nat \<Rightarrow> (ColumnBindable \<Rightarrow> ColumnBindable) \<Rightarrow> ('z, unit) hprog" where
  "mod_bnd b f = modifyM (\<lambda>w. w\<lparr>bnd := (bnd w)(b := f (bnd w b))\<rparr>)"

definition new_address :: "('z, nat) hprog" where
  "new_address w = (Ok (fresh w), w\<lparr>fresh := fresh w + 1\<rparr>)"

lemma mod_hnd_exec [exec, simp]:
  "mod_hnd p f w = (Ok (), w\<lparr>hnd := (hnd w)(p := f (hnd w p))\<rparr>)"
  by (simp add: mod_hnd_def)

lemma mod_bnd_exec [exec, simp]:
  "mod_bnd b f w = (Ok (), w\<lparr>bnd := (bnd w)(b := f (bnd w b))\<rparr>)"
  by (simp add: mod_bnd_def)

lemma new_address_exec [exec, simp]: "new_address w = (Ok (fresh w), w\<lparr>fresh := fresh w + 1\<rparr>)"
  by (simp add: new_address_def)

lemma preserves_heap [pres]:
  "(\<And>w h. f (w\<lparr>hnd := h\<rparr>) = f w) \<Longrightarrow> preserves f (mod_hnd p g)"
  "(\<And>w h. f (w\<lparr>bnd := h\<rparr>) = f w) \<Longrightarrow> preserves f (mod_bnd p k)"
  "(\<And>w n. f (w\<lparr>fresh := n\<rparr>) = f w) \<Longrightarrow> preserves f new_address"
  by (simp_all add: preserves_def)

section \<open>Creation and simple members\<close>

definition tHandleType :: "nat \<Rightarrow> int" where
  "tHandleType l = int l + 1"

lemma tHandleType_simps [simp]:
  "tHandleType 0 = SQL_HANDLE_ENV" "tHandleType (Suc 0) = SQL_HANDLE_DBC"
  "tHandleType 2 = SQL_HANDLE_STMT" "tHandleType (Suc (Suc 0)) = SQL_HANDLE_STMT"
  by (simp_all add: tHandleType_def)

definition SqlHandle_init :: SqlHandle where
  "SqlHandle_init = \<lparr>m_handle = 0, m_pParentHandle = None, m_resetParamsSignal = [],
     m_unbindColumnsSignal = [], use_count = 1\<rparr>"

definition SqlHandle_IsAllocated :: "'z hworld_scheme \<Rightarrow> nat \<Rightarrow> bool" where
  "SqlHandle_IsAllocated w this \<longleftrightarrow> m_handle (hnd w this) \<noteq> 0"

definition SqlHandle_GetHandle :: "'z hworld_scheme \<Rightarrow> nat \<Rightarrow> nat" where
  "SqlHandle_GetHandle w this = m_handle (hnd w this)"

definition SqlHandle_eq :: "nat \<times> SqlHandle \<Rightarrow> nat \<times> SqlHandle \<Rightarrow> bool" where
  "SqlHandle_eq this other \<longleftrightarrow>
     tHandleType (fst this) = tHandleType (fst other) \<and> m_handle (snd this) = m_handle (snd other)"

definition SqlHandle_neq :: "nat \<times> SqlHandle \<Rightarrow> nat \<times> SqlHandle \<Rightarrow> bool" where
  "SqlHandle_neq this other \<longleftrightarrow> \<not> SqlHandle_eq this other"

definition SqlHandle_less :: "nat \<times> SqlHandle \<Rightarrow> nat \<times> SqlHandle \<Rightarrow> bool" where
  "SqlHandle_less this other \<longleftrightarrow>
     tHandleType (fst this) < tHandleType (fst other) \<and> m_handle (snd this) < m_handle (snd other)"

definition SqlHandle_Allocate :: "ext \<Rightarrow> nat \<Rightarrow> nat \<Rightarrow> ('z, unit) hprog" where
  "SqlHandle_Allocate X l this = seqM
     [exASSERT ''m_handle == SQL_NULL_HANDLE'' (\<lambda>w. m_handle (hnd w this) = 0),
      exASSERT ''m_pParentHandle == NULL'' (\<lambda>w. m_pParentHandle (hnd w this) = None),
      exASSERT ''tHandleType == SQL_HANDLE_ENV'' (\<lambda>w. tHandleType l = SQL_HANDLE_ENV),
      bindM (odbc X (SQLAllocHandle SQL_HANDLE_ENV 0)) (\<lambda>r. seqM
        [mod_hnd this (\<lambda>h. h\<lparr>m_handle := nat (onum r)\<rparr>),
         if \<not> SQL_SUCCEEDED (rc r)
         then throwM (SqlResultException_noHandle ''SQLAllocHandle'' (rc r)) else skipM])]"

definition shared_copy :: "nat \<Rightarrow> ('z, unit) hprog" where
  "shared_copy p = mod_hnd p (\<lambda>h. h\<lparr>use_count := use_count h + 1\<rparr>)"

definition SqlHandle_AllocateWithParent ::
  "ext \<Rightarrow> nat \<Rightarrow> nat \<Rightarrow> nat option \<Rightarrow> ('z, unit) hprog" where
  "SqlHandle_AllocateWithParent X l this pParentHandle =
     (case pParentHandle of
        None \<Rightarrow> throwM (AssertionException ''pParentHandle != NULL'')
      | Some parent \<Rightarrow> seqM
          [exASSERT ''pParentHandle->IsAllocated()'' (\<lambda>w. SqlHandle_IsAllocated w parent),
           exASSERT ''m_handle == SQL_NULL_HANDLE'' (\<lambda>w. m_handle (hnd w this) = 0),
           exASSERT ''m_pParentHandle == NULL'' (\<lambda>w. m_pParentHandle (hnd w this) = None),
           exASSERT ''tHandleType != SQL_HANDLE_ENV'' (\<lambda>w. tHandleType l \<noteq> SQL_HANDLE_ENV),
           bindM (getsM (\<lambda>w. SqlHandle_GetHandle w parent)) (\<lambda>hp.
           bindM (odbc X (SQLAllocHandle (tHandleType l) hp)) (\<lambda>r. seqM
             [mod_hnd this (\<lambda>h. h\<lparr>m_handle := nat (onum r)\<rparr>),
              THROW_IFN_SUCCEEDED X ''SQLAllocHandle'' (rc r) (tHandleType (l - 1)) hp,
              mod_hnd this (\<lambda>h. h\<lparr>m_pParentHandle := Some parent\<rparr>),
              shared_copy parent]))])"

section \<open>Signals and what a buffer does when one fires\<close>

text \<open>
  \<open>disconnect\<close> on the connection \<open>c\<close> to a signal of the handle \<open>q\<close>. \<open>rel\<close> is what happens when the
  erased map entry lets go of its \<open>shared_ptr\<close> to the handle.
\<close>

definition disconnect_reset :: "nat \<Rightarrow> nat \<Rightarrow> ('z, unit) hprog" where
  "disconnect_reset c q =
     mod_hnd q (\<lambda>h. h\<lparr>m_resetParamsSignal := filter (\<lambda>s. fst s \<noteq> c) (m_resetParamsSignal h)\<rparr>)"

definition disconnect_unbind :: "nat \<Rightarrow> nat \<Rightarrow> ('z, unit) hprog" where
  "disconnect_unbind c q =
     mod_hnd q (\<lambda>h. h\<lparr>m_unbindColumnsSignal := filter (\<lambda>s. fst s \<noteq> c) (m_unbindColumnsSignal h)\<rparr>)"

definition OnResetParams :: "(nat \<Rightarrow> ('z, unit) hprog) \<Rightarrow> nat \<Rightarrow> nat \<Rightarrow> ('z, unit) hprog" where
  "OnResetParams rel stmt this =
     bindM (getsM (\<lambda>w. SqlHandle_GetHandle w stmt)) (\<lambda>key.
     bindM (getsM (\<lambda>w. map_of (m_resetParamsConnections (bnd w this)) key)) (\<lambda>it.
       case it of
         None \<Rightarrow> skipM
       | Some (c, q) \<Rightarrow> seqM
           [disconnect_reset c q,
            mod_bnd this (\<lambda>b. b\<lparr>m_resetParamsConnections := map_del key (m_resetParamsConnections b)\<rparr>),
            rel q]))"

definition OnUnbindColumns :: "(nat \<Rightarrow> ('z, unit) hprog) \<Rightarrow> nat \<Rightarrow> nat \<Rightarrow> ('z, unit) hprog" where
  "OnUnbindColumns rel stmt this =
     bindM (getsM (\<lambda>w. SqlHandle_GetHandle w stmt)) (\<lambda>key.
     bindM (getsM (\<lambda>w. map_of (m_unbindColumnsConnections (bnd w this)) key)) (\<lambda>it.
       case it of
         None \<Rightarrow> skipM
       | Some (c, q) \<Rightarrow> seqM
           [disconnect_unbind c q,
            mod_bnd this (\<lambda>b. b\<lparr>m_unbindColumnsConnections := map_del key (m_unbindColumnsConnections b)\<rparr>),
            rel q]))"

text \<open>A signal calls the slots that were connected when it fired and still are.\<close>

definition fire ::
  "ext \<Rightarrow> (SqlHandle \<Rightarrow> (nat \<times> nat) list) \<Rightarrow> (nat \<Rightarrow> ('z, unit) hprog) \<Rightarrow> nat \<Rightarrow> ('z, unit) hprog" where
  "fire X sig slot this =
     bindM (getsM (\<lambda>w. signal_order X (map fst (sig (hnd w this))))) (\<lambda>cs.
       forM cs (\<lambda>c. bindM (getsM (\<lambda>w. map_of (sig (hnd w this)) c)) (\<lambda>s.
         case s of None \<Rightarrow> skipM | Some b \<Rightarrow> slot b)))"

lemma fire_no_slot [simp]: "sig (hnd w p) = [] \<Longrightarrow> fire X sig s p w = (Ok (), w)"
proof -
  assume none: "sig (hnd w p) = []"
  have "forM cs (\<lambda>c. bindM (getsM (\<lambda>w. map_of (sig (hnd w p)) c)) (\<lambda>v.
      case v of None \<Rightarrow> skipM | Some b \<Rightarrow> s b)) w = (Ok (), w)" for cs
    by (induction cs) (simp_all add: none)
  then show ?thesis by (simp add: fire_def)
qed

definition ConnectResetParamsSignal :: "nat \<Rightarrow> nat \<Rightarrow> ('z, nat) hprog" where
  "ConnectResetParamsSignal this b = bindM new_address (\<lambda>c. thenM
     (mod_hnd this (\<lambda>h. h\<lparr>m_resetParamsSignal := m_resetParamsSignal h @ [(c, b)]\<rparr>)) (returnM c))"

definition ConnectUnbindColumnsSignal :: "nat \<Rightarrow> nat \<Rightarrow> ('z, nat) hprog" where
  "ConnectUnbindColumnsSignal this b = bindM new_address (\<lambda>c. thenM
     (mod_hnd this (\<lambda>h. h\<lparr>m_unbindColumnsSignal := m_unbindColumnsSignal h @ [(c, b)]\<rparr>)) (returnM c))"

section \<open>Free, destruction, shared ownership\<close>

text \<open>
  \<open>Free\<close>, with \<open>relp\<close> for dropping the parent. The two notifications come after the handle has been set
  to \<open>SQL_NULL_HANDLE\<close>, so a slot looks its map up with the key 0, under which no buffer has an
  entry (\<open>binding_inv\<close> below); the program for erasing such an entry is therefore left undefined.
  \<open>m_freeSignal\<close> has no slot in the library.
\<close>

definition Free_body :: "ext \<Rightarrow> nat \<Rightarrow> (nat \<Rightarrow> ('z, unit) hprog) \<Rightarrow> nat \<Rightarrow> ('z, unit) hprog" where
  "Free_body X l relp this =
     thenM (exASSERT ''m_handle != SQL_NULL_HANDLE'' (\<lambda>w. m_handle (hnd w this) \<noteq> 0))
     (bindM (getsM (\<lambda>w. m_handle (hnd w this))) (\<lambda>h.
      bindM (odbc X (SQLFreeHandle (tHandleType l) h)) (\<lambda>r.
        let drop = bindM (getsM (\<lambda>w. m_pParentHandle (hnd w this))) (\<lambda>parent. seqM
              [mod_hnd this (\<lambda>h. h\<lparr>m_handle := 0, m_pParentHandle := None\<rparr>),
               case parent of None \<Rightarrow> skipM | Some p \<Rightarrow> relp p])
        in if rc r = SQL_ERROR then throw_handle X ''SQLFreeHandle'' (rc r) (tHandleType l) h
           else if rc r = SQL_INVALID_HANDLE
           then thenM drop (throwM (SqlResultException_noHandle ''SQLFreeHandle'' (rc r)))
           else seqM
             [drop,
              fire X m_resetParamsSignal (OnResetParams (\<lambda>q. undefM) this) this,
              fire X m_unbindColumnsSignal (OnUnbindColumns (\<lambda>q. undefM) this) this])))"

text \<open>
  A \<open>shared_ptr\<close> lets go. The last one runs the destructor: \<open>Free\<close>, any exception logged, and
  then the members, of which the parent's pointer is one.
\<close>

definition release_body :: "ext \<Rightarrow> nat \<Rightarrow> (nat \<Rightarrow> ('z, unit) hprog) \<Rightarrow> nat \<Rightarrow> ('z, unit) hprog" where
  "release_body X l relp this =
     bindM (getsM (\<lambda>w. use_count (hnd w this))) (\<lambda>n.
       if n = 0 then undefM
       else if 1 < n then mod_hnd this (\<lambda>h. h\<lparr>use_count := n - 1\<rparr>)
       else seqM
         [mod_hnd this (\<lambda>h. h\<lparr>use_count := 0\<rparr>),
          tryM (whenM (\<lambda>w. SqlHandle_IsAllocated w this) (Free_body X l relp this)),
          bindM (getsM (\<lambda>w. m_pParentHandle (hnd w this))) (\<lambda>parent.
            case parent of None \<Rightarrow> skipM
            | Some p \<Rightarrow> thenM (mod_hnd this (\<lambda>h. h\<lparr>m_pParentHandle := None\<rparr>)) (relp p))])"

primrec SqlHandle_release :: "ext \<Rightarrow> nat \<Rightarrow> nat \<Rightarrow> ('z, unit) hprog" where
  "SqlHandle_release X 0 = release_body X 0 (\<lambda>p. skipM)"
| "SqlHandle_release X (Suc l) = release_body X (Suc l) (SqlHandle_release X l)"

fun parent_release :: "ext \<Rightarrow> nat \<Rightarrow> nat \<Rightarrow> ('z, unit) hprog" where
  "parent_release X 0 p = skipM"
| "parent_release X (Suc l) p = SqlHandle_release X l p"

definition SqlHandle_Free :: "ext \<Rightarrow> nat \<Rightarrow> nat \<Rightarrow> ('z, unit) hprog" where
  "SqlHandle_Free X l this = Free_body X l (parent_release X l) this"

text \<open>
  \<open>std::make_shared<SqlHandle>(pParent)\<close>: if the constructor throws, there is no object (and, the
  destructor of an object that was never constructed not being run, no \<open>Free\<close>).
\<close>

definition SqlHandle_make_shared :: "ext \<Rightarrow> nat \<Rightarrow> nat option \<Rightarrow> ('z, nat) hprog" where
  "SqlHandle_make_shared X l pParentHandle =
     bindM new_address (\<lambda>p. thenM (mod_hnd p (\<lambda>_. SqlHandle_init))
       (thenM (SqlHandle_AllocateWithParent X l p pParentHandle) (returnM p)))"

section \<open>ResetParams and UnbindColumns\<close>

abbreviation STMT :: nat where "STMT \<equiv> 2"

definition SqlHandle_ResetParams :: "ext \<Rightarrow> nat \<Rightarrow> nat \<Rightarrow> ('z, unit) hprog" where
  "SqlHandle_ResetParams X l this =
     thenM (exASSERT ''m_handle != SQL_NULL_HANDLE'' (\<lambda>w. m_handle (hnd w this) \<noteq> 0))
     (thenM (exASSERT ''tHandleType == SQL_HANDLE_STMT'' (\<lambda>w. tHandleType l = SQL_HANDLE_STMT))
     (bindM (getsM (\<lambda>w. m_handle (hnd w this))) (\<lambda>h.
      bindM (odbc X (SQLFreeStmt h SQL_RESET_PARAMS)) (\<lambda>r.
        thenM (THROW_IFN_SUCCEEDED X ''SQLFreeStmt'' (rc r) SQL_HANDLE_STMT h)
          (fire X m_resetParamsSignal (OnResetParams (SqlHandle_release X STMT) this) this)))))"

definition SqlHandle_UnbindColumns :: "ext \<Rightarrow> nat \<Rightarrow> nat \<Rightarrow> ('z, unit) hprog" where
  "SqlHandle_UnbindColumns X l this =
     thenM (exASSERT ''m_handle != SQL_NULL_HANDLE'' (\<lambda>w. m_handle (hnd w this) \<noteq> 0))
     (thenM (exASSERT ''tHandleType == SQL_HANDLE_STMT'' (\<lambda>w. tHandleType l = SQL_HANDLE_STMT))
     (bindM (getsM (\<lambda>w. m_handle (hnd w this))) (\<lambda>h.
      bindM (odbc X (SQLFreeStmt h SQL_UNBIND)) (\<lambda>r.
        thenM (THROW_IFN_SUCCEEDED X ''SQLFreeStmt'' (rc r) SQL_HANDLE_STMT h)
          (fire X m_unbindColumnsSignal (OnUnbindColumns (SqlHandle_release X STMT) this) this)))))"

section \<open>Descriptor handles\<close>

text \<open>
  The constructor of \<open>SqlDescHandle\<close>. The object is local to the function that creates it, frees
  nothing, and holds a copy of a pointer its creator holds too, so it is just the value of the
  descriptor handle.
\<close>

definition SqlDescHandle_new :: "ext \<Rightarrow> nat option \<Rightarrow> int \<Rightarrow> ('z, nat) hprog" where
  "SqlDescHandle_new X pStmtHandle type =
     (case pStmtHandle of
        None \<Rightarrow> throwM (AssertionException ''pStmtHandle != NULL'')
      | Some p \<Rightarrow>
          thenM (exASSERT ''pStmtHandle->IsAllocated()'' (\<lambda>w. SqlHandle_IsAllocated w p))
          (bindM (getsM (\<lambda>w. SqlHandle_GetHandle w p)) (\<lambda>h.
           bindM (odbc X (SQLGetStmtAttr h type)) (\<lambda>r.
             thenM (THROW_IFN_SUCCEEDED X ''SQLGetStmtAttr'' (rc r) SQL_HANDLE_STMT h)
               (returnM (nat (onum r)))))))"

definition SetDescriptionField :: "ext \<Rightarrow> nat \<Rightarrow> nat \<Rightarrow> int \<Rightarrow> sqlptr \<Rightarrow> ('z, unit) exprog" where
  "SetDescriptionField X hDesc recordNumber descriptionField val =
     thenM (exASSERT ''hDesc != SQL_NULL_HDESC'' (\<lambda>_. hDesc \<noteq> 0))
     (thenM (exASSERT ''recordNumber > 0'' (\<lambda>_. recordNumber > 0))
     (bindM (odbc X (SQLSetDescField hDesc recordNumber descriptionField val)) (\<lambda>r.
        THROW_IFN_SUCCEEDED X ''SQLSetDescField'' (rc r) SQL_HANDLE_DESC hDesc)))"

text \<open>The overload for a descriptor object, which asserts that it is allocated.\<close>

definition SetDescriptionField_desc ::
  "ext \<Rightarrow> nat \<Rightarrow> nat \<Rightarrow> int \<Rightarrow> sqlptr \<Rightarrow> ('z, unit) exprog" where
  "SetDescriptionField_desc X hDesc recordNumber descriptionField val =
     thenM (exASSERT ''hDesc.IsAllocated()'' (\<lambda>_. hDesc \<noteq> 0))
       (SetDescriptionField X hDesc recordNumber descriptionField val)"

section \<open>StatementCloser\<close>

datatype CloserMode = ThrowIfNotOpen | IgnoreNotOpen

definition CloseStmtHandle :: "ext \<Rightarrow> nat option \<Rightarrow> CloserMode \<Rightarrow> ('z, unit) hprog" where
  "CloseStmtHandle X pHStmt mode =
     (case pHStmt of
        None \<Rightarrow> throwM (AssertionException ''pHStmt'')
      | Some p \<Rightarrow>
          thenM (exASSERT ''pHStmt->IsAllocated()'' (\<lambda>w. SqlHandle_IsAllocated w p))
          (bindM (getsM (\<lambda>w. SqlHandle_GetHandle w p)) (\<lambda>h.
             if mode = IgnoreNotOpen
             then bindM (odbc X (SQLFreeStmt h SQL_CLOSE)) (\<lambda>r.
                    THROW_IFN_SUCCEEDED X ''SQLFreeStmt'' (rc r) SQL_HANDLE_STMT h)
             else bindM (odbc X (SQLCloseCursor h)) (\<lambda>r.
                    THROW_IFN_SUCCEEDED X ''SQLCloseCursor'' (rc r) SQL_HANDLE_STMT h))))"

text \<open>Constructor and destructor, and the scope of a local \<open>StatementCloser\<close>.\<close>

definition StatementCloser_new :: "ext \<Rightarrow> nat option \<Rightarrow> bool \<Rightarrow> ('z, unit) hprog" where
  "StatementCloser_new X pHStmt closeOnConstruction =
     (if closeOnConstruction
      then thenM (exASSERT ''m_pHStmt'' (\<lambda>_. pHStmt \<noteq> None))
           (thenM (exASSERT ''m_pHStmt->IsAllocated()'' (\<lambda>w. SqlHandle_IsAllocated w (the pHStmt)))
             (CloseStmtHandle X pHStmt IgnoreNotOpen))
      else skipM)"

definition StatementCloser_destroy :: "ext \<Rightarrow> nat option \<Rightarrow> bool \<Rightarrow> ('z, unit) hprog" where
  "StatementCloser_destroy X pHStmt closeOnDestruction = tryM
     (if closeOnDestruction
      then (case pHStmt of
              None \<Rightarrow> skipM
            | Some p \<Rightarrow>
                thenM (exASSERT ''m_pHStmt->IsAllocated()'' (\<lambda>w. SqlHandle_IsAllocated w p))
                  (CloseStmtHandle X pHStmt IgnoreNotOpen))
      else skipM)"

definition with_StatementCloser ::
  "ext \<Rightarrow> nat option \<Rightarrow> bool \<Rightarrow> bool \<Rightarrow> ('z, 'a) hprog \<Rightarrow> ('z, 'a) hprog" where
  "with_StatementCloser X pHStmt closeOnConstruction closeOnDestruction body =
     thenM (StatementCloser_new X pHStmt closeOnConstruction)
       (finallyM body (StatementCloser_destroy X pHStmt closeOnDestruction))"

section \<open>GetDataWrapper::GetData\<close>

text \<open>
  The result is what was written: the bytes and the indicator; \<open>*pIsNull\<close> is the indicator compared
  with \<open>SQL_NULL_DATA\<close>. The second overload reads a string of at most \<open>maxNrOfChars\<close> characters
  into a buffer with one more byte, and the string stops at the first NUL.
\<close>

definition GetData :: "ext \<Rightarrow> nat option \<Rightarrow> nat \<Rightarrow> int \<Rightarrow> int \<Rightarrow> ('z, reply \<times> bool) hprog" where
  "GetData X pHStmt colOrParamNr targetType bufferLen =
     (case pHStmt of
        None \<Rightarrow> throwM (AssertionException ''pHStmt'')
      | Some p \<Rightarrow>
          thenM (exASSERT ''pHStmt->IsAllocated()'' (\<lambda>w. SqlHandle_IsAllocated w p))
          (bindM (getsM (\<lambda>w. SqlHandle_GetHandle w p)) (\<lambda>h.
           bindM (odbc X (SQLGetData h colOrParamNr targetType bufferLen)) (\<lambda>r.
             thenM (THROW_IFN_SUCCEEDED X ''SQLGetData'' (rc r) SQL_HANDLE_STMT h)
               (returnM (r, oind r = SQL_NULL_DATA))))))"

definition c_string :: "string \<Rightarrow> string" where
  "c_string s = takeWhile (\<lambda>c. c \<noteq> CHR 0x00) s"

definition GetData_string :: "ext \<Rightarrow> nat option \<Rightarrow> nat \<Rightarrow> nat \<Rightarrow> ('z, string \<times> bool) hprog" where
  "GetData_string X pHStmt colOrParamNr maxNrOfChars =
     bindM (GetData X pHStmt colOrParamNr SQL_C_CHAR (int maxNrOfChars + 1)) (\<lambda>(r, isNull).
       returnM (if \<not> isNull then c_string (ostr r) else [], isNull))"

section \<open>ParameterDescription\<close>

record ParameterDescription =
  pd_sqlType :: int
  pd_charSize :: int
  pd_decimalDigits :: int
  pd_nullable :: int

definition ParameterDescription_default :: ParameterDescription where
  "ParameterDescription_default =
     \<lparr>pd_sqlType = SQL_UNKNOWN_TYPE, pd_charSize = 0, pd_decimalDigits = 0,
      pd_nullable = SQL_NULLABLE_UNKNOWN\<rparr>"

definition ParameterDescription_of :: "int \<Rightarrow> int \<Rightarrow> int \<Rightarrow> int \<Rightarrow> ParameterDescription" where
  "ParameterDescription_of paramSqlType paramCharSize paramDecimalDigits paramNullable =
     \<lparr>pd_sqlType = paramSqlType, pd_charSize = paramCharSize,
      pd_decimalDigits = paramDecimalDigits, pd_nullable = paramNullable\<rparr>"

definition ParameterDescription_query ::
  "ext \<Rightarrow> nat option \<Rightarrow> nat \<Rightarrow> ('z, ParameterDescription) hprog" where
  "ParameterDescription_query X pStmt paramNr =
     (case pStmt of
        None \<Rightarrow> throwM (AssertionException ''pStmt'')
      | Some p \<Rightarrow>
          thenM (exASSERT ''pStmt->IsAllocated()'' (\<lambda>w. SqlHandle_IsAllocated w p))
          (thenM (exASSERT ''paramNr >= 1'' (\<lambda>_. paramNr \<ge> 1))
          (bindM (getsM (\<lambda>w. SqlHandle_GetHandle w p)) (\<lambda>h.
           bindM (odbc X (SQLDescribeParam h paramNr)) (\<lambda>r.
             thenM (THROW_IFN_SUCCESS X ''SQLDescribeParam'' (rc r) SQL_HANDLE_STMT h)
               (case odesc r of (t, sz, digits, nullable) \<Rightarrow>
                  returnM (ParameterDescription_of t sz digits nullable)))))))"

section \<open>Notification: every connected buffer forgets the handle\<close>

text \<open>
  The two signals and the two maps of a buffer work alike. The locale states what they share: the
  connections of one signal (\<open>sig\<close>), the buffer's map (\<open>con\<close>), their update functions, and the
  slot, given by what it does to a state.
\<close>

locale notification =
  fixes sig :: "SqlHandle \<Rightarrow> (nat \<times> nat) list"
    and sig_set :: "(nat \<times> nat) list \<Rightarrow> SqlHandle \<Rightarrow> SqlHandle"
    and con :: "ColumnBindable \<Rightarrow> (nat \<times> nat \<times> nat) list"
    and con_set :: "(nat \<times> nat \<times> nat) list \<Rightarrow> ColumnBindable \<Rightarrow> ColumnBindable"
    and slot :: "(nat \<Rightarrow> ('z, unit) hprog) \<Rightarrow> nat \<Rightarrow> nat \<Rightarrow> ('z, unit) hprog"
  assumes sig_set: "sig (sig_set xs h) = xs"
    and sig_set_other: "m_handle (sig_set xs h) = m_handle h" "use_count (sig_set xs h) = use_count h"
    and sig_count: "sig (h\<lparr>use_count := n\<rparr>) = sig h"
    and con_set: "con (con_set ys e) = ys"
    and slot_exec: "slot rel stmt b w =
      (case map_of (con (bnd w b)) (m_handle (hnd w stmt)) of
         None \<Rightarrow> (Ok (), w)
       | Some (c, q) \<Rightarrow> rel q
           (w\<lparr>hnd := (hnd w)(q := sig_set (filter (\<lambda>s. fst s \<noteq> c) (sig (hnd w q))) (hnd w q)),
              bnd := (bnd w)(b := con_set (map_del (m_handle (hnd w stmt)) (con (bnd w b))) (bnd w b))\<rparr>))"
begin

text \<open>
  \<open>bound w p\<close>: the handle \<open>p\<close> is allocated and its connections and the maps of the connected
  buffers agree; the buffers share the ownership of the handle, and someone else owns it too.
\<close>

definition bound :: "'z hworld_scheme \<Rightarrow> nat \<Rightarrow> bool" where
  "bound w p \<longleftrightarrow>
     m_handle (hnd w p) \<noteq> 0 \<and> length (sig (hnd w p)) < use_count (hnd w p) \<and>
     distinct (map fst (sig (hnd w p))) \<and> distinct (map snd (sig (hnd w p))) \<and>
     (\<forall>(c, b) \<in> set (sig (hnd w p)).
        map_inv (con (bnd w b)) \<and> map_of (con (bnd w b)) (m_handle (hnd w p)) = Some (c, p))"

definition slots_loop :: "ext \<Rightarrow> nat \<Rightarrow> nat list \<Rightarrow> ('z, unit) hprog" where
  "slots_loop X p cs =
     forM cs (\<lambda>c. bindM (getsM (\<lambda>w. map_of (sig (hnd w p)) c)) (\<lambda>s.
       case s of None \<Rightarrow> skipM | Some b \<Rightarrow> slot (SqlHandle_release X STMT) p b))"

text \<open>What the loop leaves: nothing connected, one owner less per buffer, no map entry.\<close>

definition forgotten :: "'z hworld_scheme \<Rightarrow> nat \<Rightarrow> 'z hworld_scheme \<Rightarrow> bool" where
  "forgotten w p w' \<longleftrightarrow>
     sig (hnd w' p) = [] \<and> m_handle (hnd w' p) = m_handle (hnd w p) \<and>
     use_count (hnd w' p) = use_count (hnd w p) - length (sig (hnd w p)) \<and>
     calls w' = calls w \<and> (\<forall>q. q \<noteq> p \<longrightarrow> hnd w' q = hnd w q) \<and>
     (\<forall>b. bnd w' b =
        (if b \<in> snd ` set (sig (hnd w p))
         then con_set (map_del (m_handle (hnd w p)) (con (bnd w b))) (bnd w b) else bnd w b))"

definition after_slot :: "'z hworld_scheme \<Rightarrow> nat \<Rightarrow> nat \<Rightarrow> nat \<Rightarrow> 'z hworld_scheme" where
  "after_slot w p c b =
     w\<lparr>hnd := (hnd w)(p := (sig_set (filter (\<lambda>s. fst s \<noteq> c) (sig (hnd w p))) (hnd w p))
                              \<lparr>use_count := use_count (hnd w p) - 1\<rparr>),
       bnd := (bnd w)(b := con_set (map_del (m_handle (hnd w p)) (con (bnd w b))) (bnd w b))\<rparr>"

lemma slot_bound:
  assumes "bound w p" and "(c, b) \<in> set (sig (hnd w p))"
  shows "slot (SqlHandle_release X STMT) p b w = (Ok (), after_slot w p c b)"
proof -
  have "sig (hnd w p) \<noteq> []" using assms(2) by auto
  then have "1 < use_count (hnd w p)"
    using assms(1) by (cases "sig (hnd w p)") (auto simp: bound_def)
  moreover have "map_of (con (bnd w b)) (m_handle (hnd w p)) = Some (c, p)"
    using assms by (auto simp: bound_def)
  ultimately show ?thesis
    by (simp add: slot_exec numeral_2_eq_2 release_body_def sig_set_other after_slot_def)
qed

lemma filter_length:
  "distinct (map fst xs) \<Longrightarrow> (c, b) \<in> set xs \<Longrightarrow>
     length (filter (\<lambda>s. fst s \<noteq> c) xs) = length xs - 1"
proof (induction xs)
  case (Cons x xs)
  show ?case
  proof (cases "fst x = c")
    case True
    with Cons.prems have "filter (\<lambda>s. fst s \<noteq> c) xs = xs" by (auto simp: filter_id_conv rev_image_eqI)
    with True show ?thesis by simp
  next
    case False
    with Cons have "length (filter (\<lambda>s. fst s \<noteq> c) xs) = length xs - 1" by auto
    moreover from False Cons.prems have "xs \<noteq> []" by auto
    ultimately show ?thesis using False by (cases xs) auto
  qed
qed simp


lemma after_slot_simps:
  "m_handle (hnd (after_slot w p c b) p) = m_handle (hnd w p)"
  "use_count (hnd (after_slot w p c b) p) = use_count (hnd w p) - 1"
  "sig (hnd (after_slot w p c b) p) = filter (\<lambda>s. fst s \<noteq> c) (sig (hnd w p))"
  "q \<noteq> p \<Longrightarrow> hnd (after_slot w p c b) q = hnd w q"
  "b' \<noteq> b \<Longrightarrow> bnd (after_slot w p c b) b' = bnd w b'"
  "bnd (after_slot w p c b) b = con_set (map_del (m_handle (hnd w p)) (con (bnd w b))) (bnd w b)"
  "calls (after_slot w p c b) = calls w"
  by (simp_all add: after_slot_def sig_set sig_set_other sig_count con_set)

lemma bound_after_slot:
  assumes "bound w p" and "(c, b) \<in> set (sig (hnd w p))"
  shows "bound (after_slot w p c b) p"
proof -
  let ?xs = "filter (\<lambda>s. fst s \<noteq> c) (sig (hnd w p))"
  have d: "distinct (map fst (sig (hnd w p)))" "distinct (map snd (sig (hnd w p)))"
    using assms(1) by (auto simp: bound_def)
  have "sig (hnd w p) \<noteq> []" using assms(2) by auto
  then have "length ?xs < use_count (hnd w p) - 1"
    using assms(1) filter_length[OF d(1) assms(2)]
    by (cases "sig (hnd w p)") (auto simp: bound_def)
  moreover have "b' \<noteq> b" if "(c', b') \<in> set ?xs" for c' b'
    using that assms(2) d(2) by (auto simp: distinct_map dest: inj_onD[of snd _ "(c, b)" "(c', b)"])
  ultimately show ?thesis
    using assms(1) d
    by (auto simp: bound_def after_slot_simps distinct_map_filter)
qed

lemma slots_loop_forgets:
  "bound w p \<Longrightarrow> distinct cs \<Longrightarrow> set cs = fst ` set (sig (hnd w p)) \<Longrightarrow>
     \<exists>w'. slots_loop X p cs w = (Ok (), w') \<and> forgotten w p w'"
proof (induction cs arbitrary: w)
  case Nil
  then show ?case by (auto simp: slots_loop_def forgotten_def)
next
  case (Cons c cs)
  then have "c \<in> fst ` set (sig (hnd w p))" by (metis list.set_intros(1))
  then obtain b where cb: "(c, b) \<in> set (sig (hnd w p))" by auto
  have d: "distinct (map fst (sig (hnd w p)))" "distinct (map snd (sig (hnd w p)))"
    using Cons.prems(1) by (auto simp: bound_def)
  let ?w = "after_slot w p c b"
  have m: "map_of (sig (hnd w p)) c = Some b" using cb d(1) by simp
  have step: "slots_loop X p (c # cs) w = slots_loop X p cs ?w"
    using m slot_bound[OF Cons.prems(1) cb] by (simp add: slots_loop_def bindM_exec thenM_exec)
  have "set cs = fst ` set (sig (hnd ?w p))"
    using Cons.prems(2,3) by (auto simp: after_slot_simps image_iff)
  with Cons.IH[OF bound_after_slot[OF Cons.prems(1) cb]] Cons.prems(2)
  obtain w' where w': "slots_loop X p cs ?w = (Ok (), w')" "forgotten ?w p w'" by auto
  have len: "length (filter (\<lambda>s. fst s \<noteq> c) (sig (hnd w p))) = length (sig (hnd w p)) - 1"
    using filter_length[OF d(1) cb] .
  have snds: "snd ` set (sig (hnd w p)) = insert b (snd ` set (filter (\<lambda>s. fst s \<noteq> c) (sig (hnd w p))))"
  proof -
    have "s = (c, b)" if "s \<in> set (sig (hnd w p))" "fst s = c" for s
      using that cb d(1) by (metis eq_key_imp_eq_value prod.collapse)
    then have "set (sig (hnd w p)) = insert (c, b) (set (filter (\<lambda>s. fst s \<noteq> c) (sig (hnd w p))))"
      using cb unfolding set_filter by blast
    from arg_cong[OF this, of "image snd"] show ?thesis unfolding image_insert snd_conv .
  qed
  have nb: "b \<notin> snd ` set (filter (\<lambda>s. fst s \<noteq> c) (sig (hnd w p)))"
    using cb d(2) unfolding distinct_map inj_on_def by fastforce
  have pos: "0 < length (sig (hnd w p))" using cb by (cases "sig (hnd w p)") auto
  have count: "use_count (hnd w' p) = use_count (hnd w p) - length (sig (hnd w p))"
    using w'(2) pos unfolding forgotten_def after_slot_simps len by linarith
  have bufs: "bnd w' b' =
      (if b' \<in> snd ` set (sig (hnd w p))
       then con_set (map_del (m_handle (hnd w p)) (con (bnd w b'))) (bnd w b') else bnd w b')" for b'
    using w'(2) nb unfolding snds forgotten_def
    by (cases "b' = b") (simp_all add: after_slot_simps del: set_filter)
  have "forgotten w p w'"
    using w'(2) count bufs by (simp add: forgotten_def after_slot_simps)
  with step w'(1) show ?case by auto
qed

lemma forgotten_maps:
  assumes "bound w p" and "forgotten w p w'" and "(c, b) \<in> set (sig (hnd w p))"
  shows "map_of (con (bnd w' b)) = (map_of (con (bnd w b)))(m_handle (hnd w p) := None)"
proof -
  have "map_inv (con (bnd w b))" using assms(1,3) by (auto simp: bound_def)
  moreover have "b \<in> snd ` set (sig (hnd w p))" using assms(3) by force
  ultimately show ?thesis using assms(2) by (simp add: forgotten_def con_set)
qed

lemma fire_forgets:
  assumes "signal_ok X" and "bound w p"
  shows "\<exists>w'. fire X sig (slot (SqlHandle_release X STMT) p) p w = (Ok (), w') \<and> forgotten w p w'"
proof -
  let ?cs = "signal_order X (map fst (sig (hnd w p)))"
  have "distinct ?cs" and "set ?cs = fst ` set (sig (hnd w p))"
    using assms by (auto simp: signal_ok_def bound_def)
  with slots_loop_forgets[OF assms(2)] show ?thesis
    by (simp add: fire_def bindM_exec slots_loop_def)
qed

lemma fire_unknown:
  assumes "\<forall>(c, b) \<in> set (sig (hnd w p)). map_of (con (bnd w b)) (m_handle (hnd w p)) = None"
  shows "fire X sig (slot rel p) p w = (Ok (), w)"
proof -
  have "forM cs (\<lambda>c. bindM (getsM (\<lambda>w. map_of (sig (hnd w p)) c)) (\<lambda>s.
      case s of None \<Rightarrow> skipM | Some b \<Rightarrow> slot rel p b)) w = (Ok (), w)" for cs
  proof (induction cs)
    case (Cons c cs)
    show ?case
    proof (cases "map_of (sig (hnd w p)) c")
      case (Some b)
      then have "(c, b) \<in> set (sig (hnd w p))" by (rule map_of_SomeD)
      then have "map_of (con (bnd w b)) (m_handle (hnd w p)) = None" using assms by auto
      then show ?thesis using Some Cons by (simp add: slot_exec thenM_exec)
    qed (use Cons in \<open>simp add: thenM_exec\<close>)
  qed simp
  then show ?thesis by (simp add: fire_def)
qed

end

interpretation reset: notification m_resetParamsSignal
  "\<lambda>xs. m_resetParamsSignal_update (\<lambda>_. xs)" m_resetParamsConnections
  "\<lambda>ys. m_resetParamsConnections_update (\<lambda>_. ys)" OnResetParams
  by unfold_locales
    (auto simp: OnResetParams_def disconnect_reset_def bindM_exec thenM_exec SqlHandle_GetHandle_def
       split: option.split res.split prod.split)

interpretation unbind: notification m_unbindColumnsSignal
  "\<lambda>xs. m_unbindColumnsSignal_update (\<lambda>_. xs)" m_unbindColumnsConnections
  "\<lambda>ys. m_unbindColumnsConnections_update (\<lambda>_. ys)" OnUnbindColumns
  by unfold_locales
    (auto simp: OnUnbindColumns_def disconnect_unbind_def bindM_exec thenM_exec SqlHandle_GetHandle_def
       split: option.split res.split prod.split)

section \<open>Frames of the operations on handles\<close>

text \<open>
  Whatever reads neither the calls, nor the two heaps, nor the address counter survives every
  operation of this theory; the components above keep their objects in other fields.
\<close>

definition above :: "('z hworld_scheme \<Rightarrow> 'b) \<Rightarrow> bool" where
  "above f \<longleftrightarrow>
     (\<forall>w cs. f (w\<lparr>calls := cs\<rparr>) = f w) \<and> (\<forall>w h. f (w\<lparr>hnd := h\<rparr>) = f w) \<and>
     (\<forall>w b. f (w\<lparr>bnd := b\<rparr>) = f w) \<and> (\<forall>w n. f (w\<lparr>fresh := n\<rparr>) = f w)"

lemma above_prims [pres]:
  "above f \<Longrightarrow> preserves f (odbc X c)"
  "above f \<Longrightarrow> preserves f (mod_hnd p g)"
  "above f \<Longrightarrow> preserves f (mod_bnd b k)"
  "above f \<Longrightarrow> preserves f new_address"
  by (simp_all add: above_def preserves_def)

lemma above_slots [pres]:
  "above f \<Longrightarrow> (\<And>q. preserves f (rel q)) \<Longrightarrow> preserves f (OnResetParams rel p b)"
  "above f \<Longrightarrow> (\<And>q. preserves f (rel q)) \<Longrightarrow> preserves f (OnUnbindColumns rel p b)"
  unfolding OnResetParams_def OnUnbindColumns_def disconnect_reset_def disconnect_unbind_def
  by (intro pres; assumption)+

lemma above_fire [pres]: "(\<And>b. preserves f (s b)) \<Longrightarrow> preserves f (fire X sig s p)"
  unfolding fire_def by (intro pres)

lemma above_Free_body [pres]:
  "above f \<Longrightarrow> (\<And>q. preserves f (relp q)) \<Longrightarrow> preserves f (Free_body X l relp p)"
  unfolding Free_body_def Let_def by (intro pres; assumption)

lemma above_release_body [pres]:
  "above f \<Longrightarrow> (\<And>q. preserves f (relp q)) \<Longrightarrow> preserves f (release_body X l relp p)"
  unfolding release_body_def by (intro pres; assumption)

lemma above_release [pres]: "above f \<Longrightarrow> preserves f (SqlHandle_release X l p)"
proof (induction l arbitrary: p)
  case 0
  then show ?case unfolding SqlHandle_release.simps by (intro pres)
next
  case (Suc l)
  then show ?case unfolding SqlHandle_release.simps by (intro pres)
qed

lemma above_parent_release [pres]: "above f \<Longrightarrow> preserves f (parent_release X l p)"
  by (cases l) (simp_all add: pres)

lemma above_handle_ops [pres]:
  assumes "above f"
  shows "preserves f (SqlHandle_Free X l p)"
    and "preserves f (SqlHandle_Allocate X l p)"
    and "preserves f (shared_copy p)"
    and "preserves f (SqlHandle_AllocateWithParent X l p v)"
    and "preserves f (SqlHandle_ResetParams X l p)"
    and "preserves f (SqlHandle_UnbindColumns X l p)"
    and "preserves f (ConnectResetParamsSignal p b)"
    and "preserves f (ConnectUnbindColumnsSignal p b)"
    and "preserves f (SqlDescHandle_new X v t)"
    and "preserves f (SetDescriptionField X d r fld val)"
    and "preserves f (CloseStmtHandle X v m)"
    and "preserves f (GetData X v n t k)"
    and "preserves f (ParameterDescription_query X v n)"
  unfolding SqlHandle_Free_def SqlHandle_Allocate_def shared_copy_def
    SqlHandle_AllocateWithParent_def SqlHandle_ResetParams_def
    SqlHandle_UnbindColumns_def ConnectResetParamsSignal_def ConnectUnbindColumnsSignal_def
    SqlDescHandle_new_def SetDescriptionField_def CloseStmtHandle_def GetData_def
    ParameterDescription_query_def
  by (intro pres assms)+

lemma above_handle_ops2 [pres]:
  assumes "above f"
  shows "preserves f (SqlHandle_make_shared X l v)"
    and "preserves f (SetDescriptionField_desc X d r fld val)"
    and "preserves f (StatementCloser_new X v c)"
    and "preserves f (StatementCloser_destroy X v c)"
    and "preserves f (GetData_string X v n j)"
  unfolding SqlHandle_make_shared_def SetDescriptionField_desc_def StatementCloser_new_def
    StatementCloser_destroy_def GetData_string_def
  by (intro pres assms)+

lemma above_with_StatementCloser [pres]:
  "above f \<Longrightarrow> preserves f body \<Longrightarrow> preserves f (with_StatementCloser X v c d body)"
  unfolding with_StatementCloser_def by (intro pres; assumption)

section \<open>What the operations promise\<close>

lemma release_body_nothrow: "(\<And>q. nothrow (relp q)) \<Longrightarrow> nothrow (release_body X l relp p)"
  unfolding release_body_def mod_hnd_def by (intro quiet)

text \<open>
  Letting go of a handle never throws, whatever the driver answers and however many parents
  are freed with it: a destructor may run while another exception is on its way.
\<close>

theorem release_never_throws:
  fixes w :: "'z hworld_scheme"
  shows "fst (SqlHandle_release X l p w) \<noteq> Exn e"
proof -
  have "nothrow (SqlHandle_release X l p :: ('z, unit) hprog)" for p
    by (induction l arbitrary: p) (auto intro!: release_body_nothrow quiet)
  then show ?thesis by (simp add: nothrow_def)
qed

definition params_bound :: "'z hworld_scheme \<Rightarrow> nat \<Rightarrow> bool" where
  "params_bound w p = reset.bound w p"

definition columns_bound :: "'z hworld_scheme \<Rightarrow> nat \<Rightarrow> bool" where
  "columns_bound w p = unbind.bound w p"

lemma ResetParams_runs:
  assumes "signal_ok X" and "reset.bound w p"
    and "SQL_SUCCEEDED (rc (driver X (SQLFreeStmt (m_handle (hnd w p)) SQL_RESET_PARAMS # calls w)))"
  shows "\<exists>w'. SqlHandle_ResetParams X STMT p w = (Ok (), w') \<and>
     calls w' = SQLFreeStmt (m_handle (hnd w p)) SQL_RESET_PARAMS # calls w \<and>
     reset.forgotten (w\<lparr>calls := calls w'\<rparr>) p w'"
proof -
  let ?w = "w\<lparr>calls := SQLFreeStmt (m_handle (hnd w p)) SQL_RESET_PARAMS # calls w\<rparr>"
  have b: "reset.bound ?w p" using assms(2) by (simp add: reset.bound_def)
  from reset.fire_forgets[OF assms(1) this] obtain w' where
    w': "fire X m_resetParamsSignal (OnResetParams (SqlHandle_release X STMT) p) p ?w = (Ok (), w')"
    and f: "reset.forgotten ?w p w'" by blast
  have "SqlHandle_ResetParams X STMT p w = (Ok (), w')"
    using assms(3) b w' by (simp add: SqlHandle_ResetParams_def reset.bound_def)
  then show ?thesis using f by (simp add: reset.forgotten_def)
qed

text \<open>
  C10. \<open>ResetParams\<close> on a statement with bound parameters: one call of the driver, and if it
  succeeds the signal has no connection left, every buffer that was bound has no entry for the
  handle any more and keeps all its others, and the handle has lost one owner per buffer.
\<close>

theorem ResetParams_forgets:
  assumes "signal_ok X" and "params_bound w p"
    and "SQL_SUCCEEDED (rc (driver X (SQLFreeStmt (m_handle (hnd w p)) SQL_RESET_PARAMS # calls w)))"
  shows "\<exists>w'. SqlHandle_ResetParams X STMT p w = (Ok (), w') \<and>
     calls w' = SQLFreeStmt (m_handle (hnd w p)) SQL_RESET_PARAMS # calls w \<and>
     m_resetParamsSignal (hnd w' p) = [] \<and> m_handle (hnd w' p) = m_handle (hnd w p) \<and>
     use_count (hnd w' p) + length (m_resetParamsSignal (hnd w p)) = use_count (hnd w p) \<and>
     (\<forall>(c, b) \<in> set (m_resetParamsSignal (hnd w p)).
        map_of (m_resetParamsConnections (bnd w' b)) =
          (map_of (m_resetParamsConnections (bnd w b)))(m_handle (hnd w p) := None))"
proof -
  have b: "reset.bound w p" using assms(2) by (simp add: params_bound_def)
  from ResetParams_runs[OF assms(1) b assms(3)] obtain w' where
    w': "SqlHandle_ResetParams X STMT p w = (Ok (), w')"
    and c: "calls w' = SQLFreeStmt (m_handle (hnd w p)) SQL_RESET_PARAMS # calls w"
    and f: "reset.forgotten (w\<lparr>calls := calls w'\<rparr>) p w'" by auto
  have b': "reset.bound (w\<lparr>calls := calls w'\<rparr>) p"
    using b by (simp add: reset.bound_def)
  have "use_count (hnd w' p) + length (m_resetParamsSignal (hnd w p)) = use_count (hnd w p)"
    using f b by (simp add: reset.forgotten_def reset.bound_def)
  moreover have "\<forall>(c, b') \<in> set (m_resetParamsSignal (hnd w p)).
      map_of (m_resetParamsConnections (bnd w' b')) =
        (map_of (m_resetParamsConnections (bnd w b')))(m_handle (hnd w p) := None)"
    using reset.forgotten_maps[OF b' f] by auto
  ultimately show ?thesis
    using f w' c by (simp add: reset.forgotten_def)
qed

text \<open>A small heap: a statement (address 1, \<open>SQLHSTMT\<close> 7) of a connection, with a parameter bound.\<close>

definition small_heap :: hworld where
  "small_heap =
     \<lparr>calls = [],
      hnd = (\<lambda>_. SqlHandle_init)
        (1 := \<lparr>m_handle = 7, m_pParentHandle = Some 2, m_resetParamsSignal = [(5, 9)],
               m_unbindColumnsSignal = [], use_count = 2\<rparr>,
         2 := SqlHandle_init\<lparr>m_handle := 3, use_count := 2\<rparr>),
      bnd = (\<lambda>_. \<lparr>m_unbindColumnsConnections = [], m_resetParamsConnections = []\<rparr>)
        (9 := \<lparr>m_unbindColumnsConnections = [], m_resetParamsConnections = [(7, (5, 1))]\<rparr>),
      fresh = 10\<rparr>"

text \<open>The same for the columns bound to the result set.\<close>

lemma UnbindColumns_forgets:
  assumes "signal_ok X" and "columns_bound w p"
    and "SQL_SUCCEEDED (rc (driver X (SQLFreeStmt (m_handle (hnd w p)) SQL_UNBIND # calls w)))"
  shows "\<exists>w'. SqlHandle_UnbindColumns X STMT p w = (Ok (), w') \<and>
     calls w' = SQLFreeStmt (m_handle (hnd w p)) SQL_UNBIND # calls w \<and>
     m_unbindColumnsSignal (hnd w' p) = [] \<and> m_handle (hnd w' p) = m_handle (hnd w p)"
proof -
  let ?w = "w\<lparr>calls := SQLFreeStmt (m_handle (hnd w p)) SQL_UNBIND # calls w\<rparr>"
  have b: "unbind.bound ?w p"
    using assms(2) by (simp add: columns_bound_def unbind.bound_def)
  from unbind.fire_forgets[OF assms(1) this] obtain w' where
    w': "fire X m_unbindColumnsSignal (OnUnbindColumns (SqlHandle_release X STMT) p) p ?w = (Ok (), w')"
    and f: "unbind.forgotten ?w p w'" by blast
  have "SqlHandle_UnbindColumns X STMT p w = (Ok (), w')"
    using assms(3) b w' by (simp add: SqlHandle_UnbindColumns_def unbind.bound_def)
  with f show ?thesis by (simp add: unbind.forgotten_def)
qed

text \<open>If the driver refuses, both throw and change nothing.\<close>

lemma ResetParams_fails:
  assumes "m_handle (hnd w p) \<noteq> 0"
    and "\<not> SQL_SUCCEEDED (rc (driver X (SQLFreeStmt (m_handle (hnd w p)) SQL_RESET_PARAMS # calls w)))"
  shows "\<exists>e. SqlHandle_ResetParams X STMT p w =
     (Exn e, w\<lparr>calls := SQLFreeStmt (m_handle (hnd w p)) SQL_RESET_PARAMS # calls w\<rparr>)"
  using assms by (simp add: SqlHandle_ResetParams_def)

lemma UnbindColumns_fails:
  assumes "m_handle (hnd w p) \<noteq> 0"
    and "\<not> SQL_SUCCEEDED (rc (driver X (SQLFreeStmt (m_handle (hnd w p)) SQL_UNBIND # calls w)))"
  shows "\<exists>e. SqlHandle_UnbindColumns X STMT p w =
     (Exn e, w\<lparr>calls := SQLFreeStmt (m_handle (hnd w p)) SQL_UNBIND # calls w\<rparr>)"
  using assms by (simp add: SqlHandle_UnbindColumns_def)

theorem ResetParams_forgets_witness:
  "\<exists>w'. SqlHandle_ResetParams (ref_ext good_driver) STMT 1 small_heap = (Ok (), w') \<and>
     m_resetParamsSignal (hnd w' 1) = [] \<and> map_of (m_resetParamsConnections (bnd w' 9)) 7 = None"
  using ResetParams_forgets[of "ref_ext good_driver" small_heap 1]
  by (auto simp: params_bound_def reset.bound_def small_heap_def map_inv_def)

text \<open>
  C36. \<open>Free\<close> when the driver frees the handle: the handle is \<open>SQL_NULL_HANDLE\<close>, the parent has lost
  this owner, the driver saw one call. The two signals fire only now, with a handle that is already
  null, so no buffer finds it: the connections and every buffer's entry for the old handle stay.
\<close>

theorem Free_success:
  assumes "m_handle (hnd w p) \<noteq> 0"
    and "rc (driver X (SQLFreeHandle (tHandleType (Suc l)) (m_handle (hnd w p)) # calls w))
           \<notin> {SQL_ERROR, SQL_INVALID_HANDLE}"
    and "m_pParentHandle (hnd w p) = Some q" and "q \<noteq> p" and "1 < use_count (hnd w q)"
    and "\<forall>(c, b) \<in> set (m_resetParamsSignal (hnd w p)). map_of (m_resetParamsConnections (bnd w b)) 0 = None"
    and "\<forall>(c, b) \<in> set (m_unbindColumnsSignal (hnd w p)). map_of (m_unbindColumnsConnections (bnd w b)) 0 = None"
  shows "SqlHandle_Free X (Suc l) p w =
     (Ok (), w\<lparr>calls := SQLFreeHandle (tHandleType (Suc l)) (m_handle (hnd w p)) # calls w,
               hnd := (hnd w)(p := (hnd w p)\<lparr>m_handle := 0, m_pParentHandle := None\<rparr>,
                              q := (hnd w q)\<lparr>use_count := use_count (hnd w q) - 1\<rparr>)\<rparr>)"
proof -
  let ?w = "w\<lparr>calls := SQLFreeHandle (tHandleType (Suc l)) (m_handle (hnd w p)) # calls w,
               hnd := (hnd w)(p := (hnd w p)\<lparr>m_handle := 0, m_pParentHandle := None\<rparr>,
                              q := (hnd w q)\<lparr>use_count := use_count (hnd w q) - 1\<rparr>)\<rparr>"
  have rel: "SqlHandle_release X l q s =
      (Ok (), s\<lparr>hnd := (hnd s)(q := (hnd s q)\<lparr>use_count := use_count (hnd s q) - 1\<rparr>)\<rparr>)"
    if "1 < use_count (hnd s q)" for s :: "'a hworld_scheme"
    using that by (cases l) (simp_all add: release_body_def)
  have f1: "fire X m_resetParamsSignal (OnResetParams (\<lambda>q. undefM) p) p ?w = (Ok (), ?w)"
    by (rule reset.fire_unknown) (use assms(4,6) in auto)
  have f2: "fire X m_unbindColumnsSignal (OnUnbindColumns (\<lambda>q. undefM) p) p ?w = (Ok (), ?w)"
    by (rule unbind.fire_unknown) (use assms(4,7) in auto)
  show ?thesis
    using assms(1-5) f1 f2
    by (simp add: SqlHandle_Free_def Free_body_def Let_def rel fun_upd_twist[of p q] del: tHandleType_simps)
qed

theorem Free_success_witness:
  "SqlHandle_Free (ref_ext good_driver) (Suc 1) 1 small_heap =
     (Ok (), small_heap\<lparr>calls := [SQLFreeHandle (tHandleType (Suc 1)) 7],
        hnd := (hnd small_heap)(1 := (hnd small_heap 1)\<lparr>m_handle := 0, m_pParentHandle := None\<rparr>,
                              2 := (hnd small_heap 2)\<lparr>use_count := 1\<rparr>)\<rparr>)"
  using Free_success[of small_heap 1 "ref_ext good_driver" 1 2]
  by (simp add: small_heap_def del: tHandleType_simps)

text \<open>
  \<open>Free\<close> when the driver does not free it. \<open>SQL_ERROR\<close>: the exception carries that code and the
  handle is untouched. \<open>SQL_INVALID_HANDLE\<close>: the handle and the parent are dropped all the same, and
  the exception, made without a handle, reports the code 0. A handle that is null: an assertion
  and no call.
\<close>

theorem Free_failure:
  fixes w :: "'z hworld_scheme"
  shows "(let h = m_handle (hnd w p); r = rc (driver X (SQLFreeHandle (tHandleType l) h # calls w));
        (res, w') = SqlHandle_Free X l p w
    in (h = 0 \<longrightarrow> (\<exists>t. res = Exn (AssertionException t)) \<and> w' = w) \<and>
       (h \<noteq> 0 \<and> r = SQL_ERROR \<longrightarrow> (\<exists>es. res = Exn (SqlResultException ''SQLFreeHandle'' SQL_ERROR es)) \<and>
          w' = w\<lparr>calls := SQLFreeHandle (tHandleType l) h # calls w\<rparr>) \<and>
       (h \<noteq> 0 \<and> r = SQL_INVALID_HANDLE \<and> m_pParentHandle (hnd w p) = None \<longrightarrow>
          res = Exn (SqlResultException ''SQLFreeHandle'' 0 []) \<and>
          w' = w\<lparr>calls := SQLFreeHandle (tHandleType l) h # calls w,
                 hnd := (hnd w)(p := (hnd w p)\<lparr>m_handle := 0, m_pParentHandle := None\<rparr>)\<rparr>))"
  by (auto simp: Let_def SqlHandle_Free_def Free_body_def SqlResultException_noHandle_def
      split: prod.split)

theorem Free_failure_witness:
  "fst (SqlHandle_Free (ref_ext (\<lambda>_. reply_rc SQL_INVALID_HANDLE)) 0 2 small_heap) =
     Exn (SqlResultException ''SQLFreeHandle'' 0 [])"
  using Free_failure[of small_heap 2 "ref_ext (\<lambda>_. reply_rc SQL_INVALID_HANDLE)" 0]
  by (simp add: Let_def small_heap_def SqlHandle_init_def reply_rc_def split: prod.splits)

text \<open>Two handles of the same type are never ordered by \<open>operator<\<close>, whatever their values.\<close>

lemma SqlHandle_less_same_type: "\<not> SqlHandle_less (l, h) (l, h')"
  by (simp add: SqlHandle_less_def)

text \<open>
  C5. Letting go of the last pointer to a statement frees the whole chain it kept alive, child
  before parent: statement, connection, environment, each exactly once.
\<close>

definition last_owner :: "'z hworld_scheme \<Rightarrow> nat \<Rightarrow> nat option \<Rightarrow> bool" where
  "last_owner w p parent \<longleftrightarrow>
     use_count (hnd w p) = 1 \<and> m_handle (hnd w p) \<noteq> 0 \<and> m_pParentHandle (hnd w p) = parent \<and>
     m_resetParamsSignal (hnd w p) = [] \<and> m_unbindColumnsSignal (hnd w p) = []"

theorem release_frees_chain:
  assumes "last_owner w p (Some q)" and "last_owner w q (Some e)" and "last_owner w e None"
    and "distinct [p, q, e]" and "\<And>cs. rc (driver X cs) = SQL_SUCCESS"
  shows "\<exists>w'. SqlHandle_release X STMT p w = (Ok (), w') \<and>
     calls w' = [SQLFreeHandle SQL_HANDLE_ENV (m_handle (hnd w e)),
                 SQLFreeHandle SQL_HANDLE_DBC (m_handle (hnd w q)),
                 SQLFreeHandle SQL_HANDLE_STMT (m_handle (hnd w p))] @ calls w \<and>
     (\<forall>x \<in> {p, q, e}. m_handle (hnd w' x) = 0)"
  using assms
  by (simp add: last_owner_def numeral_2_eq_2 release_body_def Free_body_def tryM_def Let_def
      SqlHandle_IsAllocated_def thenM_exec bindM_exec catchM_exec)

theorem release_frees_chain_witness:
  "\<exists>w'. SqlHandle_release (ref_ext good_driver) STMT 1
      (small_heap\<lparr>hnd := (\<lambda>p. SqlHandle_init\<lparr>m_handle := p, m_pParentHandle :=
          (if p = 1 then Some 2 else if p = 2 then Some 3 else None)\<rparr>)\<rparr>) = (Ok (), w') \<and>
      calls w' = [SQLFreeHandle SQL_HANDLE_ENV 3, SQLFreeHandle SQL_HANDLE_DBC 2,
                  SQLFreeHandle SQL_HANDLE_STMT 1]"
  using release_frees_chain[of "small_heap\<lparr>hnd := (\<lambda>p. SqlHandle_init\<lparr>m_handle := p, m_pParentHandle :=
          (if p = 1 then Some 2 else if p = 2 then Some 3 else None)\<rparr>)\<rparr>" 1 2 3 "ref_ext good_driver"]
  by (auto simp: last_owner_def small_heap_def SqlHandle_init_def)

end
