(* ===== verification/InfoProps.thy ===== *)
theory InfoProps
  imports Handles "HOL-Library.List_Lexorder" "HOL-Library.Char_ord"
begin

text \<open>
  \<open>SqlInfoProperty\<close> and \<open>SqlInfoProperties\<close>: what \<open>SQLGetInfo\<close> says of a connection. The seven
  functions that register properties are their tables, in the order of the source, followed by
  the marks for PostgreSQL. \<open>m_props\<close> is the sorted association list of the prelude: \<open>insert\<close> keeps
  a property that is already registered, iteration is in the order of the ids.

  The object is a member of the \<open>Database\<close>: \<open>props w p\<close> is the one of the database at address \<open>p\<close>.
  The ids are the numbers the ODBC headers give the macros.
\<close>

section \<open>Ids\<close>

abbreviation (input) SQL_MAX_DRIVER_CONNECTIONS :: nat where "SQL_MAX_DRIVER_CONNECTIONS \<equiv> 0"
abbreviation (input) SQL_MAX_CONCURRENT_ACTIVITIES :: nat where "SQL_MAX_CONCURRENT_ACTIVITIES \<equiv> 1"
abbreviation (input) SQL_DATA_SOURCE_NAME :: nat where "SQL_DATA_SOURCE_NAME \<equiv> 2"
abbreviation (input) SQL_SERVER_NAME :: nat where "SQL_SERVER_NAME \<equiv> 13"
abbreviation (input) SQL_SEARCH_PATTERN_ESCAPE :: nat where "SQL_SEARCH_PATTERN_ESCAPE \<equiv> 14"
abbreviation (input) SQL_DBMS_NAME :: nat where "SQL_DBMS_NAME \<equiv> 17"
abbreviation (input) SQL_DBMS_VER :: nat where "SQL_DBMS_VER \<equiv> 18"
abbreviation (input) SQL_ACCESSIBLE_TABLES :: nat where "SQL_ACCESSIBLE_TABLES \<equiv> 19"
abbreviation (input) SQL_ACCESSIBLE_PROCEDURES :: nat where "SQL_ACCESSIBLE_PROCEDURES \<equiv> 20"
abbreviation (input) SQL_CURSOR_COMMIT_BEHAVIOR :: nat where "SQL_CURSOR_COMMIT_BEHAVIOR \<equiv> 23"
abbreviation (input) SQL_DATA_SOURCE_READ_ONLY :: nat where "SQL_DATA_SOURCE_READ_ONLY \<equiv> 25"
abbreviation (input) SQL_DEFAULT_TXN_ISOLATION :: nat where "SQL_DEFAULT_TXN_ISOLATION \<equiv> 26"
abbreviation (input) SQL_IDENTIFIER_CASE :: nat where "SQL_IDENTIFIER_CASE \<equiv> 28"
abbreviation (input) SQL_IDENTIFIER_QUOTE_CHAR :: nat where "SQL_IDENTIFIER_QUOTE_CHAR \<equiv> 29"
abbreviation (input) SQL_MAX_COLUMN_NAME_LEN :: nat where "SQL_MAX_COLUMN_NAME_LEN \<equiv> 30"
abbreviation (input) SQL_MAX_CURSOR_NAME_LEN :: nat where "SQL_MAX_CURSOR_NAME_LEN \<equiv> 31"
abbreviation (input) SQL_MAX_SCHEMA_NAME_LEN :: nat where "SQL_MAX_SCHEMA_NAME_LEN \<equiv> 32"
abbreviation (input) SQL_MAX_PROCEDURE_NAME_LEN :: nat where "SQL_MAX_PROCEDURE_NAME_LEN \<equiv> 33"
abbreviation (input) SQL_MAX_CATALOG_NAME_LEN :: nat where "SQL_MAX_CATALOG_NAME_LEN \<equiv> 34"
abbreviation (input) SQL_MAX_TABLE_NAME_LEN :: nat where "SQL_MAX_TABLE_NAME_LEN \<equiv> 35"
abbreviation (input) SQL_TXN_CAPABLE :: nat where "SQL_TXN_CAPABLE \<equiv> 46"
abbreviation (input) SQL_USER_NAME :: nat where "SQL_USER_NAME \<equiv> 47"
abbreviation (input) SQL_TXN_ISOLATION_OPTION :: nat where "SQL_TXN_ISOLATION_OPTION \<equiv> 72"
abbreviation (input) SQL_INTEGRITY :: nat where "SQL_INTEGRITY \<equiv> 73"
abbreviation (input) SQL_GETDATA_EXTENSIONS :: nat where "SQL_GETDATA_EXTENSIONS \<equiv> 81"
abbreviation (input) SQL_NULL_COLLATION :: nat where "SQL_NULL_COLLATION \<equiv> 85"
abbreviation (input) SQL_ALTER_TABLE :: nat where "SQL_ALTER_TABLE \<equiv> 86"
abbreviation (input) SQL_ORDER_BY_COLUMNS_IN_SELECT :: nat where "SQL_ORDER_BY_COLUMNS_IN_SELECT \<equiv> 90"
abbreviation (input) SQL_SPECIAL_CHARACTERS :: nat where "SQL_SPECIAL_CHARACTERS \<equiv> 94"
abbreviation (input) SQL_MAX_COLUMNS_IN_GROUP_BY :: nat where "SQL_MAX_COLUMNS_IN_GROUP_BY \<equiv> 97"
abbreviation (input) SQL_MAX_COLUMNS_IN_INDEX :: nat where "SQL_MAX_COLUMNS_IN_INDEX \<equiv> 98"
abbreviation (input) SQL_MAX_COLUMNS_IN_ORDER_BY :: nat where "SQL_MAX_COLUMNS_IN_ORDER_BY \<equiv> 99"
abbreviation (input) SQL_MAX_COLUMNS_IN_SELECT :: nat where "SQL_MAX_COLUMNS_IN_SELECT \<equiv> 100"
abbreviation (input) SQL_MAX_COLUMNS_IN_TABLE :: nat where "SQL_MAX_COLUMNS_IN_TABLE \<equiv> 101"
abbreviation (input) SQL_MAX_INDEX_SIZE :: nat where "SQL_MAX_INDEX_SIZE \<equiv> 102"
abbreviation (input) SQL_MAX_ROW_SIZE_INCLUDES_LONG :: nat where "SQL_MAX_ROW_SIZE_INCLUDES_LONG \<equiv> 103"
abbreviation (input) SQL_MAX_ROW_SIZE :: nat where "SQL_MAX_ROW_SIZE \<equiv> 104"
abbreviation (input) SQL_MAX_STATEMENT_LEN :: nat where "SQL_MAX_STATEMENT_LEN \<equiv> 105"
abbreviation (input) SQL_MAX_TABLES_IN_SELECT :: nat where "SQL_MAX_TABLES_IN_SELECT \<equiv> 106"
abbreviation (input) SQL_MAX_USER_NAME_LEN :: nat where "SQL_MAX_USER_NAME_LEN \<equiv> 107"
abbreviation (input) SQL_OJ_CAPABILITIES :: nat where "SQL_OJ_CAPABILITIES \<equiv> 115"
abbreviation (input) SQL_CURSOR_SENSITIVITY :: nat where "SQL_CURSOR_SENSITIVITY \<equiv> 10001"
abbreviation (input) SQL_DESCRIBE_PARAMETER :: nat where "SQL_DESCRIBE_PARAMETER \<equiv> 10002"
abbreviation (input) SQL_CATALOG_NAME :: nat where "SQL_CATALOG_NAME \<equiv> 10003"
abbreviation (input) SQL_COLLATION_SEQ :: nat where "SQL_COLLATION_SEQ \<equiv> 10004"
abbreviation (input) SQL_MAX_IDENTIFIER_LEN :: nat where "SQL_MAX_IDENTIFIER_LEN \<equiv> 10005"
abbreviation (input) SQL_ACTIVE_ENVIRONMENTS :: nat where "SQL_ACTIVE_ENVIRONMENTS \<equiv> 116"
abbreviation (input) SQL_ALTER_DOMAIN :: nat where "SQL_ALTER_DOMAIN \<equiv> 117"
abbreviation (input) SQL_SQL_CONFORMANCE :: nat where "SQL_SQL_CONFORMANCE \<equiv> 118"
abbreviation (input) SQL_ASYNC_MODE :: nat where "SQL_ASYNC_MODE \<equiv> 10021"
abbreviation (input) SQL_BATCH_ROW_COUNT :: nat where "SQL_BATCH_ROW_COUNT \<equiv> 120"
abbreviation (input) SQL_BATCH_SUPPORT :: nat where "SQL_BATCH_SUPPORT \<equiv> 121"
abbreviation (input) SQL_CATALOG_LOCATION :: nat where "SQL_CATALOG_LOCATION \<equiv> 114"
abbreviation (input) SQL_CATALOG_NAME_SEPARATOR :: nat where "SQL_CATALOG_NAME_SEPARATOR \<equiv> 41"
abbreviation (input) SQL_CATALOG_TERM :: nat where "SQL_CATALOG_TERM \<equiv> 42"
abbreviation (input) SQL_CATALOG_USAGE :: nat where "SQL_CATALOG_USAGE \<equiv> 92"
abbreviation (input) SQL_CONVERT_INTERVAL_DAY_TIME :: nat where "SQL_CONVERT_INTERVAL_DAY_TIME \<equiv> 123"
abbreviation (input) SQL_CONVERT_INTERVAL_YEAR_MONTH :: nat where "SQL_CONVERT_INTERVAL_YEAR_MONTH \<equiv> 124"
abbreviation (input) SQL_DRIVER_NAME :: nat where "SQL_DRIVER_NAME \<equiv> 6"
abbreviation (input) SQL_DRIVER_ODBC_VER :: nat where "SQL_DRIVER_ODBC_VER \<equiv> 77"
abbreviation (input) SQL_FILE_USAGE :: nat where "SQL_FILE_USAGE \<equiv> 84"
abbreviation (input) SQL_ODBC_INTERFACE_CONFORMANCE :: nat where "SQL_ODBC_INTERFACE_CONFORMANCE \<equiv> 152"
abbreviation (input) SQL_ODBC_VER :: nat where "SQL_ODBC_VER \<equiv> 10"
abbreviation (input) SQL_ROW_UPDATES :: nat where "SQL_ROW_UPDATES \<equiv> 11"
abbreviation (input) SQL_ASYNC_NOTIFICATION :: nat where "SQL_ASYNC_NOTIFICATION \<equiv> 10025"
abbreviation (input) SQL_DYNAMIC_CURSOR_ATTRIBUTES1 :: nat where "SQL_DYNAMIC_CURSOR_ATTRIBUTES1 \<equiv> 144"
abbreviation (input) SQL_DYNAMIC_CURSOR_ATTRIBUTES2 :: nat where "SQL_DYNAMIC_CURSOR_ATTRIBUTES2 \<equiv> 145"
abbreviation (input) SQL_FORWARD_ONLY_CURSOR_ATTRIBUTES1 :: nat where "SQL_FORWARD_ONLY_CURSOR_ATTRIBUTES1 \<equiv> 146"
abbreviation (input) SQL_FORWARD_ONLY_CURSOR_ATTRIBUTES2 :: nat where "SQL_FORWARD_ONLY_CURSOR_ATTRIBUTES2 \<equiv> 147"
abbreviation (input) SQL_INFO_SCHEMA_VIEWS :: nat where "SQL_INFO_SCHEMA_VIEWS \<equiv> 149"
abbreviation (input) SQL_KEYSET_CURSOR_ATTRIBUTES1 :: nat where "SQL_KEYSET_CURSOR_ATTRIBUTES1 \<equiv> 150"
abbreviation (input) SQL_KEYSET_CURSOR_ATTRIBUTES2 :: nat where "SQL_KEYSET_CURSOR_ATTRIBUTES2 \<equiv> 151"
abbreviation (input) SQL_MAX_ASYNC_CONCURRENT_STATEMENTS :: nat where "SQL_MAX_ASYNC_CONCURRENT_STATEMENTS \<equiv> 10022"
abbreviation (input) SQL_PARAM_ARRAY_ROW_COUNTS :: nat where "SQL_PARAM_ARRAY_ROW_COUNTS \<equiv> 153"
abbreviation (input) SQL_PARAM_ARRAY_SELECTS :: nat where "SQL_PARAM_ARRAY_SELECTS \<equiv> 154"
abbreviation (input) SQL_STATIC_CURSOR_ATTRIBUTES1 :: nat where "SQL_STATIC_CURSOR_ATTRIBUTES1 \<equiv> 167"
abbreviation (input) SQL_STATIC_CURSOR_ATTRIBUTES2 :: nat where "SQL_STATIC_CURSOR_ATTRIBUTES2 \<equiv> 168"
abbreviation (input) SQL_ASYNC_DBC_FUNCTIONS :: nat where "SQL_ASYNC_DBC_FUNCTIONS \<equiv> 10023"
abbreviation (input) SQL_DRIVER_AWARE_POOLING_SUPPORTED :: nat where "SQL_DRIVER_AWARE_POOLING_SUPPORTED \<equiv> 10024"
abbreviation (input) SQL_DATABASE_NAME :: nat where "SQL_DATABASE_NAME \<equiv> 16"
abbreviation (input) SQL_BOOKMARK_PERSISTENCE :: nat where "SQL_BOOKMARK_PERSISTENCE \<equiv> 82"
abbreviation (input) SQL_CONCAT_NULL_BEHAVIOR :: nat where "SQL_CONCAT_NULL_BEHAVIOR \<equiv> 22"
abbreviation (input) SQL_CURSOR_ROLLBACK_BEHAVIOR :: nat where "SQL_CURSOR_ROLLBACK_BEHAVIOR \<equiv> 24"
abbreviation (input) SQL_MULTIPLE_ACTIVE_TXN :: nat where "SQL_MULTIPLE_ACTIVE_TXN \<equiv> 37"
abbreviation (input) SQL_NEED_LONG_DATA_LEN :: nat where "SQL_NEED_LONG_DATA_LEN \<equiv> 111"
abbreviation (input) SQL_PROCEDURE_TERM :: nat where "SQL_PROCEDURE_TERM \<equiv> 40"
abbreviation (input) SQL_SCHEMA_TERM :: nat where "SQL_SCHEMA_TERM \<equiv> 39"
abbreviation (input) SQL_SCROLL_OPTIONS :: nat where "SQL_SCROLL_OPTIONS \<equiv> 44"
abbreviation (input) SQL_TABLE_TERM :: nat where "SQL_TABLE_TERM \<equiv> 45"
abbreviation (input) SQL_COLUMN_ALIAS :: nat where "SQL_COLUMN_ALIAS \<equiv> 87"
abbreviation (input) SQL_CORRELATION_NAME :: nat where "SQL_CORRELATION_NAME \<equiv> 74"
abbreviation (input) SQL_EXPRESSIONS_IN_ORDERBY :: nat where "SQL_EXPRESSIONS_IN_ORDERBY \<equiv> 27"
abbreviation (input) SQL_GROUP_BY :: nat where "SQL_GROUP_BY \<equiv> 88"
abbreviation (input) SQL_INDEX_KEYWORDS :: nat where "SQL_INDEX_KEYWORDS \<equiv> 148"
abbreviation (input) SQL_KEYWORDS :: nat where "SQL_KEYWORDS \<equiv> 89"
abbreviation (input) SQL_LIKE_ESCAPE_CLAUSE :: nat where "SQL_LIKE_ESCAPE_CLAUSE \<equiv> 113"
abbreviation (input) SQL_NON_NULLABLE_COLUMNS :: nat where "SQL_NON_NULLABLE_COLUMNS \<equiv> 75"
abbreviation (input) SQL_OUTER_JOINS :: nat where "SQL_OUTER_JOINS \<equiv> 38"
abbreviation (input) SQL_PROCEDURES :: nat where "SQL_PROCEDURES \<equiv> 21"
abbreviation (input) SQL_QUOTED_IDENTIFIER_CASE :: nat where "SQL_QUOTED_IDENTIFIER_CASE \<equiv> 93"
abbreviation (input) SQL_SCHEMA_USAGE :: nat where "SQL_SCHEMA_USAGE \<equiv> 91"
abbreviation (input) SQL_SUBQUERIES :: nat where "SQL_SUBQUERIES \<equiv> 95"
abbreviation (input) SQL_UNION :: nat where "SQL_UNION \<equiv> 96"
abbreviation (input) SQL_AGGREGATE_FUNCTIONS :: nat where "SQL_AGGREGATE_FUNCTIONS \<equiv> 169"
abbreviation (input) SQL_CREATE_ASSERTION :: nat where "SQL_CREATE_ASSERTION \<equiv> 127"
abbreviation (input) SQL_CREATE_CHARACTER_SET :: nat where "SQL_CREATE_CHARACTER_SET \<equiv> 128"
abbreviation (input) SQL_CREATE_COLLATION :: nat where "SQL_CREATE_COLLATION \<equiv> 129"
abbreviation (input) SQL_CREATE_DOMAIN :: nat where "SQL_CREATE_DOMAIN \<equiv> 130"
abbreviation (input) SQL_CREATE_SCHEMA :: nat where "SQL_CREATE_SCHEMA \<equiv> 131"
abbreviation (input) SQL_CREATE_TABLE :: nat where "SQL_CREATE_TABLE \<equiv> 132"
abbreviation (input) SQL_CREATE_TRANSLATION :: nat where "SQL_CREATE_TRANSLATION \<equiv> 133"
abbreviation (input) SQL_DDL_INDEX :: nat where "SQL_DDL_INDEX \<equiv> 170"
abbreviation (input) SQL_DROP_ASSERTION :: nat where "SQL_DROP_ASSERTION \<equiv> 136"
abbreviation (input) SQL_DROP_CHARACTER_SET :: nat where "SQL_DROP_CHARACTER_SET \<equiv> 137"
abbreviation (input) SQL_DROP_COLLATION :: nat where "SQL_DROP_COLLATION \<equiv> 138"
abbreviation (input) SQL_DROP_DOMAIN :: nat where "SQL_DROP_DOMAIN \<equiv> 139"
abbreviation (input) SQL_DROP_SCHEMA :: nat where "SQL_DROP_SCHEMA \<equiv> 140"
abbreviation (input) SQL_DROP_TABLE :: nat where "SQL_DROP_TABLE \<equiv> 141"
abbreviation (input) SQL_DROP_TRANSLATION :: nat where "SQL_DROP_TRANSLATION \<equiv> 142"
abbreviation (input) SQL_DROP_VIEW :: nat where "SQL_DROP_VIEW \<equiv> 143"
abbreviation (input) SQL_INSERT_STATEMENT :: nat where "SQL_INSERT_STATEMENT \<equiv> 172"
abbreviation (input) SQL_MAX_BINARY_LITERAL_LEN :: nat where "SQL_MAX_BINARY_LITERAL_LEN \<equiv> 112"
abbreviation (input) SQL_MAX_CHAR_LITERAL_LEN :: nat where "SQL_MAX_CHAR_LITERAL_LEN \<equiv> 108"
abbreviation (input) SQL_CONVERT_FUNCTIONS :: nat where "SQL_CONVERT_FUNCTIONS \<equiv> 48"
abbreviation (input) SQL_NUMERIC_FUNCTIONS :: nat where "SQL_NUMERIC_FUNCTIONS \<equiv> 49"
abbreviation (input) SQL_STRING_FUNCTIONS :: nat where "SQL_STRING_FUNCTIONS \<equiv> 50"
abbreviation (input) SQL_SYSTEM_FUNCTIONS :: nat where "SQL_SYSTEM_FUNCTIONS \<equiv> 51"
abbreviation (input) SQL_TIMEDATE_FUNCTIONS :: nat where "SQL_TIMEDATE_FUNCTIONS \<equiv> 52"
abbreviation (input) SQL_CONVERT_BIGINT :: nat where "SQL_CONVERT_BIGINT \<equiv> 53"
abbreviation (input) SQL_CONVERT_BINARY :: nat where "SQL_CONVERT_BINARY \<equiv> 54"
abbreviation (input) SQL_CONVERT_BIT :: nat where "SQL_CONVERT_BIT \<equiv> 55"
abbreviation (input) SQL_CONVERT_CHAR :: nat where "SQL_CONVERT_CHAR \<equiv> 56"
abbreviation (input) SQL_CONVERT_DATE :: nat where "SQL_CONVERT_DATE \<equiv> 57"
abbreviation (input) SQL_CONVERT_DECIMAL :: nat where "SQL_CONVERT_DECIMAL \<equiv> 58"
abbreviation (input) SQL_CONVERT_DOUBLE :: nat where "SQL_CONVERT_DOUBLE \<equiv> 59"
abbreviation (input) SQL_CONVERT_INTEGER :: nat where "SQL_CONVERT_INTEGER \<equiv> 61"
abbreviation (input) SQL_CONVERT_LONGVARCHAR :: nat where "SQL_CONVERT_LONGVARCHAR \<equiv> 62"
abbreviation (input) SQL_CONVERT_NUMERIC :: nat where "SQL_CONVERT_NUMERIC \<equiv> 63"
abbreviation (input) SQL_CONVERT_REAL :: nat where "SQL_CONVERT_REAL \<equiv> 64"
abbreviation (input) SQL_CONVERT_SMALLINT :: nat where "SQL_CONVERT_SMALLINT \<equiv> 65"
abbreviation (input) SQL_CONVERT_TIME :: nat where "SQL_CONVERT_TIME \<equiv> 66"
abbreviation (input) SQL_CONVERT_TIMESTAMP :: nat where "SQL_CONVERT_TIMESTAMP \<equiv> 67"
abbreviation (input) SQL_CONVERT_TINYINT :: nat where "SQL_CONVERT_TINYINT \<equiv> 68"
abbreviation (input) SQL_CONVERT_VARBINARY :: nat where "SQL_CONVERT_VARBINARY \<equiv> 69"
abbreviation (input) SQL_CONVERT_VARCHAR :: nat where "SQL_CONVERT_VARCHAR \<equiv> 70"
abbreviation (input) SQL_CONVERT_LONGVARBINARY :: nat where "SQL_CONVERT_LONGVARBINARY \<equiv> 71"
abbreviation (input) SQL_TIMEDATE_ADD_INTERVALS :: nat where "SQL_TIMEDATE_ADD_INTERVALS \<equiv> 109"
abbreviation (input) SQL_TIMEDATE_DIFF_INTERVALS :: nat where "SQL_TIMEDATE_DIFF_INTERVALS \<equiv> 110"

section \<open>SqlInfoProperty\<close>

datatype InfoType =
  IT_Driver | IT_DBMS | IT_DataSource | IT_SupportedSql | IT_SqlLimits | IT_ScalarFunction | IT_Conversion

datatype ValueType = VT_USmallInt | VT_UInt | VT_String_N_Y | VT_String_Any

datatype info_value = USmallIntV int | UIntV int | StringV string

record SqlInfoProperty =
  m_infoId :: nat
  m_infoName :: string
  m_infoType :: InfoType
  m_valueType :: ValueType
  m_value :: info_value
  m_valueRead :: bool
  m_unsupported :: bool

fun initial_value :: "ValueType \<Rightarrow> info_value" where
  "initial_value VT_USmallInt = USmallIntV 0"
| "initial_value VT_UInt = UIntV 0"
| "initial_value VT_String_N_Y = StringV ''N''"
| "initial_value VT_String_Any = StringV []"

definition SqlInfoProperty_new :: "nat \<Rightarrow> string \<Rightarrow> InfoType \<Rightarrow> ValueType \<Rightarrow> SqlInfoProperty" where
  "SqlInfoProperty_new infoId infoName iType vType =
     \<lparr>m_infoId = infoId, m_infoName = infoName, m_infoType = iType, m_valueType = vType,
      m_value = initial_value vType, m_valueRead = False, m_unsupported = False\<rparr>"

text \<open>
  \<open>ReadInfoValue\<close> into a number, and into a string: the length first (no buffer), then the value
  into a buffer with one more character. \<open>bufferSize\<close> and \<open>charSize\<close> are \<open>SQLSMALLINT\<close>; a length
  that does not leave room for the terminating zero makes the allocation invalid.
\<close>

definition ReadInfoValue :: "ext \<Rightarrow> nat option \<Rightarrow> nat \<Rightarrow> int \<Rightarrow> ('z, reply) hprog" where
  "ReadInfoValue X pHDbc fInfoType cbInfoValueMax =
     (case pHDbc of
        None \<Rightarrow> throwM (AssertionException ''pHDbc'')
      | Some p \<Rightarrow>
          thenM (exASSERT ''pHDbc->IsAllocated()'' (\<lambda>w. SqlHandle_IsAllocated w p))
          (bindM (getsM (\<lambda>w. SqlHandle_GetHandle w p)) (\<lambda>h.
           bindM (odbc X (SQLGetInfo h fInfoType cbInfoValueMax)) (\<lambda>r.
             thenM (THROW_IFN_SUCCEEDED X ''SQLGetInfo'' (rc r) SQL_HANDLE_DBC h) (returnM r)))))"

definition ReadInfoValue_string :: "ext \<Rightarrow> nat option \<Rightarrow> nat \<Rightarrow> ('z, string) hprog" where
  "ReadInfoValue_string X pHDbc fInfoType =
     (case pHDbc of
        None \<Rightarrow> throwM (AssertionException ''pHDbc'')
      | Some p \<Rightarrow>
          thenM (exASSERT ''pHDbc->IsAllocated()'' (\<lambda>w. SqlHandle_IsAllocated w p))
          (bindM (getsM (\<lambda>w. SqlHandle_GetHandle w p)) (\<lambda>h.
           bindM (odbc X (SQLGetInfo h fInfoType 0)) (\<lambda>r.
             thenM (THROW_IFN_SUCCEEDED X ''SQLGetInfo'' (rc r) SQL_HANDLE_DBC h)
             (let bufferSize = oind r; charSize = bufferSize + 1
              in if bufferSize < 0 \<or> SHRT_MAX < charSize then undefM
                 else bindM (ReadInfoValue X pHDbc fInfoType charSize) (\<lambda>r'.
                   returnM (c_string (ostr r'))))))))"

definition ReadProperty :: "ext \<Rightarrow> nat option \<Rightarrow> SqlInfoProperty \<Rightarrow> ('z, SqlInfoProperty) hprog" where
  "ReadProperty X pHdbc prop =
     bindM
       (if m_valueType prop = VT_USmallInt
        then bindM (ReadInfoValue X pHdbc (m_infoId prop) 2) (\<lambda>r. returnM (USmallIntV (onum r mod 2 ^ 16)))
        else if m_valueType prop = VT_UInt
        then bindM (ReadInfoValue X pHdbc (m_infoId prop) 4) (\<lambda>r. returnM (UIntV (onum r mod 2 ^ 32)))
        else bindM (ReadInfoValue_string X pHdbc (m_infoId prop)) (\<lambda>s. returnM (StringV s)))
       (\<lambda>v. returnM (prop\<lparr>m_value := v, m_valueRead := True\<rparr>))"

fun SqlInfoProperty_GetStringValue :: "info_value \<Rightarrow> string" where
  "SqlInfoProperty_GetStringValue (USmallIntV si) = show_int si @ '' (0x'' @ show_hex (nat si) @ '')''"
| "SqlInfoProperty_GetStringValue (UIntV i) = show_int i @ '' (0x'' @ show_hex (nat i) @ '')''"
| "SqlInfoProperty_GetStringValue (StringV s) = s"

section \<open>SqlInfoProperties\<close>

record SqlInfoProperties =
  m_props :: "(nat \<times> SqlInfoProperty) list"
  m_dbms :: DatabaseProduct

record pworld = hworld +
  props :: "nat \<Rightarrow> SqlInfoProperties"

type_synonym ('z, 'a) pprog = "(exn, 'z pworld_scheme, 'a) prog"

definition mod_props :: "nat \<Rightarrow> (SqlInfoProperties \<Rightarrow> SqlInfoProperties) \<Rightarrow> ('z, unit) pprog" where
  "mod_props p f = modifyM (\<lambda>w. w\<lparr>props := (props w)(p := f (props w p))\<rparr>)"

definition SqlInfoProperties_new :: SqlInfoProperties where
  "SqlInfoProperties_new = \<lparr>m_props = [], m_dbms = UNKNOWN_DBMS\<rparr>"

definition SqlInfoProperties_Reset :: "SqlInfoProperties \<Rightarrow> SqlInfoProperties" where
  "SqlInfoProperties_Reset ps = ps\<lparr>m_props := []\<rparr>"

definition RegisterProperty :: "nat \<Rightarrow> string \<Rightarrow> InfoType \<Rightarrow> ValueType \<Rightarrow> SqlInfoProperties \<Rightarrow> SqlInfoProperties" where
  "RegisterProperty infoId name infoType valueType ps =
     ps\<lparr>m_props := map_insert_new infoId (SqlInfoProperty_new infoId name infoType valueType) (m_props ps)\<rparr>"

definition RegisterTable ::
  "InfoType \<Rightarrow> (nat \<times> string \<times> ValueType) list \<Rightarrow> SqlInfoProperties \<Rightarrow> SqlInfoProperties" where
  "RegisterTable iType tab ps = fold (\<lambda>(i, n, v). RegisterProperty i n iType v) tab ps"

definition MarkAsUnsupported :: "nat \<Rightarrow> (exn, SqlInfoProperties, unit) prog" where
  "MarkAsUnsupported infoId =
     bindM (getsM (\<lambda>ps. map_of (m_props ps) infoId)) (\<lambda>it.
       case it of
         None \<Rightarrow> throwM (NotFoundException ''Property with id is not registered'')
       | Some prop \<Rightarrow> modifyM (\<lambda>ps. ps\<lparr>m_props := map_put infoId (prop\<lparr>m_unsupported := True\<rparr>) (m_props ps)\<rparr>))"

definition GetProperty :: "SqlInfoProperties \<Rightarrow> nat \<Rightarrow> (exn, SqlInfoProperty) res" where
  "GetProperty ps infoId =
     (case map_of (m_props ps) infoId of
        None \<Rightarrow> Exn (NotFoundException ''Property with id is not registered'')
      | Some prop \<Rightarrow> Ok prop)"

definition IsPropertyRegistered :: "SqlInfoProperties \<Rightarrow> nat \<Rightarrow> bool" where
  "IsPropertyRegistered ps infoId \<longleftrightarrow> map_of (m_props ps) infoId \<noteq> None"

text \<open>The set ordered by \<open>SLexicalCompare\<close>: by name, the first property of a name only.\<close>

definition GetSubset :: "SqlInfoProperties \<Rightarrow> InfoType \<Rightarrow> SqlInfoProperty list" where
  "GetSubset ps infoType =
     map snd (fold (\<lambda>(i, p) acc. if m_infoType p = infoType then map_insert_new (m_infoName p) p acc else acc)
       (m_props ps) [])"

section \<open>The registered properties\<close>

definition Driver_props :: "(nat \<times> string \<times> ValueType) list" where
  "Driver_props =
     [(SQL_DATA_SOURCE_NAME, ''SQL_DATA_SOURCE_NAME'', VT_String_Any),
      (SQL_DRIVER_NAME, ''SQL_DRIVER_NAME'', VT_String_Any),
      (SQL_DRIVER_ODBC_VER, ''SQL_DRIVER_ODBC_VER'', VT_String_Any),
      (SQL_DRIVER_NAME, ''SQL_DRIVER_NAME'', VT_String_Any),
      (SQL_FILE_USAGE, ''SQL_FILE_USAGE'', VT_UInt),
      (SQL_GETDATA_EXTENSIONS, ''SQL_GETDATA_EXTENSIONS'', VT_UInt),
      (SQL_MAX_CONCURRENT_ACTIVITIES, ''SQL_MAX_CONCURRENT_ACTIVITIES'', VT_USmallInt),
      (SQL_MAX_DRIVER_CONNECTIONS, ''SQL_MAX_DRIVER_CONNECTIONS'', VT_USmallInt),
      (SQL_ODBC_INTERFACE_CONFORMANCE, ''SQL_ODBC_INTERFACE_CONFORMANCE'', VT_UInt),
      (SQL_ODBC_VER, ''SQL_ODBC_VER'', VT_String_Any),
      (SQL_ROW_UPDATES, ''SQL_ROW_UPDATES'', VT_String_N_Y),
      (SQL_SEARCH_PATTERN_ESCAPE, ''SQL_SEARCH_PATTERN_ESCAPE'', VT_String_Any),
      (SQL_SERVER_NAME, ''SQL_SERVER_NAME'', VT_String_Any)]"

definition Driver_props_V_3 :: "(nat \<times> string \<times> ValueType) list" where
  "Driver_props_V_3 =
     [(SQL_ACTIVE_ENVIRONMENTS, ''SQL_ACTIVE_ENVIRONMENTS'', VT_USmallInt),
      (SQL_ASYNC_MODE, ''SQL_ASYNC_MODE'', VT_UInt),
      (SQL_ASYNC_NOTIFICATION, ''SQL_ASYNC_NOTIFICATION'', VT_UInt),
      (SQL_BATCH_ROW_COUNT, ''SQL_BATCH_ROW_COUNT'', VT_UInt),
      (SQL_BATCH_SUPPORT, ''SQL_BATCH_SUPPORT'', VT_UInt),
      (SQL_DYNAMIC_CURSOR_ATTRIBUTES1, ''SQL_DYNAMIC_CURSOR_ATTRIBUTES1'', VT_UInt),
      (SQL_DYNAMIC_CURSOR_ATTRIBUTES2, ''SQL_DYNAMIC_CURSOR_ATTRIBUTES2'', VT_UInt),
      (SQL_FORWARD_ONLY_CURSOR_ATTRIBUTES1, ''SQL_FORWARD_ONLY_CURSOR_ATTRIBUTES1'', VT_UInt),
      (SQL_FORWARD_ONLY_CURSOR_ATTRIBUTES2, ''SQL_FORWARD_ONLY_CURSOR_ATTRIBUTES2'', VT_UInt),
      (SQL_INFO_SCHEMA_VIEWS, ''SQL_INFO_SCHEMA_VIEWS'', VT_UInt),
      (SQL_KEYSET_CURSOR_ATTRIBUTES1, ''SQL_KEYSET_CURSOR_ATTRIBUTES1'', VT_UInt),
      (SQL_KEYSET_CURSOR_ATTRIBUTES2, ''SQL_KEYSET_CURSOR_ATTRIBUTES2'', VT_UInt),
      (SQL_MAX_ASYNC_CONCURRENT_STATEMENTS, ''SQL_MAX_ASYNC_CONCURRENT_STATEMENTS'', VT_UInt),
      (SQL_PARAM_ARRAY_ROW_COUNTS, ''SQL_PARAM_ARRAY_ROW_COUNTS'', VT_UInt),
      (SQL_PARAM_ARRAY_SELECTS, ''SQL_PARAM_ARRAY_SELECTS'', VT_UInt),
      (SQL_STATIC_CURSOR_ATTRIBUTES1, ''SQL_STATIC_CURSOR_ATTRIBUTES1'', VT_UInt),
      (SQL_STATIC_CURSOR_ATTRIBUTES2, ''SQL_STATIC_CURSOR_ATTRIBUTES2'', VT_UInt)]"

definition Driver_props_V_3_8 :: "(nat \<times> string \<times> ValueType) list" where
  "Driver_props_V_3_8 =
     [(SQL_ASYNC_DBC_FUNCTIONS, ''SQL_ASYNC_DBC_FUNCTIONS'', VT_UInt),
      (SQL_DRIVER_AWARE_POOLING_SUPPORTED, ''SQL_DRIVER_AWARE_POOLING_SUPPORTED'', VT_UInt)]"

definition Dbms_props :: "(nat \<times> string \<times> ValueType) list" where
  "Dbms_props =
     [(SQL_DATABASE_NAME, ''SQL_DATABASE_NAME'', VT_String_Any),
      (SQL_DBMS_NAME, ''SQL_DBMS_NAME'', VT_String_Any),
      (SQL_DBMS_VER, ''SQL_DBMS_VER'', VT_String_Any)]"

definition DataSource_props :: "(nat \<times> string \<times> ValueType) list" where
  "DataSource_props =
     [(SQL_ACCESSIBLE_PROCEDURES, ''SQL_ACCESSIBLE_PROCEDURES'', VT_String_N_Y),
      (SQL_ACCESSIBLE_TABLES, ''SQL_ACCESSIBLE_TABLES'', VT_String_N_Y),
      (SQL_BOOKMARK_PERSISTENCE, ''SQL_BOOKMARK_PERSISTENCE'', VT_UInt),
      (SQL_CATALOG_TERM, ''SQL_CATALOG_TERM'', VT_String_Any),
      (SQL_CONCAT_NULL_BEHAVIOR, ''SQL_CONCAT_NULL_BEHAVIOR'', VT_UInt),
      (SQL_CURSOR_COMMIT_BEHAVIOR, ''SQL_CURSOR_COMMIT_BEHAVIOR'', VT_UInt),
      (SQL_CURSOR_ROLLBACK_BEHAVIOR, ''SQL_CURSOR_ROLLBACK_BEHAVIOR'', VT_UInt),
      (SQL_DATA_SOURCE_READ_ONLY, ''SQL_DATA_SOURCE_READ_ONLY'', VT_String_N_Y),
      (SQL_DEFAULT_TXN_ISOLATION, ''SQL_DEFAULT_TXN_ISOLATION'', VT_UInt),
      (SQL_MULTIPLE_ACTIVE_TXN, ''SQL_MULTIPLE_ACTIVE_TXN'', VT_String_N_Y),
      (SQL_NEED_LONG_DATA_LEN, ''SQL_NEED_LONG_DATA_LEN'', VT_String_N_Y),
      (SQL_NULL_COLLATION, ''SQL_NULL_COLLATION'', VT_USmallInt),
      (SQL_PROCEDURE_TERM, ''SQL_PROCEDURE_TERM'', VT_String_Any),
      (SQL_SCHEMA_TERM, ''SQL_SCHEMA_TERM'', VT_String_Any),
      (SQL_SCROLL_OPTIONS, ''SQL_SCROLL_OPTIONS'', VT_UInt),
      (SQL_TABLE_TERM, ''SQL_TABLE_TERM'', VT_String_Any),
      (SQL_TXN_CAPABLE, ''SQL_TXN_CAPABLE'', VT_USmallInt),
      (SQL_TXN_ISOLATION_OPTION, ''SQL_TXN_ISOLATION_OPTION'', VT_UInt),
      (SQL_USER_NAME, ''SQL_USER_NAME'', VT_String_Any)]"

definition DataSource_props_V_3 :: "(nat \<times> string \<times> ValueType) list" where
  "DataSource_props_V_3 =
     [(SQL_COLLATION_SEQ, ''SQL_COLLATION_SEQ'', VT_String_Any),
      (SQL_CURSOR_SENSITIVITY, ''SQL_CURSOR_SENSITIVITY'', VT_UInt),
      (SQL_DESCRIBE_PARAMETER, ''SQL_DESCRIBE_PARAMETER'', VT_String_N_Y)]"

definition SupportedSql_props :: "(nat \<times> string \<times> ValueType) list" where
  "SupportedSql_props =
     [(SQL_ALTER_TABLE, ''SQL_ALTER_TABLE'', VT_UInt),
      (SQL_CATALOG_LOCATION, ''SQL_CATALOG_LOCATION'', VT_USmallInt),
      (SQL_CATALOG_NAME_SEPARATOR, ''SQL_CATALOG_NAME_SEPARATOR'', VT_String_Any),
      (SQL_CATALOG_USAGE, ''SQL_CATALOG_USAGE'', VT_UInt),
      (SQL_COLUMN_ALIAS, ''SQL_COLUMN_ALIAS'', VT_String_N_Y),
      (SQL_CORRELATION_NAME, ''SQL_CORRELATION_NAME'', VT_USmallInt),
      (SQL_EXPRESSIONS_IN_ORDERBY, ''SQL_EXPRESSIONS_IN_ORDERBY'', VT_String_N_Y),
      (SQL_GROUP_BY, ''SQL_GROUP_BY'', VT_USmallInt),
      (SQL_IDENTIFIER_CASE, ''SQL_IDENTIFIER_CASE'', VT_USmallInt),
      (SQL_IDENTIFIER_QUOTE_CHAR, ''SQL_IDENTIFIER_QUOTE_CHAR'', VT_String_Any),
      (SQL_INDEX_KEYWORDS, ''SQL_INDEX_KEYWORDS'', VT_UInt),
      (SQL_INTEGRITY, ''SQL_INTEGRITY'', VT_String_N_Y),
      (SQL_KEYWORDS, ''SQL_KEYWORDS'', VT_String_Any),
      (SQL_LIKE_ESCAPE_CLAUSE, ''SQL_LIKE_ESCAPE_CLAUSE'', VT_String_N_Y),
      (SQL_NON_NULLABLE_COLUMNS, ''SQL_NON_NULLABLE_COLUMNS'', VT_USmallInt),
      (SQL_SQL_CONFORMANCE, ''SQL_SQL_CONFORMANCE'', VT_UInt),
      (SQL_OJ_CAPABILITIES, ''SQL_OJ_CAPABILITIES'', VT_UInt),
      (SQL_ORDER_BY_COLUMNS_IN_SELECT, ''SQL_ORDER_BY_COLUMNS_IN_SELECT'', VT_String_N_Y),
      (SQL_OUTER_JOINS, ''SQL_OUTER_JOINS'', VT_String_N_Y),
      (SQL_PROCEDURES, ''SQL_PROCEDURES'', VT_String_N_Y),
      (SQL_QUOTED_IDENTIFIER_CASE, ''SQL_QUOTED_IDENTIFIER_CASE'', VT_USmallInt),
      (SQL_SCHEMA_USAGE, ''SQL_SCHEMA_USAGE'', VT_UInt),
      (SQL_SPECIAL_CHARACTERS, ''SQL_SPECIAL_CHARACTERS'', VT_String_Any),
      (SQL_SUBQUERIES, ''SQL_SUBQUERIES'', VT_UInt),
      (SQL_UNION, ''SQL_UNION'', VT_UInt)]"

definition SupportedSql_props_V_3 :: "(nat \<times> string \<times> ValueType) list" where
  "SupportedSql_props_V_3 =
     [(SQL_AGGREGATE_FUNCTIONS, ''SQL_AGGREGATE_FUNCTIONS'', VT_UInt),
      (SQL_ALTER_DOMAIN, ''SQL_ALTER_DOMAIN'', VT_UInt),
      (SQL_CATALOG_NAME, ''SQL_CATALOG_NAME'', VT_String_N_Y),
      (SQL_CREATE_ASSERTION, ''SQL_CREATE_ASSERTION'', VT_UInt),
      (SQL_CREATE_CHARACTER_SET, ''SQL_CREATE_CHARACTER_SET'', VT_UInt),
      (SQL_CREATE_COLLATION, ''SQL_CREATE_COLLATION'', VT_UInt),
      (SQL_CREATE_DOMAIN, ''SQL_CREATE_DOMAIN'', VT_UInt),
      (SQL_CREATE_SCHEMA, ''SQL_CREATE_SCHEMA'', VT_UInt),
      (SQL_CREATE_TABLE, ''SQL_CREATE_TABLE'', VT_UInt),
      (SQL_CREATE_TRANSLATION, ''SQL_CREATE_TRANSLATION'', VT_UInt),
      (SQL_DDL_INDEX, ''SQL_DDL_INDEX'', VT_UInt),
      (SQL_DROP_ASSERTION, ''SQL_DROP_ASSERTION'', VT_UInt),
      (SQL_DROP_CHARACTER_SET, ''SQL_DROP_CHARACTER_SET'', VT_UInt),
      (SQL_DROP_COLLATION, ''SQL_DROP_COLLATION'', VT_UInt),
      (SQL_DROP_DOMAIN, ''SQL_DROP_DOMAIN'', VT_UInt),
      (SQL_DROP_SCHEMA, ''SQL_DROP_SCHEMA'', VT_UInt),
      (SQL_DROP_TABLE, ''SQL_DROP_TABLE'', VT_UInt),
      (SQL_DROP_TRANSLATION, ''SQL_DROP_TRANSLATION'', VT_UInt),
      (SQL_DROP_VIEW, ''SQL_DROP_VIEW'', VT_UInt),
      (SQL_INSERT_STATEMENT, ''SQL_INSERT_STATEMENT'', VT_UInt)]"

definition SqlLimits_props :: "(nat \<times> string \<times> ValueType) list" where
  "SqlLimits_props =
     [(SQL_MAX_BINARY_LITERAL_LEN, ''SQL_MAX_BINARY_LITERAL_LEN'', VT_UInt),
      (SQL_MAX_CATALOG_NAME_LEN, ''SQL_MAX_CATALOG_NAME_LEN'', VT_USmallInt),
      (SQL_MAX_CHAR_LITERAL_LEN, ''SQL_MAX_CHAR_LITERAL_LEN'', VT_UInt),
      (SQL_MAX_COLUMN_NAME_LEN, ''SQL_MAX_COLUMN_NAME_LEN'', VT_USmallInt),
      (SQL_MAX_COLUMNS_IN_GROUP_BY, ''SQL_MAX_COLUMNS_IN_GROUP_BY'', VT_USmallInt),
      (SQL_MAX_COLUMNS_IN_INDEX, ''SQL_MAX_COLUMNS_IN_INDEX'', VT_UInt),
      (SQL_MAX_COLUMNS_IN_ORDER_BY, ''SQL_MAX_COLUMNS_IN_ORDER_BY'', VT_USmallInt),
      (SQL_MAX_COLUMNS_IN_SELECT, ''SQL_MAX_COLUMNS_IN_SELECT'', VT_USmallInt),
      (SQL_MAX_COLUMNS_IN_TABLE, ''SQL_MAX_COLUMNS_IN_TABLE'', VT_USmallInt),
      (SQL_MAX_CURSOR_NAME_LEN, ''SQL_MAX_CURSOR_NAME_LEN'', VT_USmallInt),
      (SQL_MAX_INDEX_SIZE, ''SQL_MAX_INDEX_SIZE'', VT_UInt),
      (SQL_MAX_PROCEDURE_NAME_LEN, ''SQL_MAX_PROCEDURE_NAME_LEN'', VT_USmallInt),
      (SQL_MAX_ROW_SIZE, ''SQL_MAX_ROW_SIZE'', VT_UInt),
      (SQL_MAX_ROW_SIZE_INCLUDES_LONG, ''SQL_MAX_ROW_SIZE_INCLUDES_LONG'', VT_String_N_Y),
      (SQL_MAX_SCHEMA_NAME_LEN, ''SQL_MAX_SCHEMA_NAME_LEN'', VT_USmallInt),
      (SQL_MAX_STATEMENT_LEN, ''SQL_MAX_STATEMENT_LEN'', VT_UInt),
      (SQL_MAX_TABLE_NAME_LEN, ''SQL_MAX_TABLE_NAME_LEN'', VT_USmallInt),
      (SQL_MAX_TABLES_IN_SELECT, ''SQL_MAX_TABLES_IN_SELECT'', VT_USmallInt),
      (SQL_MAX_USER_NAME_LEN, ''SQL_MAX_USER_NAME_LEN'', VT_USmallInt)]"

definition SqlLimits_props_V_3 :: "(nat \<times> string \<times> ValueType) list" where
  "SqlLimits_props_V_3 =
     [(SQL_MAX_IDENTIFIER_LEN, ''SQL_MAX_IDENTIFIER_LEN'', VT_USmallInt)]"

definition ScalerFunction_props :: "(nat \<times> string \<times> ValueType) list" where
  "ScalerFunction_props =
     [(SQL_CONVERT_FUNCTIONS, ''SQL_CONVERT_FUNCTIONS'', VT_UInt),
      (SQL_NUMERIC_FUNCTIONS, ''SQL_NUMERIC_FUNCTIONS'', VT_UInt),
      (SQL_STRING_FUNCTIONS, ''SQL_STRING_FUNCTIONS'', VT_UInt),
      (SQL_SYSTEM_FUNCTIONS, ''SQL_SYSTEM_FUNCTIONS'', VT_UInt),
      (SQL_TIMEDATE_ADD_INTERVALS, ''SQL_TIMEDATE_ADD_INTERVALS'', VT_UInt),
      (SQL_TIMEDATE_DIFF_INTERVALS, ''SQL_TIMEDATE_DIFF_INTERVALS'', VT_UInt),
      (SQL_TIMEDATE_FUNCTIONS, ''SQL_TIMEDATE_FUNCTIONS'', VT_UInt)]"

definition Conversion_props :: "(nat \<times> string \<times> ValueType) list" where
  "Conversion_props =
     [(SQL_CONVERT_BIGINT, ''SQL_CONVERT_BIGINT'', VT_UInt),
      (SQL_CONVERT_BINARY, ''SQL_CONVERT_BINARY'', VT_UInt),
      (SQL_CONVERT_BIT, ''SQL_CONVERT_BIT'', VT_UInt),
      (SQL_CONVERT_CHAR, ''SQL_CONVERT_CHAR'', VT_UInt),
      (SQL_CONVERT_DATE, ''SQL_CONVERT_DATE'', VT_UInt),
      (SQL_CONVERT_DECIMAL, ''SQL_CONVERT_DECIMAL'', VT_UInt),
      (SQL_CONVERT_DOUBLE, ''SQL_CONVERT_DOUBLE'', VT_UInt),
      (SQL_CONVERT_INTEGER, ''SQL_CONVERT_INTEGER'', VT_UInt),
      (SQL_CONVERT_LONGVARBINARY, ''SQL_CONVERT_LONGVARBINARY'', VT_UInt),
      (SQL_CONVERT_LONGVARCHAR, ''SQL_CONVERT_LONGVARCHAR'', VT_UInt),
      (SQL_CONVERT_NUMERIC, ''SQL_CONVERT_NUMERIC'', VT_UInt),
      (SQL_CONVERT_REAL, ''SQL_CONVERT_REAL'', VT_UInt),
      (SQL_CONVERT_SMALLINT, ''SQL_CONVERT_SMALLINT'', VT_UInt),
      (SQL_CONVERT_TIME, ''SQL_CONVERT_TIME'', VT_UInt),
      (SQL_CONVERT_TIMESTAMP, ''SQL_CONVERT_TIMESTAMP'', VT_UInt),
      (SQL_CONVERT_TINYINT, ''SQL_CONVERT_TINYINT'', VT_UInt),
      (SQL_CONVERT_VARBINARY, ''SQL_CONVERT_VARBINARY'', VT_UInt),
      (SQL_CONVERT_VARCHAR, ''SQL_CONVERT_VARCHAR'', VT_UInt)]"

definition Conversion_props_V_3 :: "(nat \<times> string \<times> ValueType) list" where
  "Conversion_props_V_3 =
     [(SQL_CONVERT_INTERVAL_YEAR_MONTH, ''SQL_CONVERT_INTERVAL_YEAR_MONTH'', VT_UInt),
      (SQL_CONVERT_INTERVAL_DAY_TIME, ''SQL_CONVERT_INTERVAL_DAY_TIME'', VT_UInt)]"


text \<open>The functions that register them; \<open>iType\<close> and the conditions are the code's.\<close>

definition RegisterDbmsProperties :: "OdbcVersion \<Rightarrow> (exn, SqlInfoProperties, unit) prog" where
  "RegisterDbmsProperties odbcVersion = modifyM (RegisterTable IT_DBMS Dbms_props)"

definition RegisterDriverProperties :: "OdbcVersion \<Rightarrow> (exn, SqlInfoProperties, unit) prog" where
  "RegisterDriverProperties odbcVersion = seqM
     [modifyM (RegisterTable IT_Driver Driver_props),
      whenM (\<lambda>_. odbcVersion \<ge> V_3) (seqM
        [modifyM (RegisterTable IT_Driver Driver_props_V_3),
         whenM (\<lambda>ps. m_dbms ps = POSTGRESQL) (MarkAsUnsupported SQL_MAX_ASYNC_CONCURRENT_STATEMENTS)]),
      whenM (\<lambda>_. odbcVersion \<ge> V_3_8) (modifyM (RegisterTable IT_Driver Driver_props_V_3_8))]"

definition RegisterDataSourceProperties :: "OdbcVersion \<Rightarrow> (exn, SqlInfoProperties, unit) prog" where
  "RegisterDataSourceProperties odbcVersion = seqM
     [modifyM (RegisterTable IT_DataSource DataSource_props),
      whenM (\<lambda>_. odbcVersion \<ge> V_3) (seqM
        [modifyM (RegisterTable IT_DataSource DataSource_props_V_3),
         whenM (\<lambda>ps. m_dbms ps = POSTGRESQL) (MarkAsUnsupported SQL_CURSOR_SENSITIVITY)])]"

definition RegisterSupportedSqlProperties :: "OdbcVersion \<Rightarrow> (exn, SqlInfoProperties, unit) prog" where
  "RegisterSupportedSqlProperties odbcVersion = seqM
     [modifyM (RegisterTable IT_SupportedSql SupportedSql_props),
      whenM (\<lambda>_. odbcVersion \<ge> V_3) (modifyM (RegisterTable IT_SupportedSql SupportedSql_props_V_3))]"

definition RegisterSqlLimitsProperties :: "OdbcVersion \<Rightarrow> (exn, SqlInfoProperties, unit) prog" where
  "RegisterSqlLimitsProperties odbcVersion = seqM
     [modifyM (RegisterTable IT_SqlLimits SqlLimits_props),
      whenM (\<lambda>_. odbcVersion \<ge> V_3) (modifyM (RegisterTable IT_SqlLimits SqlLimits_props_V_3))]"

definition RegisterScalerFunctionProperties :: "OdbcVersion \<Rightarrow> (exn, SqlInfoProperties, unit) prog" where
  "RegisterScalerFunctionProperties odbcVersion = modifyM (RegisterTable IT_ScalarFunction ScalerFunction_props)"

definition RegisterConversionProperties :: "OdbcVersion \<Rightarrow> (exn, SqlInfoProperties, unit) prog" where
  "RegisterConversionProperties odbcVersion = seqM
     [modifyM (RegisterTable IT_Conversion Conversion_props),
      whenM (\<lambda>_. odbcVersion \<ge> V_3) (seqM
        [modifyM (RegisterTable IT_Conversion Conversion_props_V_3),
         whenM (\<lambda>ps. m_dbms ps = POSTGRESQL) (seqM
           [MarkAsUnsupported SQL_CONVERT_INTERVAL_YEAR_MONTH,
            MarkAsUnsupported SQL_CONVERT_INTERVAL_DAY_TIME])])]"

section \<open>Reading\<close>

text \<open>A program on the object run on the member of the database at \<open>this\<close>.\<close>

definition on_props :: "nat \<Rightarrow> (exn, SqlInfoProperties, 'a) prog \<Rightarrow> ('z, 'a) pprog" where
  "on_props this m w = (case m (props w this) of (r, ps) \<Rightarrow> (r, w\<lparr>props := (props w)(this := ps)\<rparr>))"

definition EnsurePropertyRead :: "ext \<Rightarrow> nat \<Rightarrow> nat option \<Rightarrow> nat \<Rightarrow> bool \<Rightarrow> ('z, unit) pprog" where
  "EnsurePropertyRead X this pHdbc infoId forceUpdate =
     bindM (getsM (\<lambda>w. map_of (m_props (props w this)) infoId)) (\<lambda>it.
       case it of
         None \<Rightarrow> throwM (NotFoundException ''Property with id is not registered'')
       | Some prop \<Rightarrow>
           if \<not> m_valueRead prop \<or> forceUpdate
           then bindM (ReadProperty X pHdbc prop) (\<lambda>prop'.
                  mod_props this (\<lambda>ps. ps\<lparr>m_props := map_put infoId prop' (m_props ps)\<rparr>))
           else skipM)"

definition ReadAllProperties :: "ext \<Rightarrow> nat \<Rightarrow> nat option \<Rightarrow> ('z, unit) pprog" where
  "ReadAllProperties X this pHdbc =
     bindM (getsM (\<lambda>w. m_props (props w this))) (\<lambda>all.
       forM all (\<lambda>(infoId, prop).
         if \<not> m_unsupported prop
         then catchM
           (bindM (ReadProperty X pHdbc prop) (\<lambda>prop'.
              mod_props this (\<lambda>ps. ps\<lparr>m_props := map_put infoId prop' (m_props ps)\<rparr>)))
           (\<lambda>ex. if is_SqlResultException ex then skipM else throwM ex)
         else skipM))"

definition GetStringProperty :: "SqlInfoProperties \<Rightarrow> nat \<Rightarrow> (exn, string) res" where
  "GetStringProperty ps infoId =
     (case GetProperty ps infoId of
        Ok prop \<Rightarrow> Ok (SqlInfoProperty_GetStringValue (m_value prop))
      | Exn e \<Rightarrow> Exn e | Undef \<Rightarrow> Undef | OutOfFuel \<Rightarrow> OutOfFuel)"

text \<open>\<open>DetectDbms\<close>: the product is the first of the names that occurs in \<open>SQL_DBMS_NAME\<close>.\<close>

definition dbms_of_name :: "ext \<Rightarrow> string \<Rightarrow> DatabaseProduct" where
  "dbms_of_name X name =
     (if boost_contains X name ''Microsoft SQL Server'' then MS_SQL_SERVER
      else if boost_contains X name ''MySQL'' then MY_SQL
      else if boost_contains X name ''DB2'' then DB2
      else if boost_contains X name ''EXCEL'' then EXCEL
      else if boost_contains X name ''ACCESS'' \<or> boost_contains X name ''MDBTOOLS'' then ACCESS
      else if boost_contains X name ''PostgreSQL'' then POSTGRESQL
      else UNKNOWN_DBMS)"

definition DetectDbms :: "ext \<Rightarrow> nat \<Rightarrow> nat option \<Rightarrow> ('z, DatabaseProduct) pprog" where
  "DetectDbms X this pHdbc =
     thenM (EnsurePropertyRead X this pHdbc SQL_DBMS_NAME False)
     (bindM (bindM (getsM (\<lambda>w. GetStringProperty (props w this) SQL_DBMS_NAME)) liftM) (\<lambda>name.
        returnM (dbms_of_name X name)))"

definition ParseOdbcVersion :: "ext \<Rightarrow> string \<Rightarrow> OdbcVersion" where
  "ParseOdbcVersion X versionString =
     (case boost_split X versionString (CHR ''.'') of
        [v0, v1] \<Rightarrow>
          (case boost_lexical_short X v0 of
             None \<Rightarrow> ODBC_UNKNOWN
           | Some major \<Rightarrow>
               (case boost_lexical_short X v1 of
                  None \<Rightarrow> ODBC_UNKNOWN
                | Some minor \<Rightarrow>
                    if major \<ge> 3 \<and> minor \<ge> 80 then V_3_8
                    else if major \<ge> 3 then V_3
                    else if major \<ge> 2 then V_2
                    else ODBC_UNKNOWN))
      | _ \<Rightarrow> ODBC_UNKNOWN)"

text \<open>\<open>Init\<close> for a version, and \<open>Init\<close> that asks the driver for its version first.\<close>

definition SqlInfoProperties_Init :: "ext \<Rightarrow> nat \<Rightarrow> nat option \<Rightarrow> OdbcVersion \<Rightarrow> ('z, unit) pprog" where
  "SqlInfoProperties_Init X this pHdbc odbcVersion =
     (case pHdbc of
        None \<Rightarrow> throwM (AssertionException ''pHdbc'')
      | Some p \<Rightarrow> seqM
          [exASSERT ''pHdbc->IsAllocated()'' (\<lambda>w. SqlHandle_IsAllocated w p),
           on_props this (RegisterDbmsProperties odbcVersion),
           EnsurePropertyRead X this pHdbc SQL_DBMS_NAME False,
           bindM (DetectDbms X this pHdbc) (\<lambda>d. mod_props this (\<lambda>ps. ps\<lparr>m_dbms := d\<rparr>)),
           on_props this (RegisterDataSourceProperties odbcVersion),
           on_props this (RegisterDriverProperties odbcVersion),
           on_props this (RegisterSupportedSqlProperties odbcVersion),
           on_props this (RegisterSqlLimitsProperties odbcVersion),
           on_props this (RegisterScalerFunctionProperties odbcVersion),
           on_props this (RegisterConversionProperties odbcVersion),
           ReadAllProperties X this pHdbc])"

definition SqlInfoProperties_Init_detect :: "ext \<Rightarrow> nat \<Rightarrow> nat option \<Rightarrow> ('z, unit) pprog" where
  "SqlInfoProperties_Init_detect X this pHdbc =
     (case pHdbc of
        None \<Rightarrow> throwM (AssertionException ''pHdbc'')
      | Some p \<Rightarrow>
          thenM (exASSERT ''pHdbc->IsAllocated()'' (\<lambda>w. SqlHandle_IsAllocated w p))
          (bindM
            (catchM
              (bindM (ReadProperty X pHdbc
                 (SqlInfoProperty_new SQL_DRIVER_ODBC_VER ''SQL_DRIVER_ODBC_VER'' IT_Driver VT_String_Any))
                 (\<lambda>prop. returnM (ParseOdbcVersion X (SqlInfoProperty_GetStringValue (m_value prop)))))
              (\<lambda>ex. if is_SqlResultException ex then returnM V_2 else throwM ex))
            (\<lambda>ov. thenM (exASSERT ''ov != OdbcVersion::UNKNOWN'' (\<lambda>_. ov \<noteq> ODBC_UNKNOWN))
               (SqlInfoProperties_Init X this pHdbc ov))))"

section \<open>Typed access\<close>

text \<open>\<open>boost::get\<close> on the other alternative throws \<open>boost::bad_get\<close>, which is no exception of the library.\<close>

fun get_USmallInt :: "info_value \<Rightarrow> (exn, int) res" where
  "get_USmallInt (USmallIntV v) = Ok v"
| "get_USmallInt _ = Undef"

definition GetUSmallInt :: "SqlInfoProperties \<Rightarrow> nat \<Rightarrow> (exn, int) res" where
  "GetUSmallInt ps infoId =
     (case GetProperty ps infoId of
        Ok prop \<Rightarrow> get_USmallInt (m_value prop)
      | Exn e \<Rightarrow> Exn e | Undef \<Rightarrow> Undef | OutOfFuel \<Rightarrow> OutOfFuel)"

definition positive_or :: "int \<Rightarrow> (exn, int) res \<Rightarrow> (exn, int) res" where
  "positive_or dflt r = (case r of Ok v \<Rightarrow> Ok (if v > 0 then v else dflt) | _ \<Rightarrow> r)"

definition GetMaxCatalogNameLen :: "SqlInfoProperties \<Rightarrow> (exn, int) res" where
  "GetMaxCatalogNameLen ps = positive_or 128 (GetUSmallInt ps SQL_MAX_CATALOG_NAME_LEN)"

definition GetMaxSchemaNameLen :: "SqlInfoProperties \<Rightarrow> (exn, int) res" where
  "GetMaxSchemaNameLen ps = positive_or 128 (GetUSmallInt ps SQL_MAX_SCHEMA_NAME_LEN)"

definition GetMaxTableNameLen :: "SqlInfoProperties \<Rightarrow> (exn, int) res" where
  "GetMaxTableNameLen ps = positive_or 128 (GetUSmallInt ps SQL_MAX_TABLE_NAME_LEN)"

definition GetMaxColumnNameLen :: "SqlInfoProperties \<Rightarrow> (exn, int) res" where
  "GetMaxColumnNameLen ps = positive_or 128 (GetUSmallInt ps SQL_MAX_COLUMN_NAME_LEN)"

definition GetSupportsTransactions :: "SqlInfoProperties \<Rightarrow> (exn, bool) res" where
  "GetSupportsTransactions ps =
     (case GetUSmallInt ps SQL_TXN_CAPABLE of
        Ok v \<Rightarrow> Ok (v \<noteq> SQL_TC_NONE)
      | Exn e \<Rightarrow> Exn e | Undef \<Rightarrow> Undef | OutOfFuel \<Rightarrow> OutOfFuel)"

definition GetSupportsCatalogs :: "SqlInfoProperties \<Rightarrow> (exn, bool) res" where
  "GetSupportsCatalogs ps =
     (if \<not> IsPropertyRegistered ps SQL_CATALOG_NAME then Ok False
      else (case GetStringProperty ps SQL_CATALOG_NAME of
              Ok s \<Rightarrow> Ok (s = ''Y'')
            | Exn e \<Rightarrow> Exn e | Undef \<Rightarrow> Undef | OutOfFuel \<Rightarrow> OutOfFuel))"

definition GetDbmsName :: "SqlInfoProperties \<Rightarrow> (exn, string) res" where
  "GetDbmsName ps = GetStringProperty ps SQL_DBMS_NAME"

definition GetDriverName :: "SqlInfoProperties \<Rightarrow> (exn, string) res" where
  "GetDriverName ps = GetStringProperty ps SQL_DRIVER_NAME"

definition GetSchemaTerm :: "SqlInfoProperties \<Rightarrow> (exn, string) res" where
  "GetSchemaTerm ps = GetStringProperty ps SQL_SCHEMA_TERM"

definition GetCatalogTerm :: "SqlInfoProperties \<Rightarrow> (exn, string) res" where
  "GetCatalogTerm ps = GetStringProperty ps SQL_CATALOG_TERM"

definition GetSearchPatternEscape :: "SqlInfoProperties \<Rightarrow> (exn, string) res" where
  "GetSearchPatternEscape ps = GetStringProperty ps SQL_SEARCH_PATTERN_ESCAPE"

definition GetDriverOdbcVersion :: "ext \<Rightarrow> SqlInfoProperties \<Rightarrow> (exn, OdbcVersion) res" where
  "GetDriverOdbcVersion X ps =
     (case GetStringProperty ps SQL_DRIVER_ODBC_VER of
        Ok s \<Rightarrow> Ok (ParseOdbcVersion X s)
      | Exn e \<Rightarrow> Exn e | Undef \<Rightarrow> Undef | OutOfFuel \<Rightarrow> OutOfFuel)"

section \<open>The invariant of the registered properties\<close>

definition all_tables :: "(nat \<times> string \<times> ValueType) list" where
  "all_tables = Dbms_props @ DataSource_props @ DataSource_props_V_3 @ remdups Driver_props @ Driver_props_V_3 @
     Driver_props_V_3_8 @ SupportedSql_props @ SupportedSql_props_V_3 @ SqlLimits_props @
     SqlLimits_props_V_3 @ ScalerFunction_props @ Conversion_props @ Conversion_props_V_3"

fun well_typed :: "ValueType \<Rightarrow> info_value \<Rightarrow> bool" where
  "well_typed VT_USmallInt (USmallIntV v) = (0 \<le> v \<and> v < 2 ^ 16)"
| "well_typed VT_UInt (UIntV v) = (0 \<le> v \<and> v < 2 ^ 32)"
| "well_typed VT_String_N_Y (StringV s) = True"
| "well_typed VT_String_Any (StringV s) = True"
| "well_typed _ _ = False"

definition prop_ok :: "nat \<Rightarrow> SqlInfoProperty \<Rightarrow> bool" where
  "prop_ok i p \<longleftrightarrow> m_infoId p = i \<and> map_of all_tables i = Some (m_infoName p, m_valueType p) \<and>
     well_typed (m_valueType p) (m_value p)"

text \<open>
  Every property has the id it is stored under and the name and type the tables give that id (no
  two tables disagree), and a value of that type.
\<close>

definition props_ok :: "SqlInfoProperties \<Rightarrow> bool" where
  "props_ok ps \<longleftrightarrow> map_inv (m_props ps) \<and> (\<forall>i p. map_of (m_props ps) i = Some p \<longrightarrow> prop_ok i p)"

lemma well_typed_initial [simp]: "well_typed v (initial_value v)"
  by (cases v) auto

lemma props_ok_put:
  "props_ok ps \<Longrightarrow> prop_ok i p \<Longrightarrow> props_ok (ps\<lparr>m_props := map_put i p (m_props ps)\<rparr>)"
  by (auto simp: props_ok_def split: if_splits)

lemma props_ok_register:
  assumes "props_ok ps" and "map_of all_tables i = Some (n, v)"
  shows "props_ok (RegisterProperty i n t v ps)"
proof -
  have "prop_ok i (SqlInfoProperty_new i n t v)"
    using assms(2) by (simp add: prop_ok_def SqlInfoProperty_new_def)
  with assms(1) props_ok_put[OF assms(1) this] show ?thesis
    by (simp add: RegisterProperty_def map_insert_new_def)
qed

lemma props_ok_table:
  "props_ok ps \<Longrightarrow> (\<forall>(i, nv) \<in> set tab. map_of all_tables i = Some nv) \<Longrightarrow> props_ok (RegisterTable t tab ps)"
  unfolding RegisterTable_def
  by (induction tab arbitrary: ps) (auto intro: props_ok_register)

lemma all_tables_distinct: "distinct (map fst all_tables)"
  by (simp add: all_tables_def Dbms_props_def DataSource_props_def DataSource_props_V_3_def
      Driver_props_def Driver_props_V_3_def Driver_props_V_3_8_def SupportedSql_props_def
      SupportedSql_props_V_3_def SqlLimits_props_def SqlLimits_props_V_3_def ScalerFunction_props_def
      Conversion_props_def Conversion_props_V_3_def)

lemma tables_declared:
  "tab \<in> {Dbms_props, DataSource_props, DataSource_props_V_3, Driver_props, Driver_props_V_3,
     Driver_props_V_3_8, SupportedSql_props, SupportedSql_props_V_3, SqlLimits_props,
     SqlLimits_props_V_3, ScalerFunction_props, Conversion_props, Conversion_props_V_3} \<Longrightarrow>
   \<forall>(i, nv) \<in> set tab. map_of all_tables i = Some nv"
  using all_tables_distinct by (auto simp: all_tables_def simp del: map_of_append map_append)

lemma keeps_register_table [keep]:
  "tab \<in> {Dbms_props, DataSource_props, DataSource_props_V_3, Driver_props, Driver_props_V_3,
     Driver_props_V_3_8, SupportedSql_props, SupportedSql_props_V_3, SqlLimits_props,
     SqlLimits_props_V_3, ScalerFunction_props, Conversion_props, Conversion_props_V_3} \<Longrightarrow>
   keeps props_ok (modifyM (RegisterTable t tab))"
  by (intro keep props_ok_table tables_declared)

lemma keeps_mark [keep]: "keeps props_ok (MarkAsUnsupported i)"
  unfolding keeps_def MarkAsUnsupported_def
  by (auto simp: bindM_exec prop_ok_def props_ok_def split: option.split if_splits)

lemma keeps_register_all [keep]:
  "keeps props_ok (RegisterDbmsProperties v)" "keeps props_ok (RegisterDataSourceProperties v)"
  "keeps props_ok (RegisterDriverProperties v)" "keeps props_ok (RegisterSupportedSqlProperties v)"
  "keeps props_ok (RegisterSqlLimitsProperties v)" "keeps props_ok (RegisterScalerFunctionProperties v)"
  "keeps props_ok (RegisterConversionProperties v)"
  unfolding RegisterDbmsProperties_def RegisterDataSourceProperties_def RegisterDriverProperties_def
    RegisterSupportedSqlProperties_def RegisterSqlLimitsProperties_def
    RegisterScalerFunctionProperties_def RegisterConversionProperties_def
  by (intro keep; simp)+

text \<open>Reading changes the value of one property and nothing else of the object.\<close>

lemma preserves_ReadInfoValue [pres]: "above f \<Longrightarrow> preserves f (ReadInfoValue X h i n)"
  unfolding ReadInfoValue_def by (intro pres; assumption)

lemma preserves_ReadInfoValue_string [pres]: "above f \<Longrightarrow> preserves f (ReadInfoValue_string X h i)"
  unfolding ReadInfoValue_string_def Let_def by (intro pres; assumption)

lemma preserves_ReadProperty [pres]: "above f \<Longrightarrow> preserves f (ReadProperty X h p)"
  unfolding ReadProperty_def by (intro pres; assumption)

lemma above_props: "above props"
  by (simp add: above_def)

lemma ReadProperty_ok:
  assumes "ReadProperty X h p w = (Ok p', w')" and "prop_ok i p"
  shows "prop_ok i p' \<and> props w' = props w"
proof -
  have "props w' = props w"
    using preserves_ReadProperty[OF above_props] assms(1) by (rule preservesD)
  moreover from assms(1) have "p' = p\<lparr>m_value := m_value p', m_valueRead := True\<rparr> \<and> well_typed (m_valueType p) (m_value p')"
    unfolding ReadProperty_def
    by (cases "m_valueType p") (auto elim!: bindM_OkE split: if_splits)
  ultimately show ?thesis using assms(2) unfolding prop_ok_def
    by (metis (no_types, lifting) SqlInfoProperty.select_convs SqlInfoProperty.simps(12,13,14)
        SqlInfoProperty.surjective SqlInfoProperty.update_convs)
qed

abbreviation props_ok_at :: "nat \<Rightarrow> 'z pworld_scheme \<Rightarrow> bool" where
  "props_ok_at this w \<equiv> props_ok (props w this)"

lemma keeps_read_put [keep]:
  assumes "prop_ok i p"
  shows "keeps (props_ok_at this) (bindM (ReadProperty X h p)
     (\<lambda>p'. mod_props this (\<lambda>ps. ps\<lparr>m_props := map_put i p' (m_props ps)\<rparr>)))"
proof (rule keepsI)
  fix w :: "'a pworld_scheme"
  assume that: "props_ok_at this w"
  show "props_ok_at this (snd (bindM (ReadProperty X h p)
      (\<lambda>p'. mod_props this (\<lambda>ps. ps\<lparr>m_props := map_put i p' (m_props ps)\<rparr>)) w))"
  proof (cases "ReadProperty X h p w")
    case (Pair r w')
    have eq: "props w' = props w"
      using preserves_ReadProperty[OF above_props] Pair by (rule preservesD)
    show ?thesis
    proof (cases r)
      case (Ok p')
      with Pair assms ReadProperty_ok have "prop_ok i p'" by blast
      with that Ok Pair eq show ?thesis by (simp add: mod_props_def props_ok_put)
    qed (use that Pair eq in \<open>simp_all add: bindM_exec\<close>)
  qed
qed

lemma keeps_EnsurePropertyRead [keep]: "keeps (props_ok_at this) (EnsurePropertyRead X this h i b)"
proof (rule keepsI)
  fix w :: "'a pworld_scheme"
  assume that: "props_ok_at this w"
  show "props_ok_at this (snd (EnsurePropertyRead X this h i b w))"
  proof (cases "map_of (m_props (props w this)) i")
    case None
    with that show ?thesis by (simp add: EnsurePropertyRead_def)
  next
    case (Some p)
    with that have "prop_ok i p" by (simp add: props_ok_def)
    note keeps_snd[OF keeps_read_put[OF this], simp]
    from that Some show ?thesis
      by (simp add: EnsurePropertyRead_def)
  qed
qed

lemma keeps_ReadAllProperties [keep]: "keeps (props_ok_at this) (ReadAllProperties X this h)"
proof (rule keepsI)
  fix w :: "'a pworld_scheme"
  assume ok: "props_ok_at this w"
  show "props_ok_at this (snd (ReadAllProperties X this h w))"
  proof -
    have ps: "prop_ok i p" if "(i, p) \<in> set (m_props (props w this))" for i p
      using ok that smap.entry_find[of "m_props (props w this)" i p] by (auto simp: props_ok_def)
    have "keeps (props_ok_at this :: 'a pworld_scheme \<Rightarrow> bool) (forM (m_props (props w this)) (\<lambda>(i, p).
        if \<not> m_unsupported p
        then catchM (bindM (ReadProperty X h p)
            (\<lambda>p'. mod_props this (\<lambda>ps. ps\<lparr>m_props := map_put i p' (m_props ps)\<rparr>)))
          (\<lambda>ex. if is_SqlResultException ex then skipM else throwM ex)
        else skipM))"
      by (rule keeps_forM) (use ps in \<open>auto intro!: keep\<close>)
    with ok show ?thesis by (simp add: ReadAllProperties_def keeps_def)
  qed
qed

lemma keeps_on_props [keep]: "keeps I m \<Longrightarrow> keeps (\<lambda>w. I (props w this)) (on_props this m)"
  by (auto simp: keeps_def on_props_def split: prod.split)

lemma keeps_above: "preserves props m \<Longrightarrow> keeps (\<lambda>w. I (props w this)) m"
  by (erule keeps_preserves) simp

lemma keeps_DetectDbms [keep]: "keeps (props_ok_at this) (DetectDbms X this h)"
  unfolding DetectDbms_def by (intro keep)

lemma keeps_set_dbms [keep]: "keeps (props_ok_at this) (mod_props this (\<lambda>ps. ps\<lparr>m_dbms := d\<rparr>))"
  unfolding mod_props_def by (intro keep) (simp add: props_ok_def)

lemma keeps_Init: "keeps (props_ok_at this) (SqlInfoProperties_Init X this h v)"
  unfolding SqlInfoProperties_Init_def by (intro keep)

text \<open>A registered property stays registered.\<close>

definition registered :: "nat \<Rightarrow> SqlInfoProperties \<Rightarrow> bool" where
  "registered i ps \<longleftrightarrow> i \<in> fst ` set (m_props ps)"

lemma registered_iff: "registered i ps \<longleftrightarrow> IsPropertyRegistered ps i"
  by (auto simp: registered_def IsPropertyRegistered_def map_of_eq_None_iff)

lemma registered_put: "registered i (qs\<lparr>m_props := map_put j p (m_props ps)\<rparr>) \<longleftrightarrow> i = j \<or> registered i ps"
  by (auto simp: registered_def set_map_put_keys)

lemma registered_table:
  "registered i (RegisterTable t tab ps) \<longleftrightarrow> i \<in> fst ` set tab \<or> registered i ps"
proof (induction tab arbitrary: ps)
  case (Cons e tab)
  obtain j n v where e: "e = (j, n, v)" by (cases e)
  have "registered i (RegisterProperty j n t v ps) \<longleftrightarrow> i = j \<or> registered i ps"
    using registered_iff[of j ps]
    by (auto simp: RegisterProperty_def map_insert_new_def IsPropertyRegistered_def registered_put)
  with Cons show ?case by (auto simp: e RegisterTable_def)
qed (simp add: RegisterTable_def)

lemma keeps_registered [keep]:
  "keeps (registered i) (modifyM (RegisterTable t tab))"
  "keeps (registered i) (MarkAsUnsupported j)"
  by (auto simp: keeps_def registered_table MarkAsUnsupported_def bindM_exec registered_put
      split: option.split)

lemma keeps_registered_read [keep]:
  "keeps (\<lambda>w. registered i (props w this)) (bindM (ReadProperty X h p)
     (\<lambda>p'. mod_props this (\<lambda>ps. ps\<lparr>m_props := map_put j p' (m_props ps)\<rparr>)))"
  unfolding mod_props_def
  by (intro keep keeps_above pres above_props) (simp add: registered_put)

lemma keeps_registered_all:
  "keeps (\<lambda>w. registered i (props w this)) (ReadAllProperties X this h)"
  unfolding ReadAllProperties_def
  by (intro keep; simp add: registered_put)

lemma keeps_registered_conv: "keeps (registered i) (RegisterConversionProperties v)"
  "keeps (registered i) (RegisterScalerFunctionProperties v)"
  unfolding RegisterConversionProperties_def RegisterScalerFunctionProperties_def by (intro keep)+

lemma RegisterSqlLimits_registers:
  assumes "on_props this (RegisterSqlLimitsProperties v) w = (r, w')" and "i \<in> fst ` set SqlLimits_props"
  shows "registered i (props w' this)"
proof -
  have "registered i (snd (RegisterSqlLimitsProperties v ps))" for ps
    using assms(2) by (simp add: RegisterSqlLimitsProperties_def thenM_exec registered_table)
  moreover have "props w' this = snd (RegisterSqlLimitsProperties v (props w this))"
    using assms(1) by (auto simp: on_props_def split: prod.splits)
  ultimately show ?thesis by simp
qed

lemma Init_registers_limits:
  assumes "SqlInfoProperties_Init X this h v w = (Ok (), w')" and "i \<in> fst ` set SqlLimits_props"
  shows "registered i (props w' this)"
proof -
  from assms(1) obtain p where h: "h = Some p"
    by (cases h) (simp_all add: SqlInfoProperties_Init_def)
  let ?rest = "seqM [on_props this (RegisterScalerFunctionProperties v),
     on_props this (RegisterConversionProperties v), ReadAllProperties X this h]"
  from assms(1) obtain w1 r w2 where
    l: "on_props this (RegisterSqlLimitsProperties v) w1 = (r, w2)" and rest: "?rest w2 = (Ok (), w')"
    unfolding SqlInfoProperties_Init_def h option.case
    by (elim seqM_ConsE) (rule that, assumption, simp add: h)
  have "keeps (\<lambda>w. registered i (props w this)) ?rest"
    by (intro keep keeps_registered_conv keeps_registered_all)
  with rest RegisterSqlLimits_registers[OF l assms(2)] show ?thesis
    by (auto dest: keepsD)
qed

lemma GetUSmallInt_registered:
  assumes "props_ok ps" and "registered i ps" and "map_of all_tables i = Some (n, VT_USmallInt)"
  shows "\<exists>v. GetUSmallInt ps i = Ok v \<and> 0 \<le> v \<and> v < 2 ^ 16"
proof -
  from assms(2) obtain p where p: "map_of (m_props ps) i = Some p"
    by (auto simp: registered_iff IsPropertyRegistered_def)
  with assms(1) have "prop_ok i p" by (simp add: props_ok_def)
  moreover from this assms(3) have "m_valueType p = VT_USmallInt" by (auto simp: prop_ok_def)
  ultimately have "well_typed VT_USmallInt (m_value p)" by (auto simp: prop_ok_def)
  then obtain v where "m_value p = USmallIntV v" and "0 \<le> v" and "v < 2 ^ 16"
    by (cases "m_value p") auto
  with p show ?thesis by (simp add: GetUSmallInt_def GetProperty_def)
qed

lemma SqlLimits_declared:
  "(i, n, v) \<in> set SqlLimits_props \<Longrightarrow> map_of all_tables i = Some (n, v)"
  using tables_declared[of SqlLimits_props] by auto

text \<open>
  C30. Once \<open>Init\<close> has succeeded on a fresh object, the four name lengths are always there: reading
  them never throws, and they are positive \<open>SQLUSMALLINT\<close>s, with the default where the driver says 0
  or the property could not be read.
\<close>

theorem Init_name_lengths:
  assumes "SqlInfoProperties_Init X this h v w = (Ok (), w')" and "m_props (props w this) = []"
  shows "\<forall>r \<in> {GetMaxCatalogNameLen (props w' this), GetMaxSchemaNameLen (props w' this),
       GetMaxTableNameLen (props w' this), GetMaxColumnNameLen (props w' this)}.
     \<exists>n. r = Ok n \<and> 0 < n \<and> n < 2 ^ 16"
proof -
  have "props_ok (props w this)" using assms(2) by (simp add: props_ok_def)
  with assms(1) keeps_Init have ok: "props_ok (props w' this)" by (blast dest: keepsD)
  have "\<exists>n. positive_or 128 (GetUSmallInt (props w' this) i) = Ok n \<and> 0 < n \<and> n < 2 ^ 16"
    if "(i, nm, VT_USmallInt) \<in> set SqlLimits_props" for i nm
  proof -
    have "registered i (props w' this)"
      using Init_registers_limits[OF assms(1), of i] that by force
    from GetUSmallInt_registered[OF ok this SqlLimits_declared[OF that]] show ?thesis
      by (auto simp: positive_or_def)
  qed
  from this[of SQL_MAX_CATALOG_NAME_LEN] this[of SQL_MAX_SCHEMA_NAME_LEN]
    this[of SQL_MAX_TABLE_NAME_LEN] this[of SQL_MAX_COLUMN_NAME_LEN]
  show ?thesis
    by (auto simp: GetMaxCatalogNameLen_def GetMaxSchemaNameLen_def GetMaxTableNameLen_def
        GetMaxColumnNameLen_def SqlLimits_props_def)
qed

text \<open>With the driver that always succeeds, \<open>Init\<close> succeeds.\<close>

lemma ReadProperty_good:
  "m_handle (hnd w p) \<noteq> 0 \<Longrightarrow>
     \<exists>q' cs. ReadProperty (ref_ext good_driver) (Some p) q w = (Ok q', w\<lparr>calls := cs\<rparr>)"
  by (auto simp: ReadProperty_def ReadInfoValue_def ReadInfoValue_string_def SqlHandle_IsAllocated_def
      SqlHandle_GetHandle_def Let_def good_driver_def reply_rc_def bindM_exec thenM_exec)

lemma ReadAll_good:
  "m_handle (hnd w p) \<noteq> 0 \<Longrightarrow>
     \<exists>w'. ReadAllProperties (ref_ext good_driver) this (Some p) w = (Ok (), w')"
proof -
  have "m_handle (hnd w p) \<noteq> 0 \<Longrightarrow> \<exists>w'. forM all (\<lambda>(i, q).
      if \<not> m_unsupported q
      then catchM (bindM (ReadProperty (ref_ext good_driver) (Some p) q)
          (\<lambda>q'. mod_props this (\<lambda>ps. ps\<lparr>m_props := map_put i q' (m_props ps)\<rparr>)))
        (\<lambda>ex. if is_SqlResultException ex then skipM else throwM ex)
      else skipM) w = (Ok (), w')" for all
  proof (induction all arbitrary: w)
    case (Cons e all)
    obtain i q where e: "e = (i, q)" by (cases e)
    from ReadProperty_good[OF Cons.prems] obtain q' cs where
      r: "ReadProperty (ref_ext good_driver) (Some p) q w = (Ok q', w\<lparr>calls := cs\<rparr>)" by blast
    show ?case
    proof (cases "m_unsupported q")
      case False
      with Cons.IH r Cons.prems show ?thesis
        by (simp add: e thenM_exec catchM_exec bindM_exec mod_props_def)
    qed (use Cons in \<open>simp add: e\<close>)
  qed simp
  then show "m_handle (hnd w p) \<noteq> 0 \<Longrightarrow> ?thesis" by (simp add: ReadAllProperties_def)
qed

definition small_props_heap :: pworld where
  "small_props_heap =
     \<lparr>calls = [], hnd = (\<lambda>_. SqlHandle_init\<lparr>m_handle := 3\<rparr>),
      bnd = (\<lambda>_. \<lparr>m_unbindColumnsConnections = [], m_resetParamsConnections = []\<rparr>), fresh = 1,
      props = (\<lambda>_. SqlInfoProperties_new)\<rparr>"

lemma Register_V_2:
  "RegisterDataSourceProperties V_2 ps = (Ok (), RegisterTable IT_DataSource DataSource_props ps)"
  "RegisterDriverProperties V_2 ps = (Ok (), RegisterTable IT_Driver Driver_props ps)"
  "RegisterSupportedSqlProperties V_2 ps = (Ok (), RegisterTable IT_SupportedSql SupportedSql_props ps)"
  "RegisterSqlLimitsProperties V_2 ps = (Ok (), RegisterTable IT_SqlLimits SqlLimits_props ps)"
  "RegisterConversionProperties V_2 ps = (Ok (), RegisterTable IT_Conversion Conversion_props ps)"
  by (simp_all add: RegisterDataSourceProperties_def RegisterDriverProperties_def
      RegisterSupportedSqlProperties_def RegisterSqlLimitsProperties_def
      RegisterConversionProperties_def thenM_exec)

lemma ReadAll_good_last:
  "m_handle (hnd w p) \<noteq> 0 \<Longrightarrow>
     \<exists>w'. thenM (ReadAllProperties (ref_ext good_driver) this (Some p)) skipM w = (Ok (), w')"
  using ReadAll_good[of w p this] by (auto simp: thenM_exec)

lemma Init_good:
  "\<exists>w'. SqlInfoProperties_Init (ref_ext good_driver) 0 (Some 0) V_2 small_props_heap = (Ok (), w')"
  by (simp add: SqlInfoProperties_Init_def small_props_heap_def SqlHandle_IsAllocated_def on_props_def
      RegisterDbmsProperties_def RegisterTable_def Dbms_props_def RegisterProperty_def
      map_insert_new_def SqlInfoProperties_new_def EnsurePropertyRead_def SqlInfoProperty_new_def
      ReadProperty_def ReadInfoValue_def ReadInfoValue_string_def SqlHandle_GetHandle_def Let_def
      good_driver_def reply_rc_def DetectDbms_def mod_props_def GetStringProperty_def GetProperty_def
      bindM_exec Register_V_2 RegisterScalerFunctionProperties_def ReadAll_good_last)

theorem Init_name_lengths_witness:
  "\<exists>w' n. SqlInfoProperties_Init (ref_ext good_driver) 0 (Some 0) V_2 small_props_heap = (Ok (), w') \<and>
     GetMaxTableNameLen (props w' 0) = Ok n \<and> 0 < n"
proof -
  obtain w' where i: "SqlInfoProperties_Init (ref_ext good_driver) 0 (Some 0) V_2 small_props_heap = (Ok (), w')"
    using Init_good by blast
  moreover have "m_props (props small_props_heap 0) = []"
    by (simp add: small_props_heap_def SqlInfoProperties_new_def)
  ultimately show ?thesis using Init_name_lengths[OF i] by auto
qed

text \<open>
  \<open>ParseOdbcVersion\<close> on \<open>major.minor\<close>, both in decimal digits: at least 3 and 80 is 3.8, at
  least 3 is 3, 2 is 2 (so a 4.00 driver counts as 3), and anything lower, or a part that does not
  fit a \<open>short\<close>, is unknown.
\<close>

theorem ParseOdbcVersion_spec:
  assumes "split_ok X" and "lexical_short_ok X"
    and "a \<noteq> []" and "list_all is_digit a" and "b \<noteq> []" and "list_all is_digit b"
  shows "ParseOdbcVersion X (a @ CHR ''.'' # b) =
     (if digits_value a > SHRT_MAX \<or> digits_value b > SHRT_MAX \<or> digits_value a < 2 then ODBC_UNKNOWN
      else if digits_value a = 2 then V_2
      else if digits_value b \<ge> 80 then V_3_8 else V_3)"
proof -
  have dot: "\<not> is_digit (CHR ''.'')" by (simp add: is_digit_def)
  then have "CHR ''.'' \<notin> set a" "CHR ''.'' \<notin> set b"
    using assms(4,6) by (auto simp: list_all_iff)
  then have "boost_split X (a @ CHR ''.'' # b) (CHR ''.'') = [a, b]"
    using assms(1) by (simp add: split_ok_def split_doc_append split_doc_no)
  moreover have "boost_lexical_short X s = lexical_short_doc s" if "s = a \<or> s = b" for s
    using assms(2-6) that by (auto simp: lexical_short_ok_def)
  ultimately show ?thesis
    using assms(3-6) by (auto simp: ParseOdbcVersion_def lexical_short_doc_def)
qed

theorem ParseOdbcVersion_spec_witness:
  "ParseOdbcVersion (ref_ext good_driver) ''4.00'' = V_3"
  using ParseOdbcVersion_spec[of "ref_ext good_driver" "''4''" "''00''"]
  by (simp add: is_digit_def digits_value_def)

text \<open>
  Registering a property never changes one that is registered already: a property registered
  twice keeps its first value, type and marks; any other lookup is unaffected.
\<close>

theorem RegisterProperty_keeps_first:
  assumes "map_inv (m_props ps)"
  shows "GetProperty (RegisterProperty i n t v ps) j =
    (if j = i \<and> \<not> IsPropertyRegistered ps i then Ok (SqlInfoProperty_new i n t v) else GetProperty ps j)"
proof (cases "j = i")
  case True
  with assms show ?thesis
    by (simp add: GetProperty_def RegisterProperty_def IsPropertyRegistered_def
        smap.find_insert_new_same split: option.split)
next
  case False
  with assms show ?thesis
    by (simp add: GetProperty_def RegisterProperty_def smap.find_insert_new_other)
qed

theorem RegisterProperty_keeps_first_witness:
  "GetProperty (RegisterProperty 6 ''SQL_DRIVER_NAME'' IT_Driver VT_UInt
      (RegisterProperty 6 ''SQL_DRIVER_NAME'' IT_Driver VT_String_Any SqlInfoProperties_new)) 6 =
     Ok (SqlInfoProperty_new 6 ''SQL_DRIVER_NAME'' IT_Driver VT_String_Any)"
  using RegisterProperty_keeps_first[of "RegisterProperty 6 ''SQL_DRIVER_NAME'' IT_Driver VT_String_Any
      SqlInfoProperties_new" 6 "''SQL_DRIVER_NAME''" IT_Driver VT_UInt 6]
  by (simp add: RegisterProperty_def SqlInfoProperties_new_def map_insert_new_def map_inv_def
      IsPropertyRegistered_def GetProperty_def)

end
