(* ===== verification/Infos.thy ===== *)
theory Infos
  imports InfoProps
begin

text \<open>
  The rows the catalog functions return: \<open>TableInfo\<close>, \<open>ColumnInfo\<close>, \<open>PrimaryKeyInfo\<close>,
  \<open>SpecialColumnInfo\<close>, \<open>SqlTypeInfo\<close>, and \<open>ColumnDescription\<close>. A constructor that takes a
  statement handle reads the current row with \<open>SQLGetData\<close>, one column after the other; the
  number of characters to read comes from the properties of the connection.

  A number whose column is NULL is not written by the driver; it is then the value the reply
  happens to have, that is, any value, and the flag next to it says not to use it. The texts that
  list all members (\<open>SqlTypeInfo::ToStr\<close> and its relatives) are in \<open>InfoTexts\<close>.
\<close>

section \<open>Reading a column of the current row\<close>

definition get_number :: "ext \<Rightarrow> nat option \<Rightarrow> nat \<Rightarrow> int \<Rightarrow> int \<Rightarrow> ('z, int \<times> bool) hprog" where
  "get_number X pStmt colNr cType len =
     bindM (GetData X pStmt colNr cType len) (\<lambda>(r, isNull). returnM (onum r, isNull))"

text \<open>A \<open>SQLSMALLINT\<close> (2 bytes), a \<open>SQLINTEGER\<close> (4 bytes), and a string.\<close>

definition get_short :: "ext \<Rightarrow> nat option \<Rightarrow> nat \<Rightarrow> ('z, int \<times> bool) hprog" where
  "get_short X pStmt colNr = get_number X pStmt colNr SQL_C_SSHORT 2"

definition get_long :: "ext \<Rightarrow> nat option \<Rightarrow> nat \<Rightarrow> ('z, int \<times> bool) hprog" where
  "get_long X pStmt colNr = get_number X pStmt colNr SQL_C_SLONG 4"

definition get_string :: "ext \<Rightarrow> nat option \<Rightarrow> nat \<Rightarrow> (exn, int) res \<Rightarrow> ('z, string \<times> bool) hprog" where
  "get_string X pStmt colNr maxLen =
     bindM (liftM maxLen) (\<lambda>n. GetData_string X pStmt colNr (nat n))"

definition row_asserts :: "nat option \<Rightarrow> ('z, 'a) hprog \<Rightarrow> ('z, 'a) hprog" where
  "row_asserts pStmt m =
     thenM (exASSERT ''pStmt'' (\<lambda>_. pStmt \<noteq> None))
       (thenM (exASSERT ''pStmt->IsAllocated()'' (\<lambda>w. SqlHandle_IsAllocated w (the pStmt))) m)"

section \<open>TableInfo\<close>

record TableInfo =
  ti_dbms :: DatabaseProduct
  ti_catalogName :: string
  ti_schemaName :: string
  ti_tableName :: string
  ti_tableType :: string
  ti_tableRemarks :: string
  ti_isCatalogNull :: bool
  ti_isSchemaNull :: bool

definition TableInfo_read :: "ext \<Rightarrow> nat option \<Rightarrow> SqlInfoProperties \<Rightarrow> ('z, TableInfo) hprog" where
  "TableInfo_read X pStmt ps = row_asserts pStmt (
     bindM (get_string X pStmt 1 (GetMaxCatalogNameLen ps)) (\<lambda>(catalogName, isCatalogNull).
     bindM (get_string X pStmt 2 (GetMaxSchemaNameLen ps)) (\<lambda>(schemaName, isSchemaNull).
     bindM (get_string X pStmt 3 (GetMaxTableNameLen ps)) (\<lambda>(tableName, _).
     bindM (get_string X pStmt 4 (Ok 128)) (\<lambda>(tableType, _).
     bindM (get_string X pStmt 5 (Ok 512)) (\<lambda>(tableRemarks, _).
     returnM \<lparr>ti_dbms = m_dbms ps,
       ti_catalogName = catalogName, ti_schemaName = schemaName, ti_tableName = tableName,
       ti_tableType = tableType, ti_tableRemarks = tableRemarks,
       ti_isCatalogNull = isCatalogNull, ti_isSchemaNull = isSchemaNull\<rparr>))))))"

text \<open>The constructor from names: an empty name counts as NULL.\<close>

definition TableInfo_of ::
  "string \<Rightarrow> string \<Rightarrow> string \<Rightarrow> string \<Rightarrow> string \<Rightarrow> DatabaseProduct \<Rightarrow> TableInfo" where
  "TableInfo_of tableName tableType tableRemarks catalogName schemaName dbms =
     \<lparr>ti_dbms = dbms, ti_catalogName = catalogName, ti_schemaName = schemaName,
      ti_tableName = tableName, ti_tableType = tableType, ti_tableRemarks = tableRemarks,
      ti_isCatalogNull = (catalogName = []), ti_isSchemaNull = (schemaName = [])\<rparr>"

text \<open>The default constructor, and the one that takes empty names for NULL.\<close>

definition TableInfo_new :: TableInfo where
  "TableInfo_new = \<lparr>ti_dbms = UNKNOWN_DBMS, ti_catalogName = [], ti_schemaName = [], ti_tableName = [],
     ti_tableType = [], ti_tableRemarks = [], ti_isCatalogNull = True, ti_isSchemaNull = True\<rparr>"

definition TableInfo_of_names ::
  "string \<Rightarrow> string \<Rightarrow> string \<Rightarrow> string \<Rightarrow> string \<Rightarrow> DatabaseProduct \<Rightarrow> TableInfo" where
  "TableInfo_of_names tableName tableType tableRemarks catalogName schemaName dbms =
     \<lparr>ti_dbms = dbms, ti_catalogName = catalogName, ti_schemaName = schemaName, ti_tableName = tableName,
      ti_tableType = tableType, ti_tableRemarks = tableRemarks,
      ti_isCatalogNull = (catalogName = []), ti_isSchemaNull = (schemaName = [])\<rparr>"

definition TableInfo_HasSchema :: "TableInfo \<Rightarrow> bool" where
  "TableInfo_HasSchema t \<longleftrightarrow> \<not> ti_isSchemaNull t \<and> ti_schemaName t \<noteq> []"

definition TableInfo_HasCatalog :: "TableInfo \<Rightarrow> bool" where
  "TableInfo_HasCatalog t \<longleftrightarrow> \<not> ti_isCatalogNull t \<and> ti_catalogName t \<noteq> []"

definition TableInfo_GetQueryName :: "TableInfo \<Rightarrow> (exn, string) res" where
  "TableInfo_GetQueryName t =
     (if ti_tableName t = [] then Exn (AssertionException ''! m_tableName.empty()'')
      else if ti_dbms t = ACCESS then Ok (ti_tableName t)
      else if ti_dbms t = EXCEL then Ok (''['' @ ti_tableName t @ '']'')
      else Ok ((if TableInfo_HasCatalog t then ti_catalogName t @ ''.'' else []) @
               (if TableInfo_HasSchema t then ti_schemaName t @ ''.'' else []) @ ti_tableName t))"

definition quote :: string where "quote = [CHR 0x27]"

definition TableInfo_ToString :: "TableInfo \<Rightarrow> string" where
  "TableInfo_ToString t =
     ''Name: '' @ quote @ ti_tableName t @ quote @ ''; '' @
     ''Schema: '' @ quote @ (if ti_isSchemaNull t then ''NULL; '' else ti_schemaName t @ quote @ ''; '') @
     ''Catalog: '' @ quote @ (if ti_isCatalogNull t then ''NULL; '' else ti_catalogName t @ ''; '') @
     ''Type: '' @ quote @ ti_tableType t @ quote"

text \<open>\<open>operator==\<close> compares every member but \<open>m_dbms\<close>.\<close>

definition TableInfo_eq :: "TableInfo \<Rightarrow> TableInfo \<Rightarrow> bool" where
  "TableInfo_eq this other \<longleftrightarrow>
     ti_tableName this = ti_tableName other \<and> ti_schemaName this = ti_schemaName other \<and>
     ti_catalogName this = ti_catalogName other \<and> ti_tableType this = ti_tableType other \<and>
     ti_tableRemarks this = ti_tableRemarks other \<and> ti_isSchemaNull this = ti_isSchemaNull other \<and>
     ti_isCatalogNull this = ti_isCatalogNull other"

section \<open>ColumnInfo\<close>

record ColumnInfo =
  ci_catalogName :: string
  ci_schemaName :: string
  ci_tableName :: string
  ci_columnName :: string
  ci_sqlType :: int
  ci_typeName :: string
  ci_columnSize :: int
  ci_bufferSize :: int
  ci_decimalDigits :: int
  ci_numPrecRadix :: int
  ci_nullable :: int
  ci_remarks :: string
  ci_defaultValue :: string
  ci_sqlDataType :: int
  ci_sqlDatetimeSub :: int
  ci_charOctetLength :: int
  ci_ordinalPosition :: int
  ci_isNullable :: string
  ci_isCatalogNull :: bool
  ci_isSchemaNull :: bool
  ci_isColumnSizeNull :: bool
  ci_isBufferSizeNull :: bool
  ci_isDecimalDigitsNull :: bool
  ci_isNumPrecRadixNull :: bool
  ci_isRemarksNull :: bool
  ci_isDefaultValueNull :: bool
  ci_isSqlDatetimeSubNull :: bool
  ci_isCharOctetLengthNull :: bool
  ci_isIsNullableNull :: bool

definition ColumnInfo_read :: "ext \<Rightarrow> nat option \<Rightarrow> SqlInfoProperties \<Rightarrow> ('z, ColumnInfo) hprog" where
  "ColumnInfo_read X pStmt ps = row_asserts pStmt (
     bindM (get_string X pStmt 1 (GetMaxCatalogNameLen ps)) (\<lambda>(catalogName, isCatalogNull).
     bindM (get_string X pStmt 2 (GetMaxSchemaNameLen ps)) (\<lambda>(schemaName, isSchemaNull).
     bindM (get_string X pStmt 3 (GetMaxTableNameLen ps)) (\<lambda>(tableName, _).
     bindM (get_string X pStmt 4 (GetMaxColumnNameLen ps)) (\<lambda>(columnName, _).
     bindM (get_short X pStmt 5) (\<lambda>(sqlType, _).
     bindM (get_string X pStmt 6 (Ok 40)) (\<lambda>(typeName, _).
     bindM (get_long X pStmt 7) (\<lambda>(columnSize, isColumnSizeNull).
     bindM (get_long X pStmt 8) (\<lambda>(bufferSize, isBufferSizeNull).
     bindM (get_short X pStmt 9) (\<lambda>(decimalDigits, isDecimalDigitsNull).
     bindM (get_short X pStmt 10) (\<lambda>(numPrecRadix, isNumPrecRadixNull).
     bindM (get_short X pStmt 11) (\<lambda>(nullable, _).
     bindM (get_string X pStmt 12 (Ok 512)) (\<lambda>(remarks, isRemarksNull).
     bindM (get_string X pStmt 13 (Ok 512)) (\<lambda>(defaultValue, isDefaultValueNull).
     bindM (get_short X pStmt 14) (\<lambda>(sqlDataType, _).
     bindM (get_short X pStmt 15) (\<lambda>(sqlDatetimeSub, isSqlDatetimeSubNull).
     bindM (get_long X pStmt 16) (\<lambda>(charOctetLength, isCharOctetLengthNull).
     bindM (get_long X pStmt 17) (\<lambda>(ordinalPosition, _).
     bindM (get_string X pStmt 18 (Ok 3)) (\<lambda>(isNullable, isIsNullableNull).
     returnM \<lparr>ci_catalogName = catalogName, ci_schemaName = schemaName, ci_tableName = tableName,
       ci_columnName = columnName, ci_sqlType = sqlType, ci_typeName = typeName, ci_columnSize
       = columnSize, ci_bufferSize = bufferSize, ci_decimalDigits = decimalDigits,
       ci_numPrecRadix = numPrecRadix, ci_nullable = nullable, ci_remarks = remarks,
       ci_defaultValue = defaultValue, ci_sqlDataType = sqlDataType, ci_sqlDatetimeSub =
       sqlDatetimeSub, ci_charOctetLength = charOctetLength, ci_ordinalPosition =
       ordinalPosition, ci_isNullable = isNullable,
       ci_isCatalogNull = isCatalogNull, ci_isSchemaNull = isSchemaNull, ci_isColumnSizeNull =
       isColumnSizeNull, ci_isBufferSizeNull = isBufferSizeNull, ci_isDecimalDigitsNull =
       isDecimalDigitsNull, ci_isNumPrecRadixNull = isNumPrecRadixNull, ci_isRemarksNull =
       isRemarksNull, ci_isDefaultValueNull = isDefaultValueNull, ci_isSqlDatetimeSubNull =
       isSqlDatetimeSubNull, ci_isCharOctetLengthNull = isCharOctetLengthNull,
       ci_isIsNullableNull = isIsNullableNull\<rparr>)))))))))))))))))))"

definition ColumnInfo_GetQueryName :: "ColumnInfo \<Rightarrow> (exn, string) res" where
  "ColumnInfo_GetQueryName c =
     (if ci_columnName c = [] then Exn (AssertionException ''!m_columnName.empty()'') else Ok (ci_columnName c))"

section \<open>PrimaryKeyInfo\<close>

record PrimaryKeyInfo =
  pk_catalogName :: string
  pk_schemaName :: string
  pk_tableName :: string
  pk_columnName :: string
  pk_keySequence :: int
  pk_keyName :: string
  pk_isCatalogNull :: bool
  pk_isSchemaNull :: bool
  pk_isKeyNameNull :: bool

definition PrimaryKeyInfo_read :: "ext \<Rightarrow> nat option \<Rightarrow> SqlInfoProperties \<Rightarrow> ('z, PrimaryKeyInfo) hprog" where
  "PrimaryKeyInfo_read X pStmt ps = row_asserts pStmt (
     bindM (get_string X pStmt 1 (GetMaxCatalogNameLen ps)) (\<lambda>(catalogName, isCatalogNull).
     bindM (get_string X pStmt 2 (GetMaxSchemaNameLen ps)) (\<lambda>(schemaName, isSchemaNull).
     bindM (get_string X pStmt 3 (GetMaxTableNameLen ps)) (\<lambda>(tableName, _).
     bindM (get_string X pStmt 4 (GetMaxColumnNameLen ps)) (\<lambda>(columnName, _).
     bindM (get_number X pStmt 5 SQL_C_SHORT 2) (\<lambda>(keySequence, _).
     bindM (get_string X pStmt 6 (Ok 128)) (\<lambda>(keyName, isKeyNameNull).
     returnM \<lparr>pk_catalogName = catalogName, pk_schemaName = schemaName, pk_tableName = tableName,
       pk_columnName = columnName, pk_keySequence = keySequence, pk_keyName = keyName,
       pk_isCatalogNull = isCatalogNull, pk_isSchemaNull = isSchemaNull, pk_isKeyNameNull =
       isKeyNameNull\<rparr>)))))))"

definition PrimaryKeyInfo_of :: "string \<Rightarrow> string \<Rightarrow> int \<Rightarrow> PrimaryKeyInfo" where
  "PrimaryKeyInfo_of tableName columnName keySequence =
     \<lparr>pk_catalogName = [], pk_schemaName = [], pk_tableName = tableName, pk_columnName = columnName,
      pk_keySequence = keySequence, pk_keyName = [],
      pk_isCatalogNull = True, pk_isSchemaNull = True, pk_isKeyNameNull = True\<rparr>"

definition PrimaryKeyInfo_GetQueryName :: "PrimaryKeyInfo \<Rightarrow> (exn, string) res" where
  "PrimaryKeyInfo_GetQueryName k =
     (if pk_columnName k = [] then Exn (AssertionException ''!m_columnName.empty()'') else Ok (pk_columnName k))"

section \<open>SpecialColumnInfo\<close>

text \<open>
  The enumerations carry the macros of \<open>SQLSpecialColumns\<close>. The reader stores everything but the
  pseudo-column value: it is read into a local variable and \<open>m_pseudoColumn\<close> keeps whatever it was
  (here \<open>indeterminate\<close>, an argument), and \<open>m_scope\<close> likewise when the scope is NULL.
\<close>

datatype IdentifierType = UNIQUE_ROW | ROW_VERSION

fun IdentifierType_value :: "IdentifierType \<Rightarrow> int" where
  "IdentifierType_value UNIQUE_ROW = 1"
| "IdentifierType_value ROW_VERSION = 2"

datatype RowIdScope = SCOPE_CURSOR | SCOPE_TRANSACTION | SCOPE_SESSION

definition RowIdScope_of :: "int \<Rightarrow> (exn, RowIdScope) res" where
  "RowIdScope_of v =
     (if v = 0 then Ok SCOPE_CURSOR else if v = 2 then Ok SCOPE_SESSION
      else if v = 1 then Ok SCOPE_TRANSACTION else Exn (AssertionException ''Unknown Row id scope value''))"

record SpecialColumnInfo =
  sc_identType :: IdentifierType
  sc_scope :: RowIdScope
  sc_isScopeNull :: bool
  sc_columnName :: string
  sc_sqlType :: int
  sc_sqlTypeName :: string
  sc_columnSize :: int
  sc_bufferLength :: int
  sc_decimalDigits :: int
  sc_pseudoColumn :: int

definition SpecialColumnInfo_read ::
  "ext \<Rightarrow> nat option \<Rightarrow> SqlInfoProperties \<Rightarrow> IdentifierType \<Rightarrow> RowIdScope \<times> int \<Rightarrow> ('z, SpecialColumnInfo) hprog" where
  "SpecialColumnInfo_read X pStmt ps identType indeterminate = row_asserts pStmt (
     bindM (get_short X pStmt 1) (\<lambda>(scopeVal, isScopeNull).
     bindM (get_string X pStmt 2 (GetMaxColumnNameLen ps)) (\<lambda>(columnName, _).
     bindM (get_short X pStmt 3) (\<lambda>(sqlType, _).
     bindM (get_string X pStmt 4 (Ok 40)) (\<lambda>(sqlTypeName, _).
     bindM (get_long X pStmt 5) (\<lambda>(columnSize, _).
     bindM (get_long X pStmt 6) (\<lambda>(bufferLength, _).
     bindM (get_short X pStmt 7) (\<lambda>(decimalDigits, _).
     bindM (get_short X pStmt 8) (\<lambda>(pseudoColVal, _).
     bindM (if isScopeNull then returnM (fst indeterminate) else liftM (RowIdScope_of scopeVal)) (\<lambda>scope.
     returnM \<lparr>sc_identType = identType, sc_scope = scope, sc_isScopeNull = isScopeNull,
       sc_columnName = columnName, sc_sqlType = sqlType, sc_sqlTypeName = sqlTypeName,
       sc_columnSize = columnSize, sc_bufferLength = bufferLength, sc_decimalDigits = decimalDigits,
       sc_pseudoColumn = snd indeterminate\<rparr>))))))))))"

section \<open>SqlTypeInfo\<close>

record SqlTypeInfo =
  st_typeName :: string
  st_sqlType :: int
  st_columnSize :: int
  st_literalPrefix :: string
  st_literalSuffix :: string
  st_createParams :: string
  st_nullable :: int
  st_caseSensitive :: int
  st_searchable :: int
  st_isUnsigned :: int
  st_fixedPrecisionScale :: int
  st_autoUniqueValue :: int
  st_localTypeName :: string
  st_minimumScale :: int
  st_maximumScale :: int
  st_sqlDataType :: int
  st_sqlDateTimeSub :: int
  st_numPrecRadix :: int
  st_intervalPrecision :: int
  st_columnSizeIsNull :: bool
  st_literalPrefixIsNull :: bool
  st_literalSuffixIsNull :: bool
  st_createParamsIsNull :: bool
  st_unsignedIsNull :: bool
  st_autoUniqueValueIsNull :: bool
  st_localTypeNameIsNull :: bool
  st_minimumScaleIsNull :: bool
  st_maximumScaleIsNull :: bool
  st_sqlDateTimeSubIsNull :: bool
  st_numPrecRadixIsNull :: bool
  st_intervalPrecisionIsNull :: bool

text \<open>
  The last two members are \<open>SQLINTEGER\<close>s read as \<open>SQL_C_SSHORT\<close>: the driver writes two of their
  four bytes.
\<close>

definition SqlTypeInfo_read :: "ext \<Rightarrow> nat option \<Rightarrow> SqlInfoProperties \<Rightarrow> ('z, SqlTypeInfo) hprog" where
  "SqlTypeInfo_read X pStmt ps = row_asserts pStmt (
     bindM (get_string X pStmt 1 (Ok 40)) (\<lambda>(typeName, _).
     bindM (get_short X pStmt 2) (\<lambda>(sqlType, _).
     bindM (get_long X pStmt 3) (\<lambda>(columnSize, columnSizeIsNull).
     bindM (get_string X pStmt 4 (Ok 128)) (\<lambda>(literalPrefix, literalPrefixIsNull).
     bindM (get_string X pStmt 5 (Ok 128)) (\<lambda>(literalSuffix, literalSuffixIsNull).
     bindM (get_string X pStmt 6 (Ok 512)) (\<lambda>(createParams, createParamsIsNull).
     bindM (get_short X pStmt 7) (\<lambda>(nullable, _).
     bindM (get_short X pStmt 8) (\<lambda>(caseSensitive, _).
     bindM (get_short X pStmt 9) (\<lambda>(searchable, _).
     bindM (get_short X pStmt 10) (\<lambda>(isUnsigned, unsignedIsNull).
     bindM (get_short X pStmt 11) (\<lambda>(fixedPrecisionScale, _).
     bindM (get_short X pStmt 12) (\<lambda>(autoUniqueValue, autoUniqueValueIsNull).
     bindM (get_string X pStmt 13 (Ok 256)) (\<lambda>(localTypeName, localTypeNameIsNull).
     bindM (get_short X pStmt 14) (\<lambda>(minimumScale, minimumScaleIsNull).
     bindM (get_short X pStmt 15) (\<lambda>(maximumScale, maximumScaleIsNull).
     bindM (get_short X pStmt 16) (\<lambda>(sqlDataType, _).
     bindM (get_short X pStmt 17) (\<lambda>(sqlDateTimeSub, sqlDateTimeSubIsNull).
     bindM (get_number X pStmt 18 SQL_C_SSHORT 4) (\<lambda>(numPrecRadix, numPrecRadixIsNull).
     bindM (get_number X pStmt 19 SQL_C_SSHORT 4) (\<lambda>(intervalPrecision, intervalPrecisionIsNull).
     returnM \<lparr>st_typeName = typeName, st_sqlType = sqlType, st_columnSize = columnSize,
       st_literalPrefix = literalPrefix, st_literalSuffix = literalSuffix, st_createParams =
       createParams, st_nullable = nullable, st_caseSensitive = caseSensitive, st_searchable =
       searchable, st_isUnsigned = isUnsigned, st_fixedPrecisionScale = fixedPrecisionScale,
       st_autoUniqueValue = autoUniqueValue, st_localTypeName = localTypeName, st_minimumScale
       = minimumScale, st_maximumScale = maximumScale, st_sqlDataType = sqlDataType,
       st_sqlDateTimeSub = sqlDateTimeSub, st_numPrecRadix = numPrecRadix, st_intervalPrecision
       = intervalPrecision,
       st_columnSizeIsNull = columnSizeIsNull, st_literalPrefixIsNull = literalPrefixIsNull,
       st_literalSuffixIsNull = literalSuffixIsNull, st_createParamsIsNull =
       createParamsIsNull, st_unsignedIsNull = unsignedIsNull, st_autoUniqueValueIsNull =
       autoUniqueValueIsNull, st_localTypeNameIsNull = localTypeNameIsNull,
       st_minimumScaleIsNull = minimumScaleIsNull, st_maximumScaleIsNull = maximumScaleIsNull,
       st_sqlDateTimeSubIsNull = sqlDateTimeSubIsNull, st_numPrecRadixIsNull =
       numPrecRadixIsNull, st_intervalPrecisionIsNull = intervalPrecisionIsNull\<rparr>))))))))))))))))))))"

definition SqlTypeInfo_less :: "SqlTypeInfo \<Rightarrow> SqlTypeInfo \<Rightarrow> bool" where
  "SqlTypeInfo_less this other \<longleftrightarrow> st_sqlDataType this < st_sqlDataType other"

section \<open>ColumnDescription\<close>

record ColumnDescription =
  cd_name :: string
  cd_sqlType :: int
  cd_charSize :: int
  cd_decimalDigits :: int
  cd_nullable :: int

definition ColumnDescription_query ::
  "ext \<Rightarrow> nat option \<Rightarrow> nat \<Rightarrow> SqlInfoProperties \<Rightarrow> ('z, ColumnDescription) hprog" where
  "ColumnDescription_query X pStmt columnNr ps = row_asserts pStmt
     (thenM (exASSERT ''columnNr >= 1'' (\<lambda>_. columnNr \<ge> 1))
     (bindM (liftM (GetMaxColumnNameLen ps)) (\<lambda>maxColName.
      bindM (getsM (\<lambda>w. SqlHandle_GetHandle w (the pStmt))) (\<lambda>h.
      bindM (odbc X (SQLDescribeCol h columnNr (nat maxColName + 1))) (\<lambda>r.
        thenM (THROW_IFN_SUCCEEDED X ''SQLDescribeCol'' (rc r) SQL_HANDLE_STMT h)
          (case odesc r of (t, sz, digits, nullable) \<Rightarrow>
             returnM \<lparr>cd_name = c_string (ostr r), cd_sqlType = t, cd_charSize = sz,
                      cd_decimalDigits = digits, cd_nullable = nullable\<rparr>))))))"

section \<open>What the readers promise\<close>

lemma GetData_call:
  "GetData X (Some p) n t k w = (Ok v, w') \<Longrightarrow>
     w' = w\<lparr>calls := SQLGetData (m_handle (hnd w p)) n t k # calls w\<rparr>"
  by (auto simp: GetData_def SqlHandle_GetHandle_def thenM_exec bindM_exec split: if_splits)

fun getdata_column :: "nat \<Rightarrow> odbc_call \<Rightarrow> nat option" where
  "getdata_column h (SQLGetData h' n t k) = (if h = h' then Some n else None)"
| "getdata_column h _ = None"

text \<open>\<open>columns_read p n w w'\<close>: between \<open>w\<close> and \<open>w'\<close> only columns 1 to \<open>n\<close> were read, in this order.\<close>

definition columns_read :: "nat \<Rightarrow> nat \<Rightarrow> 'z hworld_scheme \<Rightarrow> 'z hworld_scheme \<Rightarrow> bool" where
  "columns_read p n w w' \<longleftrightarrow>
     (\<exists>new. w' = w\<lparr>calls := new @ calls w\<rparr> \<and>
        rev (map (getdata_column (m_handle (hnd w p))) new) = map Some [1..<Suc n])"

lemma columns_read_0: "columns_read p 0 w w"
  by (simp add: columns_read_def)

lemma columns_read_step:
  assumes "columns_read p n w w1"
  shows "columns_read p (Suc n) w (w1\<lparr>calls := SQLGetData (m_handle (hnd w1 p)) (Suc n) t k # calls w1\<rparr>)"
proof -
  from assms obtain new where new: "w1 = w\<lparr>calls := new @ calls w\<rparr>"
    "rev (map (getdata_column (m_handle (hnd w p))) new) = map Some [1..<Suc n]"
    by (auto simp: columns_read_def)
  then show ?thesis
    unfolding columns_read_def
    by (intro exI[of _ "SQLGetData (m_handle (hnd w p)) (Suc n) t k # new"]) simp
qed

lemma valid_GetData:
  "m = Suc n \<Longrightarrow> valid (columns_read p n w) (GetData X (Some p) m t k) (\<lambda>_. columns_read p m w) (\<lambda>_ _. True)"
  by (rule validI) (auto dest!: GetData_call intro: columns_read_step)

lemma valid_trivial [vcg]:
  "valid P (returnM x) (\<lambda>_. P) (\<lambda>_ _. True)" "valid P (liftM r) (\<lambda>_. P) (\<lambda>_ _. True)"
  by (auto simp: valid_def split: res.split)

lemma valid_prod: "(\<And>x y. valid P (g x y) Q E) \<Longrightarrow> valid P (case v of (x, y) \<Rightarrow> g x y) Q E"
  by (cases v) simp

lemma valid_get [vcg]:
  assumes "m = Suc n"
  shows "valid (columns_read p n w) (get_number X (Some p) m t k) (\<lambda>_. columns_read p m w) (\<lambda>_ _. True)"
    and "valid (columns_read p n w) (get_short X (Some p) m) (\<lambda>_. columns_read p m w) (\<lambda>_ _. True)"
    and "valid (columns_read p n w) (get_long X (Some p) m) (\<lambda>_. columns_read p m w) (\<lambda>_ _. True)"
    and "valid (columns_read p n w) (get_string X (Some p) m r) (\<lambda>_. columns_read p m w) (\<lambda>_ _. True)"
  unfolding get_short_def get_long_def get_number_def get_string_def GetData_string_def
  by (intro valid_bindM[OF valid_GetData[OF assms]] valid_bindM[OF valid_trivial(2)] valid_prod valid_trivial)+

lemma valid_get_bind [vcg]:
  "m = Suc n \<Longrightarrow> (\<And>x b. valid (columns_read p m w) (f x b) Q (\<lambda>_ _. True)) \<Longrightarrow>
     valid (columns_read p n w) (bindM (get_short X (Some p) m) (\<lambda>(x, b). f x b)) Q (\<lambda>_ _. True)"
  "m = Suc n \<Longrightarrow> (\<And>x b. valid (columns_read p m w) (f x b) Q (\<lambda>_ _. True)) \<Longrightarrow>
     valid (columns_read p n w) (bindM (get_long X (Some p) m) (\<lambda>(x, b). f x b)) Q (\<lambda>_ _. True)"
  "m = Suc n \<Longrightarrow> (\<And>x b. valid (columns_read p m w) (f x b) Q (\<lambda>_ _. True)) \<Longrightarrow>
     valid (columns_read p n w) (bindM (get_number X (Some p) m t k) (\<lambda>(x, b). f x b)) Q (\<lambda>_ _. True)"
  "m = Suc n \<Longrightarrow> (\<And>x b. valid (columns_read p m w) (g x b) Q (\<lambda>_ _. True)) \<Longrightarrow>
     valid (columns_read p n w) (bindM (get_string X (Some p) m r) (\<lambda>(x, b). g x b)) Q (\<lambda>_ _. True)"
  by (auto intro!: valid_bindM[OF valid_get(1)] valid_bindM[OF valid_get(2)]
      valid_bindM[OF valid_get(3)] valid_bindM[OF valid_get(4)])

lemma valid_row_asserts:
  "valid (columns_read p n w) m Q (\<lambda>_ _. True) \<Longrightarrow> valid (columns_read p n w) (row_asserts (Some p) m) Q (\<lambda>_ _. True)"
  unfolding valid_def row_asserts_def by (simp add: thenM_exec split: prod.splits res.splits)

lemma valid_last: "valid P (if c then returnM x else liftM r) (\<lambda>_. P) (\<lambda>_ _. True)"
  by (simp add: valid_trivial)

lemma valid_readers:
  "valid (columns_read p 0 w) (TableInfo_read X (Some p) ps) (\<lambda>_. columns_read p 5 w) (\<lambda>_ _. True)"
  "valid (columns_read p 0 w) (ColumnInfo_read X (Some p) ps) (\<lambda>_. columns_read p 18 w) (\<lambda>_ _. True)"
  "valid (columns_read p 0 w) (PrimaryKeyInfo_read X (Some p) ps) (\<lambda>_. columns_read p 6 w) (\<lambda>_ _. True)"
  "valid (columns_read p 0 w) (SpecialColumnInfo_read X (Some p) ps i s) (\<lambda>_. columns_read p 8 w) (\<lambda>_ _. True)"
  "valid (columns_read p 0 w) (SqlTypeInfo_read X (Some p) ps) (\<lambda>_. columns_read p 19 w) (\<lambda>_ _. True)"
  unfolding TableInfo_read_def ColumnInfo_read_def PrimaryKeyInfo_read_def
    SpecialColumnInfo_read_def SqlTypeInfo_read_def
  by (rule valid_row_asserts, ((rule valid_get_bind, simp) | rule valid_bindM[OF valid_last] valid_trivial)+)+

text \<open>
  A row of a catalog function is read by columns in ascending order, from the first to the
  last and each once, whatever type of row it is: drivers need not support any other order.
\<close>

theorem rows_read_in_order:
  "(TableInfo_read X (Some p) ps w = (Ok t, w') \<longrightarrow> columns_read p 5 w w') \<and>
   (ColumnInfo_read X (Some p) ps w = (Ok c, w') \<longrightarrow> columns_read p 18 w w') \<and>
   (PrimaryKeyInfo_read X (Some p) ps w = (Ok k, w') \<longrightarrow> columns_read p 6 w w') \<and>
   (SpecialColumnInfo_read X (Some p) ps i s w = (Ok sc, w') \<longrightarrow> columns_read p 8 w w') \<and>
   (SqlTypeInfo_read X (Some p) ps w = (Ok st, w') \<longrightarrow> columns_read p 19 w w')"
  by (intro conjI impI; drule valid_readers[THEN valid_Ok, OF columns_read_0]; assumption)

definition four_lengths :: SqlInfoProperties where
  "four_lengths = foldl (\<lambda>ps i. RegisterProperty i [] IT_SqlLimits VT_USmallInt ps) SqlInfoProperties_new
     [SQL_MAX_CATALOG_NAME_LEN, SQL_MAX_SCHEMA_NAME_LEN, SQL_MAX_TABLE_NAME_LEN, SQL_MAX_COLUMN_NAME_LEN]"

lemma four_lengths_128:
  "GetMaxCatalogNameLen four_lengths = Ok 128" "GetMaxSchemaNameLen four_lengths = Ok 128"
  "GetMaxTableNameLen four_lengths = Ok 128" "GetMaxColumnNameLen four_lengths = Ok 128"
  by code_simp+

lemmas readers = TableInfo_read_def ColumnInfo_read_def PrimaryKeyInfo_read_def
  SpecialColumnInfo_read_def SqlTypeInfo_read_def row_asserts_def get_short_def get_long_def
  get_number_def get_string_def GetData_string_def GetData_def SqlHandle_IsAllocated_def
  SqlHandle_GetHandle_def

lemma reply_good [simp]: "oind (good_driver cs) = 0" "ostr (good_driver cs) = []"
  by (simp_all add: good_driver_def reply_rc_def)

lemma readers_succeed:
  "\<exists>t w'. TableInfo_read (ref_ext good_driver) (Some 1) four_lengths small_heap = (Ok t, w')"
  "\<exists>t w'. SqlTypeInfo_read (ref_ext good_driver) (Some 1) four_lengths small_heap = (Ok t, w')"
  "\<exists>t w'. ColumnInfo_read (ref_ext good_driver) (Some 1) four_lengths small_heap = (Ok t, w')"
  "\<exists>t w'. PrimaryKeyInfo_read (ref_ext good_driver) (Some 1) four_lengths small_heap = (Ok t, w')"
  "\<exists>t w'. SpecialColumnInfo_read (ref_ext good_driver) (Some 1) four_lengths i s
     small_heap = (Ok t, w')"
  by (simp_all add: readers four_lengths_128 small_heap_def thenM_exec bindM_exec RowIdScope_of_def)

theorem rows_read_in_order_witness:
  "\<exists>t w1 k w2 st w3.
     TableInfo_read (ref_ext good_driver) (Some 1) four_lengths small_heap = (Ok t, w1) \<and>
     columns_read 1 5 small_heap w1 \<and>
     PrimaryKeyInfo_read (ref_ext good_driver) (Some 1) four_lengths small_heap = (Ok k, w2) \<and>
     columns_read 1 6 small_heap w2 \<and>
     SqlTypeInfo_read (ref_ext good_driver) (Some 1) four_lengths small_heap = (Ok st, w3) \<and>
     columns_read 1 19 small_heap w3"
  using readers_succeed(1,2,4) by (meson rows_read_in_order)

text \<open>
  The name under which a table appears in generated SQL, on a server with catalogs and schemas:
  the parts that are present, joined with dots. Access gets the bare name and Excel the name in
  brackets, and a table without a name has no such text.
\<close>

theorem GetQueryName_parts:
  "TableInfo_GetQueryName t =
     (if ti_tableName t = [] then Exn (AssertionException ''! m_tableName.empty()'')
      else Ok (case ti_dbms t of
         ACCESS \<Rightarrow> ti_tableName t
       | EXCEL \<Rightarrow> ''['' @ ti_tableName t @ '']''
       | _ \<Rightarrow> join ''.'' (filter (\<lambda>part. part \<noteq> [])
           [if ti_isCatalogNull t then [] else ti_catalogName t,
            if ti_isSchemaNull t then [] else ti_schemaName t, ti_tableName t])))"
  by (auto simp: TableInfo_GetQueryName_def TableInfo_HasCatalog_def TableInfo_HasSchema_def
      split: DatabaseProduct.split)

end
