(* ===== verification/Flags.thy ===== *)
theory Flags
  imports ExPrelude
begin

unbundle bit_operations_syntax

text \<open>
  \<open>include/exodbc/bitmask_operators.hpp\<close> and \<open>include/exodbc/EnumFlags.h\<close>: a flag enumeration
  has the underlying type \<open>int\<close>, so a value is a \<open>32 word\<close> and the operators of the template
  are the bitwise ones. \<open>EnumFlags\<close> holds one such value, \<open>m_flags\<close>.

  The locale \<open>flag_set\<close> is the contract the rest of the library uses: a flag word is the set of
  its bits, \<open>Test\<close> is inclusion, \<open>Set\<close> is union, \<open>Clear\<close> is difference. It is interpreted on
  the operations of the class.
\<close>

section \<open>The operators\<close>

type_synonym flag = "32 word"

definition bm_or :: "flag \<Rightarrow> flag \<Rightarrow> flag" where
  "bm_or lhs rhs = lhs OR rhs"

definition bm_and :: "flag \<Rightarrow> flag \<Rightarrow> flag" where
  "bm_and lhs rhs = lhs AND rhs"

definition bm_xor :: "flag \<Rightarrow> flag \<Rightarrow> flag" where
  "bm_xor lhs rhs = lhs XOR rhs"

definition bm_not :: "flag \<Rightarrow> flag" where
  "bm_not lhs = NOT lhs"

definition bm_or_assign :: "flag \<Rightarrow> flag \<Rightarrow> flag" where
  "bm_or_assign lhs rhs = lhs OR rhs"

definition bm_and_assign :: "flag \<Rightarrow> flag \<Rightarrow> flag" where
  "bm_and_assign lhs rhs = lhs AND rhs"

definition bm_xor_assign :: "flag \<Rightarrow> flag \<Rightarrow> flag" where
  "bm_xor_assign lhs rhs = lhs XOR rhs"

section \<open>The class\<close>

record EnumFlags =
  m_flags :: flag

definition EnumFlags_new :: EnumFlags where
  "EnumFlags_new = \<lparr>m_flags = 0\<rparr>"

definition EnumFlags_of :: "flag \<Rightarrow> EnumFlags" where
  "EnumFlags_of flags = \<lparr>m_flags = flags\<rparr>"

definition EnumFlags_Test :: "EnumFlags \<Rightarrow> flag \<Rightarrow> bool" where
  "EnumFlags_Test this flag \<longleftrightarrow> bm_and (m_flags this) flag = flag"

definition EnumFlags_Set :: "EnumFlags \<Rightarrow> flag \<Rightarrow> EnumFlags" where
  "EnumFlags_Set this flag = this\<lparr>m_flags := bm_or_assign (m_flags this) flag\<rparr>"

definition EnumFlags_SetFrom :: "EnumFlags \<Rightarrow> EnumFlags \<Rightarrow> EnumFlags" where
  "EnumFlags_SetFrom this other = this\<lparr>m_flags := m_flags other\<rparr>"

definition EnumFlags_Clear :: "EnumFlags \<Rightarrow> flag \<Rightarrow> EnumFlags" where
  "EnumFlags_Clear this flag = this\<lparr>m_flags := bm_and_assign (m_flags this) (bm_not flag)\<rparr>"

definition EnumFlags_eq :: "EnumFlags \<Rightarrow> EnumFlags \<Rightarrow> bool" where
  "EnumFlags_eq this other \<longleftrightarrow> m_flags this = m_flags other"

definition EnumFlags_GetFlags :: "EnumFlags \<Rightarrow> flag" where
  "EnumFlags_GetFlags this = m_flags this"

section \<open>The enumerations\<close>

text \<open>\<open>ColumnFlag\<close>, \<open>TableAccessFlag\<close> and \<open>TableOpenFlag\<close>, with their compound values.\<close>

definition CF_NONE :: flag where "CF_NONE = 0x0"
definition CF_SELECT :: flag where "CF_SELECT = 0x1"
definition CF_UPDATE :: flag where "CF_UPDATE = 0x2"
definition CF_INSERT :: flag where "CF_INSERT = 0x4"
definition CF_NULLABLE :: flag where "CF_NULLABLE = 0x8"
definition CF_PRIMARY_KEY :: flag where "CF_PRIMARY_KEY = 0x10"
definition CF_READ :: flag where "CF_READ = CF_SELECT"
definition CF_WRITE :: flag where "CF_WRITE = CF_UPDATE OR CF_INSERT"
definition CF_READ_WRITE :: flag where "CF_READ_WRITE = CF_SELECT OR CF_UPDATE OR CF_INSERT"

definition AF_NONE :: flag where "AF_NONE = 0x0"
definition AF_SELECT_PK :: flag where "AF_SELECT_PK = 0x1"
definition AF_SELECT_WHERE :: flag where "AF_SELECT_WHERE = 0x2"
definition AF_COUNT_WHERE :: flag where "AF_COUNT_WHERE = 0x80"
definition AF_UPDATE_PK :: flag where "AF_UPDATE_PK = 0x4"
definition AF_UPDATE_WHERE :: flag where "AF_UPDATE_WHERE = 0x8"
definition AF_INSERT :: flag where "AF_INSERT = 0x10"
definition AF_DELETE_PK :: flag where "AF_DELETE_PK = 0x20"
definition AF_DELETE_WHERE :: flag where "AF_DELETE_WHERE = 0x40"
definition AF_READ :: flag where "AF_READ = AF_SELECT_WHERE OR AF_SELECT_PK OR AF_COUNT_WHERE"
definition AF_READ_WITHOUT_PK :: flag where "AF_READ_WITHOUT_PK = AF_SELECT_WHERE OR AF_COUNT_WHERE"
definition AF_WRITE :: flag where
  "AF_WRITE = AF_UPDATE_PK OR AF_UPDATE_WHERE OR AF_INSERT OR AF_DELETE_PK OR AF_DELETE_WHERE"
definition AF_WRITE_WITHOUT_PK :: flag where
  "AF_WRITE_WITHOUT_PK = AF_UPDATE_WHERE OR AF_INSERT OR AF_DELETE_WHERE"
definition AF_READ_WRITE :: flag where "AF_READ_WRITE = AF_READ OR AF_WRITE"
definition AF_READ_WRITE_WITHOUT_PK :: flag where
  "AF_READ_WRITE_WITHOUT_PK = AF_READ_WITHOUT_PK OR AF_WRITE_WITHOUT_PK"

definition TOF_NONE :: flag where "TOF_NONE = 0x0"
definition TOF_CHECK_EXISTANCE :: flag where "TOF_CHECK_EXISTANCE = 0x1"
definition TOF_SKIP_UNSUPPORTED_COLUMNS :: flag where "TOF_SKIP_UNSUPPORTED_COLUMNS = 0x4"
definition TOF_DO_NOT_QUERY_PRIMARY_KEYS :: flag where "TOF_DO_NOT_QUERY_PRIMARY_KEYS = 0x20"
definition TOF_CHECK_DB_TYPE_INFOS :: flag where "TOF_CHECK_DB_TYPE_INFOS = 0x40"
definition TOF_SCROLLABLE_CURSORS :: flag where "TOF_SCROLLABLE_CURSORS = 0x80"

lemmas cf_defs = CF_NONE_def CF_SELECT_def CF_UPDATE_def CF_INSERT_def CF_NULLABLE_def
  CF_PRIMARY_KEY_def CF_READ_def CF_WRITE_def CF_READ_WRITE_def

lemmas af_defs = AF_NONE_def AF_SELECT_PK_def AF_SELECT_WHERE_def AF_COUNT_WHERE_def
  AF_UPDATE_PK_def AF_UPDATE_WHERE_def AF_INSERT_def AF_DELETE_PK_def AF_DELETE_WHERE_def
  AF_READ_def AF_READ_WITHOUT_PK_def AF_WRITE_def AF_WRITE_WITHOUT_PK_def AF_READ_WRITE_def
  AF_READ_WRITE_WITHOUT_PK_def

lemmas tof_defs = TOF_NONE_def TOF_CHECK_EXISTANCE_def TOF_SKIP_UNSUPPORTED_COLUMNS_def
  TOF_DO_NOT_QUERY_PRIMARY_KEYS_def TOF_CHECK_DB_TYPE_INFOS_def TOF_SCROLLABLE_CURSORS_def

lemmas bm_defs = bm_or_def bm_and_def bm_not_def bm_or_assign_def bm_and_assign_def

lemmas EnumFlags_defs = EnumFlags_new_def EnumFlags_of_def EnumFlags_Test_def EnumFlags_Set_def
  EnumFlags_SetFrom_def EnumFlags_Clear_def EnumFlags_eq_def EnumFlags_GetFlags_def

section \<open>Flags as sets of bits\<close>

locale flag_set =
  fixes test :: "'s \<Rightarrow> 'f \<Rightarrow> bool"
    and set_flag :: "'s \<Rightarrow> 'f \<Rightarrow> 's"
    and clear_flag :: "'s \<Rightarrow> 'f \<Rightarrow> 's"
    and bits :: "'f \<Rightarrow> 'b set"
    and state :: "'s \<Rightarrow> 'b set"
  assumes test_iff: "test s f \<longleftrightarrow> bits f \<subseteq> state s"
    and state_set: "state (set_flag s f) = state s \<union> bits f"
    and state_clear: "state (clear_flag s f) = state s - bits f"
begin

lemma test_set: "test (set_flag s f) g \<longleftrightarrow> bits g - bits f \<subseteq> state s"
  by (auto simp: test_iff state_set)

lemma test_set_self: "test (set_flag s f) f"
  by (simp add: test_iff state_set)

lemma test_set_mono: "test s g \<Longrightarrow> test (set_flag s f) g"
  by (auto simp: test_iff state_set)

lemma test_clear_self: "bits f \<noteq> {} \<Longrightarrow> \<not> test (clear_flag s f) f"
  by (auto simp: test_iff state_clear)

lemma test_clear_disjoint: "bits f \<inter> bits g = {} \<Longrightarrow> test (clear_flag s f) g = test s g"
  by (auto simp: test_iff state_clear)

lemma test_set_disjoint: "bits f \<inter> bits g = {} \<Longrightarrow> test (set_flag s f) g = test s g"
  by (auto simp: test_iff state_set)

lemma test_subset: "bits g \<subseteq> bits f \<Longrightarrow> test s f \<Longrightarrow> test s g"
  by (auto simp: test_iff)

end

definition flag_bits :: "flag \<Rightarrow> nat set" where
  "flag_bits f = {n. bit f n}"

lemma bit_flag_less: "bit (f :: flag) n \<Longrightarrow> n < 32"
  by (drule bit_imp_le_length) simp

lemma flag_bits_empty_iff: "flag_bits f = {} \<longleftrightarrow> f = 0"
  by (auto simp: flag_bits_def bit_eq_iff dest: bit_flag_less)

lemma flag_bits_disjoint_iff: "flag_bits f \<inter> flag_bits g = {} \<longleftrightarrow> f AND g = 0"
  by (auto simp: flag_bits_def bit_eq_iff bit_and_iff dest: bit_flag_less)

lemma flag_bits_subset_iff: "flag_bits g \<subseteq> flag_bits f \<longleftrightarrow> f AND g = g"
  by (auto simp: flag_bits_def bit_eq_iff bit_and_iff dest: bit_flag_less)

interpretation fl: flag_set EnumFlags_Test EnumFlags_Set EnumFlags_Clear flag_bits
  "\<lambda>s. flag_bits (m_flags s)"
proof unfold_locales
  fix s :: EnumFlags and f :: flag
  show "EnumFlags_Test s f \<longleftrightarrow> flag_bits f \<subseteq> flag_bits (m_flags s)"
    by (simp add: EnumFlags_Test_def bm_defs flag_bits_subset_iff)
  show "flag_bits (m_flags (EnumFlags_Set s f)) = flag_bits (m_flags s) \<union> flag_bits f"
    by (auto simp: EnumFlags_Set_def bm_defs flag_bits_def bit_or_iff)
  show "flag_bits (m_flags (EnumFlags_Clear s f)) = flag_bits (m_flags s) - flag_bits f"
    by (auto simp: EnumFlags_Clear_def bm_defs flag_bits_def bit_and_iff bit_not_iff
        dest: bit_imp_le_length)
qed

lemmas Test_set_self [simp] = fl.test_set_self

lemma Test_clear_self [simp]: "f \<noteq> 0 \<Longrightarrow> \<not> EnumFlags_Test (EnumFlags_Clear s f) f"
  by (rule fl.test_clear_self) (simp add: flag_bits_empty_iff)

lemma Test_clear_other: "f AND g = 0 \<Longrightarrow> EnumFlags_Test (EnumFlags_Clear s f) g = EnumFlags_Test s g"
  by (rule fl.test_clear_disjoint) (simp add: flag_bits_disjoint_iff)

lemma Test_set_other: "f AND g = 0 \<Longrightarrow> EnumFlags_Test (EnumFlags_Set s f) g = EnumFlags_Test s g"
  by (rule fl.test_set_disjoint) (simp add: flag_bits_disjoint_iff)

lemma Test_or: "EnumFlags_Test s (f OR g) \<longleftrightarrow> EnumFlags_Test s f \<and> EnumFlags_Test s g"
  by (auto simp: fl.test_iff flag_bits_def bit_or_iff)

lemma Test_new [simp]: "EnumFlags_Test EnumFlags_new f \<longleftrightarrow> f = 0"
  by (auto simp: EnumFlags_defs bm_defs)

section \<open>What the operations promise\<close>

text \<open>The eight elementary access flags are eight different bits, and likewise the others.\<close>

definition elementary_access :: "flag list" where
  "elementary_access = [AF_SELECT_PK, AF_SELECT_WHERE, AF_COUNT_WHERE, AF_UPDATE_PK,
     AF_UPDATE_WHERE, AF_INSERT, AF_DELETE_PK, AF_DELETE_WHERE]"

lemma elementary_access_disjoint:
  "f \<in> set elementary_access \<Longrightarrow> g \<in> set elementary_access \<Longrightarrow> f \<noteq> g \<Longrightarrow> f AND g = 0"
  by (auto simp: elementary_access_def af_defs)

lemma elementary_access_nonzero: "f \<in> set elementary_access \<Longrightarrow> f \<noteq> 0"
  by (auto simp: elementary_access_def af_defs)

text \<open>
  Clearing an elementary access flag denies exactly that access and no other, and setting it
  back grants it again, with every other access unchanged.
\<close>

theorem access_flag_clear_set:
  assumes "f \<in> set elementary_access" and "g \<in> set elementary_access"
  shows "EnumFlags_Test (EnumFlags_Clear s f) g = (g \<noteq> f \<and> EnumFlags_Test s g)
    \<and> EnumFlags_Test (EnumFlags_Set s f) g = (g = f \<or> EnumFlags_Test s g)"
proof (cases "f = g")
  case True
  then show ?thesis using elementary_access_nonzero[OF assms(1)] by simp
next
  case False
  then show ?thesis
    using elementary_access_disjoint[OF assms] by (simp add: Test_clear_other Test_set_other)
qed

theorem access_flag_clear_set_witness:
  "\<not> EnumFlags_Test (EnumFlags_Clear (EnumFlags_of AF_READ_WRITE) AF_INSERT) AF_INSERT
   \<and> EnumFlags_Test (EnumFlags_Set EnumFlags_new AF_INSERT) AF_INSERT"
  using access_flag_clear_set[of AF_INSERT AF_INSERT]
  by (simp add: elementary_access_def)

end
