(* ===== verification/TypeMaps.thy ===== *)
theory TypeMaps
  imports OdbcApi
begin

text \<open>
  \<open>Sql2BufferTypeMap\<close> and its subclasses: which SQL C type a buffer for a column of an SQL type
  has. \<open>m_typeMap\<close> is the sorted association list of the prelude; the laws of the lookups below
  are those of its interface \<open>ordered_map\<close>, used through the interpretation \<open>smap\<close>.
\<close>

record Sql2BufferTypeMap =
  m_hasDefault :: bool
  m_defaultBufferType :: int
  m_typeMap :: "(int \<times> int) list"

definition Sql2BufferTypeMap_new :: Sql2BufferTypeMap where
  "Sql2BufferTypeMap_new = \<lparr>m_hasDefault = False, m_defaultBufferType = 0, m_typeMap = []\<rparr>"

definition RegisterType :: "int \<Rightarrow> int \<Rightarrow> Sql2BufferTypeMap \<Rightarrow> Sql2BufferTypeMap" where
  "RegisterType sqlType sqlCType m = m\<lparr>m_typeMap := map_put sqlType sqlCType (m_typeMap m)\<rparr>"

definition ClearType :: "int \<Rightarrow> Sql2BufferTypeMap \<Rightarrow> Sql2BufferTypeMap" where
  "ClearType sqlType m =
     (if map_of (m_typeMap m) sqlType \<noteq> None then m\<lparr>m_typeMap := map_del sqlType (m_typeMap m)\<rparr> else m)"

definition ContainsType :: "Sql2BufferTypeMap \<Rightarrow> int \<Rightarrow> bool" where
  "ContainsType m sqlType \<longleftrightarrow> map_of (m_typeMap m) sqlType \<noteq> None"

definition HasDefault :: "Sql2BufferTypeMap \<Rightarrow> bool" where
  "HasDefault m = m_hasDefault m"

definition SetDefault :: "int \<Rightarrow> Sql2BufferTypeMap \<Rightarrow> Sql2BufferTypeMap" where
  "SetDefault defaultBufferType m = m\<lparr>m_hasDefault := True, m_defaultBufferType := defaultBufferType\<rparr>"

definition GetDefault :: "Sql2BufferTypeMap \<Rightarrow> (exn, int) res" where
  "GetDefault m =
     (if HasDefault m then Ok (m_defaultBufferType m) else Exn (AssertionException ''HasDefault()''))"

definition GetBufferType :: "Sql2BufferTypeMap \<Rightarrow> int \<Rightarrow> (exn, int) res" where
  "GetBufferType m sqlType =
     (case map_of (m_typeMap m) sqlType of
        Some c \<Rightarrow> Ok c
      | None \<Rightarrow> if HasDefault m then GetDefault m else Exn (NotSupportedException NS_SQL_TYPE sqlType))"

text \<open>A constructor body is a sequence of registrations, in the order of the source.\<close>

definition register_all :: "(int \<times> int) list \<Rightarrow> Sql2BufferTypeMap \<Rightarrow> Sql2BufferTypeMap" where
  "register_all ts m = fold (\<lambda>(t, c). RegisterType t c) ts m"

definition DefaultSql2BufferMap_types :: "OdbcVersion \<Rightarrow> (int \<times> int) list" where
  "DefaultSql2BufferMap_types odbcVersion =
     [(SQL_SMALLINT, SQL_C_SSHORT), (SQL_INTEGER, SQL_C_SLONG), (SQL_BIGINT, SQL_C_SBIGINT),
      (SQL_CHAR, SQL_C_CHAR), (SQL_VARCHAR, SQL_C_CHAR), (SQL_WCHAR, SQL_C_WCHAR),
      (SQL_WVARCHAR, SQL_C_WCHAR), (SQL_DOUBLE, SQL_C_DOUBLE), (SQL_FLOAT, SQL_C_DOUBLE),
      (SQL_REAL, SQL_C_FLOAT)] @
     (if odbcVersion \<ge> V_3
      then [(SQL_TYPE_DATE, SQL_C_TYPE_DATE), (SQL_TYPE_TIME, SQL_C_TYPE_TIME),
            (SQL_TYPE_TIMESTAMP, SQL_C_TYPE_TIMESTAMP), (SQL_DATE, SQL_C_TYPE_DATE),
            (SQL_TIME, SQL_C_TYPE_TIME), (SQL_TIMESTAMP, SQL_C_TYPE_TIMESTAMP)]
      else [(SQL_DATE, SQL_C_DATE), (SQL_TIME, SQL_C_TIME), (SQL_TIMESTAMP, SQL_C_TIMESTAMP)]) @
     [(SQL_BINARY, SQL_C_BINARY), (SQL_VARBINARY, SQL_C_BINARY), (SQL_LONGVARBINARY, SQL_C_BINARY),
      (SQL_NUMERIC, SQL_C_NUMERIC), (SQL_DECIMAL, SQL_C_NUMERIC)]"

definition DefaultSql2BufferMap :: "OdbcVersion \<Rightarrow> Sql2BufferTypeMap" where
  "DefaultSql2BufferMap odbcVersion =
     register_all (DefaultSql2BufferMap_types odbcVersion) Sql2BufferTypeMap_new"

definition WCharSql2BufferMap :: Sql2BufferTypeMap where
  "WCharSql2BufferMap = SetDefault SQL_C_WCHAR Sql2BufferTypeMap_new"

definition CharSql2BufferMap :: Sql2BufferTypeMap where
  "CharSql2BufferMap = SetDefault SQL_C_CHAR Sql2BufferTypeMap_new"

definition CharAsWCharSql2BufferMap :: "OdbcVersion \<Rightarrow> Sql2BufferTypeMap" where
  "CharAsWCharSql2BufferMap odbcVersion =
     register_all [(SQL_CHAR, SQL_C_WCHAR), (SQL_VARCHAR, SQL_C_WCHAR)] (DefaultSql2BufferMap odbcVersion)"

definition WCharAsCharSql2BufferMap :: "OdbcVersion \<Rightarrow> Sql2BufferTypeMap" where
  "WCharAsCharSql2BufferMap odbcVersion =
     register_all [(SQL_WCHAR, SQL_C_CHAR), (SQL_WVARCHAR, SQL_C_CHAR)] (DefaultSql2BufferMap odbcVersion)"

section \<open>Lookups\<close>

definition typemap_inv :: "Sql2BufferTypeMap \<Rightarrow> bool" where
  "typemap_inv m \<longleftrightarrow> map_inv (m_typeMap m)"

lemma typemap_inv_ops [simp]:
  "typemap_inv Sql2BufferTypeMap_new"
  "typemap_inv m \<Longrightarrow> typemap_inv (RegisterType t c m)"
  "typemap_inv m \<Longrightarrow> typemap_inv (ClearType t m)"
  "typemap_inv m \<Longrightarrow> typemap_inv (SetDefault c m)"
  by (simp_all add: typemap_inv_def Sql2BufferTypeMap_new_def RegisterType_def ClearType_def SetDefault_def)

lemma register_all_inv [simp]: "typemap_inv m \<Longrightarrow> typemap_inv (register_all ts m)"
  unfolding register_all_def by (induction ts arbitrary: m) (auto split: prod.split)

lemma register_all_default [simp]: "m_hasDefault (register_all ts m) = m_hasDefault m"
  unfolding register_all_def
  by (induction ts arbitrary: m) (auto simp: RegisterType_def split: prod.split)

lemma map_of_register_all:
  "typemap_inv m \<Longrightarrow> map_of (m_typeMap (register_all ts m)) = map_of (m_typeMap m) ++ map_of (rev ts)"
proof (induction ts arbitrary: m)
  case (Cons p ts)
  obtain t c where p: "p = (t, c)" by (cases p)
  from Cons.prems have "typemap_inv (RegisterType t c m)" by simp
  from Cons.IH[OF this] Cons.prems show ?case
    by (simp add: p register_all_def RegisterType_def typemap_inv_def map_add_assoc fun_upd_def[symmetric])
qed (simp add: register_all_def)

text \<open>
  The type map is a map: what was registered last for a type is what its buffer is created with;
  a type that is cleared or was never registered gets the default if there is one, and otherwise
  a \<open>NotSupportedException\<close> that names the type.
\<close>

theorem GetBufferType_spec:
  assumes "typemap_inv m"
  shows "GetBufferType (RegisterType t c m) u = (if u = t then Ok c else GetBufferType m u) \<and>
     GetBufferType (ClearType t m) t =
       (if m_hasDefault m then Ok (m_defaultBufferType m) else Exn (NotSupportedException NS_SQL_TYPE t)) \<and>
     (u \<noteq> t \<longrightarrow> GetBufferType (ClearType t m) u = GetBufferType m u) \<and>
     (\<not> ContainsType m u \<longrightarrow> GetBufferType (SetDefault c m) u = Ok c)"
proof -
  have "map_inv (m_typeMap m)" using assms by (simp add: typemap_inv_def)
  then show ?thesis
    by (auto simp: GetBufferType_def RegisterType_def ClearType_def SetDefault_def ContainsType_def
        HasDefault_def GetDefault_def smap.find_put smap.find_del split: option.split)
qed

theorem GetBufferType_spec_witness:
  "GetBufferType (ClearType SQL_CHAR (RegisterType SQL_CHAR SQL_C_CHAR Sql2BufferTypeMap_new)) SQL_CHAR =
     Exn (NotSupportedException NS_SQL_TYPE SQL_CHAR)"
  using GetBufferType_spec[of "RegisterType SQL_CHAR SQL_C_CHAR Sql2BufferTypeMap_new" SQL_CHAR SQL_C_CHAR SQL_CHAR]
  by (simp add: RegisterType_def Sql2BufferTypeMap_new_def typemap_inv_def map_inv_def)

lemma DefaultSql2BufferMap_lookup:
  "map_of (m_typeMap (DefaultSql2BufferMap v)) = map_of (DefaultSql2BufferMap_types v)"
proof -
  have "distinct (map fst (DefaultSql2BufferMap_types v))"
    by (cases v) (simp_all add: DefaultSql2BufferMap_types_def less_eq_OdbcVersion_def)
  then have "map_of (rev (DefaultSql2BufferMap_types v)) = map_of (DefaultSql2BufferMap_types v)"
    by (subst map_of_inject_set) (simp_all flip: rev_map)
  moreover have "m_typeMap Sql2BufferTypeMap_new = []"
    by (simp add: Sql2BufferTypeMap_new_def)
  ultimately show ?thesis
    by (simp add: DefaultSql2BufferMap_def map_of_register_all)
qed

lemma GetBufferType_Default:
  "GetBufferType (DefaultSql2BufferMap v) t =
     (case map_of (DefaultSql2BufferMap_types v) t of
        Some c \<Rightarrow> Ok c | None \<Rightarrow> Exn (NotSupportedException NS_SQL_TYPE t))"
proof -
  have "\<not> HasDefault (DefaultSql2BufferMap v)"
    by (simp add: HasDefault_def DefaultSql2BufferMap_def) (simp add: Sql2BufferTypeMap_new_def)
  then show ?thesis by (simp add: GetBufferType_def DefaultSql2BufferMap_lookup)
qed

end
