(* ===== verification/Conversions.thy ===== *)
theory Conversions
  imports Exceptions
begin

text \<open>
  The conversions between UTF-8 and UTF-16 of \<open>exOdbc.cpp\<close>, which wrap \<open>std::wstring_convert\<close> with
  \<open>std::codecvt_utf8_utf16\<close>.

  A byte or a code unit is a number; a \<open>std::wstring\<close> is a list of \<open>wchar_t\<close>, which has 32 bits in the build modelled and
  holds one code unit of UTF-16 each. An encoding is a reader, which takes one code point off the front of a text, and a
  writer; the locales \<open>encoder\<close> and \<open>encoding\<close> state how they belong together, and the conversion of whole texts is proved
  there once for both encodings.

  The C++ library decides two things, the members of \<open>codecvt\<close>: whether a text that ends within a sequence is an
  error or loses that sequence, and whether a \<open>wchar_t\<close> above 16 bits is accepted as a code point of its own.
\<close>

section \<open>Encodings\<close>

record codecvt =
  cut_fails :: bool
  wide_units :: bool

datatype read = Read nat "nat list" | Cut | Bad

definition high_surrogate :: "nat \<Rightarrow> bool" where
  "high_surrogate u \<longleftrightarrow> 0xD800 \<le> u \<and> u < 0xDC00"

definition low_surrogate :: "nat \<Rightarrow> bool" where
  "low_surrogate u \<longleftrightarrow> 0xDC00 \<le> u \<and> u < 0xE000"

definition scalar :: "nat \<Rightarrow> bool" where
  "scalar c \<longleftrightarrow> c < 0xD800 \<or> 0xE000 \<le> c \<and> c \<le> 0x10FFFF"

text \<open>UTF-8 as RFC 3629 has it: no sequence longer than needed, no surrogates, nothing above \<open>10FFFF\<close>.\<close>

fun read_tail :: "nat \<Rightarrow> nat \<Rightarrow> nat \<Rightarrow> nat list \<Rightarrow> read" where
  "read_tail 0 least c bs = (if least \<le> c \<and> scalar c then Read c bs else Bad)"
| "read_tail (Suc n) least c [] = Cut"
| "read_tail (Suc n) least c (b # bs) =
     (if 0x80 \<le> b \<and> b < 0xC0 then read_tail n least (c * 0x40 + (b - 0x80)) bs else Bad)"

fun read_utf8 :: "nat list \<Rightarrow> read" where
  "read_utf8 [] = Cut"
| "read_utf8 (b # bs) =
     (if b < 0x80 then Read b bs
      else if 0xC0 \<le> b \<and> b < 0xE0 then read_tail 1 0x80 (b - 0xC0) bs
      else if 0xE0 \<le> b \<and> b < 0xF0 then read_tail 2 0x800 (b - 0xE0) bs
      else if 0xF0 \<le> b \<and> b < 0xF8 then read_tail 3 0x10000 (b - 0xF0) bs
      else Bad)"

definition write_utf8 :: "nat \<Rightarrow> nat list" where
  "write_utf8 c =
     (if c < 0x80 then [c]
      else if c < 0x800 then [0xC0 + c div 0x40, 0x80 + c mod 0x40]
      else if c < 0x10000 then [0xE0 + c div 0x1000, 0x80 + c div 0x40 mod 0x40, 0x80 + c mod 0x40]
      else [0xF0 + c div 0x40000, 0x80 + c div 0x1000 mod 0x40, 0x80 + c div 0x40 mod 0x40, 0x80 + c mod 0x40])"

fun read_utf16 :: "bool \<Rightarrow> nat list \<Rightarrow> read" where
  "read_utf16 wide [] = Cut"
| "read_utf16 wide (u # us) =
     (if high_surrogate u
      then case us of
             [] \<Rightarrow> Cut
           | v # vs \<Rightarrow> if low_surrogate v then Read (0x10000 + (u - 0xD800) * 0x400 + (v - 0xDC00)) vs else Bad
      else if scalar u \<and> (u < 0x10000 \<or> wide) then Read u us
      else Bad)"

definition write_utf16 :: "nat \<Rightarrow> nat list" where
  "write_utf16 c =
     (if c < 0x10000 then [c]
      else [0xD800 + (c - 0x10000) div 0x400, 0xDC00 + (c - 0x10000) mod 0x400])"

text \<open>Whole texts. Every code point takes at least one element, so the length of the text is enough fuel.\<close>

fun code_points :: "(nat list \<Rightarrow> read) \<Rightarrow> bool \<Rightarrow> nat \<Rightarrow> nat list \<Rightarrow> nat list option" where
  "code_points rd strict n [] = Some []"
| "code_points rd strict 0 (u # us) = None"
| "code_points rd strict (Suc n) (u # us) =
     (case rd (u # us) of
        Read c rest \<Rightarrow> map_option ((#) c) (code_points rd strict n rest)
      | Cut \<Rightarrow> if strict then None else Some []
      | Bad \<Rightarrow> None)"

definition decode :: "(nat list \<Rightarrow> read) \<Rightarrow> bool \<Rightarrow> nat list \<Rightarrow> nat list option" where
  "decode rd strict us = code_points rd strict (length us) us"

definition encode :: "(nat \<Rightarrow> nat list) \<Rightarrow> nat list \<Rightarrow> nat list" where
  "encode wr cs = concat (map wr cs)"

section \<open>The conversions\<close>

definition wchar_unit :: "int \<Rightarrow> nat" where
  "wchar_unit u = nat (u mod 2 ^ 32)"

definition utf16ToUtf8 :: "codecvt \<Rightarrow> int list \<Rightarrow> (exn, string) res" where
  "utf16ToUtf8 L w =
     (case decode (read_utf16 (wide_units L)) (cut_fails L) (map wchar_unit w) of
        Some cs \<Rightarrow> Ok (map char_of (encode write_utf8 cs))
      | None \<Rightarrow> Exn (ConversionException UTF16_TO_UTF8))"

definition utf8ToUtf16 :: "codecvt \<Rightarrow> string \<Rightarrow> (exn, int list) res" where
  "utf8ToUtf16 L s =
     (case decode read_utf8 (cut_fails L) (map of_char s) of
        Some cs \<Rightarrow> Ok (map int (encode write_utf16 cs))
      | None \<Rightarrow> Exn (ConversionException UTF8_TO_UTF16))"

text \<open>
  The overloads for pointers: \<open>SQLCHAR\<close> is read up to the terminating zero (past the end of the memory if there is none);
  \<open>SQLWCHAR\<close>, of two bytes, is read through a pointer to \<open>wchar_t\<close>, of four, which is undefined.
\<close>

definition utf8ToUtf16_ptr :: "codecvt \<Rightarrow> int list \<Rightarrow> (exn, int list) res" where
  "utf8ToUtf16_ptr L s = (if 0 \<in> set s then utf8ToUtf16 L (map char_of (takeWhile (\<lambda>x. x \<noteq> 0) s)) else Undef)"

definition utf16ToUtf8_ptr :: "codecvt \<Rightarrow> int list \<Rightarrow> (exn, string) res" where
  "utf16ToUtf8_ptr L w = Undef"

section \<open>Readers and writers that belong together\<close>

locale encoder =
  fixes rd :: "nat list \<Rightarrow> read" and wr :: "nat \<Rightarrow> nat list" and points :: "nat set"
  assumes write_nonempty: "c \<in> points \<Longrightarrow> wr c \<noteq> []"
    and read_write: "c \<in> points \<Longrightarrow> rd (wr c @ rest) = Read c rest"
begin

lemma code_points_encode:
  "set cs \<subseteq> points \<Longrightarrow> length (encode wr cs) \<le> n \<Longrightarrow> code_points rd strict n (encode wr cs) = Some cs"
proof (induction cs arbitrary: n)
  case Nil
  then show ?case by (simp add: encode_def)
next
  case (Cons c cs)
  have step: "encode wr (c # cs) = wr c @ encode wr cs" by (simp add: encode_def)
  obtain u us where u: "wr c = u # us" using Cons.prems(1) write_nonempty[of c] by (cases "wr c") auto
  then obtain m where n: "n = Suc m" using Cons.prems(2) step by (cases n) auto
  have "code_points rd strict m (encode wr cs) = Some cs"
    using Cons.prems n u step by (intro Cons.IH) auto
  with read_write[of c "encode wr cs"] Cons.prems(1) show ?case by (simp add: step u n)
qed

lemma decode_encode: "set cs \<subseteq> points \<Longrightarrow> decode rd strict (encode wr cs) = Some cs"
  by (simp add: decode_def code_points_encode)

end

locale encoding = encoder +
  assumes write_read: "rd us = Read c rest \<Longrightarrow> c \<in> points \<and> us = wr c @ rest"
begin

lemma code_points_decode:
  "code_points rd True n us = Some cs \<Longrightarrow> encode wr cs = us \<and> set cs \<subseteq> points"
proof (induction n arbitrary: us cs)
  case 0
  then show ?case by (cases us) (auto simp: encode_def)
next
  case (Suc n)
  show ?case
  proof (cases us)
    case Nil
    with Suc.prems show ?thesis by (simp add: encode_def)
  next
    case (Cons u vs)
    with Suc.prems obtain c rest ds where r: "rd us = Read c rest" and d: "code_points rd True n rest = Some ds" "cs = c # ds"
      by (auto split: read.splits)
    from write_read[OF r] Suc.IH[OF d(1)] d(2) show ?thesis by (simp add: encode_def)
  qed
qed

lemma encode_decode: "decode rd True us = Some cs \<Longrightarrow> encode wr cs = us"
  and decode_points: "decode rd True us = Some cs \<Longrightarrow> set cs \<subseteq> points"
  using code_points_decode by (auto simp: decode_def)

lemma decode_iff: "decode rd True us = Some cs \<longleftrightarrow> set cs \<subseteq> points \<and> us = encode wr cs"
  using decode_encode encode_decode decode_points by metis

end

section \<open>UTF-8 and UTF-16\<close>

lemma write_utf16_nonempty: "write_utf16 c \<noteq> []"
  by (simp add: write_utf16_def)

lemma write_utf8_nonempty: "write_utf8 c \<noteq> []"
  by (simp add: write_utf8_def)

lemma read_write_utf16: "scalar c \<Longrightarrow> read_utf16 wide (write_utf16 c @ rest) = Read c rest"
proof (cases "c < 0x10000")
  case False
  assume "scalar c"
  then have "(c - 0x10000) div 0x400 < 0x400" "(c - 0x10000) div 0x400 * 0x400 + (c - 0x10000) mod 0x400 = c - 0x10000"
    using False by (auto simp: scalar_def)
  moreover have "(c - 0x10000) mod 0x400 < 0x400" by simp
  ultimately show ?thesis using False by (simp add: write_utf16_def high_surrogate_def low_surrogate_def)
qed (auto simp: write_utf16_def high_surrogate_def scalar_def)

lemma write_read_utf16: "read_utf16 False us = Read c rest \<Longrightarrow> scalar c \<and> us = write_utf16 c @ rest"
proof (cases us)
  case (Cons u vs)
  assume r: "read_utf16 False us = Read c rest"
  show ?thesis
  proof (cases "high_surrogate u")
    case True
    with r Cons obtain v where v: "vs = v # rest" "low_surrogate v" "c = 0x10000 + (u - 0xD800) * 0x400 + (v - 0xDC00)"
      by (auto split: list.splits if_splits)
    then obtain b where b: "v = 0xDC00 + b" "b < 0x400" by (auto simp: low_surrogate_def dest!: le_Suc_ex)
    from True obtain a where a: "u = 0xD800 + a" "a < 0x400" by (auto simp: high_surrogate_def dest!: le_Suc_ex)
    from a b v(3) have c: "c = 0x10000 + (a * 0x400 + b)" by simp
    with b have "(c - 0x10000) div 0x400 = a" "(c - 0x10000) mod 0x400 = b" by simp_all
    moreover have "scalar c" using a(2) b(2) c by (simp add: scalar_def)
    ultimately show ?thesis using a b c v Cons by (simp add: write_utf16_def add.assoc)
  qed (use r Cons in \<open>auto simp: write_utf16_def split: if_splits\<close>)
qed simp

interpretation utf16: encoding "read_utf16 False" write_utf16 "Collect scalar"
  by unfold_locales (simp_all add: write_utf16_nonempty read_write_utf16 write_read_utf16)

interpretation utf16_in: encoder "read_utf16 wide" write_utf16 "Collect scalar" for wide
  by unfold_locales (simp_all add: write_utf16_nonempty read_write_utf16)

lemma digits2: "c = (c div 0x40) * 0x40 + c mod (0x40 :: nat)"
  by simp

lemma read_write_utf8: "scalar c \<Longrightarrow> read_utf8 (write_utf8 c @ rest) = Read c rest"
proof -
  assume c: "scalar c"
  have tail: "0x80 + x mod 0x40 < 0xC0" for x :: nat by simp
  have d: "c div 0x1000 = c div 0x40 div 0x40" "c div 0x40000 = c div 0x40 div 0x40 div 0x40" by (simp_all add: div_mult2_eq[symmetric])
  consider "c < 0x80" | "0x80 \<le> c" "c < 0x800" | "0x800 \<le> c" "c < 0x10000" | "0x10000 \<le> c" by linarith
  then show ?thesis
  proof cases
    case 1
    then show ?thesis by (simp add: write_utf8_def)
  next
    case 2
    then have "c div 0x40 < 0x20" by simp
    with 2 c show ?thesis by (simp add: write_utf8_def numeral_2_eq_2)
  next
    case 3
    then have "c div 0x1000 < 0x10" by simp
    with 3 c show ?thesis by (simp add: write_utf8_def numeral_2_eq_2 d)
  next
    case 4
    with c have "c div 0x40000 < 0x8" by (simp add: scalar_def)
    with 4 c show ?thesis by (simp add: write_utf8_def numeral_3_eq_3 d)
  qed
qed


lemma read_tail_Suc:
  "read_tail (Suc n) least c bs = Read x rest \<Longrightarrow>
   \<exists>d cs. bs = (0x80 + d) # cs \<and> d < 0x40 \<and> read_tail n least (c * 0x40 + d) cs = Read x rest"
  by (cases bs) (auto dest!: le_Suc_ex split: if_splits)

lemma last_digit: "d < 0x40 \<Longrightarrow> (c * 0x40 + d) div 0x40 = c \<and> (c * 0x40 + d) mod 0x40 = (d :: nat)"
  by simp

lemma write_read_utf8: "read_utf8 us = Read c rest \<Longrightarrow> scalar c \<and> us = write_utf8 c @ rest"
proof (cases us)
  case (Cons b bs)
  assume r: "read_utf8 us = Read c rest"
  have d: "x div 0x1000 = x div 0x40 div 0x40" "x div 0x40000 = x div 0x40 div 0x40 div 0x40" for x :: nat
    by (simp_all add: div_mult2_eq[symmetric])
  consider (one) "b < 0x80" | (two) a where "b = 0xC0 + a" "a < 0x20" | (three) a where "b = 0xE0 + a" "a < 0x10"
    | (four) a where "b = 0xF0 + a" "a < 0x8"
    using r Cons by (auto split: if_splits dest!: le_Suc_ex)
  then show ?thesis
  proof cases
    case one
    with r Cons show ?thesis by (auto simp: write_utf8_def scalar_def)
  next
    case two
    with r Cons have "read_tail (Suc 0) 0x80 a bs = Read c rest" by simp
    then obtain x where x: "bs = (0x80 + x) # rest" "x < 0x40" "c = a * 0x40 + x" "0x80 \<le> c" "scalar c"
      by (auto dest!: read_tail_Suc split: if_splits)
    with two show ?thesis using last_digit[OF x(2), of a] Cons by (simp add: write_utf8_def)
  next
    case three
    with r Cons have "read_tail (Suc (Suc 0)) 0x800 a bs = Read c rest" by (simp add: numeral_2_eq_2)
    then obtain x y where x: "bs = (0x80 + x) # (0x80 + y) # rest" "x < 0x40" "y < 0x40" "c = (a * 0x40 + x) * 0x40 + y"
        "0x800 \<le> c" "scalar c"
      by (force dest!: read_tail_Suc split: if_splits)
    with three show ?thesis using last_digit[OF x(2), of a] last_digit[OF x(3), of "a * 0x40 + x"] Cons
      by (simp add: write_utf8_def d)
  next
    case four
    with r Cons have "read_tail (Suc (Suc (Suc 0))) 0x10000 a bs = Read c rest" by (simp add: numeral_3_eq_3)
    then obtain x y z where x: "bs = (0x80 + x) # (0x80 + y) # (0x80 + z) # rest" "x < 0x40" "y < 0x40" "z < 0x40"
        "c = ((a * 0x40 + x) * 0x40 + y) * 0x40 + z" "0x10000 \<le> c" "scalar c"
      by (force dest!: read_tail_Suc split: if_splits)
    with four show ?thesis
      using last_digit[OF x(2), of a] last_digit[OF x(3), of "a * 0x40 + x"] last_digit[OF x(4), of "(a * 0x40 + x) * 0x40 + y"] Cons
      by (simp add: write_utf8_def d)
  qed
qed simp

interpretation utf8: encoding read_utf8 write_utf8 "Collect scalar"
  by unfold_locales (simp_all add: write_utf8_nonempty read_write_utf8 write_read_utf8)

section \<open>The conversions undo each other\<close>

lemma narrow_units:
  "\<forall>u\<in>set us. u < 0x10000 \<Longrightarrow> read_utf16 wide us = read_utf16 False us"
  by (cases us) (auto split: list.splits)

lemma narrow_rest: "read_utf16 wide us = Read c rest \<Longrightarrow> set rest \<subseteq> set us"
  by (cases us) (auto split: list.splits if_splits)

lemma decode_narrow:
  assumes "\<forall>u\<in>set us. u < 0x10000"
  shows "decode (read_utf16 wide) strict us = decode (read_utf16 False) strict us"
proof -
  have "code_points (read_utf16 wide) strict n us = code_points (read_utf16 False) strict n us" for n
    using assms
  proof (induction n arbitrary: us)
    case 0
    then show ?case by (cases us) simp_all
  next
    case (Suc n)
    show ?case
    proof (cases us)
      case (Cons u vs)
      have "code_points (read_utf16 wide) strict n rest = code_points (read_utf16 False) strict n rest"
        if "read_utf16 False us = Read c rest" for c rest
        using Suc.prems narrow_rest[OF that] by (intro Suc.IH) blast
      with narrow_units[OF Suc.prems, of wide] Cons show ?thesis by (auto split: read.split simp del: read_utf16.simps)
    qed simp
  qed
  then show ?thesis by (simp add: decode_def)
qed

lemma encode_bound: "set cs \<subseteq> Collect scalar \<Longrightarrow> (\<And>c u. scalar c \<Longrightarrow> u \<in> set (wr c) \<Longrightarrow> u < k) \<Longrightarrow> u \<in> set (encode wr cs) \<Longrightarrow> u < k"
  by (auto simp: encode_def)

lemma write_utf8_bytes: "scalar c \<Longrightarrow> u \<in> set (write_utf8 c) \<Longrightarrow> u < 0x100"
  by (auto simp: write_utf8_def scalar_def split: if_splits)

lemma write_utf16_units: "scalar c \<Longrightarrow> u \<in> set (write_utf16 c) \<Longrightarrow> u < 0x10000"
  by (auto simp: write_utf16_def scalar_def split: if_splits)

lemma chars_of_bytes: "\<forall>b\<in>set bs. b < 0x100 \<Longrightarrow> s = map char_of bs \<longleftrightarrow> map of_char s = (bs :: nat list)"
  by (auto simp: map_idI comp_def)

lemma wchar_units: "\<forall>u\<in>set w. 0 \<le> u \<and> u < 2 ^ 16 \<Longrightarrow> map wchar_unit w = us \<longleftrightarrow> w = map int us"
proof -
  assume w: "\<forall>u\<in>set w. 0 \<le> u \<and> u < 2 ^ 16"
  have "map int (map wchar_unit w) = w" using w by (auto simp: wchar_unit_def intro!: map_idI)
  moreover have "map wchar_unit (map int us) = us" if "w = map int us"
    using w that by (auto simp: wchar_unit_def intro!: map_idI)
  ultimately show ?thesis by metis
qed

lemma utf8ToUtf16_iff:
  assumes "cut_fails L"
  shows "utf8ToUtf16 L s = Ok w \<longleftrightarrow>
    (\<exists>cs. set cs \<subseteq> Collect scalar \<and> s = map char_of (encode write_utf8 cs) \<and> w = map int (encode write_utf16 cs))"
proof -
  have "utf8ToUtf16 L s = Ok w \<longleftrightarrow>
      (\<exists>cs. (set cs \<subseteq> Collect scalar \<and> map of_char s = encode write_utf8 cs) \<and> w = map int (encode write_utf16 cs))"
    unfolding utf8.decode_iff[symmetric] using assms by (auto simp: utf8ToUtf16_def split: option.split)
  moreover have "map of_char s = encode write_utf8 cs \<longleftrightarrow> s = map char_of (encode write_utf8 cs)" if "set cs \<subseteq> Collect scalar" for cs
    using that by (intro chars_of_bytes[symmetric] ballI encode_bound[OF that write_utf8_bytes])
  ultimately show ?thesis by metis
qed

lemma utf16ToUtf8_iff:
  assumes "cut_fails L" and "\<forall>u\<in>set w. 0 \<le> u \<and> u < 2 ^ 16"
  shows "utf16ToUtf8 L w = Ok s \<longleftrightarrow>
    (\<exists>cs. set cs \<subseteq> Collect scalar \<and> s = map char_of (encode write_utf8 cs) \<and> w = map int (encode write_utf16 cs))"
proof -
  have "decode (read_utf16 (wide_units L)) True (map wchar_unit w) = decode (read_utf16 False) True (map wchar_unit w)"
    using assms(2) by (intro decode_narrow) (auto simp: wchar_unit_def)
  then have "utf16ToUtf8 L w = Ok s \<longleftrightarrow>
      (\<exists>cs. (set cs \<subseteq> Collect scalar \<and> map wchar_unit w = encode write_utf16 cs) \<and> s = map char_of (encode write_utf8 cs))"
    unfolding utf16.decode_iff[symmetric] using assms by (auto simp: utf16ToUtf8_def split: option.split)
  then show ?thesis unfolding wchar_units[OF assms(2)] by blast
qed

text \<open>
  C34. The two conversions are inverse to each other: with a C++ library that reports texts which end within a sequence, a
  text of UTF-16 code units converts to the bytes \<open>s\<close> exactly when \<open>s\<close> converts to it. So what is ill-formed
  is refused by both, and nothing is lost.
\<close>

theorem conversions_inverse:
  assumes "cut_fails L" and "\<forall>u\<in>set w. 0 \<le> u \<and> u < 2 ^ 16"
  shows "utf16ToUtf8 L w = Ok s \<longleftrightarrow> utf8ToUtf16 L s = Ok w"
  unfolding utf16ToUtf8_iff[OF assms] utf8ToUtf16_iff[OF assms(1)] ..

definition strict_codecvt :: codecvt where
  "strict_codecvt = \<lparr>cut_fails = True, wide_units = True\<rparr>"

text \<open>The letter A, the euro sign and a musical symbol, which takes a pair of surrogates.\<close>

lemma conversions_inverse_witness:
  "utf16ToUtf8 strict_codecvt [0x41, 0x20AC, 0xD834, 0xDD1E] =
     Ok (map char_of [0x41 :: nat, 0xE2, 0x82, 0xAC, 0xF0, 0x9D, 0x84, 0x9E])"
proof -
  let ?w = "[0x41, 0x20AC, 0xD834, 0xDD1E] :: int list" and ?s = "map char_of [0x41 :: nat, 0xE2, 0x82, 0xAC, 0xF0, 0x9D, 0x84, 0x9E]"
  have "cut_fails strict_codecvt" "\<forall>u\<in>set ?w. 0 \<le> u \<and> u < 2 ^ 16" by (simp_all add: strict_codecvt_def)
  from conversions_inverse[OF this, of ?s] show ?thesis
    by (simp add: utf8ToUtf16_def decode_def numeral_2_eq_2 numeral_3_eq_3 scalar_def encode_def write_utf16_def)
qed

text \<open>Texts of ASCII characters are converted unit by unit, whatever the library decides.\<close>

lemma wchar_unit_char: "of_char c < (0x80 :: nat) \<Longrightarrow> wchar_unit (of_char c) = of_char c"
proof -
  assume c: "of_char c < (0x80 :: nat)"
  have e: "(of_char c :: int) = int (of_char c)" by (rule of_nat_of_char[symmetric])
  from c have "int (of_char c) mod 2 ^ 32 = int (of_char c)" by (intro mod_pos_pos_trivial) simp_all
  then show "wchar_unit (of_char c) = of_char c" unfolding wchar_unit_def e by (simp only: nat_int)
qed

lemma utf16ToUtf8_ascii:
  assumes "\<forall>c\<in>set s. of_char c < (0x80 :: nat)"
  shows "utf16ToUtf8 L (map of_char s) = Ok s"
proof -
  let ?cs = "map of_char s :: nat list"
  have b: "\<forall>c\<in>set ?cs. c < 0x80" using assms by simp
  then have e: "encode write_utf16 ?cs = ?cs" "encode write_utf8 ?cs = ?cs"
    by (induction s) (simp_all add: encode_def write_utf16_def write_utf8_def)
  have "set ?cs \<subseteq> Collect scalar" using b by (auto simp: scalar_def)
  from utf16_in.decode_encode[OF this] have "decode (read_utf16 (wide_units L)) (cut_fails L) ?cs = Some ?cs" by (simp add: e)
  moreover have "map wchar_unit (map of_char s) = ?cs"
    using assms by (auto simp: wchar_unit_char)
  ultimately have "utf16ToUtf8 L (map of_char s) = Ok (map char_of ?cs)" by (simp add: utf16ToUtf8_def e del: map_map map_eq_conv)
  then show ?thesis by (simp add: comp_def)
qed

lemma conversions_never_stick [simp]: "utf16ToUtf8 L w \<noteq> OutOfFuel" "utf8ToUtf16 L s \<noteq> OutOfFuel"
  by (simp_all add: utf16ToUtf8_def utf8ToUtf16_def split: option.split)

end
