(* ===== verification/Buffers.thy ===== *)
theory Buffers
  imports Infos Flags TypeMaps Conversions
begin

text \<open>
  \<open>ColumnBuffer.h/.cpp\<close>, \<open>ColumnBufferVisitors.h\<close> and \<open>ColumnBufferWrapper.h/.cpp\<close>: the typed
  buffers that are bound to the columns and parameters of a statement.

  The nineteen alternatives of \<open>ColumnBufferPtrVariant\<close> are the constructors of \<open>ColumnBufferKind\<close>,
  eighteen instances of the class template and \<open>SqlCPointerBuffer\<close>; a visitor is then a function of
  the buffer. An element of \<open>std::vector<T>\<close> is a number: the value of an integer or character, the
  bits of anything else. The capacity of the vector, which \<open>SetValue\<close> checks, is its size here:
  the vectors are made with a size and never grow.

  A buffer is shared by the table (or statement) that binds it and the user of the library; when
  the last of them lets go is not modelled, only what the destructor does.

  An element of a wide text is a \<open>wchar_t\<close>, of four bytes, and one of a \<open>WCharColumnBuffer\<close> an \<open>SQLWCHAR\<close>, of two:
  \<open>SetWString\<close> converts element by element, \<open>GetWString\<close> reads the memory through a pointer to \<open>wchar_t\<close>.
\<close>

section \<open>The classes\<close>

datatype ColumnBufferKind =
    UShortColumnBuffer | ShortColumnBuffer | ULongColumnBuffer | LongColumnBuffer
  | UBigIntColumnBuffer | BigIntColumnBuffer
  | TypeTimeColumnBuffer | TimeColumnBuffer | TypeDateColumnBuffer | DateColumnBuffer
  | TypeTimestampColumnBuffer | TimestampColumnBuffer
  | NumericColumnBuffer | DoubleColumnBuffer | RealColumnBuffer
  | WCharColumnBuffer | CharColumnBuffer | BinaryColumnBuffer
  | SqlCPointerBuffer

text \<open>The two template arguments: \<open>sqlCType\<close> and the size of \<open>T\<close> in bytes.\<close>

fun kind_sqlCType :: "ColumnBufferKind \<Rightarrow> int" where
  "kind_sqlCType UShortColumnBuffer = SQL_C_USHORT"
| "kind_sqlCType ShortColumnBuffer = SQL_C_SSHORT"
| "kind_sqlCType ULongColumnBuffer = SQL_C_ULONG"
| "kind_sqlCType LongColumnBuffer = SQL_C_SLONG"
| "kind_sqlCType UBigIntColumnBuffer = SQL_C_UBIGINT"
| "kind_sqlCType BigIntColumnBuffer = SQL_C_SBIGINT"
| "kind_sqlCType TypeTimeColumnBuffer = SQL_C_TYPE_TIME"
| "kind_sqlCType TimeColumnBuffer = SQL_C_TIME"
| "kind_sqlCType TypeDateColumnBuffer = SQL_C_TYPE_DATE"
| "kind_sqlCType DateColumnBuffer = SQL_C_DATE"
| "kind_sqlCType TypeTimestampColumnBuffer = SQL_C_TYPE_TIMESTAMP"
| "kind_sqlCType TimestampColumnBuffer = SQL_C_TIMESTAMP"
| "kind_sqlCType NumericColumnBuffer = SQL_C_NUMERIC"
| "kind_sqlCType DoubleColumnBuffer = SQL_C_DOUBLE"
| "kind_sqlCType RealColumnBuffer = SQL_C_FLOAT"
| "kind_sqlCType WCharColumnBuffer = SQL_C_WCHAR"
| "kind_sqlCType CharColumnBuffer = SQL_C_CHAR"
| "kind_sqlCType BinaryColumnBuffer = SQL_C_BINARY"
| "kind_sqlCType SqlCPointerBuffer = 0"

fun kind_sizeof :: "ColumnBufferKind \<Rightarrow> int" where
  "kind_sizeof UShortColumnBuffer = 2"
| "kind_sizeof ShortColumnBuffer = 2"
| "kind_sizeof ULongColumnBuffer = 4"
| "kind_sizeof LongColumnBuffer = 4"
| "kind_sizeof UBigIntColumnBuffer = 8"
| "kind_sizeof BigIntColumnBuffer = 8"
| "kind_sizeof TypeTimeColumnBuffer = 6"
| "kind_sizeof TimeColumnBuffer = 6"
| "kind_sizeof TypeDateColumnBuffer = 6"
| "kind_sizeof DateColumnBuffer = 6"
| "kind_sizeof TypeTimestampColumnBuffer = 16"
| "kind_sizeof TimestampColumnBuffer = 16"
| "kind_sizeof NumericColumnBuffer = 19"
| "kind_sizeof DoubleColumnBuffer = 8"
| "kind_sizeof RealColumnBuffer = 4"
| "kind_sizeof WCharColumnBuffer = 2"
| "kind_sizeof CharColumnBuffer = 1"
| "kind_sizeof BinaryColumnBuffer = 1"
| "kind_sizeof SqlCPointerBuffer = 0"

text \<open>
  \<open>LengthIndicator\<close>, \<open>ColumnFlags\<close> and \<open>ColumnProperties\<close>, the members of the template, and the
  members of \<open>SqlCPointerBuffer\<close>. \<open>ColumnBindable\<close> is the object at the same address in \<open>bnd\<close>.
\<close>

record ColumnBuffer =
  m_kind :: ColumnBufferKind
  m_cb :: int
  m_colFlags :: EnumFlags
  m_columnSize :: int
  m_decimalDigits :: int
  m_sqlType :: int
  m_queryName :: string
  m_nrOfElements :: int
  m_buffer :: "int list"
  m_pBuffer :: nat
  m_sqlCType :: int
  m_bufferLength :: int

record bworld = pworld +
  buf :: "nat \<Rightarrow> ColumnBuffer"

type_synonym ('z, 'a) bprog = "(exn, 'z bworld_scheme, 'a) prog"

type_synonym 'a cbprog = "(exn, ColumnBuffer, 'a) prog"

definition SQL_NO_TOTAL_BUFFER_LENGTH :: int where
  "SQL_NO_TOTAL_BUFFER_LENGTH = 65536"

section \<open>Length indicator and properties\<close>

definition SetCb :: "int \<Rightarrow> unit cbprog" where
  "SetCb cb = modifyM (\<lambda>b. b\<lparr>m_cb := cb\<rparr>)"

definition SetNull :: "unit cbprog" where
  "SetNull = modifyM (\<lambda>b. b\<lparr>m_cb := SQL_NULL_DATA\<rparr>)"

definition IsNull :: "ColumnBuffer \<Rightarrow> bool" where
  "IsNull b \<longleftrightarrow> m_cb b = SQL_NULL_DATA"

definition SetColumnSize :: "int \<Rightarrow> unit cbprog" where
  "SetColumnSize n = modifyM (\<lambda>b. b\<lparr>m_columnSize := n\<rparr>)"

definition SetDecimalDigits :: "int \<Rightarrow> unit cbprog" where
  "SetDecimalDigits n = modifyM (\<lambda>b. b\<lparr>m_decimalDigits := n\<rparr>)"

definition SetSqlType :: "int \<Rightarrow> unit cbprog" where
  "SetSqlType t = modifyM (\<lambda>b. b\<lparr>m_sqlType := t\<rparr>)"

definition SetQueryName :: "string \<Rightarrow> unit cbprog" where
  "SetQueryName n = modifyM (\<lambda>b. b\<lparr>m_queryName := n\<rparr>)"

definition HasQueryName :: "ColumnBuffer \<Rightarrow> bool" where
  "HasQueryName b \<longleftrightarrow> m_queryName b \<noteq> []"

definition GetQueryName :: "ColumnBuffer \<Rightarrow> (exn, string) res" where
  "GetQueryName b =
     (if HasQueryName b then Ok (m_queryName b) else Exn (AssertionException ''HasQueryName()''))"

section \<open>Construction\<close>

text \<open>
  The base classes' default constructors and the two pairs of constructors of the template, with one
  element and with an array; those without a query name have the empty one. \<open>SqlCPointerBuffer\<close>
  starts NULL only if it is nullable.
\<close>

definition ColumnBuffer_base :: "ColumnBufferKind \<Rightarrow> EnumFlags \<Rightarrow> int \<Rightarrow> ColumnBuffer" where
  "ColumnBuffer_base k flags n =
     \<lparr>m_kind = k, m_cb = 0, m_colFlags = flags, m_columnSize = 0, m_decimalDigits = 0,
      m_sqlType = SQL_UNKNOWN_TYPE, m_queryName = [], m_nrOfElements = n,
      m_buffer = replicate (nat n) 0, m_pBuffer = 0, m_sqlCType = 0, m_bufferLength = 0\<rparr>"

definition ColumnBuffer_one :: "ColumnBufferKind \<Rightarrow> string \<Rightarrow> int \<Rightarrow> EnumFlags \<Rightarrow> ColumnBuffer" where
  "ColumnBuffer_one k queryName sqlType flags =
     snd (seqM [SetNull, SetQueryName queryName, SetSqlType sqlType] (ColumnBuffer_base k flags 1))"

definition ColumnBuffer_array ::
  "ColumnBufferKind \<Rightarrow> int \<Rightarrow> string \<Rightarrow> int \<Rightarrow> EnumFlags \<Rightarrow> (exn, ColumnBuffer) res" where
  "ColumnBuffer_array k nrOfElements queryName sqlType flags =
     (let n = (if nrOfElements = SQL_NO_TOTAL then SQL_NO_TOTAL_BUFFER_LENGTH else nrOfElements)
      in if n > 0
         then Ok (snd (seqM [SetNull, SetQueryName queryName, SetSqlType sqlType]
                     (ColumnBuffer_base k flags n)))
         else Exn (AssertionException ''m_nrOfElements > 0''))"

definition SqlCPointerBuffer_new ::
  "string \<Rightarrow> int \<Rightarrow> nat \<Rightarrow> int \<Rightarrow> int \<Rightarrow> EnumFlags \<Rightarrow> int \<Rightarrow> int \<Rightarrow> int \<Rightarrow> ColumnBuffer" where
  "SqlCPointerBuffer_new queryName sqlType pBuffer sqlCType bufferLength flags columnSize decimalDigits
       nrOfElements =
     \<lparr>m_kind = SqlCPointerBuffer, m_cb = (if EnumFlags_Test flags CF_NULLABLE then SQL_NULL_DATA else 0),
      m_colFlags = flags, m_columnSize = columnSize, m_decimalDigits = decimalDigits,
      m_sqlType = sqlType, m_queryName = queryName, m_nrOfElements = nrOfElements, m_buffer = [],
      m_pBuffer = pBuffer, m_sqlCType = sqlCType, m_bufferLength = bufferLength\<rparr>"

text \<open>\<open>std::make_shared\<close>: the object gets an address.\<close>

definition make_buffer :: "ColumnBuffer \<Rightarrow> ('z, nat) bprog" where
  "make_buffer b = bindM new_address (\<lambda>a. thenM
     (modifyM (\<lambda>w. w\<lparr>buf := (buf w)(a := b),
        bnd := (bnd w)(a := \<lparr>m_unbindColumnsConnections = [], m_resetParamsConnections = []\<rparr>)\<rparr>))
     (returnM a))"

definition on_buf :: "nat \<Rightarrow> 'a cbprog \<Rightarrow> ('z, 'a) bprog" where
  "on_buf a m w = (case m (buf w a) of (r, b) \<Rightarrow> (r, w\<lparr>buf := (buf w)(a := b)\<rparr>))"

section \<open>Values\<close>

definition GetSqlCType :: "ColumnBuffer \<Rightarrow> int" where
  "GetSqlCType b = (if m_kind b = SqlCPointerBuffer then m_sqlCType b else kind_sqlCType (m_kind b))"

definition GetBufferLength :: "ColumnBuffer \<Rightarrow> int" where
  "GetBufferLength b =
     (if m_kind b = SqlCPointerBuffer then m_bufferLength b
      else kind_sizeof (m_kind b) * m_nrOfElements b)"

definition SetValue :: "int list \<Rightarrow> int \<Rightarrow> unit cbprog" where
  "SetValue value cb =
     thenM (exASSERT ''value.size() <= m_buffer.capacity()'' (\<lambda>b. length value \<le> length (m_buffer b)))
     (thenM (modifyM (\<lambda>b. b\<lparr>m_buffer := value @ drop (length value) (m_buffer b)\<rparr>))
     (thenM
       (if cb = SQL_NTS
        then if value = [] then undefM
             else if last value \<noteq> 0
             then thenM (exASSERT ''index < m_buffer.capacity()'' (\<lambda>b. length value < length (m_buffer b)))
                    (modifyM (\<lambda>b. b\<lparr>m_buffer := (m_buffer b)[length value := 0]\<rparr>))
             else skipM
        else skipM)
       (SetCb cb)))"

definition SetValue_binary :: "int list \<Rightarrow> unit cbprog" where
  "SetValue_binary value = SetValue value (int (length value))"

definition SetValue_elem_cb :: "int \<Rightarrow> int \<Rightarrow> unit cbprog" where
  "SetValue_elem_cb value cb =
     thenM (modifyM (\<lambda>b. b\<lparr>m_buffer := (m_buffer b)[0 := value]\<rparr>)) (SetCb cb)"

definition SetValue_elem :: "int \<Rightarrow> unit cbprog" where
  "SetValue_elem value b = SetValue_elem_cb value (kind_sizeof (m_kind b)) b"

text \<open>
  Reading: a NULL buffer throws, and the exception asks for the query name, so a buffer without one
  throws an assertion instead. \<open>GetString\<close> reads to the first NUL; without one it reads past the
  end of the vector.
\<close>

definition throw_if_null :: "unit cbprog" where
  "throw_if_null = bindM (getsM (\<lambda>b. b)) (\<lambda>b.
     if IsNull b then bindM (liftM (GetQueryName b)) (\<lambda>n. throwM (NullValueException n)) else skipM)"

definition GetValue :: "int cbprog" where
  "GetValue = thenM throw_if_null (getsM (\<lambda>b. m_buffer b ! 0))"

definition GetString :: "string cbprog" where
  "GetString = thenM throw_if_null (bindM (getsM m_buffer) (\<lambda>xs.
     if 0 \<in> set xs then returnM (map char_of (takeWhile (\<lambda>x. x \<noteq> 0) xs)) else undefM))"

definition SetString :: "string \<Rightarrow> unit cbprog" where
  "SetString s = SetValue (map of_char s) SQL_NTS"

definition SetWString :: "int list \<Rightarrow> unit cbprog" where
  "SetWString ws = SetValue (map (\<lambda>u. u mod 2 ^ 16) ws) SQL_NTS"

text \<open>Reading objects of the type \<open>SQLWCHAR\<close> through a pointer to \<open>wchar_t\<close> is undefined.\<close>

definition GetWString :: "int list cbprog" where
  "GetWString = thenM throw_if_null undefM"

definition CreateParamDescFromProps :: "ColumnBuffer \<Rightarrow> ParameterDescription" where
  "CreateParamDescFromProps b =
     ParameterDescription_of (m_sqlType b) (m_columnSize b) (m_decimalDigits b)
       (if EnumFlags_Test (m_colFlags b) CF_NULLABLE then SQL_NULLABLE else SQL_NO_NULLS)"

text \<open>\<open>SetNullVisitor\<close>: only a nullable column may be set to NULL through the variant.\<close>

definition SetNullVisitor :: "unit cbprog" where
  "SetNullVisitor = bindM (getsM (\<lambda>b. b)) (\<lambda>b.
     if \<not> EnumFlags_Test (m_colFlags b) CF_NULLABLE
     then bindM (liftM (GetQueryName b)) (\<lambda>n. throwM (NotAllowedException
            (''ColumnFlag::CF_NULLABLE is not set on column '' @ [CHR 0x27] @ n @ [CHR 0x27])))
     else SetNull)"

section \<open>Binding\<close>

text \<open>
  The two halves of \<open>ColumnBindable\<close>: after the driver has accepted the binding, the buffer connects
  itself to the handle's signal unless it already is, and keeps the connection and a pointer to the
  handle under the value of the \<open>SQLHSTMT\<close>.
\<close>

definition connect_unbind :: "nat \<Rightarrow> nat \<Rightarrow> ('z, unit) hprog" where
  "connect_unbind this p =
     bindM (getsM (\<lambda>w. SqlHandle_GetHandle w p)) (\<lambda>h.
     bindM (getsM (\<lambda>w. map_of (m_unbindColumnsConnections (bnd w this)) h)) (\<lambda>it.
       case it of
         None \<Rightarrow> bindM (ConnectUnbindColumnsSignal p this) (\<lambda>c. seqM
           [shared_copy p,
            mod_bnd this (\<lambda>b. b\<lparr>m_unbindColumnsConnections := map_put h (c, p) (m_unbindColumnsConnections b)\<rparr>)])
       | Some _ \<Rightarrow> skipM))"

definition connect_reset :: "nat \<Rightarrow> nat \<Rightarrow> ('z, unit) hprog" where
  "connect_reset this p =
     bindM (getsM (\<lambda>w. SqlHandle_GetHandle w p)) (\<lambda>h.
     bindM (getsM (\<lambda>w. map_of (m_resetParamsConnections (bnd w this)) h)) (\<lambda>it.
       case it of
         None \<Rightarrow> bindM (ConnectResetParamsSignal p this) (\<lambda>c. seqM
           [shared_copy p,
            mod_bnd this (\<lambda>b. b\<lparr>m_resetParamsConnections := map_put h (c, p) (m_resetParamsConnections b)\<rparr>)])
       | Some _ \<Rightarrow> skipM))"

definition BindColumnImpl ::
  "ext \<Rightarrow> nat \<Rightarrow> nat \<Rightarrow> nat option \<Rightarrow> int \<Rightarrow> sqlptr \<Rightarrow> int \<Rightarrow> ('z, unit) hprog" where
  "BindColumnImpl X this columnNr pHStmt sqlCType pBuffer bufferLen =
     thenM (exASSERT ''columnNr >= 1'' (\<lambda>_. columnNr \<ge> 1))
     (case pHStmt of
        None \<Rightarrow> throwM (AssertionException ''pHStmt != NULL'')
      | Some p \<Rightarrow>
          thenM (exASSERT ''pHStmt->IsAllocated()'' (\<lambda>w. SqlHandle_IsAllocated w p))
          (thenM (exASSERT ''pBuffer != NULL'' (\<lambda>_. pBuffer \<noteq> PUser 0))
          (thenM (exASSERT ''bufferLen > 0'' (\<lambda>_. bufferLen > 0))
          (bindM (getsM (\<lambda>w. SqlHandle_GetHandle w p)) (\<lambda>h.
           bindM (odbc X (SQLBindCol h columnNr sqlCType pBuffer bufferLen (PLen this))) (\<lambda>r.
             thenM (THROW_IFN_SUCCESS X ''SQLBindCol'' (rc r) SQL_HANDLE_STMT h)
               (connect_unbind this p)))))))"

definition BindParamImpl ::
  "ext \<Rightarrow> nat \<Rightarrow> nat \<Rightarrow> nat option \<Rightarrow> int \<Rightarrow> sqlptr \<Rightarrow> int \<Rightarrow> ParameterDescription \<Rightarrow> ('z, unit) hprog" where
  "BindParamImpl X this paramNr pHStmt sqlCType pBuffer bufferLen paramDesc =
     thenM (exASSERT ''paramNr >= 1'' (\<lambda>_. paramNr \<ge> 1))
     (case pHStmt of
        None \<Rightarrow> throwM (AssertionException ''pHStmt != NULL'')
      | Some p \<Rightarrow>
          thenM (exASSERT ''pHStmt->IsAllocated()'' (\<lambda>w. SqlHandle_IsAllocated w p))
          (thenM (exASSERT ''pBuffer != NULL'' (\<lambda>_. pBuffer \<noteq> PUser 0))
          (thenM (exASSERT ''bufferLen > 0'' (\<lambda>_. bufferLen > 0))
          (thenM (exASSERT ''paramDesc.GetSqlType() != SQL_UNKNOWN_TYPE''
                    (\<lambda>_. pd_sqlType paramDesc \<noteq> SQL_UNKNOWN_TYPE))
          (bindM (getsM (\<lambda>w. SqlHandle_GetHandle w p)) (\<lambda>h.
           bindM (odbc X (SQLBindParameter h paramNr SQL_PARAM_INPUT sqlCType (pd_sqlType paramDesc)
                    (pd_charSize paramDesc) (pd_decimalDigits paramDesc) pBuffer bufferLen (PLen this))) (\<lambda>r.
             thenM (THROW_IFN_SUCCESS X ''SQLBindParameter'' (rc r) SQL_HANDLE_STMT h)
               (connect_reset this p))))))))"

text \<open>
  \<open>BindColumn\<close>. A numeric buffer is bound through the fields of the row descriptor; \<open>minSize\<close> is the
  smallest column size the two classes assert (1 for the template, 0 for \<open>SqlCPointerBuffer\<close>).
\<close>

definition set_fields :: "ext \<Rightarrow> nat \<Rightarrow> nat \<Rightarrow> (int \<times> sqlptr) list \<Rightarrow> ('z, unit) exprog" where
  "set_fields X hDesc nr fs = forM fs (\<lambda>(f, v). SetDescriptionField_desc X hDesc nr f v)"

definition BindColumn_numeric ::
  "ext \<Rightarrow> nat \<Rightarrow> nat \<Rightarrow> nat option \<Rightarrow> int \<Rightarrow> int \<Rightarrow> int \<Rightarrow> sqlptr \<Rightarrow> ('z, unit) hprog" where
  "BindColumn_numeric X this columnNr pHStmt minSize columnSize decimalDigits data =
     thenM (exASSERT ''columnNr >= 1'' (\<lambda>_. columnNr \<ge> 1))
     (case pHStmt of
        None \<Rightarrow> throwM (AssertionException ''pHStmt != NULL'')
      | Some p \<Rightarrow>
          thenM (exASSERT ''pHStmt->IsAllocated()'' (\<lambda>w. SqlHandle_IsAllocated w p))
          (thenM (exASSERT ''m_columnSize'' (\<lambda>_. columnSize \<ge> minSize))
          (thenM (exASSERT ''m_decimalDigits >= 0'' (\<lambda>_. decimalDigits \<ge> 0))
          (bindM (SqlDescHandle_new X pHStmt SQL_ATTR_APP_ROW_DESC) (\<lambda>hDesc.
           thenM (set_fields X hDesc columnNr
                    [(SQL_DESC_TYPE, PVal SQL_C_NUMERIC), (SQL_DESC_PRECISION, PVal columnSize),
                     (SQL_DESC_SCALE, PVal decimalDigits), (SQL_DESC_DATA_PTR, data),
                     (SQL_DESC_INDICATOR_PTR, PLen this), (SQL_DESC_OCTET_LENGTH_PTR, PLen this)])
             (connect_unbind this p))))))"

definition BindColumn :: "ext \<Rightarrow> nat \<Rightarrow> nat \<Rightarrow> nat option \<Rightarrow> ('z, unit) bprog" where
  "BindColumn X this columnNr pHStmt = bindM (getsM (\<lambda>w. buf w this)) (\<lambda>b.
     if m_kind b = NumericColumnBuffer
     then BindColumn_numeric X this columnNr pHStmt 1 (m_columnSize b) (m_decimalDigits b) (PBuf this)
     else if m_kind b = SqlCPointerBuffer
     then if m_sqlCType b = SQL_C_NUMERIC
          then BindColumn_numeric X this columnNr pHStmt 0 (m_columnSize b) (m_decimalDigits b)
                 (PUser (m_pBuffer b))
          else BindColumnImpl X this columnNr pHStmt (m_sqlCType b) (PUser (m_pBuffer b)) (GetBufferLength b)
     else BindColumnImpl X this columnNr pHStmt (GetSqlCType b) (PBuf this) (GetBufferLength b))"

text \<open>
  \<open>BindParameter\<close>. A numeric buffer is bound as usual first (with the address of the
  \<open>std::vector\<close> object, \<open>&m_buffer\<close>) and the fields of the parameter descriptor are set then.
\<close>

definition BindParameter_numeric ::
  "ext \<Rightarrow> nat \<Rightarrow> nat option \<Rightarrow> ParameterDescription \<Rightarrow> sqlptr \<Rightarrow> ('z, unit) hprog" where
  "BindParameter_numeric X paramNr pHStmt paramDesc data =
     bindM (SqlDescHandle_new X pHStmt SQL_ATTR_APP_PARAM_DESC) (\<lambda>hDesc.
       set_fields X hDesc paramNr
         [(SQL_DESC_TYPE, PVal SQL_C_NUMERIC), (SQL_DESC_PRECISION, PVal (pd_charSize paramDesc)),
          (SQL_DESC_SCALE, PVal (pd_decimalDigits paramDesc)), (SQL_DESC_DATA_PTR, data)])"

definition BindParameter ::
  "ext \<Rightarrow> nat \<Rightarrow> nat \<Rightarrow> nat option \<Rightarrow> ParameterDescription \<Rightarrow> ('z, unit) bprog" where
  "BindParameter X this paramNr pHStmt paramDesc = bindM (getsM (\<lambda>w. buf w this)) (\<lambda>b.
     if m_kind b = NumericColumnBuffer
     then thenM (BindParamImpl X this paramNr pHStmt SQL_C_NUMERIC (PVec this) (GetBufferLength b) paramDesc)
            (BindParameter_numeric X paramNr pHStmt paramDesc (PBuf this))
     else if m_kind b = SqlCPointerBuffer
     then thenM (BindParamImpl X this paramNr pHStmt (GetSqlCType b) (PUser (m_pBuffer b))
                   (GetBufferLength b) paramDesc)
            (if m_sqlCType b = SQL_C_NUMERIC
             then BindParameter_numeric X paramNr pHStmt paramDesc (PUser (m_pBuffer b)) else skipM)
     else BindParamImpl X this paramNr pHStmt (GetSqlCType b) (PBuf this) (GetBufferLength b) paramDesc)"

text \<open>
  The destructor: for every entry of the two maps, in order, disconnect and have the handle drop all
  its bindings, which the other buffers bound to it hear of; exceptions are logged. The loops run
  over the live map: an entry that was erased meanwhile is not visited, and the erasure of the
  entry being visited would leave the iterator dangling. Then the members go, and with them the
  pointers to the handles.
\<close>

definition destroy_loop ::
  "ext \<Rightarrow> (ColumnBindable \<Rightarrow> (nat \<times> nat \<times> nat) list) \<Rightarrow> (nat \<Rightarrow> nat \<Rightarrow> ('z, unit) hprog) \<Rightarrow>
   (nat \<Rightarrow> ('z, unit) hprog) \<Rightarrow> nat \<Rightarrow> ('z, unit) hprog" where
  "destroy_loop X con disc reset this =
     bindM (getsM (\<lambda>w. map fst (con (bnd w this)))) (\<lambda>hs. forM hs (\<lambda>h.
       bindM (getsM (\<lambda>w. map_of (con (bnd w this)) h)) (\<lambda>it.
         case it of
           None \<Rightarrow> skipM
         | Some (c, p) \<Rightarrow> seqM
             [shared_copy p,
              disc c p,
              tryM (reset p),
              SqlHandle_release X STMT p,
              ifM (\<lambda>w. map_of (con (bnd w this)) h = None) undefM skipM])))"

definition ColumnBindable_destroy :: "ext \<Rightarrow> nat \<Rightarrow> ('z, unit) hprog" where
  "ColumnBindable_destroy X this =
     thenM (destroy_loop X m_resetParamsConnections disconnect_reset (SqlHandle_ResetParams X STMT) this)
     (thenM (destroy_loop X m_unbindColumnsConnections disconnect_unbind (SqlHandle_UnbindColumns X STMT) this)
     (bindM (getsM (\<lambda>w. map (\<lambda>(h, c, p). p) (m_resetParamsConnections (bnd w this)) @
                        map (\<lambda>(h, c, p). p) (m_unbindColumnsConnections (bnd w this)))) (\<lambda>ps.
        thenM (mod_bnd this (\<lambda>b. b\<lparr>m_resetParamsConnections := [], m_unbindColumnsConnections := []\<rparr>))
          (forM ps (SqlHandle_release X STMT)))))"

section \<open>Choosing a buffer\<close>

definition CreateColumnBuffer_kind :: "int \<Rightarrow> (exn, ColumnBufferKind) res" where
  "CreateColumnBuffer_kind sqlCType =
     (if sqlCType = SQL_C_USHORT then Ok UShortColumnBuffer
      else if sqlCType = SQL_C_SSHORT then Ok ShortColumnBuffer
      else if sqlCType = SQL_C_ULONG then Ok ULongColumnBuffer
      else if sqlCType = SQL_C_SLONG then Ok LongColumnBuffer
      else if sqlCType = SQL_C_UBIGINT then Ok UBigIntColumnBuffer
      else if sqlCType = SQL_C_SBIGINT then Ok BigIntColumnBuffer
      else if sqlCType = SQL_C_TYPE_TIME then Ok TypeTimeColumnBuffer
      else if sqlCType = SQL_C_TIME then Ok TimeColumnBuffer
      else if sqlCType = SQL_C_TYPE_DATE then Ok TypeDateColumnBuffer
      else if sqlCType = SQL_C_DATE then Ok DateColumnBuffer
      else if sqlCType = SQL_C_TYPE_TIMESTAMP then Ok TypeTimestampColumnBuffer
      else if sqlCType = SQL_C_TIMESTAMP then Ok TimeColumnBuffer
      else if sqlCType = SQL_C_NUMERIC then Ok NumericColumnBuffer
      else if sqlCType = SQL_C_DOUBLE then Ok DoubleColumnBuffer
      else if sqlCType = SQL_C_FLOAT then Ok RealColumnBuffer
      else Exn (NotSupportedException NS_SQL_C_TYPE sqlCType))"

definition CreateColumnBufferPtr :: "int \<Rightarrow> string \<Rightarrow> ('z, nat) bprog" where
  "CreateColumnBufferPtr sqlCType queryName =
     bindM (liftM (CreateColumnBuffer_kind sqlCType)) (\<lambda>k.
       make_buffer (ColumnBuffer_one k queryName SQL_UNKNOWN_TYPE (EnumFlags_of CF_NONE)))"

definition IsArrayType :: "int \<Rightarrow> bool" where
  "IsArrayType sqlCType \<longleftrightarrow> sqlCType = SQL_C_WCHAR \<or> sqlCType = SQL_C_CHAR \<or> sqlCType = SQL_C_BINARY"

text \<open>The sums are computed in \<open>SQLINTEGER\<close>: signed, so an overflow is undefined.\<close>

definition INT_MAX :: int where
  "INT_MAX = 2147483647"

definition sqlinteger :: "int \<Rightarrow> ('e, int) res" where
  "sqlinteger n = (if n \<le> INT_MAX then Ok n else Undef)"

definition assert_then :: "string \<Rightarrow> bool \<Rightarrow> (exn, 'a) res \<Rightarrow> (exn, 'a) res" where
  "assert_then t c r = (if c then r else Exn (AssertionException t))"

definition CalculateDisplaySize :: "int \<Rightarrow> int \<Rightarrow> int \<Rightarrow> int \<Rightarrow> (exn, int) res" where
  "CalculateDisplaySize sqlType columnSize numPrecRadix decimalDigits =
     (if sqlType \<in> {SQL_CHAR, SQL_WCHAR, SQL_VARCHAR, SQL_WVARCHAR}
      then assert_then ''columnSize != SQL_NO_TOTAL'' (columnSize \<noteq> SQL_NO_TOTAL)
             (assert_then ''columnSize > 0'' (columnSize > 0) (sqlinteger (columnSize + 1)))
      else if sqlType \<in> {SQL_NUMERIC, SQL_DECIMAL}
      then assert_then ''numPrecRadix == 10'' (numPrecRadix = 10)
             (assert_then ''columnSize > 0'' (columnSize > 0) (sqlinteger (columnSize + 2 + 1)))
      else if sqlType = SQL_BIT then Ok 2
      else if sqlType = SQL_TINYINT then Ok 5
      else if sqlType = SQL_SMALLINT then Ok 7
      else if sqlType = SQL_INTEGER then Ok 12
      else if sqlType = SQL_BIGINT then Ok 21
      else if sqlType = SQL_REAL then Ok 15
      else if sqlType \<in> {SQL_FLOAT, SQL_DOUBLE} then Ok 25
      else if sqlType \<in> {SQL_BINARY, SQL_VARBINARY, SQL_LONGVARBINARY}
      then (let n = (if columnSize = SQL_NO_TOTAL then SQL_NO_TOTAL_BUFFER_LENGTH else columnSize)
            in assert_then ''columnSize > 0'' (n > 0) (sqlinteger (n * 2 + 1)))
      else if sqlType \<in> {SQL_TYPE_DATE, SQL_DATE} then Ok 12
      else if sqlType \<in> {SQL_TYPE_TIME, SQL_TIME}
      then assert_then ''decimalDigits >= 0'' (decimalDigits \<ge> 0)
             (if decimalDigits = 0 then Ok 9 else Ok (9 + decimalDigits + 1))
      else if sqlType \<in> {SQL_TYPE_TIMESTAMP, SQL_TIMESTAMP}
      then assert_then ''decimalDigits >= 0'' (decimalDigits \<ge> 0)
             (if decimalDigits = 0 then Ok 20 else Ok (20 + decimalDigits + 1))
      else if sqlType = SQL_GUID then Ok 37
      else Exn (NotSupportedException NS_SQL_TYPE sqlType))"

definition CreateColumnArrayBuffer :: "int \<Rightarrow> string \<Rightarrow> ColumnInfo \<Rightarrow> (exn, ColumnBuffer) res" where
  "CreateColumnArrayBuffer sqlCType queryName columnInfo =
     assert_then ''IsArrayType(sqlCType)'' (IsArrayType sqlCType)
       (if sqlCType = SQL_C_CHAR \<or> sqlCType = SQL_C_WCHAR
        then (let columnSize = (if ci_isColumnSizeNull columnInfo then 0 else ci_columnSize columnInfo);
                  numPrecRadix = (if ci_isNumPrecRadixNull columnInfo then 0 else ci_numPrecRadix columnInfo);
                  decimalDigits = (if ci_isDecimalDigitsNull columnInfo then 0 else ci_decimalDigits columnInfo)
              in case CalculateDisplaySize (ci_sqlType columnInfo) columnSize numPrecRadix decimalDigits of
                   Ok arraySize \<Rightarrow> ColumnBuffer_array
                     (if sqlCType = SQL_C_CHAR then CharColumnBuffer else WCharColumnBuffer)
                     arraySize queryName SQL_UNKNOWN_TYPE (EnumFlags_of CF_NONE)
                 | Exn e \<Rightarrow> Exn e | Undef \<Rightarrow> Undef | OutOfFuel \<Rightarrow> OutOfFuel)
        else assert_then ''!columnInfo.IsColumnSizeNull()'' (\<not> ci_isColumnSizeNull columnInfo)
               (ColumnBuffer_array BinaryColumnBuffer (ci_columnSize columnInfo) queryName
                  SQL_UNKNOWN_TYPE (EnumFlags_of CF_NONE)))"

definition CreateColumnArrayBufferPtr :: "int \<Rightarrow> string \<Rightarrow> ColumnInfo \<Rightarrow> ('z, nat) bprog" where
  "CreateColumnArrayBufferPtr sqlCType queryName columnInfo =
     bindM (liftM (CreateColumnArrayBuffer sqlCType queryName columnInfo)) make_buffer"

section \<open>StringColumnWrapper\<close>

text \<open>
  \<open>boost::get\<close> on another alternative throws \<open>bad_get\<close>, which becomes a \<open>WrapperException\<close>: a
  \<open>SqlCPointerBuffer\<close> whose C type is \<open>SQL_C_CHAR\<close> is accepted by the constructor and fails here.
  \<open>L\<close> is what the C++ library decides in converting.
\<close>

definition StringColumnWrapper_new :: "ColumnBuffer \<Rightarrow> (exn, unit) res" where
  "StringColumnWrapper_new b =
     assert_then ''GetSqlCType() == SQL_C_CHAR || GetSqlCType() == SQL_C_WCHAR''
       (GetSqlCType b = SQL_C_CHAR \<or> GetSqlCType b = SQL_C_WCHAR) (Ok ())"

definition bad_get :: "'a cbprog" where
  "bad_get = throwM (WrapperException ''boost::bad_get: failed value get using boost::get'')"

definition StringColumnWrapper_access :: "'a cbprog \<Rightarrow> 'a cbprog \<Rightarrow> 'a cbprog" where
  "StringColumnWrapper_access narrow wide = bindM (getsM (\<lambda>b. b)) (\<lambda>b.
     if GetSqlCType b = SQL_C_CHAR then if m_kind b = CharColumnBuffer then narrow else bad_get
     else if GetSqlCType b = SQL_C_WCHAR then if m_kind b = WCharColumnBuffer then wide else bad_get
     else throwM (AssertionException ''false''))"

definition StringColumnWrapper_GetValue :: "codecvt \<Rightarrow> string cbprog" where
  "StringColumnWrapper_GetValue L = StringColumnWrapper_access GetString
     (bindM GetWString (\<lambda>ws. liftM (utf16ToUtf8 L ws)))"

definition StringColumnWrapper_GetWValue :: "codecvt \<Rightarrow> int list cbprog" where
  "StringColumnWrapper_GetWValue L = StringColumnWrapper_access
     (bindM GetString (\<lambda>s. liftM (utf8ToUtf16 L s))) GetWString"

definition StringColumnWrapper_SetValue :: "codecvt \<Rightarrow> string \<Rightarrow> unit cbprog" where
  "StringColumnWrapper_SetValue L s = StringColumnWrapper_access (SetString s)
     (bindM (liftM (utf8ToUtf16 L s)) SetWString)"

definition StringColumnWrapper_SetWValue :: "codecvt \<Rightarrow> int list \<Rightarrow> unit cbprog" where
  "StringColumnWrapper_SetWValue L ws = StringColumnWrapper_access
     (bindM (liftM (utf16ToUtf8 L ws)) SetString) (SetWString ws)"

section \<open>Buffers keep their shape\<close>

text \<open>
  What a buffer of the class template is: a vector of as many elements as \<open>m_nrOfElements\<close> says, at
  least one.
\<close>

definition buffer_ok :: "ColumnBuffer \<Rightarrow> bool" where
  "buffer_ok b \<longleftrightarrow> int (length (m_buffer b)) = m_nrOfElements b \<and> 0 < m_nrOfElements b"

lemmas setters = SetCb_def SetNull_def SetColumnSize_def SetDecimalDigits_def SetSqlType_def SetQueryName_def

lemma keeps_setters [keep]:
  "keeps buffer_ok (SetCb cb)" "keeps buffer_ok SetNull" "keeps buffer_ok (SetColumnSize n)"
  "keeps buffer_ok (SetDecimalDigits n)" "keeps buffer_ok (SetSqlType t)" "keeps buffer_ok (SetQueryName q)"
  unfolding setters by (rule keeps_modifyM, simp add: buffer_ok_def)+

lemma keeps_SetValue [keep]: "keeps buffer_ok (SetValue value cb)"
proof (rule keepsI)
  fix b assume ok: "buffer_ok b"
  show "buffer_ok (snd (SetValue value cb b))"
  proof (cases "length value \<le> length (m_buffer b)")
    case True
    then have "buffer_ok (b\<lparr>m_buffer := value @ drop (length value) (m_buffer b)\<rparr>)"
      using ok by (simp add: buffer_ok_def)
    then show ?thesis
      using True by (auto simp: SetValue_def SetCb_def thenM_exec buffer_ok_def)
  qed (use ok in \<open>simp add: SetValue_def thenM_exec\<close>)
qed

lemma keeps_more [keep]:
  "keeps buffer_ok (SetString s)" "keeps buffer_ok (SetValue_binary value)"
  "keeps buffer_ok (SetValue_elem_cb x cb)"
  "keeps buffer_ok throw_if_null" "keeps buffer_ok GetValue" "keeps buffer_ok GetString"
  "keeps buffer_ok SetNullVisitor" "keeps buffer_ok bad_get"
  unfolding SetString_def SetValue_binary_def SetValue_elem_cb_def throw_if_null_def GetValue_def
    GetString_def SetNullVisitor_def bad_get_def
  by (intro keep keeps_modifyM; simp add: buffer_ok_def)+

lemma keeps_SetValue_elem [keep]: "keeps buffer_ok (SetValue_elem x)"
  by (rule keepsI) (simp add: SetValue_elem_def keeps_snd[OF keeps_more(3)])

lemma keeps_wide [keep]: "keeps buffer_ok (SetWString ws)" "keeps buffer_ok GetWString"
  unfolding SetWString_def GetWString_def by (intro keep)+

lemma keeps_wrapper:
  "keeps buffer_ok (StringColumnWrapper_GetValue L)" "keeps buffer_ok (StringColumnWrapper_SetValue L s)"
  "keeps buffer_ok (StringColumnWrapper_GetWValue L)" "keeps buffer_ok (StringColumnWrapper_SetWValue L ws)"
  unfolding StringColumnWrapper_GetValue_def StringColumnWrapper_SetValue_def StringColumnWrapper_access_def
    StringColumnWrapper_GetWValue_def StringColumnWrapper_SetWValue_def
  by (intro keep)+

lemma one_ok: "buffer_ok (ColumnBuffer_one k q t flags)"
  by (simp add: ColumnBuffer_one_def ColumnBuffer_base_def setters thenM_exec buffer_ok_def)

lemma array_ok: "ColumnBuffer_array k n q t flags = Ok b \<Longrightarrow> buffer_ok b"
  by (auto simp: ColumnBuffer_array_def ColumnBuffer_base_def setters thenM_exec
      Let_def buffer_ok_def SQL_NO_TOTAL_BUFFER_LENGTH_def split: if_splits)


definition char_buffer :: ColumnBuffer where
  "char_buffer = ColumnBuffer_one CharColumnBuffer ''c'' SQL_VARCHAR (EnumFlags_of CF_NULLABLE)"


section \<open>Strings\<close>

lemma takeWhile_chars:
  "CHR 0x00 \<notin> set s \<Longrightarrow> map char_of (takeWhile (\<lambda>x. x \<noteq> 0) (map of_char s @ 0 # xs :: int list)) = s"
proof -
  assume "CHR 0x00 \<notin> set s"
  then have nz: "of_char c \<noteq> (0 :: int)" if "c \<in> set s" for c
    using that of_char_eq_iff[of c "CHR 0x00", where ?'a = int] by auto
  then have "takeWhile (\<lambda>x. x \<noteq> 0) (map of_char s @ 0 # xs) = (map of_char s :: int list)"
    by (subst takeWhile_append2) auto
  then show ?thesis by (simp add: comp_def)
qed

lemma of_char_zero: "of_char (CHR 0x00) = (0 :: int)"
  by simp

lemma last_char: "CHR 0x00 \<notin> set s \<Longrightarrow> s \<noteq> [] \<Longrightarrow> last (map of_char s) \<noteq> (0 :: int)"
  using of_char_eq_iff[of "last s" "CHR 0x00", where ?'a = int] last_in_set[of s]
  by (metis of_char_zero last_map)

text \<open>
  C32. A string that fits with its terminator is read back as it was set, and the length indicator is
  \<open>SQL_NTS\<close>. A string as long as the buffer is copied over the old one before the lack of room for
  the terminator is noticed; a longer one changes nothing; the empty string runs into \<open>back()\<close> of
  an empty vector.
\<close>

theorem SetString_GetString:
  assumes "CHR 0x00 \<notin> set s"
  shows "SetString [] b = (Undef, b) \<and>
    (s \<noteq> [] \<and> length s < length (m_buffer b) \<longrightarrow>
       (\<exists>b'. SetString s b = (Ok (), b') \<and> GetString b' = (Ok s, b') \<and> m_cb b' = SQL_NTS)) \<and>
    (s \<noteq> [] \<and> length s = length (m_buffer b) \<longrightarrow>
       SetString s b = (Exn (AssertionException ''index < m_buffer.capacity()''),
                        b\<lparr>m_buffer := map of_char s\<rparr>)) \<and>
    (length s > length (m_buffer b) \<longrightarrow>
       SetString s b = (Exn (AssertionException ''value.size() <= m_buffer.capacity()''), b))"
proof -
  have fits: "\<exists>b'. SetString s b = (Ok (), b') \<and> GetString b' = (Ok s, b') \<and> m_cb b' = SQL_NTS"
    if ne: "s \<noteq> []" and len: "length s < length (m_buffer b)"
  proof -
    obtain x xs where d: "drop (length s) (m_buffer b) = x # xs"
      using len by (metis Cons_nth_drop_Suc)
    let ?b = "b\<lparr>m_buffer := map of_char s @ 0 # xs, m_cb := SQL_NTS\<rparr>"
    have "SetString s b = (Ok (), ?b)"
      using ne len d last_char[OF assms ne]
      by (simp add: SetString_def SetValue_def SetCb_def thenM_exec list_update_append)
    moreover have "GetString ?b = (Ok s, ?b)"
      using takeWhile_chars[OF assms, of xs]
      by (simp add: GetString_def throw_if_null_def IsNull_def thenM_exec bindM_exec)
    ultimately show ?thesis by auto
  qed
  show ?thesis
    using fits last_char[OF assms]
    by (auto simp: SetString_def SetValue_def SetCb_def thenM_exec)
qed

theorem SetString_GetString_witness:
  "\<exists>b. ColumnBuffer_array CharColumnBuffer 4 ''c'' SQL_VARCHAR (EnumFlags_of CF_NONE) = Ok b \<and>
     (\<exists>b'. SetString ''abc'' b = (Ok (), b') \<and> GetString b' = (Ok ''abc'', b'))"
proof -
  obtain b where b: "ColumnBuffer_array CharColumnBuffer 4 ''c'' SQL_VARCHAR (EnumFlags_of CF_NONE) = Ok b"
    "length (m_buffer b) = 4"
    by (simp add: ColumnBuffer_array_def ColumnBuffer_base_def Let_def setters thenM_exec)
  moreover have "\<exists>b'. SetString ''abc'' b = (Ok (), b') \<and> GetString b' = (Ok ''abc'', b')"
    using SetString_GetString[of "''abc''" b] b(2) by auto
  ultimately show ?thesis by blast
qed

text \<open>The same for a wide buffer, which holds code units of UTF-16.\<close>

lemma SetValue_nts:
  assumes "SetValue value SQL_NTS b = (Ok (), b')" and "0 \<notin> set value"
  shows "takeWhile (\<lambda>x. x \<noteq> 0) (m_buffer b') = value"
proof -
  have "value \<noteq> []" using assms(1) by (auto simp: SetValue_def thenM_exec split: if_splits)
  then have "last value \<noteq> 0" using assms(2) last_in_set by metis
  with assms(1) \<open>value \<noteq> []\<close> have len: "length value < length (m_buffer b)"
    and b': "m_buffer b' = (value @ drop (length value) (m_buffer b))[length value := 0]"
    by (auto simp: SetValue_def SetCb_def thenM_exec split: if_splits)
  from len obtain x xs where "drop (length value) (m_buffer b) = x # xs" by (metis Cons_nth_drop_Suc)
  with b' have b0: "m_buffer b' = value @ 0 # xs" by (simp add: list_update_append)
  have "takeWhile (\<lambda>x. x \<noteq> 0) (value @ 0 # xs) = value @ takeWhile (\<lambda>x. x \<noteq> 0) (0 # xs)"
    using assms(2) by (intro takeWhile_append2) auto
  with b0 show ?thesis by simp
qed

lemma utf8ToUtf16_units:
  assumes "utf8ToUtf16 L s = Ok ws" and "cut_fails L" and "CHR 0x00 \<notin> set s"
  shows "\<forall>u\<in>set ws. 0 < u \<and> u < 2 ^ 16"
proof -
  obtain cs where cs: "set cs \<subseteq> Collect scalar" "s = map char_of (encode write_utf8 cs)" "ws = map int (encode write_utf16 cs)"
    using assms(1) utf8ToUtf16_iff[OF assms(2)] by blast
  have "u \<noteq> 0" if u: "u \<in> set (encode write_utf16 cs)" for u
  proof
    assume "u = 0"
    with u obtain c where c: "c \<in> set cs" "0 \<in> set (write_utf16 c)" by (auto simp: encode_def)
    then have "c = 0" by (auto simp: write_utf16_def split: if_splits)
    with c(1) have "0 \<in> set (encode write_utf8 cs)" by (force simp: encode_def write_utf8_def)
    with cs(2) have "char_of (0 :: nat) \<in> set s" by auto
    moreover have "char_of (0 :: nat) = CHR 0x00" by (simp add: char_of_def)
    ultimately show False using assms(3) by metis
  qed
  with encode_bound[OF cs(1) write_utf16_units] cs(3) show ?thesis by force
qed

text \<open>
  C35. A text given to a wide column as UTF-8 is stored without loss: if \<open>StringColumnWrapper::SetValue\<close> on a
  \<open>WCharColumnBuffer\<close> returns, the code units in the buffer up to the terminating zero convert back to the text.
\<close>

theorem wide_text_stored:
  assumes "StringColumnWrapper_SetValue L s b = (Ok (), b')" and "m_kind b = WCharColumnBuffer"
    and "cut_fails L" and "CHR 0x00 \<notin> set s"
  shows "utf16ToUtf8 L (takeWhile (\<lambda>x. x \<noteq> 0) (m_buffer b')) = Ok s"
proof -
  obtain ws where ws: "utf8ToUtf16 L s = Ok ws" "SetWString ws b = (Ok (), b')"
    using assms(1,2) by (auto simp: StringColumnWrapper_SetValue_def StringColumnWrapper_access_def GetSqlCType_def bindM_exec
        split: res.splits)
  note u = utf8ToUtf16_units[OF ws(1) assms(3,4)]
  then have "map (\<lambda>u. u mod 2 ^ 16) ws = ws" by (auto intro!: map_idI)
  with ws(2) u have "takeWhile (\<lambda>x. x \<noteq> 0) (m_buffer b') = ws"
    by (intro SetValue_nts) (auto simp: SetWString_def)
  moreover have "\<forall>u\<in>set ws. 0 \<le> u \<and> u < 2 ^ 16" using u by auto
  then have "utf16ToUtf8 L ws = Ok s"
    using utf16ToUtf8_iff[OF assms(3)] utf8ToUtf16_iff[OF assms(3)] ws(1) by blast
  ultimately show ?thesis by simp
qed

text \<open>The euro sign in a buffer of four elements.\<close>

lemma wide_text_stored_witness:
  "\<exists>b b'. ColumnBuffer_array WCharColumnBuffer 4 ''w'' SQL_WVARCHAR (EnumFlags_of CF_NONE) = Ok b \<and>
     StringColumnWrapper_SetValue strict_codecvt (map char_of [0xE2 :: nat, 0x82, 0xAC]) b = (Ok (), b') \<and>
     utf16ToUtf8 strict_codecvt (takeWhile (\<lambda>x. x \<noteq> 0) (m_buffer b')) = Ok (map char_of [0xE2 :: nat, 0x82, 0xAC])"
proof -
  let ?s = "map char_of [0xE2 :: nat, 0x82, 0xAC]"
  obtain b where b: "ColumnBuffer_array WCharColumnBuffer 4 ''w'' SQL_WVARCHAR (EnumFlags_of CF_NONE) = Ok b"
    "length (m_buffer b) = 4" "m_kind b = WCharColumnBuffer"
    by (simp add: ColumnBuffer_array_def ColumnBuffer_base_def Let_def setters thenM_exec)
  have "utf8ToUtf16 strict_codecvt ?s = Ok [0x20AC]"
    by (simp add: utf8ToUtf16_def decode_def numeral_2_eq_2 scalar_def encode_def write_utf16_def)
  then obtain b' where b': "StringColumnWrapper_SetValue strict_codecvt ?s b = (Ok (), b')"
    using b(2,3) by (simp add: StringColumnWrapper_SetValue_def StringColumnWrapper_access_def GetSqlCType_def bindM_exec
        SetWString_def SetValue_def SetCb_def thenM_exec)
  have "CHR 0x00 \<notin> set ?s" by (simp add: char_of_def)
  with wide_text_stored[OF b' b(3)] b(1) b' show ?thesis by (auto simp: strict_codecvt_def)
qed

section \<open>Binding and unbinding\<close>

text \<open>
  A buffer that can be connected to the handle as well as notified by it: the interface of the
  signals, extended by the operation that connects.
\<close>

locale connection = notification +
  fixes connect :: "nat \<Rightarrow> nat \<Rightarrow> ('a, unit) hprog"
  assumes connect_exec: "connect b p w =
      (case map_of (con (bnd w b)) (m_handle (hnd w p)) of
         None \<Rightarrow> (Ok (), w\<lparr>
           hnd := (hnd w)(p := (sig_set (sig (hnd w p) @ [(fresh w, b)]) (hnd w p))
                                 \<lparr>use_count := use_count (hnd w p) + 1\<rparr>),
           bnd := (bnd w)(b := con_set (map_put (m_handle (hnd w p)) (fresh w, p) (con (bnd w b))) (bnd w b)),
           fresh := fresh w + 1\<rparr>)
       | Some _ \<Rightarrow> (Ok (), w))"
begin

text \<open>\<open>bound\<close>, and the numbers of the connections are all used up.\<close>

definition tracked :: "'a hworld_scheme \<Rightarrow> nat \<Rightarrow> bool" where
  "tracked w p \<longleftrightarrow> bound w p \<and> (\<forall>(c, b) \<in> set (sig (hnd w p)). c < fresh w)"

lemma connect_tracked:
  assumes "tracked w p" and "map_inv (con (bnd w b))"
    and "\<And>c q. map_of (con (bnd w b)) (m_handle (hnd w p)) = Some (c, q) \<Longrightarrow> (c, b) \<in> set (sig (hnd w p))"
  shows "\<exists>w'. connect b p w = (Ok (), w') \<and> tracked w' p \<and> calls w' = calls w \<and>
     (\<exists>c. (c, b) \<in> set (sig (hnd w' p))) \<and> m_handle (hnd w' p) = m_handle (hnd w p) \<and>
     snd ` set (sig (hnd w' p)) = insert b (snd ` set (sig (hnd w p))) \<and>
     length (sig (hnd w' p)) + use_count (hnd w p) = length (sig (hnd w p)) + use_count (hnd w' p)"
proof (cases "map_of (con (bnd w b)) (m_handle (hnd w p))")
  case None
  have "b \<notin> snd ` set (sig (hnd w p))"
    using assms(1) None by (fastforce simp: tracked_def bound_def)
  then show ?thesis
    using None assms(1,2)
    by (auto simp: connect_exec tracked_def bound_def sig_set sig_set_other sig_count con_set less_Suc_eq)
next
  case (Some e)
  then have "(fst e, b) \<in> set (sig (hnd w p))" using assms(3)[of "fst e" "snd e"] by simp
  then show ?thesis using Some assms(1) by (force simp: connect_exec)
qed

end

interpretation creset: connection m_resetParamsSignal "\<lambda>xs h. h\<lparr>m_resetParamsSignal := xs\<rparr>"
  m_resetParamsConnections "\<lambda>ys b. b\<lparr>m_resetParamsConnections := ys\<rparr>" OnResetParams connect_reset
  by unfold_locales
    (auto simp: connect_reset_def ConnectResetParamsSignal_def shared_copy_def SqlHandle_GetHandle_def
      bindM_exec thenM_exec split: option.split)

interpretation cunbind: connection m_unbindColumnsSignal "\<lambda>xs h. h\<lparr>m_unbindColumnsSignal := xs\<rparr>"
  m_unbindColumnsConnections "\<lambda>ys b. b\<lparr>m_unbindColumnsConnections := ys\<rparr>" OnUnbindColumns connect_unbind
  by unfold_locales
    (auto simp: connect_unbind_def ConnectUnbindColumnsSignal_def shared_copy_def SqlHandle_GetHandle_def
      bindM_exec thenM_exec split: option.split)

definition params_tracked :: "'z hworld_scheme \<Rightarrow> nat \<Rightarrow> bool" where
  "params_tracked w p = creset.tracked w p"

text \<open>
  \<open>own_entry w b p\<close>: the buffer's entry under the value of the handle \<open>p\<close>, if it has one, is its
  connection to \<open>p\<close>. It is not so when the \<open>SQLHSTMT\<close> belonged to a handle that was freed: \<open>Free\<close> does
  not make the buffers forget it (\<open>Free_success\<close>), and \<open>BindParamImpl\<close> then connects nothing.
\<close>

definition own_entry :: "'z hworld_scheme \<Rightarrow> nat \<Rightarrow> nat \<Rightarrow> bool" where
  "own_entry w b p \<longleftrightarrow> map_inv (m_resetParamsConnections (bnd w b)) \<and>
     (\<forall>c q. map_of (m_resetParamsConnections (bnd w b)) (m_handle (hnd w p)) = Some (c, q) \<longrightarrow>
        (c, b) \<in> set (m_resetParamsSignal (hnd w p)))"

lemma connect_reset_tracked:
  assumes "params_tracked w p" and "own_entry w b p"
  shows "\<exists>w'. connect_reset b p w = (Ok (), w') \<and> params_tracked w' p \<and> calls w' = calls w \<and>
     m_handle (hnd w' p) = m_handle (hnd w p) \<and>
     snd ` set (m_resetParamsSignal (hnd w' p)) = insert b (snd ` set (m_resetParamsSignal (hnd w p))) \<and>
     length (m_resetParamsSignal (hnd w' p)) + use_count (hnd w p) =
       length (m_resetParamsSignal (hnd w p)) + use_count (hnd w' p)"
  using creset.connect_tracked[of w p b] assms by (auto simp: params_tracked_def own_entry_def)

lemma BindParamImpl_ok:
  assumes "nr \<ge> 1" and "m_handle (hnd w p) \<noteq> 0" and "ptr \<noteq> PUser 0" and "len > 0"
    and "pd_sqlType d \<noteq> SQL_UNKNOWN_TYPE"
    and "rc (driver X (SQLBindParameter (m_handle (hnd w p)) nr SQL_PARAM_INPUT t (pd_sqlType d)
           (pd_charSize d) (pd_decimalDigits d) ptr len (PLen b) # calls w)) = SQL_SUCCESS"
  shows "BindParamImpl X b nr (Some p) t ptr len d w =
     connect_reset b p (w\<lparr>calls := SQLBindParameter (m_handle (hnd w p)) nr SQL_PARAM_INPUT t (pd_sqlType d)
           (pd_charSize d) (pd_decimalDigits d) ptr len (PLen b) # calls w\<rparr>)"
  using assms by (simp add: BindParamImpl_def SqlHandle_IsAllocated_def SqlHandle_GetHandle_def)

text \<open>
  Binding a buffer as a parameter and resetting the parameters of the statement: after the
  binding the buffer is among those the handle notifies, the bookkeeping on both sides still
  agrees, and the reset then makes every one of them, this one included, forget the handle, which
  ends up with the owners it had before any buffer was bound.
\<close>

theorem bind_then_reset:
  assumes "signal_ok X" and "params_tracked w p" and "own_entry w b p"
    and "nr \<ge> 1" and "ptr \<noteq> PUser 0" and "len > 0" and "pd_sqlType d \<noteq> SQL_UNKNOWN_TYPE"
    and "\<And>cs. rc (driver X cs) = SQL_SUCCESS"
  shows "\<exists>w1 w2. BindParamImpl X b nr (Some p) t ptr len d w = (Ok (), w1) \<and>
     params_tracked w1 p \<and>
     snd ` set (m_resetParamsSignal (hnd w1 p)) = insert b (snd ` set (m_resetParamsSignal (hnd w p))) \<and>
     SqlHandle_ResetParams X STMT p w1 = (Ok (), w2) \<and>
     m_resetParamsSignal (hnd w2 p) = [] \<and>
     use_count (hnd w2 p) + length (m_resetParamsSignal (hnd w p)) = use_count (hnd w p) \<and>
     (\<forall>b' \<in> insert b (snd ` set (m_resetParamsSignal (hnd w p))).
        map_of (m_resetParamsConnections (bnd w2 b')) (m_handle (hnd w p)) = None)"
proof -
  let ?h = "m_handle (hnd w p)"
  let ?w = "w\<lparr>calls := SQLBindParameter ?h nr SQL_PARAM_INPUT t (pd_sqlType d)
           (pd_charSize d) (pd_decimalDigits d) ptr len (PLen b) # calls w\<rparr>"
  have "params_tracked ?w p" "own_entry ?w b p"
    using assms(2,3) by (simp_all add: params_tracked_def creset.tracked_def reset.bound_def own_entry_def)
  from connect_reset_tracked[OF this] obtain w1 where
    w1: "connect_reset b p ?w = (Ok (), w1)" "params_tracked w1 p" "m_handle (hnd w1 p) = ?h"
      "snd ` set (m_resetParamsSignal (hnd w1 p)) = insert b (snd ` set (m_resetParamsSignal (hnd w p)))"
      "length (m_resetParamsSignal (hnd w1 p)) + use_count (hnd w p) =
         length (m_resetParamsSignal (hnd w p)) + use_count (hnd w1 p)"
    by auto
  have h: "?h \<noteq> 0"
    using assms(2) by (simp add: params_tracked_def creset.tracked_def reset.bound_def)
  have "BindParamImpl X b nr (Some p) t ptr len d w = (Ok (), w1)"
    using BindParamImpl_ok[of nr w p ptr len d X t b] h assms(4-8) w1(1) by simp
  moreover have bnd1: "reset.bound w1 p"
    using w1(2) by (simp add: params_tracked_def creset.tracked_def)
  obtain w2 where w2: "SqlHandle_ResetParams X STMT p w1 = (Ok (), w2)"
      and f: "reset.forgotten (w1\<lparr>calls := calls w2\<rparr>) p w2"
    using ResetParams_runs[OF assms(1) bnd1] assms(8) by auto
  have bnd2: "reset.bound (w1\<lparr>calls := calls w2\<rparr>) p"
    using bnd1 by (simp add: reset.bound_def)
  have "map_of (m_resetParamsConnections (bnd w2 b')) ?h = None"
    if "b' \<in> snd ` set (m_resetParamsSignal (hnd w1 p))" for b'
    using that reset.forgotten_maps[OF bnd2 f] w1(3) by auto
  moreover have "use_count (hnd w2 p) + length (m_resetParamsSignal (hnd w p)) = use_count (hnd w p)"
    using f bnd1 w1(5) by (simp add: reset.forgotten_def reset.bound_def)
  moreover have "m_resetParamsSignal (hnd w2 p) = []"
    using f by (simp add: reset.forgotten_def)
  ultimately show ?thesis using w1(2,4) w2 by auto
qed

theorem bind_then_reset_witness:
  "\<exists>w1 w2. BindParamImpl (ref_ext good_driver) 11 1 (Some 1) SQL_C_SLONG (PBuf 11) 4
      (ParameterDescription_of SQL_INTEGER 0 0 SQL_NO_NULLS) small_heap = (Ok (), w1) \<and>
     SqlHandle_ResetParams (ref_ext good_driver) STMT 1 w1 = (Ok (), w2) \<and>
     m_resetParamsSignal (hnd w2 1) = [] \<and> use_count (hnd w2 1) = 1"
proof -
  have t: "params_tracked small_heap 1"
    by (simp add: params_tracked_def creset.tracked_def reset.bound_def small_heap_def map_inv_def)
  have o: "own_entry small_heap 11 1" by (simp add: own_entry_def small_heap_def)
  from bind_then_reset[OF _ t o, of "ref_ext good_driver" 1 "PBuf 11" 4
    "ParameterDescription_of SQL_INTEGER 0 0 SQL_NO_NULLS" SQL_C_SLONG]
  show ?thesis by (auto simp: ParameterDescription_of_def small_heap_def)
qed

lemma nothrow_release [quiet]: "nothrow (SqlHandle_release X l p)"
  by (induction l arbitrary: p) (auto intro!: release_body_nothrow quiet)

lemma nothrow_heap [quiet]:
  "nothrow (mod_hnd p f)" "nothrow (mod_bnd b g)" "nothrow (shared_copy p)"
  "nothrow (disconnect_reset c p)" "nothrow (disconnect_unbind c p)"
  unfolding mod_hnd_def mod_bnd_def shared_copy_def disconnect_reset_def disconnect_unbind_def
  by (intro quiet)+

lemma nothrow_destroy_loop [quiet]:
  "(\<And>c p. nothrow (disc c p)) \<Longrightarrow> nothrow (destroy_loop X con disc rst this)"
  unfolding destroy_loop_def by (intro quiet; assumption)

lemma destroy_nothrow: "nothrow (ColumnBindable_destroy X this)"
  unfolding ColumnBindable_destroy_def by (intro quiet)

lemma release_shared:
  "1 < use_count (hnd w p) \<Longrightarrow> SqlHandle_release X l p w =
     (Ok (), w\<lparr>hnd := (hnd w)(p := (hnd w p)\<lparr>use_count := use_count (hnd w p) - 1\<rparr>)\<rparr>)"
  by (cases l) (simp_all add: release_body_def)

text \<open>The loop of the destructor over a map with one entry.\<close>

lemma destroy_loop_one:
  assumes con: "m_resetParamsConnections (bnd w b) = [(m_handle (hnd w p), (c, p))]"
    and bd: "reset.bound w p" and cb: "(c, b) \<in> set (m_resetParamsSignal (hnd w p))"
    and X: "signal_ok X"
    and ok: "SQL_SUCCEEDED (rc (driver X (SQLFreeStmt (m_handle (hnd w p)) SQL_RESET_PARAMS # calls w)))"
  shows "\<exists>w'. destroy_loop X m_resetParamsConnections disconnect_reset (SqlHandle_ResetParams X STMT) b w = (Ok (), w') \<and>
     calls w' = SQLFreeStmt (m_handle (hnd w p)) SQL_RESET_PARAMS # calls w \<and>
     m_resetParamsSignal (hnd w' p) = [] \<and> m_handle (hnd w' p) = m_handle (hnd w p) \<and>
     use_count (hnd w' p) + length (m_resetParamsSignal (hnd w p)) = use_count (hnd w p) + 1 \<and>
     bnd w' b = bnd w b \<and>
     (\<forall>b' \<in> snd ` set (m_resetParamsSignal (hnd w p)) - {b}.
        map_of (m_resetParamsConnections (bnd w' b')) (m_handle (hnd w p)) = None)"
proof -
  let ?h = "m_handle (hnd w p)" and ?xs = "m_resetParamsSignal (hnd w p)"
  let ?ys = "filter (\<lambda>s. fst s \<noteq> c) ?xs"
  let ?w = "w\<lparr>hnd := (hnd w)(p := (hnd w p)\<lparr>use_count := use_count (hnd w p) + 1, m_resetParamsSignal := ?ys\<rparr>)\<rparr>"
  have d: "distinct (map fst ?xs)" "distinct (map snd ?xs)" and u: "length ?xs < use_count (hnd w p)"
    using bd by (auto simp: reset.bound_def)
  have len: "length ?ys = length ?xs - 1" by (rule reset.filter_length[OF d(1) cb])
  have pos: "0 < length ?xs" using cb by (cases ?xs) auto
  have "reset.bound ?w p"
    using bd len u pos by (auto simp: reset.bound_def distinct_map_filter)
  moreover have "m_handle (hnd ?w p) = ?h" "calls ?w = calls w" by simp_all
  ultimately obtain w1 where w1: "SqlHandle_ResetParams X STMT p ?w = (Ok (), w1)"
    "calls w1 = SQLFreeStmt ?h SQL_RESET_PARAMS # calls w" and f: "reset.forgotten (?w\<lparr>calls := calls w1\<rparr>) p w1"
    using ResetParams_runs[OF X, of ?w p] ok by auto
  have bw: "reset.bound (?w\<lparr>calls := calls w1\<rparr>) p"
    using \<open>reset.bound ?w p\<close> by (simp add: reset.bound_def)
  have nb: "b \<notin> snd ` set ?ys"
    using cb d(2) unfolding distinct_map inj_on_def by fastforce
  have keepb: "bnd w1 b = bnd w b"
    using f nb by (simp add: reset.forgotten_def)
  have cnt: "use_count (hnd w1 p) = use_count (hnd w p) + 1 - length ?ys"
    using f by (simp add: reset.forgotten_def)
  have others: "map_of (m_resetParamsConnections (bnd w1 b')) ?h = None"
    if "b' \<in> snd ` set ?xs - {b}" for b'
  proof -
    from that obtain c' where cb': "(c', b') \<in> set ?xs" "b' \<noteq> b" by auto
    then have "c' \<noteq> c" using cb d(1) by (auto dest: eq_key_imp_eq_value)
    with cb' have "(c', b') \<in> set (m_resetParamsSignal (hnd (?w\<lparr>calls := calls w1\<rparr>) p))" by auto
    from reset.forgotten_maps[OF bw f this] show ?thesis by simp
  qed
  let ?w2 = "w1\<lparr>hnd := (hnd w1)(p := (hnd w1 p)\<lparr>use_count := use_count (hnd w1 p) - 1\<rparr>)\<rparr>"
  have rel: "SqlHandle_release X STMT p w1 = (Ok (), ?w2)"
    using cnt len u pos by (intro release_shared) simp
  have "destroy_loop X m_resetParamsConnections disconnect_reset (SqlHandle_ResetParams X STMT) b w = (Ok (), ?w2)"
    using con w1(1) rel keepb
    by (simp add: destroy_loop_def shared_copy_def disconnect_reset_def tryM_def bindM_exec thenM_exec catchM_exec)
  moreover have "m_resetParamsSignal (hnd w1 p) = []" "m_handle (hnd w1 p) = ?h"
    using f by (simp_all add: reset.forgotten_def)
  ultimately show ?thesis
    using w1(2) others keepb cnt len u pos by simp
qed



text \<open>
  Destroying a buffer never throws, whatever handles it is bound to and whatever the driver
  answers.
\<close>

theorem destroy_never_throws:
  fixes w :: "'z hworld_scheme"
  shows "fst (ColumnBindable_destroy X b w) \<noteq> Exn e"
proof -
  have "nothrow (ColumnBindable_destroy X b :: ('z, unit) hprog)" by (rule destroy_nothrow)
  then show ?thesis by (simp add: nothrow_def)
qed

section \<open>The buffer for a type\<close>



text \<open>
  C20. The array buffer made for a column described by the catalog can hold the text of any value of
  the column: at least the display size ODBC defines for the type, and one more for the terminator.
  It starts NULL, with the C type asked for.
\<close>

fun odbc_display_size :: "int \<Rightarrow> int \<Rightarrow> int \<Rightarrow> int option" where
  "odbc_display_size t columnSize digits =
     map_of [(SQL_CHAR, columnSize), (SQL_VARCHAR, columnSize), (SQL_WCHAR, columnSize),
       (SQL_WVARCHAR, columnSize), (SQL_NUMERIC, columnSize + 2), (SQL_DECIMAL, columnSize + 2),
       (SQL_BIT, 1), (SQL_TINYINT, 4), (SQL_SMALLINT, 6), (SQL_INTEGER, 11), (SQL_BIGINT, 20),
       (SQL_REAL, 14), (SQL_FLOAT, 24), (SQL_DOUBLE, 24),
       (SQL_BINARY, 2 * columnSize), (SQL_VARBINARY, 2 * columnSize), (SQL_LONGVARBINARY, 2 * columnSize),
       (SQL_TYPE_DATE, 10), (SQL_DATE, 10),
       (SQL_TYPE_TIME, if digits = 0 then 8 else 9 + digits), (SQL_TIME, if digits = 0 then 8 else 9 + digits),
       (SQL_TYPE_TIMESTAMP, if digits = 0 then 19 else 20 + digits),
       (SQL_TIMESTAMP, if digits = 0 then 19 else 20 + digits), (SQL_GUID, 36)] t"

lemma DisplaySize_enough:
  assumes "CalculateDisplaySize t n radix digits = Ok s"
  shows "\<exists>d. odbc_display_size t n digits = Some d \<and> d < s \<and> 0 < s"
  using assms
  by (auto simp: CalculateDisplaySize_def assert_then_def sqlinteger_def Let_def
      SQL_NO_TOTAL_BUFFER_LENGTH_def split: if_splits)

theorem array_buffer_holds_text:
  assumes "CreateColumnArrayBuffer c q info = Ok b" and "c = SQL_C_CHAR \<or> c = SQL_C_WCHAR"
    and "\<not> ci_isColumnSizeNull info" and "\<not> ci_isDecimalDigitsNull info"
  shows "buffer_ok b \<and> IsNull b \<and> GetSqlCType b = c \<and>
     (\<exists>d. odbc_display_size (ci_sqlType info) (ci_columnSize info) (ci_decimalDigits info) = Some d \<and>
          d < int (length (m_buffer b)))"
proof -
  obtain n r s where size: "CalculateDisplaySize (ci_sqlType info) (ci_columnSize info) r (ci_decimalDigits info) = Ok s"
    and arr: "ColumnBuffer_array (if c = SQL_C_CHAR then CharColumnBuffer else WCharColumnBuffer) s q
                SQL_UNKNOWN_TYPE (EnumFlags_of CF_NONE) = Ok b"
    using assms by (auto simp: CreateColumnArrayBuffer_def assert_then_def Let_def split: if_splits res.splits)
  from DisplaySize_enough[OF size] obtain d where
    d: "odbc_display_size (ci_sqlType info) (ci_columnSize info) (ci_decimalDigits info) = Some d" "d < s" "0 < s"
    by blast
  have "int (length (m_buffer b)) = s \<and> IsNull b \<and> GetSqlCType b = c"
    using arr d(3) assms(2)
    by (auto simp: ColumnBuffer_array_def ColumnBuffer_base_def Let_def setters thenM_exec IsNull_def
        GetSqlCType_def split: if_splits)
  with d array_ok[OF arr] show ?thesis by auto
qed

definition numeric_column :: ColumnInfo where
  "numeric_column =
     \<lparr>ci_catalogName = [], ci_schemaName = [], ci_tableName = ''t'', ci_columnName = ''n'',
      ci_sqlType = SQL_DECIMAL, ci_typeName = ''decimal'', ci_columnSize = 10, ci_bufferSize = 12,
      ci_decimalDigits = 2, ci_numPrecRadix = 10, ci_nullable = SQL_NULLABLE, ci_remarks = [],
      ci_defaultValue = [], ci_sqlDataType = SQL_DECIMAL, ci_sqlDatetimeSub = 0, ci_charOctetLength = 0,
      ci_ordinalPosition = 1, ci_isNullable = ''YES'', ci_isCatalogNull = True, ci_isSchemaNull = True,
      ci_isColumnSizeNull = False, ci_isBufferSizeNull = False, ci_isDecimalDigitsNull = False,
      ci_isNumPrecRadixNull = False, ci_isRemarksNull = True, ci_isDefaultValueNull = True,
      ci_isSqlDatetimeSubNull = True, ci_isCharOctetLengthNull = True, ci_isIsNullableNull = False\<rparr>"

theorem array_buffer_holds_text_witness:
  "\<exists>b. CreateColumnArrayBuffer SQL_C_CHAR ''n'' numeric_column = Ok b \<and> 12 < length (m_buffer b)"
proof -
  obtain b where b: "CreateColumnArrayBuffer SQL_C_CHAR ''n'' numeric_column = Ok b"
    by (simp add: CreateColumnArrayBuffer_def assert_then_def IsArrayType_def numeric_column_def Let_def
        CalculateDisplaySize_def sqlinteger_def INT_MAX_def ColumnBuffer_array_def)
  from array_buffer_holds_text[OF this] b show ?thesis
    by (auto simp: numeric_column_def)
qed

end
