(* ===== verification/Catalog.thy ===== *)
theory Catalog
  imports Buffers
begin

text \<open>
  \<open>DatabaseCatalog.h/.cpp\<close>: the catalog functions of ODBC behind one statement handle.

  \<open>cats w a\<close> is the catalog at address \<open>a\<close>; its member \<open>m_props\<close>, a copy of the database's, is
  \<open>props w a\<close>. A name argument is \<open>None\<close> for a null pointer. The loops that fetch rows run until the
  driver says something other than \<open>SQL_SUCCESS\<close>, so they carry fuel: \<open>OutOfFuel\<close> is a result set
  with more rows than fuel, and \<open>fetched\<close> below is the loop without it.
\<close>

section \<open>The object\<close>

datatype MetadataMode = PatternOrOrdinary | Identifier

datatype SchemaOrCatalogType = Schema | Catalog

record DatabaseCatalog =
  dc_pHdbc :: "nat option"
  dc_pHStmt :: nat
  dc_stmtMode :: MetadataMode
  dc_use_count :: nat

record cworld = bworld +
  cats :: "nat \<Rightarrow> DatabaseCatalog"

type_synonym ('z, 'a) cprog = "(exn, 'z cworld_scheme, 'a) prog"

definition mod_cat :: "nat \<Rightarrow> (DatabaseCatalog \<Rightarrow> DatabaseCatalog) \<Rightarrow> ('z, unit) cprog" where
  "mod_cat a f = modifyM (\<lambda>w. w\<lparr>cats := (cats w)(a := f (cats w a))\<rparr>)"

lemma mod_cat_exec [exec, simp]: "mod_cat a f w = (Ok (), w\<lparr>cats := (cats w)(a := f (cats w a))\<rparr>)"
  by (simp add: mod_cat_def)

definition m_pAllPattern :: string where
  "m_pAllPattern = ''%''"

text \<open>\<open>std::make_shared\<close> of a handle with nothing allocated.\<close>

definition make_handle :: "('z, nat) hprog" where
  "make_handle = bindM new_address (\<lambda>p. thenM (mod_hnd p (\<lambda>_. SqlHandle_init)) (returnM p))"

definition release_option :: "ext \<Rightarrow> nat \<Rightarrow> nat option \<Rightarrow> ('z, unit) hprog" where
  "release_option X l p = (case p of None \<Rightarrow> skipM | Some q \<Rightarrow> SqlHandle_release X l q)"

definition share_option :: "nat option \<Rightarrow> ('z, unit) hprog" where
  "share_option p = (case p of None \<Rightarrow> skipM | Some q \<Rightarrow> shared_copy q)"

text \<open>The members of the catalog at \<open>a\<close> used below: its handle and its properties.\<close>

definition with_stmt :: "nat \<Rightarrow> (nat \<Rightarrow> ('z, 'a) cprog) \<Rightarrow> ('z, 'a) cprog" where
  "with_stmt a f = bindM (getsM (\<lambda>w. dc_pHStmt (cats w a))) f"

definition stmt_allocated :: "nat \<Rightarrow> ('z, unit) cprog" where
  "stmt_allocated a = exASSERT ''m_pHStmt->IsAllocated()''
     (\<lambda>w. SqlHandle_IsAllocated w (dc_pHStmt (cats w a)))"

section \<open>The metadata attribute\<close>

definition GetMetadataAttribute :: "ext \<Rightarrow> nat \<Rightarrow> ('z, MetadataMode) cprog" where
  "GetMetadataAttribute X a =
     thenM (stmt_allocated a)
     (with_stmt a (\<lambda>s.
      bindM (getsM (\<lambda>w. SqlHandle_GetHandle w s)) (\<lambda>h.
      bindM (odbc X (SQLGetStmtAttr h SQL_ATTR_METADATA_ID)) (\<lambda>r.
        if \<not> SQL_SUCCEEDED (rc r)
        then bindM (getsM (\<lambda>w. SqlResultException_handle ''SQLGetStmtAttr'' (rc r)
                     (FetchErrorInfo X (calls w) SQL_HANDLE_STMT h))) (\<lambda>sre.
          if HasErrorInfo sre SQLSTATE_OPTIONAL_FEATURE_NOT_IMPLEMENTED
          then bindM (getsM (\<lambda>w. GetDriverName (props w a))) (\<lambda>name.
                 thenM (liftM name) (returnM PatternOrOrdinary))
          else throwM sre)
        else thenM (exASSERT ''metadataAttr == SQL_FALSE || metadataAttr == SQL_TRUE''
                 (\<lambda>_. onum r = SQL_FALSE \<or> onum r = SQL_TRUE))
               (returnM (if onum r = SQL_FALSE then PatternOrOrdinary else Identifier))))))"

text \<open>
  The value is passed by address, where the attribute wants it in the place of the pointer; the
  driver sees the address of a local variable.
\<close>

definition SetMetadataAttribute :: "ext \<Rightarrow> nat \<Rightarrow> MetadataMode \<Rightarrow> ('z, unit) cprog" where
  "SetMetadataAttribute X a mode =
     thenM (stmt_allocated a)
     (with_stmt a (\<lambda>s.
      bindM (getsM (\<lambda>w. SqlHandle_GetHandle w s)) (\<lambda>h.
      let newValue = (if mode = Identifier then SQL_TRUE else SQL_FALSE) in
      bindM (odbc X (SQLSetStmtAttr h SQL_ATTR_METADATA_ID (PLocal newValue))) (\<lambda>r.
        thenM (THROW_IFN_SUCCEEDED X ''SQLSetStmtAttr'' (rc r) SQL_HANDLE_STMT h)
          (mod_cat a (\<lambda>c. c\<lparr>dc_stmtMode :=
             (if newValue = SQL_FALSE then PatternOrOrdinary else Identifier)\<rparr>))))))"

definition ensure_mode :: "ext \<Rightarrow> nat \<Rightarrow> MetadataMode \<Rightarrow> ('z, unit) cprog" where
  "ensure_mode X a mode =
     whenM (\<lambda>w. dc_stmtMode (cats w a) \<noteq> mode) (SetMetadataAttribute X a mode)"

section \<open>Construction, Reset, destruction\<close>

definition DatabaseCatalog_Init ::
  "ext \<Rightarrow> nat \<Rightarrow> nat option \<Rightarrow> SqlInfoProperties \<Rightarrow> ('z, unit) cprog" where
  "DatabaseCatalog_Init X a pHdbc ps = seqM
     [exASSERT ''m_pHdbc == nullptr'' (\<lambda>w. dc_pHdbc (cats w a) = None),
      exASSERT ''props.IsPropertyRegistered(SQL_SEARCH_PATTERN_ESCAPE)''
        (\<lambda>_. IsPropertyRegistered ps SQL_SEARCH_PATTERN_ESCAPE),
      share_option pHdbc,
      mod_cat a (\<lambda>c. c\<lparr>dc_pHdbc := pHdbc\<rparr>),
      mod_props a (\<lambda>_. ps),
      EnsurePropertyRead X a pHdbc SQL_SEARCH_PATTERN_ESCAPE False,
      with_stmt a (\<lambda>s. SqlHandle_AllocateWithParent X STMT s pHdbc),
      bindM (GetMetadataAttribute X a) (\<lambda>m. mod_cat a (\<lambda>c. c\<lparr>dc_stmtMode := m\<rparr>))]"

definition release_Hdbc :: "ext \<Rightarrow> nat \<Rightarrow> ('z, unit) cprog" where
  "release_Hdbc X a =
     bindM (getsM (\<lambda>w. dc_pHdbc (cats w a))) (\<lambda>d.
       thenM (mod_cat a (\<lambda>c. c\<lparr>dc_pHdbc := None\<rparr>)) (release_option X 1 d))"

definition DatabaseCatalog_Reset :: "ext \<Rightarrow> nat \<Rightarrow> ('z, unit) cprog" where
  "DatabaseCatalog_Reset X a = seqM
     [with_stmt a (\<lambda>s. whenM (\<lambda>w. SqlHandle_IsAllocated w s) (SqlHandle_Free X STMT s)),
      release_Hdbc X a]"

text \<open>
  The members, in reverse order. A constructor that throws has them destroyed, but does not run the
  destructor of the object. An exception that leaves the destructor ends the program with
  \<open>std::terminate\<close>, here \<open>Undef\<close>.
\<close>

definition catalog_members :: "ext \<Rightarrow> nat \<Rightarrow> ('z, unit) cprog" where
  "catalog_members X a = thenM (with_stmt a (SqlHandle_release X STMT)) (release_Hdbc X a)"

definition DatabaseCatalog_new :: "('z, nat) cprog" where
  "DatabaseCatalog_new =
     bindM new_address (\<lambda>a.
     bindM make_handle (\<lambda>s. thenM (seqM
       [mod_cat a (\<lambda>_. \<lparr>dc_pHdbc = None, dc_pHStmt = s, dc_stmtMode = PatternOrOrdinary, dc_use_count = 1\<rparr>),
        mod_props a (\<lambda>_. SqlInfoProperties_new)]) (returnM a)))"

definition DatabaseCatalog_make_shared ::
  "ext \<Rightarrow> nat option \<Rightarrow> SqlInfoProperties \<Rightarrow> ('z, nat) cprog" where
  "DatabaseCatalog_make_shared X pHdbc ps =
     bindM DatabaseCatalog_new (\<lambda>a.
     thenM (catchM (DatabaseCatalog_Init X a pHdbc ps)
              (\<lambda>e. thenM (catalog_members X a) (throwM e)))
       (returnM a))"

definition DatabaseCatalog_destroy :: "ext \<Rightarrow> nat \<Rightarrow> ('z, unit) cprog" where
  "DatabaseCatalog_destroy X a =
     thenM (catchM (DatabaseCatalog_Reset X a) (\<lambda>_. undefM)) (catalog_members X a)"

definition DatabaseCatalog_release :: "ext \<Rightarrow> nat \<Rightarrow> ('z, unit) cprog" where
  "DatabaseCatalog_release X a =
     bindM (getsM (\<lambda>w. dc_use_count (cats w a))) (\<lambda>n.
       thenM (mod_cat a (\<lambda>c. c\<lparr>dc_use_count := n - 1\<rparr>))
         (if n \<le> 1 then DatabaseCatalog_destroy X a else skipM))"

section \<open>Fetching the rows of a catalog function\<close>

fun fetch_rows ::
  "ext \<Rightarrow> nat \<Rightarrow> nat \<Rightarrow> ('z, 'r) hprog \<Rightarrow> 'r list \<Rightarrow> ('z, 'r list) hprog" where
  "fetch_rows X 0 s row rows = fuelM"
| "fetch_rows X (Suc n) s row rows =
     bindM (getsM (\<lambda>w. SqlHandle_GetHandle w s)) (\<lambda>h.
     bindM (odbc X (SQLFetch h)) (\<lambda>r.
       if rc r = SQL_SUCCESS
       then bindM row (\<lambda>x. fetch_rows X n s row (rows @ [x]))
       else thenM (THROW_IFN_NO_DATA ''SQLFetch'' (rc r)) (returnM rows)))"

text \<open>
  The shape the five catalog functions share: close, run the function, fetch its rows with a reader,
  and close again, which the destructor of the \<open>StatementCloser\<close> does on every way out.
\<close>

definition catalog_query ::
  "ext \<Rightarrow> nat \<Rightarrow> nat \<Rightarrow> string \<Rightarrow> (nat \<Rightarrow> odbc_call) \<Rightarrow>
   (nat option \<Rightarrow> SqlInfoProperties \<Rightarrow> ('z, 'r) cprog) \<Rightarrow> ('z, 'r list) cprog" where
  "catalog_query X n a fn call read = with_stmt a (\<lambda>s.
     with_StatementCloser X (Some s) True True
       (bindM (getsM (\<lambda>w. SqlHandle_GetHandle w s)) (\<lambda>h.
        bindM (odbc X (call h)) (\<lambda>r.
          thenM (THROW_IFN_SUCCEEDED X fn (rc r) SQL_HANDLE_STMT h)
            (fetch_rows X n s (bindM (getsM (\<lambda>w. props w a)) (read (Some s))) [])))))"

section \<open>Searching tables\<close>

definition identifier_asserts :: "MetadataMode \<Rightarrow> (string \<times> string option) list \<Rightarrow> ('z, unit) cprog" where
  "identifier_asserts mode names =
     (if mode = Identifier
      then forM names (\<lambda>(text, name). exASSERT (text @ '' != nullptr'') (\<lambda>_. name \<noteq> None))
      else skipM)"

definition null_to_all :: "MetadataMode \<Rightarrow> DatabaseProduct \<Rightarrow> string option \<Rightarrow> string option" where
  "null_to_all mode dbms name =
     (if mode \<noteq> Identifier \<and> dbms = POSTGRESQL \<and> name = None then Some m_pAllPattern else name)"

definition SearchTables_impl ::
  "ext \<Rightarrow> nat \<Rightarrow> nat \<Rightarrow> string option \<Rightarrow> string option \<Rightarrow> string option \<Rightarrow> string \<Rightarrow> MetadataMode \<Rightarrow>
   ('z, TableInfo list) cprog" where
  "SearchTables_impl X n a pTableName pSchemaName pCatalogName tableType mode =
     thenM (stmt_allocated a)
     (thenM (ensure_mode X a mode)
     (thenM (identifier_asserts mode
        [(''pTableName'', pTableName), (''pSchemaName'', pSchemaName), (''pCatalogName'', pCatalogName)])
     (bindM (getsM (\<lambda>w. m_dbms (props w a))) (\<lambda>dbms.
        catalog_query X n a ''SQLTables''
          (\<lambda>h. SQLTables h (null_to_all mode dbms pCatalogName) (null_to_all mode dbms pSchemaName)
                 (null_to_all mode dbms pTableName) (if tableType = [] then None else Some tableType))
          (TableInfo_read X)))))"

text \<open>\<open>GetSupportsCatalogs\<close> and \<open>GetSupportsSchemas\<close> of the catalog.\<close>

definition res_bind :: "('e, 'a) res \<Rightarrow> ('a \<Rightarrow> ('e, 'b) res) \<Rightarrow> ('e, 'b) res" where
  "res_bind r f = (case r of Ok x \<Rightarrow> f x | Exn e \<Rightarrow> Exn e | Undef \<Rightarrow> Undef | OutOfFuel \<Rightarrow> OutOfFuel)"

definition dc_SupportsCatalogs :: "SqlInfoProperties \<Rightarrow> (exn, bool) res" where
  "dc_SupportsCatalogs ps = res_bind (GetSupportsCatalogs ps) (\<lambda>c.
     if \<not> c then Ok False else res_bind (GetCatalogTerm ps) (\<lambda>t. Ok (t \<noteq> [])))"

definition dc_SupportsSchemas :: "SqlInfoProperties \<Rightarrow> (exn, bool) res" where
  "dc_SupportsSchemas ps = res_bind (GetSchemaTerm ps) (\<lambda>t. Ok (t \<noteq> []))"

definition of_props :: "nat \<Rightarrow> (SqlInfoProperties \<Rightarrow> (exn, 'a) res) \<Rightarrow> ('z, 'a) cprog" where
  "of_props a f w = (f (props w a), w)"

definition or_null :: "string \<Rightarrow> (exn, bool) res \<Rightarrow> (exn, string option) res" where
  "or_null name supported =
     (if name \<noteq> [] then Ok (Some name)
      else res_bind supported (\<lambda>s. Ok (if s then Some name else None)))"

text \<open>The four overloads of \<open>SearchTables\<close>, in the order of the source.\<close>

definition SearchTables_names ::
  "ext \<Rightarrow> nat \<Rightarrow> nat \<Rightarrow> string \<Rightarrow> string \<Rightarrow> string \<Rightarrow> string \<Rightarrow> ('z, TableInfo list) cprog" where
  "SearchTables_names X n a tableName schemaName catalogName tableType =
     bindM (of_props a (\<lambda>ps. or_null schemaName (dc_SupportsSchemas ps))) (\<lambda>schema.
     bindM (of_props a (\<lambda>ps. or_null catalogName (dc_SupportsCatalogs ps))) (\<lambda>catalog.
       SearchTables_impl X n a (Some tableName) schema catalog tableType PatternOrOrdinary))"

definition SearchTables_typed ::
  "ext \<Rightarrow> nat \<Rightarrow> nat \<Rightarrow> string \<Rightarrow> string \<Rightarrow> SchemaOrCatalogType \<Rightarrow> string \<Rightarrow> ('z, TableInfo list) cprog" where
  "SearchTables_typed X n a tableName schemaOrCatalogName schemaOrCatalogType tableType =
     (if schemaOrCatalogType = Schema
      then SearchTables_impl X n a (Some tableName) (Some schemaOrCatalogName) None tableType PatternOrOrdinary
      else SearchTables_impl X n a (Some tableName) None (Some schemaOrCatalogName) tableType PatternOrOrdinary)"

definition SearchTables_either ::
  "ext \<Rightarrow> nat \<Rightarrow> nat \<Rightarrow> string \<Rightarrow> string \<Rightarrow> string \<Rightarrow> ('z, TableInfo list) cprog" where
  "SearchTables_either X n a tableName schemaOrCatalogName tableType =
     bindM (of_props a dc_SupportsCatalogs) (\<lambda>supportsCatalogs.
     bindM (of_props a dc_SupportsSchemas) (\<lambda>supportsSchemas.
       if supportsCatalogs \<and> supportsSchemas
       then throwM (NotAllowedException ''Database supports catalogs and schemas, unable to determine type of schemaOrCatalogName argument'')
       else if \<not> (supportsCatalogs \<or> supportsSchemas)
       then throwM (NotAllowedException ''Database does not support catalogs or schemas, cannot use schemaOrCatalogName argument'')
       else SearchTables_impl X n a (Some tableName)
              (if supportsSchemas then Some schemaOrCatalogName else None)
              (if supportsCatalogs then Some schemaOrCatalogName else None) tableType PatternOrOrdinary))"

definition SearchTables_any ::
  "ext \<Rightarrow> nat \<Rightarrow> nat \<Rightarrow> string \<Rightarrow> string \<Rightarrow> ('z, TableInfo list) cprog" where
  "SearchTables_any X n a tableName tableType =
     SearchTables_impl X n a (Some tableName) None None tableType PatternOrOrdinary"

definition ListCatalogs :: "ext \<Rightarrow> nat \<Rightarrow> nat \<Rightarrow> ('z, string list) cprog" where
  "ListCatalogs X n a =
     bindM (SearchTables_impl X n a (Some []) (Some []) (Some ''%'') [] PatternOrOrdinary)
       (\<lambda>ts. returnM (map ti_catalogName ts))"

definition ListSchemas :: "ext \<Rightarrow> nat \<Rightarrow> nat \<Rightarrow> ('z, string list) cprog" where
  "ListSchemas X n a =
     bindM (SearchTables_impl X n a (Some []) (Some ''%'') (Some []) [] PatternOrOrdinary)
       (\<lambda>ts. returnM (map ti_schemaName ts))"

definition ListTableTypes :: "ext \<Rightarrow> nat \<Rightarrow> nat \<Rightarrow> ('z, string list) cprog" where
  "ListTableTypes X n a =
     bindM (SearchTables_impl X n a (Some []) (Some []) (Some []) ''%'' PatternOrOrdinary)
       (\<lambda>ts. returnM (map ti_tableType ts))"

definition FindOneTable ::
  "ext \<Rightarrow> nat \<Rightarrow> nat \<Rightarrow> string \<Rightarrow> string \<Rightarrow> string \<Rightarrow> string \<Rightarrow> ('z, TableInfo) cprog" where
  "FindOneTable X n a tableName schemaName catalogName tableType =
     thenM (exASSERT ''!tableName.empty()'' (\<lambda>_. tableName \<noteq> []))
     (bindM
       (if schemaName \<noteq> [] \<and> catalogName \<noteq> []
        then SearchTables_names X n a tableName schemaName catalogName tableType
        else if schemaName \<noteq> [] then SearchTables_typed X n a tableName schemaName Schema tableType
        else if catalogName \<noteq> [] then SearchTables_typed X n a tableName catalogName Catalog tableType
        else SearchTables_any X n a tableName tableType) (\<lambda>matchingTables.
       if length matchingTables < 1 then throwM (NotFoundException ''No Table was found'')
       else if length matchingTables > 1 then throwM (NotFoundException ''Multiple Tables were found'')
       else returnM (hd matchingTables)))"

text \<open>\<open>EscapePatternValueArguments\<close>: \<open>%\<close> first, then \<open>_\<close>, each behind the driver's escape string.\<close>

definition EscapePatternValueArguments :: "ext \<Rightarrow> SqlInfoProperties \<Rightarrow> string \<Rightarrow> (exn, string) res" where
  "EscapePatternValueArguments X ps input = res_bind (GetSearchPatternEscape ps) (\<lambda>esc.
     Ok (boost_replace_all X (boost_replace_all X input ''%'' (esc @ ''%'')) ''_'' (esc @ ''_'')))"

section \<open>Columns, keys, types\<close>

definition ReadColumnInfo_impl ::
  "ext \<Rightarrow> nat \<Rightarrow> nat \<Rightarrow> string option \<Rightarrow> string option \<Rightarrow> string option \<Rightarrow> string option \<Rightarrow> MetadataMode \<Rightarrow>
   ('z, ColumnInfo list) cprog" where
  "ReadColumnInfo_impl X n a pColumnName pTableName pSchemaName pCatalogName mode =
     thenM (stmt_allocated a)
     (thenM (ensure_mode X a mode)
     (thenM (identifier_asserts mode
        [(''pColumnName'', pColumnName), (''pTableName'', pTableName), (''pSchemaName'', pSchemaName),
         (''pCatalogName'', pCatalogName)])
        (catalog_query X n a ''SQLColumns''
          (\<lambda>h. SQLColumns h pCatalogName pSchemaName pTableName pColumnName) (ColumnInfo_read X))))"

definition schema_arg :: "TableInfo \<Rightarrow> string option" where
  "schema_arg t = (if TableInfo_HasSchema t then Some (ti_schemaName t) else None)"

definition catalog_arg :: "TableInfo \<Rightarrow> string option" where
  "catalog_arg t = (if TableInfo_HasCatalog t then Some (ti_catalogName t) else None)"

definition ReadColumnInfo :: "ext \<Rightarrow> nat \<Rightarrow> nat \<Rightarrow> TableInfo \<Rightarrow> ('z, ColumnInfo list) cprog" where
  "ReadColumnInfo X n a t =
     ReadColumnInfo_impl X n a None (Some (ti_tableName t)) (schema_arg t) (catalog_arg t) PatternOrOrdinary"

definition ReadPrimaryKeyInfo_impl ::
  "ext \<Rightarrow> nat \<Rightarrow> nat \<Rightarrow> string option \<Rightarrow> string option \<Rightarrow> string option \<Rightarrow> MetadataMode \<Rightarrow>
   ('z, PrimaryKeyInfo list) cprog" where
  "ReadPrimaryKeyInfo_impl X n a pTableName pSchemaName pCatalogName mode =
     thenM (stmt_allocated a)
     (thenM (exASSERT ''pTableName != nullptr'' (\<lambda>_. pTableName \<noteq> None))
     (thenM (ensure_mode X a mode)
        (catalog_query X n a ''SQLPrimaryKeys''
          (\<lambda>h. SQLPrimaryKeys h pCatalogName pSchemaName pTableName) (PrimaryKeyInfo_read X))))"

definition ReadPrimaryKeyInfo :: "ext \<Rightarrow> nat \<Rightarrow> nat \<Rightarrow> TableInfo \<Rightarrow> ('z, PrimaryKeyInfo list) cprog" where
  "ReadPrimaryKeyInfo X n a t =
     ReadPrimaryKeyInfo_impl X n a (Some (ti_tableName t)) (schema_arg t) (catalog_arg t) PatternOrOrdinary"

definition ReadSqlTypeInfo :: "ext \<Rightarrow> nat \<Rightarrow> nat \<Rightarrow> ('z, SqlTypeInfo list) cprog" where
  "ReadSqlTypeInfo X n a =
     thenM (stmt_allocated a)
       (catalog_query X n a ''SQLGetTypeInfo'' (\<lambda>h. SQLGetTypeInfo h SQL_ALL_TYPES) (SqlTypeInfo_read X))"

fun RowIdScope_value :: "RowIdScope \<Rightarrow> int" where
  "RowIdScope_value SCOPE_CURSOR = 0"
| "RowIdScope_value SCOPE_TRANSACTION = 1"
| "RowIdScope_value SCOPE_SESSION = 2"

definition ReadSpecialColumnInfo_impl ::
  "ext \<Rightarrow> nat \<Rightarrow> nat \<Rightarrow> RowIdScope \<times> int \<Rightarrow> IdentifierType \<Rightarrow> string option \<Rightarrow> string option \<Rightarrow> string option \<Rightarrow>
   RowIdScope \<Rightarrow> bool \<Rightarrow> MetadataMode \<Rightarrow> ('z, SpecialColumnInfo list) cprog" where
  "ReadSpecialColumnInfo_impl X n a indeterminate idType pTableName pSchemaName pCatalogName scope
       includeNullableColumns mode =
     thenM (stmt_allocated a)
     (thenM (exASSERT ''pTableName != nullptr'' (\<lambda>_. pTableName \<noteq> None))
     (thenM (ensure_mode X a mode)
        (catalog_query X n a ''SQLSpecialColumns''
          (\<lambda>h. SQLSpecialColumns h (IdentifierType_value idType) pCatalogName pSchemaName pTableName
                 (RowIdScope_value scope) (if includeNullableColumns then SQL_NULLABLE else SQL_NO_NULLS))
          (\<lambda>p ps. SpecialColumnInfo_read X p ps idType indeterminate))))"

definition ReadSpecialColumnInfo ::
  "ext \<Rightarrow> nat \<Rightarrow> nat \<Rightarrow> RowIdScope \<times> int \<Rightarrow> TableInfo \<Rightarrow> IdentifierType \<Rightarrow> RowIdScope \<Rightarrow> bool \<Rightarrow>
   ('z, SpecialColumnInfo list) cprog" where
  "ReadSpecialColumnInfo X n a indeterminate t idType scope includeNullableColumns =
     ReadSpecialColumnInfo_impl X n a indeterminate idType (Some (ti_tableName t)) (schema_arg t)
       (catalog_arg t) scope includeNullableColumns PatternOrOrdinary"

section \<open>The fetch loop without fuel\<close>

text \<open>
  \<open>fetched X s row w rows w'\<close>: from \<open>w\<close>, every \<open>SQLFetch\<close> but the last says \<open>SQL_SUCCESS\<close> and its
  row is read, the last one says \<open>SQL_NO_DATA\<close>.
\<close>

definition after_fetch :: "nat \<Rightarrow> 'z hworld_scheme \<Rightarrow> 'z hworld_scheme" where
  "after_fetch s w = w\<lparr>calls := SQLFetch (m_handle (hnd w s)) # calls w\<rparr>"

inductive fetched ::
  "ext \<Rightarrow> nat \<Rightarrow> ('z, 'r) hprog \<Rightarrow> 'z hworld_scheme \<Rightarrow> 'r list \<Rightarrow> 'z hworld_scheme \<Rightarrow> bool"
  for X s row where
  no_data: "rc (driver X (calls (after_fetch s w))) = SQL_NO_DATA \<Longrightarrow> fetched X s row w [] (after_fetch s w)"
| row: "rc (driver X (calls (after_fetch s w))) = SQL_SUCCESS \<Longrightarrow> row (after_fetch s w) = (Ok x, w1) \<Longrightarrow>
     fetched X s row w1 xs w' \<Longrightarrow> fetched X s row w (x # xs) w'"

inductive_cases fetched_NilE: "fetched X s row w [] w'"
inductive_cases fetched_ConsE: "fetched X s row w (x # xs) w'"

lemma fetch_rows_step:
  "fetch_rows X (Suc n) s row rows w =
     (let r = rc (driver X (calls (after_fetch s w)))
      in if r = SQL_SUCCESS then bindM row (\<lambda>x. fetch_rows X n s row (rows @ [x])) (after_fetch s w)
         else if r = SQL_NO_DATA then (Ok rows, after_fetch s w)
         else (Exn (SqlResultException ''SQLFetch'' 0 []), after_fetch s w))"
  by (simp add: after_fetch_def SqlHandle_GetHandle_def thenM_exec bindM_exec Let_def)

declare fetch_rows.simps(2) [simp del]

lemma fetch_rows_sound:
  "fetch_rows X n s row acc w = (Ok rows, w') \<Longrightarrow>
     \<exists>xs. rows = acc @ xs \<and> length xs < n \<and> fetched X s row w xs w'"
proof (induction n arbitrary: acc w)
  case (Suc n)
  let ?r = "rc (driver X (calls (after_fetch s w)))"
  show ?case
  proof (cases "?r = SQL_SUCCESS")
    case True
    with Suc.prems obtain x w1 where r: "row (after_fetch s w) = (Ok x, w1)"
      and f: "fetch_rows X n s row (acc @ [x]) w1 = (Ok rows, w')"
      by (auto simp: fetch_rows_step Let_def elim: bindM_OkE)
    from Suc.IH[OF f] obtain xs where "rows = acc @ x # xs" "length xs < n" "fetched X s row w1 xs w'"
      by auto
    with True r show ?thesis by (intro exI[of _ "x # xs"]) (auto intro: fetched.row)
  next
    case False
    with Suc.prems show ?thesis
      by (auto simp: fetch_rows_step Let_def intro: fetched.no_data split: if_splits)
  qed
qed simp

lemma fetch_rows_complete:
  "fetched X s row w xs w' \<Longrightarrow> length xs < n \<Longrightarrow> fetch_rows X n s row acc w = (Ok (acc @ xs), w')"
proof (induction arbitrary: n acc rule: fetched.induct)
  case (no_data w)
  then obtain k where "n = Suc k" by (cases n) auto
  with no_data show ?case by (simp add: fetch_rows_step Let_def)
next
  case (row w x w1 xs w')
  then obtain k where "n = Suc k" "length xs < k" by (cases n) auto
  with row show ?case by (simp add: fetch_rows_step Let_def)
qed

text \<open>
  C9. The loop that fetches the rows of a catalog function: it returns exactly the rows up to the first
  \<open>SQL_NO_DATA\<close>, in order, and it returns them as soon as the fuel exceeds their number. In
  particular a single \<open>SQL_SUCCESS_WITH_INFO\<close> on the way loses all of them.
\<close>

theorem fetch_rows_all:
  "fetch_rows X n s row [] w = (Ok rows, w') \<longleftrightarrow> length rows < n \<and> fetched X s row w rows w'"
  using fetch_rows_sound[of X n s row "[]" w rows w'] fetch_rows_complete[of X s row w rows w' n "[]"]
  by auto

lemma fetched_frame:
  "fetched X s row w xs w' \<Longrightarrow> preserves f row \<Longrightarrow> (\<And>w cs. f (w\<lparr>calls := cs\<rparr>) = f w) \<Longrightarrow> f w' = f w"
  by (induction rule: fetched.induct) (auto simp: after_fetch_def dest: preservesD)

section \<open>The cursor is closed on every way out\<close>

lemma preserves_readers [pres]:
  assumes "\<And>w cs. f (w\<lparr>calls := cs\<rparr>) = f w"
  shows "preserves f (GetData X v i t k)" and "preserves f (get_number X v i t k)"
    and "preserves f (get_short X v i)" and "preserves f (get_long X v i)" and "preserves f (get_string X v i r)"
  unfolding get_short_def get_long_def get_number_def get_string_def GetData_string_def GetData_def
  by (intro pres assms)+

lemma preserves_row_asserts [pres]: "preserves f m \<Longrightarrow> preserves f (row_asserts v m)"
  unfolding row_asserts_def by (intro pres)

lemma preserves_rows [pres]:
  assumes "\<And>w cs. f (w\<lparr>calls := cs\<rparr>) = f w"
  shows "preserves f (TableInfo_read X v ps)" and "preserves f (ColumnInfo_read X v ps)"
    and "preserves f (PrimaryKeyInfo_read X v ps)" and "preserves f (SpecialColumnInfo_read X v ps i d)"
    and "preserves f (SqlTypeInfo_read X v ps)"
  unfolding TableInfo_read_def ColumnInfo_read_def PrimaryKeyInfo_read_def
    SpecialColumnInfo_read_def SqlTypeInfo_read_def
  by (intro pres assms)+

lemma preserves_fetch_rows [pres]:
  "(\<And>w cs. f (w\<lparr>calls := cs\<rparr>) = f w) \<Longrightarrow> preserves f row \<Longrightarrow> preserves f (fetch_rows X n s row acc)"
  by (induction n arbitrary: acc) (auto simp: fetch_rows.simps(2) intro!: preserves_bindM
      preserves_getsM preserves_odbc preserves_if preserves_thenM preserves_macros preserves_returnM
      preserves_fuelM)

definition close_call :: "'z cworld_scheme \<Rightarrow> nat \<Rightarrow> odbc_call" where
  "close_call w a = SQLFreeStmt (m_handle (hnd w (dc_pHStmt (cats w a)))) SQL_CLOSE"

lemma CloseStmtHandle_calls:
  "m_handle (hnd w s) \<noteq> 0 \<Longrightarrow> CloseStmtHandle X (Some s) IgnoreNotOpen w = (r, w') \<Longrightarrow>
     w' = w\<lparr>calls := SQLFreeStmt (m_handle (hnd w s)) SQL_CLOSE # calls w\<rparr> \<and>
     (r = Ok () \<longleftrightarrow> SQL_SUCCEEDED (rc (driver X (calls w')))) \<and> r \<noteq> Undef \<and> r \<noteq> OutOfFuel"
  by (auto simp: CloseStmtHandle_def SqlHandle_IsAllocated_def SqlHandle_GetHandle_def split: if_splits)

lemma StatementCloser_destroy_calls:
  "m_handle (hnd w s) \<noteq> 0 \<Longrightarrow> StatementCloser_destroy X (Some s) True w =
     (Ok (), w\<lparr>calls := SQLFreeStmt (m_handle (hnd w s)) SQL_CLOSE # calls w\<rparr>)"
  by (auto simp: StatementCloser_destroy_def tryM_def catchM_exec CloseStmtHandle_def
      SqlHandle_IsAllocated_def SqlHandle_GetHandle_def thenM_exec)

text \<open>A closer around a body that leaves the handles alone: the last call is the close.\<close>

lemma with_StatementCloser_closes:
  assumes "m_handle (hnd w s) \<noteq> 0" and "preserves hnd body"
    and "with_StatementCloser X (Some s) True True body w = (r, w')" and "r \<noteq> Undef" and "r \<noteq> OutOfFuel"
  shows "hd (calls w') = SQLFreeStmt (m_handle (hnd w s)) SQL_CLOSE"
proof -
  let ?c = "SQLFreeStmt (m_handle (hnd w s)) SQL_CLOSE"
  let ?w = "w\<lparr>calls := ?c # calls w\<rparr>"
  obtain r1 w1 where b: "body ?w = (r1, w1)" by fastforce
  then have h: "hnd w1 = hnd w" using preservesD[OF assms(2)] by fastforce
  then have d: "StatementCloser_destroy X (Some s) True w1 = (Ok (), w1\<lparr>calls := ?c # calls w1\<rparr>)"
    using StatementCloser_destroy_calls[of w1 s X] assms(1) by simp
  show ?thesis
    using assms(1,3,4,5) b d
    by (auto simp: with_StatementCloser_def StatementCloser_new_def CloseStmtHandle_def
        SqlHandle_IsAllocated_def SqlHandle_GetHandle_def thenM_exec finallyM_def
        split: if_splits res.splits)
qed

lemma catalog_query_closes:
  assumes "m_handle (hnd w (dc_pHStmt (cats w a))) \<noteq> 0" and "\<And>p ps. preserves hnd (read p ps)"
    and "catalog_query X n a fn call read w = (r, w')" and "r \<noteq> Undef" and "r \<noteq> OutOfFuel"
  shows "hd (calls w') = close_call w a"
proof -
  let ?s = "dc_pHStmt (cats w a)"
  have "preserves hnd (bindM (getsM (\<lambda>w. SqlHandle_GetHandle w ?s)) (\<lambda>h. bindM (odbc X (call h)) (\<lambda>r.
      thenM (THROW_IFN_SUCCEEDED X fn (rc r) SQL_HANDLE_STMT h)
        (fetch_rows X n ?s (bindM (getsM (\<lambda>w. props w a)) (read (Some ?s))) []))))"
    by (intro preserves_bindM preserves_getsM preserves_odbc preserves_thenM preserves_macros
        preserves_fetch_rows assms(2)) simp_all
  from with_StatementCloser_closes[OF assms(1) this _ assms(4,5), of X w']
  show ?thesis using assms(3) by (simp add: catalog_query_def with_stmt_def close_call_def)
qed

text \<open>With the statement allocated and in the mode asked for, a catalog function is its query.\<close>

lemma catalog_runs:
  assumes "m_handle (hnd w (dc_pHStmt (cats w a))) \<noteq> 0" and "dc_stmtMode (cats w a) = PatternOrOrdinary"
  shows "SearchTables_impl X n a t s c ty PatternOrOrdinary w = catalog_query X n a ''SQLTables''
      (\<lambda>h. SQLTables h (null_to_all PatternOrOrdinary (m_dbms (props w a)) c)
        (null_to_all PatternOrOrdinary (m_dbms (props w a)) s)
        (null_to_all PatternOrOrdinary (m_dbms (props w a)) t) (if ty = [] then None else Some ty))
      (TableInfo_read X) w"
    and "ReadColumnInfo X n a ti w = catalog_query X n a ''SQLColumns''
      (\<lambda>h. SQLColumns h (catalog_arg ti) (schema_arg ti) (Some (ti_tableName ti)) None) (ColumnInfo_read X) w"
    and "ReadPrimaryKeyInfo X n a ti w = catalog_query X n a ''SQLPrimaryKeys''
      (\<lambda>h. SQLPrimaryKeys h (catalog_arg ti) (schema_arg ti) (Some (ti_tableName ti))) (PrimaryKeyInfo_read X) w"
    and "ReadSqlTypeInfo X n a w = catalog_query X n a ''SQLGetTypeInfo''
      (\<lambda>h. SQLGetTypeInfo h SQL_ALL_TYPES) (SqlTypeInfo_read X) w"
    and "ReadSpecialColumnInfo X n a i ti idt sc nl w = catalog_query X n a ''SQLSpecialColumns''
      (\<lambda>h. SQLSpecialColumns h (IdentifierType_value idt) (catalog_arg ti) (schema_arg ti)
         (Some (ti_tableName ti)) (RowIdScope_value sc) (if nl then SQL_NULLABLE else SQL_NO_NULLS))
      (\<lambda>p ps. SpecialColumnInfo_read X p ps idt i) w"
  using assms
  by (simp_all add: SearchTables_impl_def ReadColumnInfo_def ReadColumnInfo_impl_def ReadPrimaryKeyInfo_def
      ReadPrimaryKeyInfo_impl_def ReadSqlTypeInfo_def ReadSpecialColumnInfo_def ReadSpecialColumnInfo_impl_def
      stmt_allocated_def ensure_mode_def identifier_asserts_def SqlHandle_IsAllocated_def thenM_exec bindM_exec)

text \<open>
  C8. Whatever happens while a catalog function is running, its cursor is closed when it returns rows
  or throws: the last call the driver sees closes the statement of the catalog.
\<close>

theorem catalog_closes_cursor:
  assumes "m_handle (hnd w (dc_pHStmt (cats w a))) \<noteq> 0" and "dc_stmtMode (cats w a) = PatternOrOrdinary"
  shows "(SearchTables_impl X n a t s c ty PatternOrOrdinary w = (r1, w') \<and> r1 \<noteq> Undef \<and> r1 \<noteq> OutOfFuel \<longrightarrow>
            hd (calls w') = close_call w a) \<and>
         (ReadColumnInfo X n a ti w = (r2, w') \<and> r2 \<noteq> Undef \<and> r2 \<noteq> OutOfFuel \<longrightarrow>
            hd (calls w') = close_call w a) \<and>
         (ReadPrimaryKeyInfo X n a ti w = (r3, w') \<and> r3 \<noteq> Undef \<and> r3 \<noteq> OutOfFuel \<longrightarrow>
            hd (calls w') = close_call w a) \<and>
         (ReadSqlTypeInfo X n a w = (r4, w') \<and> r4 \<noteq> Undef \<and> r4 \<noteq> OutOfFuel \<longrightarrow>
            hd (calls w') = close_call w a) \<and>
         (ReadSpecialColumnInfo X n a i ti idt sc nl w = (r5, w') \<and> r5 \<noteq> Undef \<and> r5 \<noteq> OutOfFuel \<longrightarrow>
            hd (calls w') = close_call w a)"
  unfolding catalog_runs[OF assms]
  by (intro conjI impI; elim conjE; erule catalog_query_closes[OF assms(1), rotated];
      (assumption | (rule preserves_rows; simp)))

section \<open>What a search asks and returns\<close>

definition row_reader ::
  "nat \<Rightarrow> nat \<Rightarrow> (nat option \<Rightarrow> SqlInfoProperties \<Rightarrow> ('z, 'r) cprog) \<Rightarrow> ('z, 'r) cprog" where
  "row_reader a s read = bindM (getsM (\<lambda>w. props w a)) (read (Some s))"

lemma catalog_query_Ok:
  assumes "m_handle (hnd w (dc_pHStmt (cats w a))) \<noteq> 0" and "\<And>p ps. preserves hnd (read p ps)"
    and "catalog_query X n a fn call read w = (Ok rows, w')"
  shows "\<exists>w2. fetched X (dc_pHStmt (cats w a)) (row_reader a (dc_pHStmt (cats w a)) read)
       (w\<lparr>calls := call (m_handle (hnd w (dc_pHStmt (cats w a)))) # close_call w a # calls w\<rparr>) rows w2 \<and>
     w' = w2\<lparr>calls := close_call w a # calls w2\<rparr>"
proof -
  let ?s = "dc_pHStmt (cats w a)"
  let ?h = "m_handle (hnd w ?s)"
  let ?w1 = "w\<lparr>calls := close_call w a # calls w\<rparr>"
  let ?row = "row_reader a ?s read"
  let ?body = "bindM (getsM (\<lambda>w. SqlHandle_GetHandle w ?s)) (\<lambda>h. bindM (odbc X (call h)) (\<lambda>r.
      thenM (THROW_IFN_SUCCEEDED X fn (rc r) SQL_HANDLE_STMT h) (fetch_rows X n ?s ?row [])))"
  have row: "preserves hnd ?row"
    unfolding row_reader_def by (intro preserves_bindM preserves_getsM assms(2))
  obtain r2 w2 where b: "?body ?w1 = (r2, w2)" by fastforce
  have "preserves hnd ?body"
    by (intro preserves_bindM preserves_getsM preserves_odbc preserves_thenM preserves_macros
        preserves_fetch_rows row) simp_all
  from preservesD[OF this, of ?w1] b have h: "hnd w2 = hnd w" by simp
  have d: "StatementCloser_destroy X (Some ?s) True w2 = (Ok (), w2\<lparr>calls := close_call w a # calls w2\<rparr>)"
    using StatementCloser_destroy_calls[of w2 ?s X] assms(1) h by (simp add: close_call_def)
  have "with_StatementCloser X (Some ?s) True True ?body w = (Ok rows, w')"
    using assms(3) by (simp add: catalog_query_def with_stmt_def row_reader_def)
  then have "r2 = Ok rows" and w': "w' = w2\<lparr>calls := close_call w a # calls w2\<rparr>"
    using assms(1) b d
    by (auto simp: with_StatementCloser_def StatementCloser_new_def CloseStmtHandle_def close_call_def
        SqlHandle_IsAllocated_def SqlHandle_GetHandle_def thenM_exec finallyM_def
        split: if_splits res.splits)
  then have "fetch_rows X n ?s ?row [] (w\<lparr>calls := call ?h # close_call w a # calls w\<rparr>) = (Ok rows, w2)"
    using b by (auto simp: SqlHandle_GetHandle_def thenM_exec bindM_exec split: if_splits)
  from fetch_rows_sound[OF this] w' show ?thesis by auto
qed

text \<open>
  C24. What \<open>SearchTables\<close> asks the driver and what it returns: it passes the three patterns on, a
  null pointer as null, except that PostgreSQL gets \<open>%\<close> in its place, and no table type for an empty
  one; and it returns a \<open>TableInfo\<close> for every row, in the order of the driver.
\<close>

theorem SearchTables_rows:
  assumes "m_handle (hnd w (dc_pHStmt (cats w a))) \<noteq> 0" and "dc_stmtMode (cats w a) = PatternOrOrdinary"
    and "SearchTables_impl X n a t s c ty PatternOrOrdinary w = (Ok rows, w')"
  shows "\<exists>w2 all.
     all = (\<lambda>name. if name = None \<and> m_dbms (props w a) = POSTGRESQL then Some ''%'' else name) \<and>
     fetched X (dc_pHStmt (cats w a)) (row_reader a (dc_pHStmt (cats w a)) (TableInfo_read X))
       (w\<lparr>calls := SQLTables (m_handle (hnd w (dc_pHStmt (cats w a)))) (all c) (all s) (all t)
             (if ty = [] then None else Some ty) # close_call w a # calls w\<rparr>) rows w2 \<and>
     w' = w2\<lparr>calls := close_call w a # calls w2\<rparr>"
proof -
  have all: "null_to_all PatternOrOrdinary d = (\<lambda>name. if name = None \<and> d = POSTGRESQL then Some ''%'' else name)" for d
    by (auto simp: null_to_all_def m_pAllPattern_def)
  show ?thesis
    using catalog_query_Ok[OF assms(1) preserves_rows(1) assms(3)[unfolded catalog_runs(1)[OF assms(1,2)]]]
    by (simp add: all)
qed

text \<open>A catalog (address 4, statement at 1) and a driver with one row.\<close>

definition small_catalog :: cworld where
  "small_catalog =
     \<lparr>calls = [], hnd = hnd small_heap, bnd = bnd small_heap, fresh = 10,
      props = (\<lambda>_. four_lengths\<lparr>m_dbms := POSTGRESQL\<rparr>),
      buf = (\<lambda>_. char_buffer),
      cats = (\<lambda>_. \<lparr>dc_pHdbc = Some 2, dc_pHStmt = 1, dc_stmtMode = PatternOrOrdinary, dc_use_count = 1\<rparr>)\<rparr>"

fun is_fetch :: "odbc_call \<Rightarrow> bool" where
  "is_fetch (SQLFetch h) = True"
| "is_fetch _ = False"

definition one_row_driver :: "odbc_call list \<Rightarrow> reply" where
  "one_row_driver cs =
     (if cs \<noteq> [] \<and> is_fetch (hd cs) \<and> 1 < length (filter is_fetch cs) then reply_rc SQL_NO_DATA
      else (reply_rc SQL_SUCCESS)\<lparr>ostr := ''T''\<rparr>)"

lemma one_row_simps [simp]:
  "\<not> is_fetch c \<Longrightarrow> one_row_driver (c # cs) = (reply_rc SQL_SUCCESS)\<lparr>ostr := ''T''\<rparr>"
  "is_fetch c \<Longrightarrow> one_row_driver (c # cs) =
     (if filter is_fetch cs = [] then (reply_rc SQL_SUCCESS)\<lparr>ostr := ''T''\<rparr> else reply_rc SQL_NO_DATA)"
  by (auto simp: one_row_driver_def)

lemma reply_rc_simps [simp]:
  "rc (reply_rc r) = r" "oind (reply_rc r) = 0" "ostr (reply_rc r) = []" "onum (reply_rc r) = 0"
  by (simp_all add: reply_rc_def)

lemma four_lengths_dbms:
  "GetMaxCatalogNameLen (ps\<lparr>m_dbms := d\<rparr>) = GetMaxCatalogNameLen ps"
  "GetMaxSchemaNameLen (ps\<lparr>m_dbms := d\<rparr>) = GetMaxSchemaNameLen ps"
  "GetMaxTableNameLen (ps\<lparr>m_dbms := d\<rparr>) = GetMaxTableNameLen ps"
  "GetMaxColumnNameLen (ps\<lparr>m_dbms := d\<rparr>) = GetMaxColumnNameLen ps"
  by (simp_all add: GetMaxCatalogNameLen_def GetMaxSchemaNameLen_def GetMaxTableNameLen_def
      GetMaxColumnNameLen_def GetUSmallInt_def GetProperty_def)

lemma small_search:
  "\<exists>t w'. SearchTables_impl (ref_ext one_row_driver) 2 4 (Some ''T'') None None [] PatternOrOrdinary small_catalog
     = (Ok [t], w') \<and> ti_tableName t = ''T''"
  by (simp add: SearchTables_impl_def catalog_query_def stmt_allocated_def ensure_mode_def
      identifier_asserts_def with_stmt_def with_StatementCloser_def StatementCloser_new_def
      StatementCloser_destroy_def CloseStmtHandle_def tryM_def finallyM_def catchM_exec
      numeral_2_eq_2 fetch_rows_step after_fetch_def Let_def readers four_lengths_dbms four_lengths_128
      small_catalog_def small_heap_def thenM_exec bindM_exec c_string_def)

theorem catalog_closes_cursor_witness:
  "\<exists>t w'. SearchTables_impl (ref_ext one_row_driver) 2 4 (Some ''T'') None None [] PatternOrOrdinary small_catalog
     = (Ok [t], w') \<and> hd (calls w') = SQLFreeStmt 7 SQL_CLOSE"
  using small_search catalog_closes_cursor[of small_catalog 4 "ref_ext one_row_driver" 2 "Some ''T''" None None "[]" "Ok _"]
  by (auto simp: small_catalog_def small_heap_def close_call_def)

theorem SearchTables_rows_witness:
  "\<exists>t w' w2. SearchTables_impl (ref_ext one_row_driver) 2 4 (Some ''T'') None None [] PatternOrOrdinary small_catalog
     = (Ok [t], w') \<and>
     fetched (ref_ext one_row_driver) 1 (row_reader 4 1 (TableInfo_read (ref_ext one_row_driver)))
       (small_catalog\<lparr>calls := [SQLTables 7 (Some ''%'') (Some ''%'') (Some ''T'') None, SQLFreeStmt 7 SQL_CLOSE]\<rparr>)
       [t] w2"
proof -
  obtain t w' where r: "SearchTables_impl (ref_ext one_row_driver) 2 4 (Some ''T'') None None []
      PatternOrOrdinary small_catalog = (Ok [t], w')" using small_search by blast
  from SearchTables_rows[OF _ _ r] r show ?thesis
    by (auto simp: small_catalog_def small_heap_def close_call_def)
qed

section \<open>Escaped search patterns\<close>

text \<open>How a driver reads a search pattern with the escape character \<open>e\<close>: the values that match.\<close>

fun pattern_matches :: "char \<Rightarrow> string \<Rightarrow> string \<Rightarrow> bool" where
  "pattern_matches e [] s \<longleftrightarrow> s = []"
| "pattern_matches e [c] s \<longleftrightarrow>
     (if c = CHR ''%'' then True else if c = CHR ''_'' then length s = 1 else s = [c])"
| "pattern_matches e (c # d # p) s \<longleftrightarrow>
     (if c = e then s \<noteq> [] \<and> hd s = d \<and> pattern_matches e p (tl s)
      else if c = CHR ''%'' then (\<exists>k \<le> length s. pattern_matches e (d # p) (drop k s))
      else if c = CHR ''_'' then s \<noteq> [] \<and> pattern_matches e (d # p) (tl s)
      else s \<noteq> [] \<and> hd s = c \<and> pattern_matches e (d # p) (tl s))"

definition escape_char :: "char \<Rightarrow> char \<Rightarrow> string" where
  "escape_char e c = (if c = CHR ''%'' \<or> c = CHR ''_'' then [e, c] else [c])"

lemma escaped_matches:
  "e \<notin> set input \<Longrightarrow> e \<noteq> CHR ''%'' \<Longrightarrow> e \<noteq> CHR ''_'' \<Longrightarrow>
     pattern_matches e (concat (map (escape_char e) input)) s \<longleftrightarrow> s = input"
proof (induction input arbitrary: s)
  case (Cons c input)
  define q where "q = concat (map (escape_char e) input)"
  have IH: "pattern_matches e q s \<longleftrightarrow> s = input" for s
    using Cons by (simp add: q_def)
  have plain: "pattern_matches e (c # p) s \<longleftrightarrow> s \<noteq> [] \<and> hd s = c \<and> pattern_matches e p (tl s)"
    if "c \<noteq> CHR ''%''" "c \<noteq> CHR ''_''" for p s
    using that Cons.prems by (cases p; cases s) auto
  have "pattern_matches e (escape_char e c @ q) s \<longleftrightarrow> s = c # input"
    by (cases "c = CHR ''%'' \<or> c = CHR ''_''"; cases s) (auto simp: escape_char_def plain IH)
  then show ?case by (simp add: q_def)
qed simp

text \<open>
  C25. With a one-character escape that does not occur in it, an escaped name is a search pattern that
  matches this name and no other. (The escape character itself is not escaped: a name that contains
  it is not covered.)
\<close>

theorem escaped_pattern_exact:
  assumes "replace_all_ok X" and "GetSearchPatternEscape ps = Ok [e]"
    and "e \<noteq> CHR ''%''" and "e \<noteq> CHR ''_''" and "e \<notin> set input"
  shows "\<exists>p. EscapePatternValueArguments X ps input = Ok p \<and> (\<forall>s. pattern_matches e p s \<longleftrightarrow> s = input)"
proof -
  have "concat (map (\<lambda>d. if d = CHR ''_'' then [e, CHR ''_''] else [d])
          (concat (map (\<lambda>d. if d = CHR ''%'' then [e, CHR ''%''] else [d]) input))) =
        concat (map (escape_char e) input)"
    using assms(4) by (induction input) (auto simp: escape_char_def)
  then have "EscapePatternValueArguments X ps input = Ok (concat (map (escape_char e) input))"
    using assms(1,2) by (simp add: EscapePatternValueArguments_def res_bind_def replace_all_ok_def
        replace_all_doc_char cong: if_cong)
  with escaped_matches[OF assms(5,3,4)] show ?thesis by blast
qed

definition escape_props :: SqlInfoProperties where
  "escape_props = SqlInfoProperties_new\<lparr>m_props :=
     [(SQL_SEARCH_PATTERN_ESCAPE, (SqlInfoProperty_new SQL_SEARCH_PATTERN_ESCAPE [] IT_Driver VT_String_Any)
        \<lparr>m_value := StringV [CHR 0x5C], m_valueRead := True\<rparr>)]\<rparr>"

theorem escaped_pattern_exact_witness:
  "\<exists>p. EscapePatternValueArguments (ref_ext good_driver) escape_props ''a_b%'' = Ok p \<and>
     pattern_matches (CHR 0x5C) p ''a_b%'' \<and> \<not> pattern_matches (CHR 0x5C) p ''axb%''"
proof -
  have "GetSearchPatternEscape escape_props = Ok [CHR 0x5C]"
    by (simp add: GetSearchPatternEscape_def GetStringProperty_def GetProperty_def escape_props_def
        SqlInfoProperty_new_def SqlInfoProperties_new_def)
  from escaped_pattern_exact[OF ref_ext_ok(3) this, of "''a_b%''" good_driver] obtain p where
    "EscapePatternValueArguments (ref_ext good_driver) escape_props ''a_b%'' = Ok p"
    "\<forall>s. pattern_matches (CHR 0x5C) p s \<longleftrightarrow> s = ''a_b%''" by auto
  then show ?thesis by (intro exI[of _ p]) simp
qed



end
