(* ===== verification/Environments.thy ===== *)
theory Environments
  imports Catalog
begin

text \<open>
  \<open>Environment.h/.cpp\<close>: the environment handle, the ODBC version, the static functions that set
  process-wide attributes, and the list of data sources, which the driver manager is asked for
  twice: once for the lengths of the descriptions, once for the texts.

  \<open>envs w e\<close> is the environment at address \<open>e\<close>. \<open>NULL\<close> as a handle is 0.
\<close>

section \<open>The object\<close>

datatype ConnectionPooling = CP_OFF | CP_PER_DRIVER | CP_PER_HENV

fun ConnectionPooling_value :: "ConnectionPooling \<Rightarrow> int" where
  "ConnectionPooling_value CP_OFF = 0"
| "ConnectionPooling_value CP_PER_DRIVER = 1"
| "ConnectionPooling_value CP_PER_HENV = 2"

datatype ConnectionPoolingMatch = STRICT_MATCH | RELAXED_MATCH

fun ConnectionPoolingMatch_value :: "ConnectionPoolingMatch \<Rightarrow> int" where
  "ConnectionPoolingMatch_value STRICT_MATCH = 0"
| "ConnectionPoolingMatch_value RELAXED_MATCH = 1"

datatype ListMode = LM_All | LM_System | LM_User

record SDataSource =
  ds_dsn :: string
  ds_description :: string

record Environment =
  en_pHEnv :: nat
  en_odbcVersion :: OdbcVersion

record eworld = cworld +
  envs :: "nat \<Rightarrow> Environment"

type_synonym ('z, 'a) eprog = "(exn, 'z eworld_scheme, 'a) prog"

definition mod_env :: "nat \<Rightarrow> (Environment \<Rightarrow> Environment) \<Rightarrow> ('z, unit) eprog" where
  "mod_env e f = modifyM (\<lambda>w. w\<lparr>envs := (envs w)(e := f (envs w e))\<rparr>)"

lemma mod_env_exec [exec, simp]: "mod_env e f w = (Ok (), w\<lparr>envs := (envs w)(e := f (envs w e))\<rparr>)"
  by (simp add: mod_env_def)

definition IsEnvHandleAllocated :: "'z eworld_scheme \<Rightarrow> nat \<Rightarrow> bool" where
  "IsEnvHandleAllocated w e \<longleftrightarrow> SqlHandle_IsAllocated w (en_pHEnv (envs w e))"

section \<open>Process-wide attributes\<close>

definition SetTracefile :: "ext \<Rightarrow> string \<Rightarrow> ('z, unit) exprog" where
  "SetTracefile X path =
     bindM (odbc X (SQLSetConnectAttr 0 SQL_ATTR_TRACEFILE (PStr path))) (\<lambda>r.
       if \<not> SQL_SUCCEEDED (rc r)
       then throwM (BaseException (''Failed to set attribute SQL_ATTR_TRACEFILE to '' @ quote @ path @ quote))
       else skipM)"

definition GetTracefile :: "ext \<Rightarrow> ('z, string) exprog" where
  "GetTracefile X =
     bindM (odbc X (SQLGetConnectAttr 0 SQL_ATTR_TRACEFILE)) (\<lambda>r.
       if \<not> SQL_SUCCEEDED (rc r) then throwM (BaseException ''Failed to read attribute SQL_ATTR_TRACEFILE'')
       else returnM (c_string (ostr r)))"

definition SetTrace :: "ext \<Rightarrow> bool \<Rightarrow> ('z, unit) exprog" where
  "SetTrace X enable =
     bindM (odbc X (SQLSetConnectAttr 0 SQL_ATTR_TRACE
              (PVal (if enable then SQL_OPT_TRACE_ON else SQL_OPT_TRACE_OFF)))) (\<lambda>r.
       if \<not> SQL_SUCCEEDED (rc r)
       then throwM (BaseException (if enable then ''Failed to set Attribute SQL_ATTR_TRACE to SQL_OPT_TRACE_ON''
                                   else ''Failed to set Attribute SQL_ATTR_TRACE to SQL_OPT_TRACE_OFF''))
       else skipM)"

definition GetTrace :: "ext \<Rightarrow> ('z, bool) exprog" where
  "GetTrace X =
     bindM (odbc X (SQLGetConnectAttr 0 SQL_ATTR_TRACE)) (\<lambda>r.
       if \<not> SQL_SUCCEEDED (rc r) then throwM (BaseException ''Failed to read Attribute SQL_ATTR_TRACE'')
       else returnM (onum r = SQL_OPT_TRACE_ON))"

definition EnableConnectionPooling :: "ext \<Rightarrow> ConnectionPooling \<Rightarrow> ('z, unit) exprog" where
  "EnableConnectionPooling X enablePooling =
     bindM (odbc X (SQLSetEnvAttr 0 SQL_ATTR_CONNECTION_POOLING (PVal (ConnectionPooling_value enablePooling)))) (\<lambda>r.
       if \<not> SQL_SUCCEEDED (rc r) then throwM (SqlResultException_noHandle ''SQLSetEnvAttr'' (rc r)) else skipM)"

section \<open>Version\<close>

definition OV_value :: "OdbcVersion \<Rightarrow> int option" where
  "OV_value v = (case v of V_2 \<Rightarrow> Some 2 | V_3 \<Rightarrow> Some 3 | V_3_8 \<Rightarrow> Some 380 | ODBC_UNKNOWN \<Rightarrow> None)"

definition ReadOdbcVersion :: "ext \<Rightarrow> nat \<Rightarrow> ('z, OdbcVersion) eprog" where
  "ReadOdbcVersion X e =
     thenM (exASSERT ''IsEnvHandleAllocated()'' (\<lambda>w. IsEnvHandleAllocated w e))
     (bindM (getsM (\<lambda>w. SqlHandle_GetHandle w (en_pHEnv (envs w e)))) (\<lambda>h.
      bindM (odbc X (SQLGetEnvAttr h SQL_ATTR_ODBC_VERSION)) (\<lambda>r. thenM (seqM
        [THROW_IFN_SUCCEEDED X ''SQLGetEnvAttr'' (rc r) SQL_HANDLE_ENV h,
         if onum r = 2 then mod_env e (\<lambda>v. v\<lparr>en_odbcVersion := V_2\<rparr>)
         else if onum r = 3 then mod_env e (\<lambda>v. v\<lparr>en_odbcVersion := V_3\<rparr>)
         else if onum r = 380 then mod_env e (\<lambda>v. v\<lparr>en_odbcVersion := V_3_8\<rparr>)
         else skipM])
        (getsM (\<lambda>w. en_odbcVersion (envs w e))))))"

definition SetOdbcVersion :: "ext \<Rightarrow> nat \<Rightarrow> OdbcVersion \<Rightarrow> ('z, unit) eprog" where
  "SetOdbcVersion X e version =
     thenM (exASSERT ''IsEnvHandleAllocated()'' (\<lambda>w. IsEnvHandleAllocated w e))
     (bindM (getsM (\<lambda>w. SqlHandle_GetHandle w (en_pHEnv (envs w e)))) (\<lambda>h.
      case OV_value version of
        None \<Rightarrow> throwM (IllegalArgumentException
          (''Unknown ODBC Version value: '' @ show_int (OdbcVersion_value version)))
      | Some v \<Rightarrow>
          bindM (odbc X (SQLSetEnvAttr h SQL_ATTR_ODBC_VERSION (PVal v))) (\<lambda>r.
            thenM (THROW_IFN_SUCCEEDED X ''SQLSetEnvAttr'' (rc r) SQL_HANDLE_ENV h)
              (bindM (ReadOdbcVersion X e) (\<lambda>_. skipM)))))"

text \<open>The version is cached; \<open>UNKNOWN\<close> means it has not been read.\<close>

definition GetOdbcVersion :: "ext \<Rightarrow> nat \<Rightarrow> ('z, OdbcVersion) eprog" where
  "GetOdbcVersion X e =
     thenM (whenM (\<lambda>w. en_odbcVersion (envs w e) = ODBC_UNKNOWN \<and> IsEnvHandleAllocated w e)
              (bindM (ReadOdbcVersion X e) (\<lambda>_. skipM)))
       (getsM (\<lambda>w. en_odbcVersion (envs w e)))"

definition SetConnctionPoolingMatch :: "ext \<Rightarrow> nat \<Rightarrow> ConnectionPoolingMatch \<Rightarrow> ('z, unit) eprog" where
  "SetConnctionPoolingMatch X e matchMode =
     bindM (getsM (\<lambda>w. SqlHandle_GetHandle w (en_pHEnv (envs w e)))) (\<lambda>h.
     bindM (odbc X (SQLSetEnvAttr h SQL_ATTR_CP_MATCH (PVal (ConnectionPoolingMatch_value matchMode)))) (\<lambda>r.
       THROW_IFN_SUCCEEDED X ''SQLSetEnvAttr'' (rc r) SQL_HANDLE_ENV h))"

section \<open>Construction and destruction\<close>

definition Environment_new :: "('z, nat) eprog" where
  "Environment_new =
     bindM make_handle (\<lambda>p. bindM new_address (\<lambda>e.
       thenM (mod_env e (\<lambda>_. \<lparr>en_pHEnv = p, en_odbcVersion = ODBC_UNKNOWN\<rparr>)) (returnM e)))"

definition Environment_Init :: "ext \<Rightarrow> nat \<Rightarrow> OdbcVersion \<Rightarrow> ('z, unit) eprog" where
  "Environment_Init X e odbcVersion = seqM
     [exASSERT ''odbcVersion != OdbcVersion::UNKNOWN'' (\<lambda>_. odbcVersion \<noteq> ODBC_UNKNOWN),
      exASSERT ''!m_pHEnv->IsAllocated()'' (\<lambda>w. \<not> IsEnvHandleAllocated w e),
      bindM (getsM (\<lambda>w. en_pHEnv (envs w e))) (SqlHandle_Allocate X 0),
      SetOdbcVersion X e odbcVersion]"

text \<open>The only member with a destructor is the pointer to the handle.\<close>

definition Environment_destroy :: "ext \<Rightarrow> nat \<Rightarrow> ('z, unit) eprog" where
  "Environment_destroy X e = bindM (getsM (\<lambda>w. en_pHEnv (envs w e))) (SqlHandle_release X 0)"

definition Environment_of :: "ext \<Rightarrow> OdbcVersion \<Rightarrow> ('z, nat) eprog" where
  "Environment_of X odbcVersion =
     bindM Environment_new (\<lambda>e.
     thenM (catchM (Environment_Init X e odbcVersion) (\<lambda>ex. thenM (Environment_destroy X e) (throwM ex)))
       (returnM e))"

text \<open>The copy does not share the handle: it allocates its own, with the version of the original.\<close>

definition Environment_copy :: "ext \<Rightarrow> nat \<Rightarrow> ('z, nat) eprog" where
  "Environment_copy X other =
     bindM Environment_new (\<lambda>e.
     thenM (catchM
        (bindM (GetOdbcVersion X other) (\<lambda>v. if v \<noteq> ODBC_UNKNOWN then Environment_Init X e v else skipM))
        (\<lambda>ex. thenM (Environment_destroy X e) (throwM ex)))
       (returnM e))"

section \<open>ListDataSources\<close>

text \<open>\<open>SQLDataSources h direction len\<close>: \<open>len\<close> is the size of the description buffer (0: none).\<close>

definition NextSource :: "ext \<Rightarrow> nat \<Rightarrow> int \<Rightarrow> int \<Rightarrow> ('z, reply) exprog" where
  "NextSource X h direction bufLen = odbc X (SQLDataSources h direction bufLen)"

fun max_description :: "ext \<Rightarrow> nat \<Rightarrow> nat \<Rightarrow> int \<Rightarrow> int \<Rightarrow> ('z, int) exprog" where
  "max_description X 0 h maxDescLength descLength = fuelM"
| "max_description X (Suc n) h maxDescLength descLength =
     (let m = max maxDescLength descLength in
      bindM (NextSource X h SQL_FETCH_NEXT 0) (\<lambda>r.
        if SQL_SUCCEEDED (rc r) then max_description X n h m (oind r)
        else thenM (THROW_IFN_NO_DATA ''SQLDataSources'' (rc r)) (returnM m)))"

fun collect_sources :: "ext \<Rightarrow> nat \<Rightarrow> nat \<Rightarrow> int \<Rightarrow> reply \<Rightarrow> SDataSource list \<Rightarrow> ('z, SDataSource list) exprog" where
  "collect_sources X 0 h bufLen r dataSources = fuelM"
| "collect_sources X (Suc n) h bufLen r dataSources =
     (let ds = dataSources @ [\<lparr>ds_dsn = c_string (ostr r), ds_description = c_string (ostr2 r)\<rparr>] in
      bindM (NextSource X h SQL_FETCH_NEXT bufLen) (\<lambda>r'.
        if SQL_SUCCEEDED (rc r') then collect_sources X n h bufLen r' ds
        else thenM (THROW_IFN_NO_DATA ''SQLDataSources'' (rc r')) (returnM ds)))"

definition direction_of :: "ListMode \<Rightarrow> int" where
  "direction_of mode =
     (case mode of LM_System \<Rightarrow> SQL_FETCH_FIRST_SYSTEM | LM_User \<Rightarrow> SQL_FETCH_FIRST_USER
      | LM_All \<Rightarrow> SQL_FETCH_FIRST)"

text \<open>
  The first reply of the second pass is not checked for anything but \<open>SQL_NO_DATA\<close>; after an error the
  description is read from a buffer that nobody wrote.
\<close>

definition ListDataSources :: "ext \<Rightarrow> nat \<Rightarrow> nat \<Rightarrow> ListMode \<Rightarrow> ('z, SDataSource list) eprog" where
  "ListDataSources X n e mode =
     thenM (exASSERT ''IsEnvHandleAllocated()'' (\<lambda>w. IsEnvHandleAllocated w e))
     (bindM (getsM (\<lambda>w. SqlHandle_GetHandle w (en_pHEnv (envs w e)))) (\<lambda>h.
      bindM (NextSource X h (direction_of mode) 0) (\<lambda>r.
        if rc r = SQL_NO_DATA then returnM []
        else thenM (THROW_IFN_SUCCEEDED X ''SQLDataSources'' (rc r) SQL_HANDLE_ENV h)
          (bindM (max_description X n h 0 (oind r)) (\<lambda>maxDescLength.
           bindM (NextSource X h (direction_of mode) (maxDescLength + 1)) (\<lambda>r2.
             if rc r2 = SQL_NO_DATA then throwM (SqlResultException_noHandle ''SQLDataSources'' (rc r2))
             else if \<not> SQL_SUCCEEDED (rc r2) then undefM
             else collect_sources X n h (maxDescLength + 1) r2 []))))))"

section \<open>What the environment promises\<close>

text \<open>
  A successful \<open>Init\<close>: the driver manager allocated an environment, was told the version asked for
  before anything else could use the handle, and was asked for it; what it answered is the version
  the environment reports. \<open>Init\<close> with an unknown version, or twice, throws and calls nobody.
\<close>

theorem Environment_Init_ok:
  fixes w :: "'z eworld_scheme"
  shows "(Environment_Init X e v w = (Ok (), w') \<longrightarrow>
     (\<exists>ov h. OV_value v = Some ov \<and> h = m_handle (hnd w' (en_pHEnv (envs w e))) \<and> h \<noteq> 0 \<and>
        calls w' = [SQLGetEnvAttr h SQL_ATTR_ODBC_VERSION, SQLSetEnvAttr h SQL_ATTR_ODBC_VERSION (PVal ov),
                    SQLAllocHandle SQL_HANDLE_ENV 0] @ calls w \<and>
        OV_value (en_odbcVersion (envs w' e)) =
          (if onum (driver X (calls w')) \<in> {2, 3, 380} then Some (onum (driver X (calls w')))
           else OV_value (en_odbcVersion (envs w e))))) \<and>
   (v = ODBC_UNKNOWN \<or> IsEnvHandleAllocated w e \<longrightarrow>
      (\<exists>t. Environment_Init X e v w = (Exn (AssertionException t), w)))"
proof (intro conjI impI)
  assume ok: "Environment_Init X e v w = (Ok (), w')"
  let ?p = "en_pHEnv (envs w e)"
  from ok have v: "v \<noteq> ODBC_UNKNOWN" and m0: "\<not> IsEnvHandleAllocated w e"
    by (auto simp: Environment_Init_def thenM_exec split: if_splits)
  from ok v m0 obtain w1 where a: "SqlHandle_Allocate X 0 ?p w = (Ok (), w1)"
    and s: "SetOdbcVersion X e v w1 = (Ok (), w')"
    by (auto simp: Environment_Init_def thenM_exec bindM_exec split: prod.splits res.splits if_splits)
  have w1: "w1 = w\<lparr>calls := SQLAllocHandle SQL_HANDLE_ENV 0 # calls w, hnd := (hnd w)(?p := (hnd w ?p)
      \<lparr>m_handle := nat (onum (driver X (SQLAllocHandle SQL_HANDLE_ENV 0 # calls w)))\<rparr>)\<rparr>"
    using a by (auto simp: SqlHandle_Allocate_def thenM_exec bindM_exec split: if_splits)
  obtain ov where ov: "OV_value v = Some ov" using v by (cases v) (auto simp: OV_value_def)
  from s ov show "\<exists>ov h. OV_value v = Some ov \<and> h = m_handle (hnd w' ?p) \<and> h \<noteq> 0 \<and>
        calls w' = [SQLGetEnvAttr h SQL_ATTR_ODBC_VERSION, SQLSetEnvAttr h SQL_ATTR_ODBC_VERSION (PVal ov),
                    SQLAllocHandle SQL_HANDLE_ENV 0] @ calls w \<and>
        OV_value (en_odbcVersion (envs w' e)) =
          (if onum (driver X (calls w')) \<in> {2, 3, 380} then Some (onum (driver X (calls w')))
           else OV_value (en_odbcVersion (envs w e)))"
    by (auto simp: SetOdbcVersion_def ReadOdbcVersion_def IsEnvHandleAllocated_def SqlHandle_IsAllocated_def
        SqlHandle_GetHandle_def thenM_exec bindM_exec w1 OV_value_def[of V_2] OV_value_def[of V_3]
        OV_value_def[of V_3_8] split: if_splits)
next
  assume "v = ODBC_UNKNOWN \<or> IsEnvHandleAllocated w e"
  then show "\<exists>t. Environment_Init X e v w = (Exn (AssertionException t), w)"
    by (auto simp: Environment_Init_def thenM_exec)
qed

lemma max_description_bound:
  "max_description X n h m l w = (Ok k, w') \<Longrightarrow>
     m \<le> k \<and> l \<le> k \<and> (\<exists>new. calls w' = new @ calls w \<and>
       (\<forall>j < length new - 1. oind (driver X (drop (Suc j) (calls w'))) \<le> k))"
proof (induction n arbitrary: m l w)
  case (Suc n)
  let ?c = "SQLDataSources h SQL_FETCH_NEXT 0"
  let ?w = "w\<lparr>calls := ?c # calls w\<rparr>" and ?r = "driver X (?c # calls w)"
  show ?case
  proof (cases "SQL_SUCCEEDED (rc ?r)")
    case True
    with Suc.prems have rec: "max_description X n h (max m l) (oind ?r) ?w = (Ok k, w')"
      by (simp add: NextSource_def Let_def bindM_exec)
    from Suc.IH[OF rec] obtain new where new: "max m l \<le> k" "oind ?r \<le> k" "calls w' = new @ ?c # calls w"
      "\<forall>j < length new - 1. oind (driver X (drop (Suc j) (calls w'))) \<le> k" by auto
    have "oind (driver X (drop (Suc j) (calls w'))) \<le> k" if "j < length new" for j
    proof (cases "j < length new - 1")
      case False
      with that have "Suc j = length new" by simp
      then have "drop (Suc j) (calls w') = ?c # calls w" using new(3) by simp
      with new(2) show ?thesis by simp
    qed (use new(4) in blast)
    with new show ?thesis by (intro conjI exI[of _ "new @ [?c]"]) auto
  next
    case False
    with Suc.prems have "k = max m l" "w' = ?w"
      by (auto simp: NextSource_def Let_def bindM_exec thenM_exec split: if_splits)
    then show ?thesis by (intro conjI exI[of _ "[?c]"]) auto
  qed
qed simp

text \<open>
  The description buffer of the second pass of \<open>ListDataSources\<close> has room for every description
  the driver manager announced in the first: the length computed is at least the first one and all
  those of the successful calls that followed.
\<close>

theorem descriptions_fit:
  assumes "max_description X n h 0 l w = (Ok k, w')"
  shows "0 \<le> k \<and> l \<le> k \<and> (\<exists>new. calls w' = new @ calls w \<and>
     (\<forall>j < length new - 1. oind (driver X (drop (Suc j) (calls w'))) \<le> k))"
  using max_description_bound[OF assms] by simp

text \<open>An environment (address 5, handle object 20) that has not been initialised.\<close>

definition small_env :: eworld where
  "small_env =
     \<lparr>calls = [], hnd = (hnd small_heap)(20 := SqlHandle_init), bnd = bnd small_heap, fresh = 30,
      props = props small_catalog, buf = buf small_catalog, cats = cats small_catalog,
      envs = (\<lambda>_. \<lparr>en_pHEnv = 20, en_odbcVersion = ODBC_UNKNOWN\<rparr>)\<rparr>"

definition odbc380_driver :: "odbc_call list \<Rightarrow> reply" where
  "odbc380_driver cs = (reply_rc SQL_SUCCESS)\<lparr>onum := 380\<rparr>"

theorem Environment_Init_ok_witness:
  "\<exists>w'. Environment_Init (ref_ext odbc380_driver) 5 V_3_8 small_env = (Ok (), w') \<and>
     calls w' = [SQLGetEnvAttr 380 SQL_ATTR_ODBC_VERSION, SQLSetEnvAttr 380 SQL_ATTR_ODBC_VERSION (PVal 380),
                 SQLAllocHandle SQL_HANDLE_ENV 0] \<and>
     OV_value (en_odbcVersion (envs w' 5)) = Some 380"
proof -
  obtain w' where r: "Environment_Init (ref_ext odbc380_driver) 5 V_3_8 small_env = (Ok (), w')"
    and h: "m_handle (hnd w' 20) = 380"
    by (simp add: Environment_Init_def SqlHandle_Allocate_def SetOdbcVersion_def ReadOdbcVersion_def
        IsEnvHandleAllocated_def SqlHandle_IsAllocated_def SqlHandle_GetHandle_def small_env_def
        SqlHandle_init_def odbc380_driver_def OV_value_def thenM_exec bindM_exec)
  from Environment_Init_ok[THEN conjunct1, rule_format, OF r] r h show ?thesis
    by (auto simp: small_env_def odbc380_driver_def OV_value_def[of V_3_8])
qed

definition one_source_driver :: "odbc_call list \<Rightarrow> reply" where
  "one_source_driver cs = (reply_rc (if length cs \<le> 1 then SQL_SUCCESS else SQL_NO_DATA))\<lparr>oind := 7\<rparr>"

theorem descriptions_fit_witness:
  "\<exists>w'. max_description (ref_ext one_source_driver) 2 3 0 5 (small_env\<lparr>calls := []\<rparr>) = (Ok 7, w') \<and> (5::int) \<le> 7"
proof -
  obtain w' where r: "max_description (ref_ext one_source_driver) 2 3 0 5 (small_env\<lparr>calls := []\<rparr>) = (Ok 7, w')"
    by (simp add: numeral_2_eq_2 NextSource_def one_source_driver_def small_env_def bindM_exec thenM_exec)
  with descriptions_fit[OF this] show ?thesis by auto
qed

end
