(* ===== verification/Databases.thy ===== *)
theory Databases
  imports Environments
begin

text \<open>
  \<open>Database.h/.cpp\<close>: connecting, what is read on connecting, transactions, \<open>ExecSql\<close>, disconnecting.

  \<open>dbs w d\<close> is the database at address \<open>d\<close>; its member \<open>m_props\<close> is \<open>props w d\<close>. The pointer to the
  buffer type map is the map it points to: the library never changes a map after it was set. Null
  pointers to strings of the driver are not used here. \<open>LOG_...\<close> lines have no effect, but the texts
  \<open>Open\<close> logs when \<open>SQLDisconnect\<close> fails are fetched with \<open>GetAllErrors\<close>, which reads diagnostics only.
\<close>

unbundle bit_operations_syntax

section \<open>The object\<close>

datatype CommitMode = COMMIT_UNKNOWN | AUTO | MANUAL

datatype TransactionIsolationMode =
  ISOLATION_UNKNOWN | READ_UNCOMMITTED | READ_COMMITTED | REPEATABLE_READ | SERIALIZABLE

fun isolation_value :: "TransactionIsolationMode \<Rightarrow> int" where
  "isolation_value ISOLATION_UNKNOWN = 50000"
| "isolation_value READ_UNCOMMITTED = SQL_TXN_READ_UNCOMMITTED"
| "isolation_value READ_COMMITTED = SQL_TXN_READ_COMMITTED"
| "isolation_value REPEATABLE_READ = SQL_TXN_REPEATABLE_READ"
| "isolation_value SERIALIZABLE = SQL_TXN_SERIALIZABLE"

datatype ExecFailMode = FailOnNoData | NotFailOnNoData

record Database =
  db_pEnv :: "nat option"
  db_pSql2BufferTypeMap :: "Sql2BufferTypeMap option"
  db_pDbCatalog :: "nat option"
  db_datatypes :: "SqlTypeInfo list"
  db_isOpen :: bool
  db_openedWithConnectionString :: bool
  db_dsn :: string
  db_uid :: string
  db_authStr :: string
  db_inConnectionStr :: string
  db_outConnectionStr :: string
  db_pHDbc :: nat
  db_pHStmtExecSql :: nat
  db_commitMode :: CommitMode

record dworld = eworld +
  dbs :: "nat \<Rightarrow> Database"

type_synonym ('z, 'a) dprog = "(exn, 'z dworld_scheme, 'a) prog"

definition mod_db :: "nat \<Rightarrow> (Database \<Rightarrow> Database) \<Rightarrow> ('z, unit) dprog" where
  "mod_db d f = modifyM (\<lambda>w. w\<lparr>dbs := (dbs w)(d := f (dbs w d))\<rparr>)"

lemma mod_db_exec [exec, simp]: "mod_db d f w = (Ok (), w\<lparr>dbs := (dbs w)(d := f (dbs w d))\<rparr>)"
  by (simp add: mod_db_def)

lemma mod_props_exec [exec, simp]: "mod_props p f w = (Ok (), w\<lparr>props := (props w)(p := f (props w p))\<rparr>)"
  by (simp add: mod_props_def)

definition dbc_allocated :: "nat \<Rightarrow> ('z, unit) dprog" where
  "dbc_allocated d = exASSERT ''m_pHDbc->IsAllocated()''
     (\<lambda>w. SqlHandle_IsAllocated w (db_pHDbc (dbs w d)))"

definition with_hdbc :: "nat \<Rightarrow> (nat \<Rightarrow> ('z, 'a) dprog) \<Rightarrow> ('z, 'a) dprog" where
  "with_hdbc d f = bindM (getsM (\<lambda>w. SqlHandle_GetHandle w (db_pHDbc (dbs w d)))) f"

definition IsOpen :: "'z dworld_scheme \<Rightarrow> nat \<Rightarrow> bool" where
  "IsOpen w d = db_isOpen (dbs w d)"

section \<open>Transactions and connection attributes\<close>

definition CommitTrans :: "ext \<Rightarrow> nat \<Rightarrow> ('z, unit) dprog" where
  "CommitTrans X d = thenM (dbc_allocated d) (with_hdbc d (\<lambda>h.
     bindM (odbc X (SQLEndTran SQL_HANDLE_DBC h SQL_COMMIT)) (\<lambda>r.
       THROW_IFN_SUCCEEDED X ''SQLEndTran'' (rc r) SQL_HANDLE_DBC h)))"

definition RollbackTrans :: "ext \<Rightarrow> nat \<Rightarrow> ('z, unit) dprog" where
  "RollbackTrans X d = thenM (dbc_allocated d) (with_hdbc d (\<lambda>h.
     bindM (odbc X (SQLEndTran SQL_HANDLE_DBC h SQL_ROLLBACK)) (\<lambda>r.
       THROW_IFN_SUCCEEDED X ''SQLEndTran'' (rc r) SQL_HANDLE_DBC h)))"

definition ReadCommitMode :: "ext \<Rightarrow> nat \<Rightarrow> ('z, CommitMode) dprog" where
  "ReadCommitMode X d = thenM (dbc_allocated d) (with_hdbc d (\<lambda>h.
     bindM (odbc X (SQLGetConnectAttr h SQL_ATTR_AUTOCOMMIT)) (\<lambda>r.
     thenM (THROW_IFN_SUCCEEDED X ''SQLGetConnectAttr'' (rc r) SQL_HANDLE_DBC h)
       (let mode = (if onum r = SQL_AUTOCOMMIT_OFF then MANUAL
                    else if onum r = SQL_AUTOCOMMIT_ON then AUTO else COMMIT_UNKNOWN)
        in thenM (mod_db d (\<lambda>b. b\<lparr>db_commitMode := mode\<rparr>)) (returnM mode)))))"

definition ReadTransactionIsolationMode :: "ext \<Rightarrow> nat \<Rightarrow> ('z, TransactionIsolationMode) dprog" where
  "ReadTransactionIsolationMode X d = thenM (dbc_allocated d) (with_hdbc d (\<lambda>h.
     bindM (odbc X (SQLGetConnectAttr h SQL_ATTR_TXN_ISOLATION)) (\<lambda>r.
     thenM (THROW_IFN_SUCCEEDED X ''SQLGetConnectAttr'' (rc r) SQL_HANDLE_DBC h)
       (returnM (if onum r = SQL_TXN_READ_UNCOMMITTED then READ_UNCOMMITTED
                 else if onum r = SQL_TXN_READ_COMMITTED then READ_COMMITTED
                 else if onum r = SQL_TXN_REPEATABLE_READ then REPEATABLE_READ
                 else if onum r = SQL_TXN_SERIALIZABLE then SERIALIZABLE
                 else ISOLATION_UNKNOWN)))))"

definition SetCommitMode :: "ext \<Rightarrow> nat \<Rightarrow> CommitMode \<Rightarrow> ('z, unit) dprog" where
  "SetCommitMode X d mode =
     thenM (dbc_allocated d)
     (thenM (whenM (\<lambda>w. db_commitMode (dbs w d) \<noteq> AUTO) (RollbackTrans X d))
     (with_hdbc d (\<lambda>h.
       bindM (odbc X (SQLSetConnectAttr h SQL_ATTR_AUTOCOMMIT
                (PVal (if mode = MANUAL then SQL_AUTOCOMMIT_OFF else SQL_AUTOCOMMIT_ON)))) (\<lambda>r.
         thenM (THROW_IFN_SUCCEEDED X ''SQLSetConnectAttr'' (rc r) SQL_HANDLE_DBC h)
           (mod_db d (\<lambda>b. b\<lparr>db_commitMode := mode\<rparr>))))))"

definition SetTransactionIsolationMode :: "ext \<Rightarrow> nat \<Rightarrow> TransactionIsolationMode \<Rightarrow> ('z, unit) dprog" where
  "SetTransactionIsolationMode X d mode =
     thenM (dbc_allocated d)
     (thenM (bindM (getsM (\<lambda>w. db_pHStmtExecSql (dbs w d))) (\<lambda>s. CloseStmtHandle X (Some s) IgnoreNotOpen))
     (thenM (whenM (\<lambda>w. db_commitMode (dbs w d) \<noteq> AUTO) (RollbackTrans X d))
     (with_hdbc d (\<lambda>h.
       bindM (odbc X (SQLSetConnectAttr h SQL_ATTR_TXN_ISOLATION (PVal (isolation_value mode)))) (\<lambda>r.
         THROW_IFN_SUCCEEDED X ''SQLSetConnectAttr'' (rc r) SQL_HANDLE_DBC h)))))"

fun get_UInt :: "info_value \<Rightarrow> (exn, int) res" where
  "get_UInt (UIntV v) = Ok v"
| "get_UInt _ = Undef"

definition CanSetTransactionIsolationMode ::
  "SqlInfoProperties \<Rightarrow> TransactionIsolationMode \<Rightarrow> (exn, bool) res" where
  "CanSetTransactionIsolationMode ps mode =
     res_bind (GetProperty ps SQL_TXN_ISOLATION_OPTION) (\<lambda>prop.
     res_bind (get_UInt (m_value prop)) (\<lambda>opts. Ok (opts AND isolation_value mode \<noteq> 0)))"

definition SetConnectionAttributes :: "ext \<Rightarrow> nat \<Rightarrow> ('z, unit) dprog" where
  "SetConnectionAttributes X d = thenM (dbc_allocated d) (with_hdbc d (\<lambda>h.
     bindM (odbc X (SQLSetConnectAttr h SQL_ATTR_TRACE (PVal SQL_OPT_TRACE_OFF))) (\<lambda>r.
       THROW_IFN_SUCCEEDED X ''SQLSetConnectAttr'' (rc r) SQL_HANDLE_DBC h)))"

text \<open>The local \<open>SqlStmtHandle\<close> is freed on every way out.\<close>

definition TestScrollableCursorSupport :: "ext \<Rightarrow> nat \<Rightarrow> ('z, bool) dprog" where
  "TestScrollableCursorSupport X d =
     thenM (dbc_allocated d)
     (bindM (getsM (\<lambda>w. db_pHDbc (dbs w d))) (\<lambda>c.
      bindM (SqlHandle_make_shared X STMT (Some c)) (\<lambda>s.
      finallyM
        (bindM (getsM (\<lambda>w. SqlHandle_GetHandle w s)) (\<lambda>h.
         bindM (odbc X (SQLSetStmtAttr h SQL_ATTR_CURSOR_SCROLLABLE (PVal SQL_SCROLLABLE))) (\<lambda>r.
           catchM (thenM (THROW_IFN_SUCCEEDED X ''SQLSetStmtAttr'' (rc r) SQL_HANDLE_STMT h) (returnM True))
             (\<lambda>ex. if is_SqlResultException ex then returnM False else throwM ex))))
        (SqlHandle_release X STMT s))))"

section \<open>Opening\<close>

definition reset_catalog :: "ext \<Rightarrow> nat \<Rightarrow> ('z, unit) dprog" where
  "reset_catalog X d =
     bindM (getsM (\<lambda>w. db_pDbCatalog (dbs w d))) (\<lambda>c.
       thenM (mod_db d (\<lambda>b. b\<lparr>db_pDbCatalog := None\<rparr>))
         (case c of None \<Rightarrow> skipM | Some a \<Rightarrow> DatabaseCatalog_release X a))"

definition OpenImpl_body :: "ext \<Rightarrow> nat \<Rightarrow> nat \<Rightarrow> ('z, unit) dprog" where
  "OpenImpl_body X n d =
     bindM (getsM (\<lambda>w. (db_pHDbc (dbs w d), db_pHStmtExecSql (dbs w d)))) (\<lambda>(hDbc, hStmt).
     thenM (SqlHandle_AllocateWithParent X STMT hStmt (Some hDbc))
     (thenM (SqlInfoProperties_Init_detect X d (Some hDbc))
     (bindM (of_props d (GetDriverOdbcVersion X)) (\<lambda>driverOdbcVersion.
      bindM (getsM (\<lambda>w. db_pEnv (dbs w d))) (\<lambda>env. case env of None \<Rightarrow> undefM | Some e \<Rightarrow>
      bindM (GetOdbcVersion X e) (\<lambda>odbcVersion. seqM
       [whenM (\<lambda>w. db_pSql2BufferTypeMap (dbs w d) = None)
          (mod_db d (\<lambda>b. b\<lparr>db_pSql2BufferTypeMap := Some (DefaultSql2BufferMap odbcVersion)\<rparr>)),
        bindM (getsM (\<lambda>w. props w d)) (\<lambda>ps.
        bindM (DatabaseCatalog_make_shared X (Some hDbc) ps) (\<lambda>a.
          thenM (reset_catalog X d) (mod_db d (\<lambda>b. b\<lparr>db_pDbCatalog := Some a\<rparr>)))),
        SetConnectionAttributes X d,
        bindM (ReadCommitMode X d) (\<lambda>mode.
        bindM (of_props d GetSupportsTransactions) (\<lambda>t.
          if t \<and> mode \<noteq> MANUAL then SetCommitMode X d MANUAL else skipM)),
        bindM (getsM (\<lambda>w. the (db_pDbCatalog (dbs w d)))) (\<lambda>a.
        bindM (ReadSqlTypeInfo X n a) (\<lambda>types. mod_db d (\<lambda>b. b\<lparr>db_datatypes := types\<rparr>)))]))))))"

text \<open>The handler frees what was made and rethrows; if \<open>Free\<close> throws, that exception leaves instead.\<close>

definition OpenImpl_undo :: "ext \<Rightarrow> nat \<Rightarrow> ('z, unit) dprog" where
  "OpenImpl_undo X d = seqM
     [reset_catalog X d,
      mod_props d SqlInfoProperties_Reset,
      bindM (getsM (\<lambda>w. db_pHStmtExecSql (dbs w d))) (\<lambda>s.
        whenM (\<lambda>w. SqlHandle_IsAllocated w s) (SqlHandle_Free X STMT s))]"

definition OpenImpl :: "ext \<Rightarrow> nat \<Rightarrow> nat \<Rightarrow> ('z, unit) dprog" where
  "OpenImpl X n d = seqM
     [dbc_allocated d,
      exASSERT ''!m_pHStmtExecSql->IsAllocated()''
        (\<lambda>w. \<not> SqlHandle_IsAllocated w (db_pHStmtExecSql (dbs w d))),
      catchM (OpenImpl_body X n d) (\<lambda>ex. thenM (OpenImpl_undo X d) (throwM ex))]"

text \<open>The part the two \<open>Open\<close> share: everything after the connection stands.\<close>

definition Open_connected :: "ext \<Rightarrow> nat \<Rightarrow> nat \<Rightarrow> ('z, unit) dprog" where
  "Open_connected X n d =
     thenM (catchM (OpenImpl X n d) (\<lambda>ex. with_hdbc d (\<lambda>h.
              thenM (odbc X (SQLDisconnect h)) (throwM ex))))
       (mod_db d (\<lambda>b. b\<lparr>db_isOpen := True\<rparr>))"

definition DB_MAX_CONNECTSTR_LEN :: int where
  "DB_MAX_CONNECTSTR_LEN = 1024"

text \<open>
  \<open>parentWnd\<close> is null or not. The terminator is written at the length the driver reports, which is the
  length of the whole string when it did not fit: past the end of the array, it is undefined.
\<close>

definition Open_connectionString :: "ext \<Rightarrow> nat \<Rightarrow> nat \<Rightarrow> string \<Rightarrow> bool \<Rightarrow> ('z, string) dprog" where
  "Open_connectionString X n d inConnectStr parentWnd =
     thenM (dbc_allocated d)
     (thenM (exASSERT ''!IsOpen()'' (\<lambda>w. \<not> IsOpen w d))
     (thenM (exASSERT ''!inConnectStr.empty()'' (\<lambda>_. inConnectStr \<noteq> []))
     (thenM (mod_db d (\<lambda>b. b\<lparr>db_dsn := [], db_uid := [], db_authStr := [], db_inConnectionStr := inConnectStr\<rparr>))
     (with_hdbc d (\<lambda>h.
      bindM (odbc X (SQLDriverConnect h inConnectStr
               (if parentWnd then SQL_DRIVER_COMPLETE else SQL_DRIVER_NOPROMPT))) (\<lambda>r.
      thenM (THROW_IFN_SUCCEEDED X ''SQLDriverConnect'' (rc r) SQL_HANDLE_DBC h)
      (thenM (if oind r < 0 \<or> oind r > DB_MAX_CONNECTSTR_LEN then undefM
              else mod_db d (\<lambda>b. b\<lparr>db_outConnectionStr := c_string (take (nat (oind r)) (ostr r)),
                                   db_openedWithConnectionString := True\<rparr>))
      (thenM (Open_connected X n d) (getsM (\<lambda>w. db_outConnectionStr (dbs w d)))))))))))"

definition HasConnectionHandle :: "'z dworld_scheme \<Rightarrow> nat \<Rightarrow> bool" where
  "HasConnectionHandle w d \<longleftrightarrow> SqlHandle_IsAllocated w (db_pHDbc (dbs w d))"

definition Open_dsn :: "ext \<Rightarrow> nat \<Rightarrow> nat \<Rightarrow> string \<Rightarrow> string \<Rightarrow> string \<Rightarrow> ('z, unit) dprog" where
  "Open_dsn X n d dsn uid authStr =
     thenM (exASSERT ''!IsOpen()'' (\<lambda>w. \<not> IsOpen w d))
     (thenM (exASSERT ''!dsn.empty()'' (\<lambda>_. dsn \<noteq> []))
     (thenM (exASSERT ''HasConnectionHandle()'' (\<lambda>w. HasConnectionHandle w d))
     (thenM (mod_db d (\<lambda>b. b\<lparr>db_dsn := dsn, db_uid := uid, db_authStr := authStr,
               db_inConnectionStr := [], db_outConnectionStr := []\<rparr>))
     (with_hdbc d (\<lambda>h.
      bindM (odbc X (SQLConnect h dsn uid authStr)) (\<lambda>r.
      thenM (THROW_IFN_SUCCEEDED X ''SQLConnect'' (rc r) SQL_HANDLE_DBC h)
        (Open_connected X n d)))))))"

section \<open>Closing\<close>

definition Close :: "ext \<Rightarrow> nat \<Rightarrow> ('z, unit) dprog" where
  "Close X d = whenM (\<lambda>w. IsOpen w d) (seqM
     [whenM (\<lambda>w. db_commitMode (dbs w d) = MANUAL) (RollbackTrans X d),
      bindM (getsM (\<lambda>w. db_pHStmtExecSql (dbs w d))) (SqlHandle_Free X STMT),
      mod_props d SqlInfoProperties_Reset,
      reset_catalog X d,
      with_hdbc d (\<lambda>h. bindM (odbc X (SQLDisconnect h)) (\<lambda>r.
        THROW_IFN_SUCCEEDED X ''SQLDisconnect'' (rc r) SQL_HANDLE_DBC h)),
      mod_db d (\<lambda>b. b\<lparr>db_isOpen := False\<rparr>)])"

section \<open>Statements\<close>

definition ExecSql :: "ext \<Rightarrow> nat \<Rightarrow> string \<Rightarrow> ExecFailMode \<Rightarrow> ('z, unit) dprog" where
  "ExecSql X d sqlStmt mode =
     thenM (exASSERT ''IsOpen()'' (\<lambda>w. IsOpen w d))
     (bindM (getsM (\<lambda>w. db_pHStmtExecSql (dbs w d))) (\<lambda>s.
      thenM (CloseStmtHandle X (Some s) IgnoreNotOpen)
      (bindM (getsM (\<lambda>w. SqlHandle_GetHandle w s)) (\<lambda>h.
       bindM (odbc X (SQLExecDirect h sqlStmt)) (\<lambda>r.
         if \<not> SQL_SUCCEEDED (rc r) \<and> \<not> (mode = NotFailOnNoData \<and> rc r = SQL_NO_DATA)
         then throw_handle X ''SQLExecDirect'' (rc r) SQL_HANDLE_STMT h else skipM)))))"

definition IsSqlTypeSupported :: "nat \<Rightarrow> int \<Rightarrow> ('z, bool) dprog" where
  "IsSqlTypeSupported d sqlType =
     thenM (exASSERT ''IsOpen()'' (\<lambda>w. IsOpen w d))
       (getsM (\<lambda>w. list_ex (\<lambda>t. st_sqlDataType t = sqlType \<or> st_sqlType t = sqlType) (db_datatypes (dbs w d))))"

definition SetSql2BufferTypeMap :: "nat \<Rightarrow> Sql2BufferTypeMap option \<Rightarrow> ('z, unit) dprog" where
  "SetSql2BufferTypeMap d m = mod_db d (\<lambda>b. b\<lparr>db_pSql2BufferTypeMap := m\<rparr>)"

definition GetSql2BufferTypeMap :: "nat \<Rightarrow> ('z, Sql2BufferTypeMap) dprog" where
  "GetSql2BufferTypeMap d = bindM (getsM (\<lambda>w. db_pSql2BufferTypeMap (dbs w d))) (\<lambda>m.
     case m of None \<Rightarrow> throwM (AssertionException ''m_pSql2BufferTypeMap'') | Some t \<Rightarrow> returnM t)"

definition GetTypeInfos :: "nat \<Rightarrow> ('z, SqlTypeInfo list) dprog" where
  "GetTypeInfos d = thenM (exASSERT ''IsOpen()'' (\<lambda>w. IsOpen w d)) (getsM (\<lambda>w. db_datatypes (dbs w d)))"

text \<open>The address of the catalog; the pointer returned is a temporary wherever the library calls this.\<close>

definition GetDbCatalog :: "nat \<Rightarrow> ('z, nat option) dprog" where
  "GetDbCatalog d = thenM (exASSERT ''IsOpen()'' (\<lambda>w. IsOpen w d)) (getsM (\<lambda>w. db_pDbCatalog (dbs w d)))"

section \<open>Construction and destruction\<close>

definition Database_new :: "('z, nat) dprog" where
  "Database_new =
     bindM make_handle (\<lambda>c. bindM make_handle (\<lambda>s. bindM new_address (\<lambda>d. thenM (seqM
       [mod_db d (\<lambda>_. \<lparr>db_pEnv = None, db_pSql2BufferTypeMap = None, db_pDbCatalog = None,
          db_datatypes = [], db_isOpen = False, db_openedWithConnectionString = False, db_dsn = [],
          db_uid = [], db_authStr = [], db_inConnectionStr = [], db_outConnectionStr = [],
          db_pHDbc = c, db_pHStmtExecSql = s, db_commitMode = COMMIT_UNKNOWN\<rparr>),
        mod_props d (\<lambda>_. SqlInfoProperties_new)])
       (returnM d))))"

definition Database_members :: "ext \<Rightarrow> nat \<Rightarrow> ('z, unit) dprog" where
  "Database_members X d = seqM
     [bindM (getsM (\<lambda>w. db_pHStmtExecSql (dbs w d))) (SqlHandle_release X STMT),
      bindM (getsM (\<lambda>w. db_pHDbc (dbs w d))) (SqlHandle_release X 1),
      reset_catalog X d]"

definition Database_Init :: "ext \<Rightarrow> nat \<Rightarrow> nat option \<Rightarrow> ('z, unit) dprog" where
  "Database_Init X d pEnv =
     (case pEnv of
        None \<Rightarrow> throwM (AssertionException ''pEnv != NULL'')
      | Some e \<Rightarrow> seqM
          [exASSERT ''pEnv->IsEnvHandleAllocated()'' (\<lambda>w. IsEnvHandleAllocated w e),
           exASSERT ''m_pEnv == NULL'' (\<lambda>w. db_pEnv (dbs w d) = None),
           bindM (getsM (\<lambda>w. (db_pHDbc (dbs w d), en_pHEnv (envs w e)))) (\<lambda>(c, h).
             SqlHandle_AllocateWithParent X 1 c (Some h)),
           mod_db d (\<lambda>b. b\<lparr>db_pEnv := Some e\<rparr>)])"

definition Database_of :: "ext \<Rightarrow> nat option \<Rightarrow> ('z, nat) dprog" where
  "Database_of X pEnv =
     bindM Database_new (\<lambda>d.
     thenM (catchM (Database_Init X d pEnv) (\<lambda>ex. thenM (Database_members X d) (throwM ex))) (returnM d))"

text \<open>A copy is a closed database on the same environment, or on none.\<close>

definition Database_copy :: "ext \<Rightarrow> nat \<Rightarrow> ('z, nat) dprog" where
  "Database_copy X other =
     bindM (getsM (\<lambda>w. db_pEnv (dbs w other))) (\<lambda>e.
     bindM Database_new (\<lambda>d.
     thenM (if e = None then skipM
            else catchM (Database_Init X d e) (\<lambda>ex. thenM (Database_members X d) (throwM ex)))
       (returnM d)))"

definition Database_destroy :: "ext \<Rightarrow> nat \<Rightarrow> ('z, unit) dprog" where
  "Database_destroy X d = thenM (tryM (whenM (\<lambda>w. IsOpen w d) (Close X d))) (Database_members X d)"

section \<open>Frames\<close>

text \<open>What reads only the databases (and what lies above them) survives everything below.\<close>

definition beyond :: "('z eworld_scheme \<Rightarrow> 'b) \<Rightarrow> bool" where
  "beyond f \<longleftrightarrow> above f \<and> (\<forall>w p. f (w\<lparr>props := p\<rparr>) = f w) \<and> (\<forall>w c. f (w\<lparr>cats := c\<rparr>) = f w) \<and>
     (\<forall>w e. f (w\<lparr>envs := e\<rparr>) = f w)"

lemma beyond_above: "beyond f \<Longrightarrow> above f"
  and beyond_calls: "beyond f \<Longrightarrow> f (w\<lparr>calls := cs\<rparr>) = f w"
  by (simp_all add: beyond_def above_def)

lemma beyond_prims [pres]:
  assumes "beyond f"
  shows "preserves f (mod_props d g)" and "preserves f (mod_cat a k)" and "preserves f (mod_env e j)"
    and "preserves f (of_props d r)" and "preserves f (on_props d m)"
    and "preserves f make_handle" and "preserves f (release_option X l v)" and "preserves f (share_option v)"
proof -
  have fp: "f (w\<lparr>props := p\<rparr>) = f w" "f (w\<lparr>cats := c\<rparr>) = f w" "f (w\<lparr>envs := e\<rparr>) = f w" for w p c e
    using assms by (simp_all add: beyond_def)
  show "preserves f (mod_props d g)" "preserves f (mod_cat a k)" "preserves f (mod_env e j)"
    "preserves f (of_props d r)" "preserves f (on_props d m)"
    by (auto simp: preserves_def mod_props_def mod_cat_def mod_env_def of_props_def on_props_def fp
        split: prod.split)
  show "preserves f make_handle" "preserves f (release_option X l v)" "preserves f (share_option v)"
    unfolding make_handle_def release_option_def share_option_def
    by (intro pres beyond_above[OF assms])+
qed

lemma beyond_props_ops [pres]:
  assumes "beyond f"
  shows "preserves f (EnsurePropertyRead X d h i u)" and "preserves f (ReadAllProperties X d h)"
    and "preserves f (DetectDbms X d h)"
proof -
  show ensure: "preserves f (EnsurePropertyRead X d h i u)" for i u
    unfolding EnsurePropertyRead_def by (intro pres assms beyond_above[OF assms])
  show "preserves f (ReadAllProperties X d h)"
    unfolding ReadAllProperties_def by (intro pres assms beyond_above[OF assms])
  show "preserves f (DetectDbms X d h)"
    unfolding DetectDbms_def by (intro pres assms beyond_above[OF assms] ensure)
qed

lemma beyond_Init [pres]:
  assumes "beyond f"
  shows "preserves f (SqlInfoProperties_Init X d h v)" and "preserves f (SqlInfoProperties_Init_detect X d h)"
proof -
  show i: "preserves f (SqlInfoProperties_Init X d h v)" for v
    unfolding SqlInfoProperties_Init_def by (intro pres assms beyond_above[OF assms])
  show "preserves f (SqlInfoProperties_Init_detect X d h)"
    unfolding SqlInfoProperties_Init_detect_def by (intro pres assms beyond_above[OF assms] i)
qed

lemma beyond_catalog [pres]:
  assumes "beyond f"
  shows "preserves f (GetMetadataAttribute X a)" and "preserves f (SetMetadataAttribute X a m)"
    and "preserves f (DatabaseCatalog_Init X a h ps)" and "preserves f (catalog_members X a)"
    and "preserves f (DatabaseCatalog_make_shared X h ps)" and "preserves f (DatabaseCatalog_release X a)"
    and "preserves f (ReadSqlTypeInfo X n a)"
proof -
  note a = assms beyond_above[OF assms] beyond_calls[OF assms]
  show g: "preserves f (GetMetadataAttribute X a)" "preserves f (SetMetadataAttribute X a m)" for a
    unfolding GetMetadataAttribute_def SetMetadataAttribute_def stmt_allocated_def with_stmt_def Let_def
    by (intro pres a)+
  show i: "preserves f (DatabaseCatalog_Init X a h ps)" for a
    unfolding DatabaseCatalog_Init_def with_stmt_def by (intro pres a g)
  show m: "preserves f (catalog_members X a)" for a
    unfolding catalog_members_def release_Hdbc_def with_stmt_def by (intro pres a)
  show "preserves f (DatabaseCatalog_make_shared X h ps)"
    unfolding DatabaseCatalog_make_shared_def DatabaseCatalog_new_def by (intro pres a i m)
  show "preserves f (DatabaseCatalog_release X a)"
    unfolding DatabaseCatalog_release_def DatabaseCatalog_destroy_def DatabaseCatalog_Reset_def
      release_Hdbc_def with_stmt_def
    by (intro pres a m)
  show "preserves f (ReadSqlTypeInfo X n a)"
    unfolding ReadSqlTypeInfo_def catalog_query_def with_stmt_def stmt_allocated_def
    by (intro pres a preserves_fetch_rows preserves_rows)
qed

lemma beyond_env [pres]: "beyond f \<Longrightarrow> preserves f (ReadOdbcVersion X e)" "beyond f \<Longrightarrow> preserves f (GetOdbcVersion X e)"
proof -
  assume b: "beyond f"
  show r: "preserves f (ReadOdbcVersion X e)"
    unfolding ReadOdbcVersion_def by (intro pres b beyond_above[OF b])
  show "preserves f (GetOdbcVersion X e)"
    unfolding GetOdbcVersion_def by (intro pres b beyond_above[OF b] r)
qed

text \<open>The members of a database that opening and closing leave alone, bar the flag at the very end.\<close>

definition fixed :: "nat \<Rightarrow> 'z dworld_scheme \<Rightarrow> bool \<times> nat \<times> nat" where
  "fixed d w = (db_isOpen (dbs w d), db_pHDbc (dbs w d), db_pHStmtExecSql (dbs w d))"

lemma beyond_fixed: "beyond (fixed d)"
  by (simp add: beyond_def above_def fixed_def)

lemma beyond_dbs: "beyond (\<lambda>w. g (dbs w))"
  by (simp add: beyond_def above_def)

lemma fixed_mod_db [pres]:
  "(\<And>b. db_isOpen (k b) = db_isOpen b \<and> db_pHDbc (k b) = db_pHDbc b \<and>
        db_pHStmtExecSql (k b) = db_pHStmtExecSql b) \<Longrightarrow> preserves (fixed d) (mod_db e k)"
  by (auto simp: preserves_def mod_db_def fixed_def)

lemmas fixed_base = beyond_fixed beyond_above[OF beyond_fixed] beyond_calls[OF beyond_fixed]

lemma fixed_attr_ops [pres]:
  "preserves (fixed d) (RollbackTrans X e)" "preserves (fixed d) (ReadCommitMode X e)"
  "preserves (fixed d) (SetConnectionAttributes X e)" "preserves (fixed d) (reset_catalog X e)"
  unfolding RollbackTrans_def ReadCommitMode_def SetConnectionAttributes_def reset_catalog_def
    dbc_allocated_def with_hdbc_def Let_def
  by (intro pres fixed_base; simp)+

lemma fixed_SetCommitMode [pres]: "preserves (fixed d) (SetCommitMode X e m)"
  unfolding SetCommitMode_def dbc_allocated_def with_hdbc_def by (intro pres fixed_base; simp)

lemma fixed_OpenImpl_parts [pres]:
  "preserves (fixed d) (OpenImpl_body X n e)" "preserves (fixed d) (OpenImpl_undo X e)"
  unfolding OpenImpl_body_def OpenImpl_undo_def by (intro pres fixed_base; simp)+

lemma fixed_OpenImpl [pres]: "preserves (fixed d) (OpenImpl X n e)"
  unfolding OpenImpl_def dbc_allocated_def by (intro pres fixed_base)

section \<open>Handles once null stay null while others are released\<close>

definition null_handle :: "nat \<Rightarrow> 'z hworld_scheme \<Rightarrow> bool" where
  "null_handle s w \<longleftrightarrow> m_handle (hnd w s) = 0"

lemma keeps_null_prims [keep]:
  "(\<And>h. m_handle h = 0 \<Longrightarrow> m_handle (g h) = 0) \<Longrightarrow> keeps (null_handle s) (mod_hnd p g)"
  "keeps (null_handle s) (mod_bnd b k)" "keeps (null_handle s) (odbc X c)"
  by (auto simp: keeps_def null_handle_def)

lemma keeps_null_slots [keep]:
  "(\<And>q. keeps (null_handle s) (rel q)) \<Longrightarrow> keeps (null_handle s) (OnResetParams rel p b)"
  "(\<And>q. keeps (null_handle s) (rel q)) \<Longrightarrow> keeps (null_handle s) (OnUnbindColumns rel p b)"
  unfolding OnResetParams_def OnUnbindColumns_def disconnect_reset_def disconnect_unbind_def
  by (intro keep; simp)+

lemma keeps_null_fire [keep]: "(\<And>b. keeps (null_handle s) (t b)) \<Longrightarrow> keeps (null_handle s) (fire X sig t p)"
  unfolding fire_def by (intro keep)

lemma keeps_null_Free_body [keep]:
  "(\<And>q. keeps (null_handle s) (relp q)) \<Longrightarrow> keeps (null_handle s) (Free_body X l relp p)"
  unfolding Free_body_def Let_def by (intro keep; simp)

lemma keeps_null_release [keep]: "keeps (null_handle s) (SqlHandle_release X l p)"
proof (induction l arbitrary: p)
  case 0
  show ?case unfolding SqlHandle_release.simps release_body_def by (intro keep; simp)
next
  case (Suc l)
  show ?case unfolding SqlHandle_release.simps release_body_def by (intro keep Suc; simp)
qed

lemma keeps_null_parent [keep]: "keeps (null_handle s) (parent_release X l p)"
  by (cases l) (simp_all add: keep)

lemma establish_then: "(\<And>w. I (snd (m w))) \<Longrightarrow> keeps I n \<Longrightarrow> I (snd (thenM m n w))"
  using keeps_snd[of I n] by (auto simp: thenM_exec split: prod.split res.split) (metis snd_conv)+

lemma Free_nulls:
  fixes w :: "'z hworld_scheme"
  assumes "rc (driver X (SQLFreeHandle SQL_HANDLE_STMT (m_handle (hnd w s)) # calls w)) \<noteq> SQL_ERROR"
  shows "null_handle s (snd (SqlHandle_Free X STMT s w))"
proof (cases "m_handle (hnd w s) = 0")
  case True
  then show ?thesis by (simp add: SqlHandle_Free_def Free_body_def thenM_exec null_handle_def)
next
  case False
  let ?c = "SQLFreeHandle SQL_HANDLE_STMT (m_handle (hnd w s))"
  let ?w = "w\<lparr>calls := ?c # calls w\<rparr>"
  let ?drop = "bindM (getsM (\<lambda>w. m_pParentHandle (hnd w s))) (\<lambda>parent. thenM
      (mod_hnd s (\<lambda>h. h\<lparr>m_handle := 0, m_pParentHandle := None\<rparr>))
      (thenM (case parent of None \<Rightarrow> skipM | Some p \<Rightarrow> parent_release X STMT p) skipM)) :: ('z, unit) hprog"
  have drop: "null_handle s (snd (?drop v))" for v
  proof -
    let ?v = "v\<lparr>hnd := (hnd v)(s := (hnd v s)\<lparr>m_handle := 0, m_pParentHandle := None\<rparr>)\<rparr>"
    have k: "keeps (null_handle s) (thenM (case m_pParentHandle (hnd v s) of None \<Rightarrow> skipM
        | Some p \<Rightarrow> parent_release X STMT p) skipM :: ('z, unit) hprog)"
      by (intro keep)
    have "null_handle s ?v" by (simp add: null_handle_def)
    from keeps_snd[OF k this] show ?thesis by (simp del: parent_release.simps)
  qed
  have fires: "keeps (null_handle s) (thenM (fire X m_resetParamsSignal (OnResetParams (\<lambda>q. undefM) s) s)
       (thenM (fire X m_unbindColumnsSignal (OnUnbindColumns (\<lambda>q. undefM) s) s) skipM) :: ('z, unit) hprog)"
    by (intro keep)
  show ?thesis
    using False assms
    apply (simp add: SqlHandle_Free_def Free_body_def Let_def del: parent_release.simps)
    apply (intro conjI impI establish_then[where I = "null_handle s", OF drop] fires keep)
    done
qed

text \<open>Undoing a half-finished open leaves no catalog and no statement handle.\<close>

definition cleaned :: "nat \<Rightarrow> nat \<Rightarrow> 'z dworld_scheme \<Rightarrow> bool" where
  "cleaned d s w \<longleftrightarrow> db_pDbCatalog (dbs w d) = None \<and> null_handle s w"

lemma nothrow_handler [quiet]: "(\<And>e. nothrow (h e)) \<Longrightarrow> nothrow (catchM m h)"
  unfolding nothrow_def catchM_def by (auto split: prod.split res.split)

lemma nothrow_reset_catalog [quiet]: "nothrow (reset_catalog X d)"
  unfolding reset_catalog_def DatabaseCatalog_release_def DatabaseCatalog_destroy_def
    catalog_members_def release_Hdbc_def with_stmt_def release_option_def mod_cat_def mod_db_def
  by (intro quiet)

lemma reset_catalog_None:
  fixes w :: "'z dworld_scheme"
  assumes "reset_catalog X d w = (r, w')"
  shows "db_pDbCatalog (dbs w' d) = None"
proof -
  let ?w = "w\<lparr>dbs := (dbs w)(d := (dbs w d)\<lparr>db_pDbCatalog := None\<rparr>)\<rparr>"
  have p: "preserves (\<lambda>w. db_pDbCatalog (dbs w d)) (DatabaseCatalog_release X a :: ('z, unit) dprog)" for a
    using beyond_dbs[of "\<lambda>D. db_pDbCatalog (D d)"] by (intro pres)
  show ?thesis
    using assms preservesD[OF p, of _ ?w]
    by (cases "db_pDbCatalog (dbs w d)") (auto simp: reset_catalog_def thenM_exec)
qed

lemma undo_cleans:
  fixes w :: "'z dworld_scheme"
  assumes drv: "\<And>cs h. rc (driver X (SQLFreeHandle SQL_HANDLE_STMT h # cs)) \<noteq> SQL_ERROR"
    and run: "OpenImpl_undo X d w = (r, w')" and r: "r \<noteq> Undef" "r \<noteq> OutOfFuel"
  shows "cleaned d (db_pHStmtExecSql (dbs w d)) w'"
proof -
  obtain r1 w1 where 1: "reset_catalog X d w = (r1, w1)" by fastforce
  have "r1 \<noteq> Exn e" for e
    using 1 nothrowD[OF nothrow_reset_catalog, of X d w e w1] by auto
  with run 1 r have ok: "r1 = Ok ()"
    by (cases r1) (auto simp: OpenImpl_undo_def thenM_exec)
  let ?w = "snd (mod_props d SqlInfoProperties_Reset w1)" and ?s = "db_pHStmtExecSql (dbs w d)"
  have s: "db_pHStmtExecSql (dbs w1 d) = ?s" "db_pHStmtExecSql (dbs ?w d) = ?s"
    using preservesD[OF fixed_attr_ops(4) 1, of d] by (simp_all add: fixed_def mod_props_def)
  have 2: "db_pDbCatalog (dbs ?w d) = None" using reset_catalog_None[OF 1] by (simp add: mod_props_def)
  have p: "preserves (\<lambda>w. db_pDbCatalog (dbs w d)) (SqlHandle_Free X STMT ?s :: ('z, unit) dprog)"
    by (intro pres beyond_above beyond_dbs[of "\<lambda>D. db_pDbCatalog (D d)"])
  show ?thesis
    using run 1 ok s 2 Free_nulls[of X ?w ?s, OF drv] preservesD[OF p, of ?w r w']
    by (auto simp: OpenImpl_undo_def thenM_exec cleaned_def null_handle_def SqlHandle_IsAllocated_def
        split: if_splits prod.splits res.splits)
qed

section \<open>Opening is all or nothing\<close>

abbreviation has_catalog :: "nat \<Rightarrow> 'z dworld_scheme \<Rightarrow> bool" where
  "has_catalog d w \<equiv> db_pDbCatalog (dbs w d) \<noteq> None"

lemma OpenImpl_fails_clean:
  fixes w :: "'z dworld_scheme"
  assumes drv: "\<And>cs h. rc (driver X (SQLFreeHandle SQL_HANDLE_STMT h # cs)) \<noteq> SQL_ERROR"
    and run: "OpenImpl X n d w = (Exn e, w')" and clean: "cleaned d (db_pHStmtExecSql (dbs w d)) w"
  shows "cleaned d (db_pHStmtExecSql (dbs w d)) w'"
proof (cases "OpenImpl_body X n d w")
  case (Pair r1 w1)
  show ?thesis
  proof (cases r1)
    case (Exn e1)
    obtain r2 w2 where u: "OpenImpl_undo X d w1 = (r2, w2)" by fastforce
    have s: "db_pHStmtExecSql (dbs w1 d) = db_pHStmtExecSql (dbs w d)"
      using preservesD[OF fixed_OpenImpl_parts(1) Pair, of d] by (simp add: fixed_def)
    show ?thesis
      using run Pair Exn u clean undo_cleans[OF drv u] s
      by (cases r2) (auto simp: OpenImpl_def dbc_allocated_def thenM_exec catchM_exec split: if_splits)
  qed (use run Pair clean in \<open>auto simp: OpenImpl_def dbc_allocated_def thenM_exec catchM_exec
      split: if_splits\<close>)
qed

lemma keeps_has_catalog: "preserves (\<lambda>w. db_pDbCatalog (dbs w d)) m \<Longrightarrow> keeps (has_catalog d) m"
  by (auto simp: preserves_def keeps_def)

lemma keeps_has_catalog_ops [keep]:
  "keeps (has_catalog d) (SetConnectionAttributes X d)" "keeps (has_catalog d) (ReadCommitMode X d)"
  "keeps (has_catalog d) (SetCommitMode X d m)" "keeps (has_catalog d) (ReadSqlTypeInfo X n a)"
proof -
  note b = beyond_dbs[of "\<lambda>D. db_pDbCatalog (D d)"]
  note bs = b beyond_above[OF b] beyond_calls[OF b]
  have m: "preserves (\<lambda>w. db_pDbCatalog (dbs w d)) (mod_db d (\<lambda>b. b\<lparr>db_commitMode := c\<rparr>))" for c
    by (simp add: preserves_def)
  show "keeps (has_catalog d) (SetConnectionAttributes X d)" "keeps (has_catalog d) (ReadCommitMode X d)"
    "keeps (has_catalog d) (SetCommitMode X d m)" "keeps (has_catalog d) (ReadSqlTypeInfo X n a)"
    unfolding SetConnectionAttributes_def ReadCommitMode_def SetCommitMode_def RollbackTrans_def
      dbc_allocated_def with_hdbc_def Let_def
    by (intro keeps_has_catalog pres bs m; simp)+
qed

text \<open>\<open>ends Q m\<close>: whenever \<open>m\<close> returns, \<open>Q\<close> holds.\<close>

definition ends :: "('s \<Rightarrow> bool) \<Rightarrow> ('e, 's, 'a) prog \<Rightarrow> bool" where
  "ends Q m \<longleftrightarrow> (\<forall>s x s'. m s = (Ok x, s') \<longrightarrow> Q s')"

lemma ends_bindM: "(\<And>x. ends Q (f x)) \<Longrightarrow> ends Q (bindM m f)"
  unfolding ends_def by (blast elim: bindM_OkE)

lemma ends_thenM: "ends Q n \<Longrightarrow> ends Q (thenM m n)"
  by (simp add: thenM_def ends_bindM)

lemma ends_keeps: "ends Q m \<Longrightarrow> keeps Q n \<Longrightarrow> ends Q (thenM m n)"
  unfolding ends_def by (blast elim: thenM_OkE dest: keepsD)

lemma ends_undef: "ends Q undefM"
  by (simp add: ends_def)

lemma ends_option: "ends Q m \<Longrightarrow> (\<And>x. ends Q (g x)) \<Longrightarrow> ends Q (case v of None \<Rightarrow> m | Some x \<Rightarrow> g x)"
  by (cases v) simp_all

lemma OpenImpl_Ok_catalog:
  fixes w :: "'z dworld_scheme"
  assumes "OpenImpl X n d w = (Ok (), w')"
  shows "has_catalog d w'"
proof -
  have m: "keeps (has_catalog d) (mod_db d (\<lambda>b. b\<lparr>db_datatypes := types\<rparr>))" for types
    by (simp add: keeps_def)
  have o: "keeps (has_catalog d) (of_props d GetSupportsTransactions :: ('z, bool) dprog)"
    by (simp add: keeps_def of_props_def)
  have set: "ends (has_catalog d) (mod_db d (\<lambda>b. b\<lparr>db_pDbCatalog := Some a\<rparr>))" for a
    by (simp add: ends_def)
  have "ends (has_catalog d) (OpenImpl_body X n d :: ('z, unit) dprog)"
    unfolding OpenImpl_body_def seqM.simps case_prod_beta
    by (rule ends_bindM, rule ends_thenM, rule ends_thenM, rule ends_bindM, rule ends_bindM,
        rule ends_option, rule ends_undef, rule ends_bindM, rule ends_thenM, rule ends_keeps,
        (rule ends_bindM ends_thenM set)+, intro keep m o)
  moreover have "OpenImpl_body X n d w = (Ok (), w')"
    using assms
    by (auto simp: OpenImpl_def dbc_allocated_def thenM_exec catchM_exec split: if_splits prod.splits res.splits)
  ultimately show ?thesis by (auto simp: ends_def)
qed

lemma Open_connected_outcome:
  fixes w :: "'z dworld_scheme"
  assumes drv: "\<And>cs h. rc (driver X (SQLFreeHandle SQL_HANDLE_STMT h # cs)) \<noteq> SQL_ERROR"
    and run: "Open_connected X n d w = (r, w')"
    and closed: "\<not> IsOpen w d" and clean: "cleaned d (db_pHStmtExecSql (dbs w d)) w"
  shows "r = Ok () \<Longrightarrow> IsOpen w' d \<and> has_catalog d w'"
    and "r = Exn e \<Longrightarrow> \<not> IsOpen w' d \<and> cleaned d (db_pHStmtExecSql (dbs w' d)) w' \<and>
        (\<exists>h. hd (calls w') = SQLDisconnect h)"
proof -
  obtain r1 w1 where o: "OpenImpl X n d w = (r1, w1)" by fastforce
  have f: "fixed d w1 = fixed d w" using preservesD[OF fixed_OpenImpl o] .
  show "r = Ok () \<Longrightarrow> IsOpen w' d \<and> has_catalog d w'"
    using run o OpenImpl_Ok_catalog[of X n d w w1]
    by (cases r1) (auto simp: Open_connected_def with_hdbc_def thenM_exec catchM_exec bindM_exec IsOpen_def)
  show "r = Exn e \<Longrightarrow> \<not> IsOpen w' d \<and> cleaned d (db_pHStmtExecSql (dbs w' d)) w' \<and>
        (\<exists>h. hd (calls w') = SQLDisconnect h)"
    using run o f closed OpenImpl_fails_clean[OF drv _ clean, of n _ w1]
    by (cases r1) (auto simp: Open_connected_def with_hdbc_def thenM_exec catchM_exec bindM_exec IsOpen_def
        fixed_def cleaned_def null_handle_def)
qed

text \<open>A call of \<open>Open\<close> on a closed database comes to \<open>Open_connected\<close>, or it throws and has done no more than connect.\<close>

abbreviation dsn_set :: "nat \<Rightarrow> string \<Rightarrow> string \<Rightarrow> string \<Rightarrow> odbc_call \<Rightarrow> 'z dworld_scheme \<Rightarrow> 'z dworld_scheme" where
  "dsn_set d dsn uid authStr c w \<equiv> w\<lparr>dbs := (dbs w)(d := (dbs w d)\<lparr>db_dsn := dsn, db_uid := uid, db_authStr := authStr,
      db_inConnectionStr := [], db_outConnectionStr := []\<rparr>), calls := c # calls w\<rparr>"

lemma Open_dsn_run:
  fixes w :: "'z dworld_scheme"
  assumes run: "Open_dsn X n d dsn uid authStr w = (r, w')" and closed: "\<not> IsOpen w d"
  obtains e where "r = Exn e" and "w' = w"
  | e h where "r = Exn e" and "w' = dsn_set d dsn uid authStr (SQLConnect h dsn uid authStr) w"
      and "\<not> SQL_SUCCEEDED (rc (driver X (calls w')))"
  | h where "Open_connected X n d (dsn_set d dsn uid authStr (SQLConnect h dsn uid authStr) w) = (r, w')"
proof -
  let ?c = "SQLConnect (SqlHandle_GetHandle w (db_pHDbc (dbs w d))) dsn uid authStr"
  consider "dsn \<noteq> []" "HasConnectionHandle w d" "SQL_SUCCEEDED (rc (driver X (?c # calls w)))"
    | "dsn \<noteq> []" "HasConnectionHandle w d" "\<not> SQL_SUCCEEDED (rc (driver X (?c # calls w)))"
    | "\<not> (dsn \<noteq> [] \<and> HasConnectionHandle w d)" by blast
  then show ?thesis
  proof cases
    case 1
    with run closed have "Open_connected X n d (dsn_set d dsn uid authStr ?c w) = (r, w')"
      by (simp add: Open_dsn_def with_hdbc_def thenM_exec bindM_exec IsOpen_def HasConnectionHandle_def
          SqlHandle_IsAllocated_def SqlHandle_GetHandle_def)
    then show ?thesis by (rule that(3))
  next
    case 2
    with run closed show ?thesis
      by (auto intro!: that(2) simp: Open_dsn_def with_hdbc_def thenM_exec bindM_exec IsOpen_def HasConnectionHandle_def
          SqlHandle_IsAllocated_def SqlHandle_GetHandle_def)
  next
    case 3
    with run closed show ?thesis
      by (auto intro!: that(1) simp: Open_dsn_def thenM_exec IsOpen_def HasConnectionHandle_def split: if_splits)
  qed
qed

text \<open>
  C3. \<open>Open\<close> is all or nothing, provided that freeing a statement handle does not fail. When it returns,
  the database is open and has a catalog. When it throws, the database is not open, has no catalog and
  no statement handle, and the connection does not stand: either the driver was not asked, or
  \<open>SQLConnect\<close> was the only call and failed, or the last call is \<open>SQLDisconnect\<close>.
\<close>

theorem Open_dsn_atomic:
  fixes w :: "'z dworld_scheme"
  assumes drv: "\<And>cs h. rc (driver X (SQLFreeHandle SQL_HANDLE_STMT h # cs)) \<noteq> SQL_ERROR"
    and run: "Open_dsn X n d dsn uid authStr w = (r, w')"
    and closed: "\<not> IsOpen w d" "cleaned d (db_pHStmtExecSql (dbs w d)) w"
  shows "case r of
      Ok _ \<Rightarrow> IsOpen w' d \<and> db_pDbCatalog (dbs w' d) \<noteq> None
    | Exn e \<Rightarrow> \<not> IsOpen w' d \<and> cleaned d (db_pHStmtExecSql (dbs w' d)) w' \<and>
        (calls w' = calls w \<or>
         (\<exists>h. calls w' = SQLConnect h dsn uid authStr # calls w \<and>
              \<not> SQL_SUCCEEDED (rc (driver X (calls w')))) \<or>
         (\<exists>h. hd (calls w') = SQLDisconnect h))
    | _ \<Rightarrow> True"
  using run closed(1)
proof (rule Open_dsn_run)
  fix h
  let ?w = "dsn_set d dsn uid authStr (SQLConnect h dsn uid authStr) w"
  assume o: "Open_connected X n d ?w = (r, w')"
  have "\<not> IsOpen ?w d" "cleaned d (db_pHStmtExecSql (dbs ?w d)) ?w"
    using closed by (simp_all add: IsOpen_def cleaned_def null_handle_def)
  from Open_connected_outcome[OF drv o this] show ?thesis by (cases r) auto
qed (use closed in \<open>auto simp: IsOpen_def cleaned_def null_handle_def\<close>)

section \<open>Closing\<close>

lemma Free_Ok_nulls:
  fixes w :: "'z hworld_scheme"
  assumes "SqlHandle_Free X STMT s w = (Ok (), w')"
  shows "null_handle s w'"
proof -
  have "rc (driver X (SQLFreeHandle SQL_HANDLE_STMT (m_handle (hnd w s)) # calls w)) \<noteq> SQL_ERROR"
    using assms by (auto simp: SqlHandle_Free_def Free_body_def Let_def thenM_exec split: if_splits)
  from Free_nulls[OF this] assms show ?thesis by simp
qed

lemma keeps_null_dbs [keep]:
  "keeps (null_handle s) (mod_db d f)" "keeps (null_handle s) (mod_props p g)" "keeps (null_handle s) (mod_cat a k)"
  by (simp_all add: keeps_def null_handle_def mod_cat_def)

lemma keeps_null_reset_catalog [keep]: "keeps (null_handle s) (reset_catalog X d)"
  unfolding reset_catalog_def DatabaseCatalog_release_def DatabaseCatalog_destroy_def
    DatabaseCatalog_Reset_def catalog_members_def release_Hdbc_def with_stmt_def release_option_def
    SqlHandle_Free_def
  by (intro keep)

abbreviation Close_disconnect :: "ext \<Rightarrow> nat \<Rightarrow> ('z, unit) dprog" where
  "Close_disconnect X d \<equiv> with_hdbc d (\<lambda>h. bindM (odbc X (SQLDisconnect h)) (\<lambda>r.
        THROW_IFN_SUCCEEDED X ''SQLDisconnect'' (rc r) SQL_HANDLE_DBC h))"

abbreviation Close_steps :: "ext \<Rightarrow> nat \<Rightarrow> ('z, unit) dprog" where
  "Close_steps X d \<equiv> seqM
     [whenM (\<lambda>w. db_commitMode (dbs w d) = MANUAL) (RollbackTrans X d),
      bindM (getsM (\<lambda>w. db_pHStmtExecSql (dbs w d))) (SqlHandle_Free X STMT),
      mod_props d SqlInfoProperties_Reset, reset_catalog X d, Close_disconnect X d]"

lemma thenM_assoc: "thenM (thenM a b) c = thenM a (thenM b c)"
  by (rule ext) (simp add: thenM_exec split: prod.split res.split)

lemma thenM_skip: "thenM skipM c = c"
  by (rule ext) (simp add: thenM_exec)

lemma thenM_end: "thenM m skipM = m"
  by (rule ext) (simp add: thenM_exec split: prod.split res.split)

lemma Close_split:
  "IsOpen w d \<Longrightarrow> Close X d w = thenM (Close_steps X d) (mod_db d (\<lambda>b. b\<lparr>db_isOpen := False\<rparr>)) w"
  by (simp add: Close_def thenM_assoc thenM_skip thenM_end)

lemma fixed_Close_steps: "preserves (fixed d) (Close_steps X d)"
  unfolding with_hdbc_def by (intro pres fixed_base; simp)

lemma Close_steps_Ok:
  fixes w :: "'z dworld_scheme"
  assumes "Close_steps X d w = (Ok (), w')"
  shows "cleaned d (db_pHStmtExecSql (dbs w d)) w'" and "\<exists>h. hd (calls w') = SQLDisconnect h"
proof -
  let ?s = "db_pHStmtExecSql (dbs w d)"
  from assms obtain w1 w2 w3 w4 w5 where
      1: "whenM (\<lambda>w. db_commitMode (dbs w d) = MANUAL) (RollbackTrans X d) w = (Ok (), w1)"
    and 2: "bindM (getsM (\<lambda>w. db_pHStmtExecSql (dbs w d))) (SqlHandle_Free X STMT) w1 = (Ok (), w2)"
    and 3: "mod_props d SqlInfoProperties_Reset w2 = (Ok (), w3)"
    and 4: "reset_catalog X d w3 = (Ok (), w4)"
    and 5: "Close_disconnect X d w4 = (Ok (), w5)" and w': "w' = w5"
    by (elim seqM_ConsE) simp
  have p: "preserves (fixed d) (whenM (\<lambda>w. db_commitMode (dbs w d) = MANUAL) (RollbackTrans X d))"
    by (intro pres)
  have s: "db_pHStmtExecSql (dbs w1 d) = ?s" using preservesD[OF p 1] by (simp add: fixed_def)
  have "SqlHandle_Free X STMT ?s w1 = (Ok (), w2)" using 2 s by simp
  from Free_Ok_nulls[OF this] have "null_handle ?s w3"
    by (rule keepsD[OF keeps_null_dbs(2) _ 3])
  from keepsD[OF keeps_null_reset_catalog this 4] have n: "null_handle ?s w4" .
  show "cleaned d ?s w'" "\<exists>h. hd (calls w') = SQLDisconnect h"
    using 5 n reset_catalog_None[OF 4] w'
    by (auto simp: with_hdbc_def thenM_exec bindM_exec cleaned_def null_handle_def split: if_splits)
qed

lemma Close_stuck:
  fixes w :: "'z dworld_scheme"
  assumes "IsOpen w d" and "null_handle (db_pHStmtExecSql (dbs w d)) w"
  shows "\<exists>e. fst (Close X d w) = Exn e"
  using assms
  by (simp add: Close_split RollbackTrans_def dbc_allocated_def with_hdbc_def thenM_exec bindM_exec
      SqlHandle_Free_def Free_body_def null_handle_def)

text \<open>
  C23. \<open>Close\<close> of an open database: when it returns, the database is closed, its catalog and its statement
  handle are gone and \<open>SQLDisconnect\<close> was the last call, so that it can be opened again. When it throws, the
  database still says that it is open; if by then the statement handle had been freed, which is the case
  when \<open>SQLDisconnect\<close> itself failed, every later \<open>Close\<close> throws too.
\<close>

theorem Close_outcome:
  fixes w :: "'z dworld_scheme"
  assumes "IsOpen w d" and "Close X d w = (r, w')"
  shows "case r of
      Ok _ \<Rightarrow> \<not> IsOpen w' d \<and> cleaned d (db_pHStmtExecSql (dbs w' d)) w' \<and> (\<exists>h. hd (calls w') = SQLDisconnect h)
    | Exn e \<Rightarrow> IsOpen w' d \<and>
        (null_handle (db_pHStmtExecSql (dbs w' d)) w' \<longrightarrow> (\<exists>e'. fst (Close X d w') = Exn e'))
    | _ \<Rightarrow> True"
proof -
  obtain r1 w1 where b: "Close_steps X d w = (r1, w1)" by fastforce
  have f: "fixed d w1 = fixed d w" using preservesD[OF fixed_Close_steps b] .
  show ?thesis
  proof (cases r1)
    case (Ok u)
    with b have "Close_steps X d w = (Ok (), w1)" by simp
    from Close_steps_Ok[OF this] assms b Ok f show ?thesis
      by (auto simp: Close_split thenM_exec IsOpen_def cleaned_def null_handle_def fixed_def)
  next
    case (Exn e)
    with assms b f show ?thesis
      using Close_stuck[of w' d X]
      by (auto simp: Close_split thenM_exec IsOpen_def fixed_def)
  qed (use assms b in \<open>auto simp: Close_split thenM_exec\<close>)
qed

text \<open>
  A database at address 6 with an allocated connection (object 21) and the handle object 22 for its
  statement, and two drivers: one that cannot allocate statements, one that cannot disconnect.
\<close>

definition small_db :: "bool \<Rightarrow> dworld" where
  "small_db open =
     \<lparr>calls = [],
      hnd = (hnd small_heap)(21 := SqlHandle_init\<lparr>m_handle := 7, use_count := 1\<rparr>,
        22 := SqlHandle_init\<lparr>m_handle := (if open then 8 else 0), use_count := 1\<rparr>),
      bnd = bnd small_heap, fresh = 30, props = props small_catalog, buf = buf small_catalog,
      cats = cats small_catalog, envs = envs small_env,
      dbs = (\<lambda>_. \<lparr>db_pEnv = None, db_pSql2BufferTypeMap = None, db_pDbCatalog = None,
          db_datatypes = [], db_isOpen = open, db_openedWithConnectionString = False, db_dsn = [],
          db_uid = [], db_authStr = [], db_inConnectionStr = [], db_outConnectionStr = [],
          db_pHDbc = 21, db_pHStmtExecSql = 22, db_commitMode = (if open then MANUAL else COMMIT_UNKNOWN)\<rparr>)\<rparr>"

fun no_stmt_driver :: "odbc_call list \<Rightarrow> reply" where
  "no_stmt_driver (SQLAllocHandle ht h # cs) = reply_rc SQL_ERROR"
| "no_stmt_driver cs = reply_rc SQL_SUCCESS"

fun no_disconnect_driver :: "odbc_call list \<Rightarrow> reply" where
  "no_disconnect_driver (SQLDisconnect h # cs) = reply_rc SQL_ERROR"
| "no_disconnect_driver cs = reply_rc SQL_SUCCESS"

lemma reply_rc_rc [simp]: "rc (reply_rc r) = r" "onum (reply_rc r) = 0"
  by (simp_all add: reply_rc_def)

lemma no_stmt_frees: "rc (no_stmt_driver (SQLFreeHandle SQL_HANDLE_STMT h # cs)) \<noteq> SQL_ERROR"
  by simp

theorem Open_dsn_atomic_witness:
  "\<exists>e w'. Open_dsn (ref_ext no_stmt_driver) 1 6 ''dsn'' ''user'' ''secret'' (small_db False) = (Exn e, w') \<and>
     \<not> IsOpen w' 6 \<and> cleaned 6 22 w' \<and> (\<exists>h. hd (calls w') = SQLDisconnect h)"
proof -
  obtain e w' where r: "Open_dsn (ref_ext no_stmt_driver) 1 6 ''dsn'' ''user'' ''secret'' (small_db False) = (Exn e, w')"
    and l: "length (calls w') = 3" and s: "db_pHStmtExecSql (dbs w' 6) = 22"
    by (simp add: Open_dsn_def Open_connected_def OpenImpl_def OpenImpl_body_def OpenImpl_undo_def reset_catalog_def
        SqlHandle_AllocateWithParent_def with_hdbc_def dbc_allocated_def small_db_def IsOpen_def HasConnectionHandle_def
        SqlHandle_IsAllocated_def SqlHandle_GetHandle_def SqlHandle_init_def thenM_exec bindM_exec catchM_exec
        SQL_SUCCEEDED_def)
  have "\<not> IsOpen (small_db False) 6"
    and "cleaned 6 (db_pHStmtExecSql (dbs (small_db False) 6)) (small_db False)"
    and "length (calls (small_db False)) = 0"
    by (simp_all add: small_db_def IsOpen_def cleaned_def null_handle_def SqlHandle_init_def)
  from Open_dsn_atomic[OF _ r this(1,2)] this(3) l s r no_stmt_frees show ?thesis
    by (auto simp del: no_stmt_driver.simps)
qed

theorem Close_outcome_witness:
  "\<exists>e w'. Close (ref_ext no_disconnect_driver) 6 (small_db True) = (Exn e, w') \<and> IsOpen w' 6 \<and>
     (\<exists>e'. fst (Close (ref_ext no_disconnect_driver) 6 w') = Exn e')"
proof -
  obtain e w' where r: "Close (ref_ext no_disconnect_driver) 6 (small_db True) = (Exn e, w')"
    and n: "null_handle (db_pHStmtExecSql (dbs w' 6)) w'"
    by (simp add: Close_def RollbackTrans_def reset_catalog_def with_hdbc_def dbc_allocated_def small_db_def IsOpen_def
        SqlHandle_IsAllocated_def SqlHandle_GetHandle_def SqlHandle_init_def SqlHandle_Free_def Free_body_def
        fire_def thenM_exec bindM_exec SQL_SUCCEEDED_def null_handle_def ref_ext_def)
  have "IsOpen (small_db True) 6" by (simp add: small_db_def IsOpen_def)
  from Close_outcome[OF this r] n r show ?thesis by auto
qed

end
