(* ===== verification/Statements.thy ===== *)
theory Statements
  imports Databases
begin

text \<open>
  \<open>ExecutableStatement.h/.cpp\<close>: a statement handle with what was prepared and bound on it, the cursor
  functions, and \<open>DatabaseSupportsDescribeParam\<close>.

  \<open>stms w s\<close> is the statement at address \<open>s\<close>. Its pointer to the database does not own it here: the
  application keeps a database at least as long as its statements. A member function that uses
  \<open>m_pHStmt\<close> without asserting it first is \<open>Undef\<close> when the pointer is null.
\<close>

section \<open>The object\<close>

record ExecutableStatement =
  es_pHStmt :: "nat option"
  es_pDb :: "nat option"
  es_isPrepared :: bool
  es_scrollableCursor :: bool
  es_boundColumns :: bool
  es_boundParams :: bool

record sworld = dworld +
  stms :: "nat \<Rightarrow> ExecutableStatement"

type_synonym ('z, 'a) sprog = "(exn, 'z sworld_scheme, 'a) prog"

definition mod_stm :: "nat \<Rightarrow> (ExecutableStatement \<Rightarrow> ExecutableStatement) \<Rightarrow> ('z, unit) sprog" where
  "mod_stm s f = modifyM (\<lambda>w. w\<lparr>stms := (stms w)(s := f (stms w s))\<rparr>)"

lemma mod_stm_exec [exec, simp]: "mod_stm s f w = (Ok (), w\<lparr>stms := (stms w)(s := f (stms w s))\<rparr>)"
  by (simp add: mod_stm_def)

text \<open>\<open>exASSERT(m_pHStmt)\<close>, and the same with \<open>exASSERT(m_pHStmt->IsAllocated())\<close> behind it.\<close>

definition with_ptr :: "nat \<Rightarrow> (nat \<Rightarrow> ('z, 'a) sprog) \<Rightarrow> ('z, 'a) sprog" where
  "with_ptr s f = bindM (getsM (\<lambda>w. es_pHStmt (stms w s))) (\<lambda>p.
     case p of None \<Rightarrow> throwM (AssertionException ''m_pHStmt'') | Some q \<Rightarrow> f q)"

definition with_hstmt :: "nat \<Rightarrow> (nat \<Rightarrow> ('z, 'a) sprog) \<Rightarrow> ('z, 'a) sprog" where
  "with_hstmt s f = with_ptr s (\<lambda>p.
     thenM (exASSERT ''m_pHStmt->IsAllocated()'' (\<lambda>w. SqlHandle_IsAllocated w p)) (f p))"

definition with_db :: "nat \<Rightarrow> (nat \<Rightarrow> ('z, 'a) sprog) \<Rightarrow> ('z, 'a) sprog" where
  "with_db s f = bindM (getsM (\<lambda>w. es_pDb (stms w s))) (\<lambda>d.
     case d of None \<Rightarrow> throwM (AssertionException ''m_pDb'') | Some e \<Rightarrow> f e)"

definition deref_hstmt :: "nat \<Rightarrow> (nat \<Rightarrow> ('z, 'a) sprog) \<Rightarrow> ('z, 'a) sprog" where
  "deref_hstmt s f = bindM (getsM (\<lambda>w. es_pHStmt (stms w s))) (\<lambda>p.
     case p of None \<Rightarrow> undefM | Some q \<Rightarrow> f q)"

text \<open>A call of the driver with the statement handle that must succeed.\<close>

definition call_hstmt :: "ext \<Rightarrow> string \<Rightarrow> nat \<Rightarrow> (nat \<Rightarrow> odbc_call) \<Rightarrow> ('z, reply) sprog" where
  "call_hstmt X fn p call = bindM (getsM (\<lambda>w. SqlHandle_GetHandle w p)) (\<lambda>h.
     bindM (odbc X (call h)) (\<lambda>r.
       thenM (THROW_IFN_SUCCEEDED X fn (rc r) SQL_HANDLE_STMT h) (returnM r)))"

definition IsInitialized :: "'z sworld_scheme \<Rightarrow> nat \<Rightarrow> bool" where
  "IsInitialized w s \<longleftrightarrow> es_pDb (stms w s) \<noteq> None"

definition IsPrepared :: "'z sworld_scheme \<Rightarrow> nat \<Rightarrow> bool" where
  "IsPrepared w s \<longleftrightarrow> es_isPrepared (stms w s)"

definition IsForwardOnlyCursor :: "'z sworld_scheme \<Rightarrow> nat \<Rightarrow> bool" where
  "IsForwardOnlyCursor w s \<longleftrightarrow> es_scrollableCursor (stms w s)"

definition DatabaseSupportsDescribeParam :: "DatabaseProduct \<Rightarrow> int \<Rightarrow> bool" where
  "DatabaseSupportsDescribeParam dbms sqlCType =
     (if dbms = ACCESS \<or> dbms = EXCEL then False
      else if dbms = MY_SQL \<and> sqlCType = SQL_C_NUMERIC then False
      else True)"

section \<open>Initialising and resetting\<close>

definition SetCursorOptions :: "ext \<Rightarrow> nat \<Rightarrow> bool \<Rightarrow> ('z, unit) sprog" where
  "SetCursorOptions X s scrollableCursor = with_hstmt s (\<lambda>p. with_db s (\<lambda>d.
     thenM (exASSERT ''m_pDb->IsOpen()'' (\<lambda>w. IsOpen w d))
     (catchM
       (bindM (call_hstmt X ''SQLGetStmtAttr'' p (\<lambda>h. SQLGetStmtAttr h SQL_ATTR_CURSOR_SCROLLABLE)) (\<lambda>r.
          if \<not> scrollableCursor \<and> onum r \<noteq> SQL_NONSCROLLABLE
          then thenM (call_hstmt X ''SQLSetStmtAttr'' p
                   (\<lambda>h. SQLSetStmtAttr h SQL_ATTR_CURSOR_SCROLLABLE (PVal SQL_NONSCROLLABLE)))
                 (mod_stm s (\<lambda>t. t\<lparr>es_scrollableCursor := False\<rparr>))
          else if scrollableCursor \<and> onum r \<noteq> SQL_SCROLLABLE
          then thenM (call_hstmt X ''SQLSetStmtAttr'' p
                   (\<lambda>h. SQLSetStmtAttr h SQL_ATTR_CURSOR_SCROLLABLE (PVal SQL_SCROLLABLE)))
                 (mod_stm s (\<lambda>t. t\<lparr>es_scrollableCursor := True\<rparr>))
          else skipM))
       (\<lambda>ex. if is_SqlResultException ex \<and> HasErrorInfo ex SQLSTATE_OPTIONAL_FEATURE_NOT_IMPLEMENTED \<and>
               \<not> scrollableCursor
             then mod_stm s (\<lambda>t. t\<lparr>es_scrollableCursor := False\<rparr>)
             else throwM ex))))"

definition release_hstmt :: "ext \<Rightarrow> nat \<Rightarrow> ('z, unit) sprog" where
  "release_hstmt X s = bindM (getsM (\<lambda>w. es_pHStmt (stms w s))) (\<lambda>p.
     thenM (mod_stm s (\<lambda>t. t\<lparr>es_pHStmt := None\<rparr>)) (release_option X STMT p))"

definition Statement_Reset :: "ext \<Rightarrow> nat \<Rightarrow> ('z, unit) sprog" where
  "Statement_Reset X s = seqM
     [whenM (\<lambda>w. es_boundColumns (stms w s))
        (thenM (deref_hstmt s (SqlHandle_UnbindColumns X STMT)) (mod_stm s (\<lambda>t. t\<lparr>es_boundColumns := False\<rparr>))),
      whenM (\<lambda>w. es_boundParams (stms w s))
        (thenM (deref_hstmt s (SqlHandle_ResetParams X STMT)) (mod_stm s (\<lambda>t. t\<lparr>es_boundParams := False\<rparr>))),
      release_hstmt X s,
      mod_stm s (\<lambda>t. t\<lparr>es_pDb := None\<rparr>)]"

text \<open>The assignment to \<open>m_pHStmt\<close> lets go of the handle that was there.\<close>

definition Statement_Init :: "ext \<Rightarrow> nat \<Rightarrow> nat option \<Rightarrow> bool \<Rightarrow> ('z, unit) sprog" where
  "Statement_Init X s pDb scrollableCursor =
     thenM (exASSERT ''m_pDb == NULL'' (\<lambda>w. es_pDb (stms w s) = None))
     (case pDb of
        None \<Rightarrow> throwM (AssertionException ''pDb'')
      | Some d \<Rightarrow> seqM
          [exASSERT ''pDb->IsOpen()'' (\<lambda>w. IsOpen w d),
           mod_stm s (\<lambda>t. t\<lparr>es_pDb := Some d\<rparr>),
           bindM (getsM (\<lambda>w. db_pHDbc (dbs w d))) (\<lambda>c.
           bindM (SqlHandle_make_shared X STMT (Some c)) (\<lambda>p.
             thenM (release_hstmt X s) (mod_stm s (\<lambda>t. t\<lparr>es_pHStmt := Some p\<rparr>)))),
           catchM (SetCursorOptions X s scrollableCursor)
             (\<lambda>ex. thenM (Statement_Reset X s) (throwM ex))])"

definition Statement_new :: "('z, nat) sprog" where
  "Statement_new = bindM new_address (\<lambda>s. thenM
     (mod_stm s (\<lambda>_. \<lparr>es_pHStmt = None, es_pDb = None, es_isPrepared = False, es_scrollableCursor = False,
        es_boundColumns = False, es_boundParams = False\<rparr>)) (returnM s))"

text \<open>If the constructor throws, the members are destroyed.\<close>

definition Statement_of :: "ext \<Rightarrow> nat option \<Rightarrow> bool \<Rightarrow> ('z, nat) sprog" where
  "Statement_of X pDb scrollableCursor = bindM Statement_new (\<lambda>s.
     thenM (catchM (Statement_Init X s pDb scrollableCursor) (\<lambda>ex. thenM (release_hstmt X s) (throwM ex)))
       (returnM s))"

definition Statement_of_db :: "ext \<Rightarrow> nat option \<Rightarrow> ('z, nat) sprog" where
  "Statement_of_db X pDb = bindM Statement_new (\<lambda>s.
     thenM (bindM (getsM (\<lambda>w. es_scrollableCursor (stms w s))) (\<lambda>b.
        catchM (Statement_Init X s pDb b) (\<lambda>ex. thenM (release_hstmt X s) (throwM ex))))
       (returnM s))"

definition Statement_destroy :: "ext \<Rightarrow> nat \<Rightarrow> ('z, unit) sprog" where
  "Statement_destroy X s = seqM
     [whenM (\<lambda>w. es_boundParams (stms w s)) (tryM (deref_hstmt s (SqlHandle_ResetParams X STMT))),
      whenM (\<lambda>w. es_boundColumns (stms w s)) (tryM (deref_hstmt s (SqlHandle_UnbindColumns X STMT))),
      release_hstmt X s]"

section \<open>Executing\<close>

definition SelectClose :: "ext \<Rightarrow> nat \<Rightarrow> ('z, unit) sprog" where
  "SelectClose X s = bindM (getsM (\<lambda>w. es_pHStmt (stms w s))) (\<lambda>p. CloseStmtHandle X p IgnoreNotOpen)"

definition ExecuteDirect :: "ext \<Rightarrow> nat \<Rightarrow> string \<Rightarrow> ('z, unit) sprog" where
  "ExecuteDirect X s sqlstmt = with_hstmt s (\<lambda>p.
     thenM (exASSERT ''!sqlstmt.empty()'' (\<lambda>_. sqlstmt \<noteq> []))
     (thenM (SelectClose X s)
     (thenM (call_hstmt X ''SQLExecDirect'' p (\<lambda>h. SQLExecDirect h sqlstmt)) skipM)))"

definition Prepare :: "ext \<Rightarrow> nat \<Rightarrow> string \<Rightarrow> ('z, unit) sprog" where
  "Prepare X s sqlstmt = with_hstmt s (\<lambda>p.
     thenM (exASSERT ''!sqlstmt.empty()'' (\<lambda>_. sqlstmt \<noteq> []))
     (thenM (call_hstmt X ''SQLPrepare'' p (\<lambda>h. SQLPrepare h sqlstmt))
       (mod_stm s (\<lambda>t. t\<lparr>es_isPrepared := True\<rparr>))))"

definition DescribeParameter :: "ext \<Rightarrow> nat \<Rightarrow> nat \<Rightarrow> ('z, ParameterDescription) sprog" where
  "DescribeParameter X s paramNr = with_hstmt s (\<lambda>p.
     thenM (exASSERT ''paramNr >= 1'' (\<lambda>_. paramNr \<ge> 1)) (ParameterDescription_query X (Some p) paramNr))"

definition DescribeColumn :: "ext \<Rightarrow> nat \<Rightarrow> nat \<Rightarrow> ('z, ColumnDescription) sprog" where
  "DescribeColumn X s columnNr = with_hstmt s (\<lambda>p.
     thenM (exASSERT ''columnNr >= 1'' (\<lambda>_. columnNr \<ge> 1))
     (with_db s (\<lambda>d. bindM (getsM (\<lambda>w. props w d)) (ColumnDescription_query X (Some p) columnNr))))"

definition GetNrOfColumns :: "ext \<Rightarrow> nat \<Rightarrow> ('z, int) sprog" where
  "GetNrOfColumns X s = with_hstmt s (\<lambda>p.
     bindM (call_hstmt X ''SQLNumResultCols'' p SQLNumResultCols) (\<lambda>r. returnM (onum r)))"

definition ExecutePrepared :: "ext \<Rightarrow> nat \<Rightarrow> ('z, unit) sprog" where
  "ExecutePrepared X s =
     thenM (exASSERT ''m_isPrepared'' (\<lambda>w. es_isPrepared (stms w s)))
     (thenM (SelectClose X s)
     (deref_hstmt s (\<lambda>p. thenM (call_hstmt X ''SQLExecute'' p SQLExecute) skipM)))"

section \<open>Binding\<close>

definition Statement_BindColumn :: "ext \<Rightarrow> nat \<Rightarrow> nat \<Rightarrow> nat \<Rightarrow> ('z, unit) sprog" where
  "Statement_BindColumn X s column columnNr =
     bindM (getsM (\<lambda>w. es_pHStmt (stms w s))) (\<lambda>p.
     thenM (BindColumn X column columnNr p) (mod_stm s (\<lambda>t. t\<lparr>es_boundColumns := True\<rparr>)))"

definition Statement_BindParameter :: "ext \<Rightarrow> nat \<Rightarrow> nat \<Rightarrow> nat \<Rightarrow> bool \<Rightarrow> ('z, unit) sprog" where
  "Statement_BindParameter X s column paramNr neverQueryParamDesc = with_db s (\<lambda>d.
     bindM (getsM (\<lambda>w. \<not> neverQueryParamDesc \<and> IsPrepared w s \<and>
        DatabaseSupportsDescribeParam (m_dbms (props w d)) (GetSqlCType (buf w column)))) (\<lambda>query.
     bindM (if query then DescribeParameter X s paramNr
            else getsM (\<lambda>w. CreateParamDescFromProps (buf w column))) (\<lambda>paramDesc.
     bindM (getsM (\<lambda>w. es_pHStmt (stms w s))) (\<lambda>p.
     thenM (BindParameter X column paramNr p paramDesc) (mod_stm s (\<lambda>t. t\<lparr>es_boundParams := True\<rparr>))))))"

definition UnbindColumns :: "ext \<Rightarrow> nat \<Rightarrow> ('z, unit) sprog" where
  "UnbindColumns X s = with_ptr s (SqlHandle_UnbindColumns X STMT)"

definition UnbindParams :: "ext \<Rightarrow> nat \<Rightarrow> ('z, unit) sprog" where
  "UnbindParams X s = with_ptr s (SqlHandle_ResetParams X STMT)"

section \<open>The cursor\<close>

definition fetched_reply :: "ext \<Rightarrow> string \<Rightarrow> nat \<Rightarrow> reply \<Rightarrow> ('z, bool) sprog" where
  "fetched_reply X fn h r =
     (if \<not> (SQL_SUCCEEDED (rc r) \<or> rc r = SQL_NO_DATA) then throw_handle X fn (rc r) SQL_HANDLE_STMT h
      else returnM (SQL_SUCCEEDED (rc r)))"

text \<open>A fetch stores the row into the bound buffers; elements that were not written stay.\<close>

definition store_row :: "ext \<Rightarrow> odbc_call list \<Rightarrow> nat \<Rightarrow> ColumnBuffer \<Rightarrow> ColumnBuffer" where
  "store_row X cs a b = (case delivers X cs a of
     None \<Rightarrow> b
   | Some (xs, cb) \<Rightarrow> b\<lparr>m_buffer := xs @ drop (length xs) (m_buffer b), m_cb := cb\<rparr>)"

definition receive_row :: "ext \<Rightarrow> ('z, unit) bprog" where
  "receive_row X = modifyM (\<lambda>w. w\<lparr>buf := (\<lambda>a. store_row X (calls w) a (buf w a))\<rparr>)"

lemma receive_row_exec [exec, simp]:
  "receive_row X w = (Ok (), w\<lparr>buf := (\<lambda>a. store_row X (calls w) a (buf w a))\<rparr>)"
  by (simp add: receive_row_def)

definition SelectNext :: "ext \<Rightarrow> nat \<Rightarrow> ('z, bool) sprog" where
  "SelectNext X s = with_hstmt s (\<lambda>p.
     bindM (getsM (\<lambda>w. SqlHandle_GetHandle w p)) (\<lambda>h.
     bindM (odbc X (SQLFetch h)) (\<lambda>r. thenM (receive_row X) (fetched_reply X ''SQLFetch'' h r))))"

definition SelectFetchScroll :: "ext \<Rightarrow> nat \<Rightarrow> int \<Rightarrow> int \<Rightarrow> ('z, bool) sprog" where
  "SelectFetchScroll X s fetchOrientation fetchOffset =
     thenM (exASSERT ''m_scrollableCursor'' (\<lambda>w. es_scrollableCursor (stms w s)))
     (with_hstmt s (\<lambda>p.
      bindM (getsM (\<lambda>w. SqlHandle_GetHandle w p)) (\<lambda>h.
      bindM (odbc X (SQLFetchScroll h fetchOrientation fetchOffset)) (\<lambda>r.
        thenM (receive_row X) (fetched_reply X ''SQLFetchScroll'' h r)))))"

definition SelectPrev :: "ext \<Rightarrow> nat \<Rightarrow> ('z, bool) sprog" where
  "SelectPrev X s = SelectFetchScroll X s SQL_FETCH_PREV 0"

definition SelectFirst :: "ext \<Rightarrow> nat \<Rightarrow> ('z, bool) sprog" where
  "SelectFirst X s = SelectFetchScroll X s SQL_FETCH_FIRST 0"

definition SelectLast :: "ext \<Rightarrow> nat \<Rightarrow> ('z, bool) sprog" where
  "SelectLast X s = SelectFetchScroll X s SQL_FETCH_LAST 0"

definition SelectAbsolute :: "ext \<Rightarrow> nat \<Rightarrow> int \<Rightarrow> ('z, bool) sprog" where
  "SelectAbsolute X s position = SelectFetchScroll X s SQL_FETCH_ABSOLUTE position"

definition SelectRelative :: "ext \<Rightarrow> nat \<Rightarrow> int \<Rightarrow> ('z, bool) sprog" where
  "SelectRelative X s offset = SelectFetchScroll X s SQL_FETCH_RELATIVE offset"

section \<open>A cursor as its client sees it\<close>

text \<open>
  The abstract cursor over \<open>n\<close> rows: before the first row (0), on a row, or behind the last one
  (\<open>n + 1\<close>), with the positioning rules of \<open>SQLFetchScroll\<close> for row sets of one row.
\<close>

datatype cursor_op = Next | Prev | First | Last | Absolute int | Relative int

fun move_absolute :: "int \<Rightarrow> int \<Rightarrow> int" where
  "move_absolute n k = (if 0 \<le> k then min k (n + 1) else max 0 (n + 1 + k))"

fun move_relative :: "int \<Rightarrow> int \<Rightarrow> int \<Rightarrow> int" where
  "move_relative n k pos =
     (if pos = 0 then (if 0 < k then move_absolute n k else 0)
      else if pos = n + 1 then (if k < 0 then move_absolute n k else n + 1)
      else max 0 (min (pos + k) (n + 1)))"

fun cursor_move :: "int \<Rightarrow> cursor_op \<Rightarrow> int \<Rightarrow> int" where
  "cursor_move n Next pos = min (pos + 1) (n + 1)"
| "cursor_move n Prev pos = max 0 (pos - 1)"
| "cursor_move n First pos = 1"
| "cursor_move n Last pos = n"
| "cursor_move n (Absolute k) pos = move_absolute n k"
| "cursor_move n (Relative k) pos = move_relative n k pos"

definition on_row :: "int \<Rightarrow> int \<Rightarrow> bool" where
  "on_row n pos \<longleftrightarrow> 1 \<le> pos \<and> pos \<le> n"

fun cursor_run :: "int \<Rightarrow> int \<Rightarrow> cursor_op list \<Rightarrow> bool list" where
  "cursor_run n pos [] = []"
| "cursor_run n pos (op # ops) = on_row n (cursor_move n op pos) # cursor_run n (cursor_move n op pos) ops"

text \<open>What a fetch on the handle \<open>h\<close> is, and where the history of the calls leaves the cursor.\<close>

fun scroll_op :: "int \<Rightarrow> int \<Rightarrow> cursor_op option" where
  "scroll_op orientation k =
     (if orientation = SQL_FETCH_NEXT then Some Next
      else if orientation = SQL_FETCH_PREV then Some Prev
      else if orientation = SQL_FETCH_FIRST then Some First
      else if orientation = SQL_FETCH_LAST then Some Last
      else if orientation = SQL_FETCH_ABSOLUTE then Some (Absolute k)
      else if orientation = SQL_FETCH_RELATIVE then Some (Relative k)
      else None)"

fun fetch_op :: "nat \<Rightarrow> odbc_call \<Rightarrow> cursor_op option" where
  "fetch_op h (SQLFetch h') = (if h' = h then Some Next else None)"
| "fetch_op h (SQLFetchScroll h' orientation k) = (if h' = h then scroll_op orientation k else None)"
| "fetch_op h _ = None"

fun opens_cursor :: "nat \<Rightarrow> odbc_call \<Rightarrow> bool" where
  "opens_cursor h (SQLExecDirect h' s) = (h' = h)"
| "opens_cursor h (SQLExecute h') = (h' = h)"
| "opens_cursor h _ = False"

fun cursor_pos :: "int \<Rightarrow> nat \<Rightarrow> odbc_call list \<Rightarrow> int" where
  "cursor_pos n h [] = 0"
| "cursor_pos n h (c # cs) =
     (if opens_cursor h c then 0
      else case fetch_op h c of None \<Rightarrow> cursor_pos n h cs | Some op \<Rightarrow> cursor_move n op (cursor_pos n h cs))"

text \<open>
  A driver whose statement \<open>h\<close> has a result of \<open>n\<close> rows behaves as documented: a fetch succeeds
  when it ends on a row and returns \<open>SQL_NO_DATA\<close> when it does not.
\<close>

definition cursor_driver :: "ext \<Rightarrow> nat \<Rightarrow> int \<Rightarrow> bool" where
  "cursor_driver X h n \<longleftrightarrow> (\<forall>c cs. fetch_op h c \<noteq> None \<longrightarrow>
     rc (driver X (c # cs)) = (if on_row n (cursor_pos n h (c # cs)) then SQL_SUCCESS else SQL_NO_DATA))"

fun select_op :: "ext \<Rightarrow> nat \<Rightarrow> cursor_op \<Rightarrow> ('z, bool) sprog" where
  "select_op X s Next = SelectNext X s"
| "select_op X s Prev = SelectPrev X s"
| "select_op X s First = SelectFirst X s"
| "select_op X s Last = SelectLast X s"
| "select_op X s (Absolute k) = SelectAbsolute X s k"
| "select_op X s (Relative k) = SelectRelative X s k"

fun select_ops :: "ext \<Rightarrow> nat \<Rightarrow> cursor_op list \<Rightarrow> ('z, bool list) sprog" where
  "select_ops X s [] = returnM []"
| "select_ops X s (op # ops) =
     bindM (select_op X s op) (\<lambda>b. bindM (select_ops X s ops) (\<lambda>bs. returnM (b # bs)))"

fun call_of :: "nat \<Rightarrow> cursor_op \<Rightarrow> odbc_call" where
  "call_of h Next = SQLFetch h"
| "call_of h Prev = SQLFetchScroll h SQL_FETCH_PREV 0"
| "call_of h First = SQLFetchScroll h SQL_FETCH_FIRST 0"
| "call_of h Last = SQLFetchScroll h SQL_FETCH_LAST 0"
| "call_of h (Absolute k) = SQLFetchScroll h SQL_FETCH_ABSOLUTE k"
| "call_of h (Relative k) = SQLFetchScroll h SQL_FETCH_RELATIVE k"

lemma fetch_op_call [simp]: "fetch_op h (call_of h op) = Some op"
  by (cases op) simp_all

lemma opens_call [simp]: "\<not> opens_cursor h (call_of h op)"
  by (cases op) simp_all

text \<open>A statement that can be used: it has an allocated handle \<open>h\<close> and scrolls if that is needed.\<close>

definition usable :: "nat \<Rightarrow> nat \<Rightarrow> bool \<Rightarrow> 'z sworld_scheme \<Rightarrow> bool" where
  "usable s h scroll w \<longleftrightarrow> h \<noteq> 0 \<and> (scroll \<longrightarrow> es_scrollableCursor (stms w s)) \<and>
     (\<exists>p. es_pHStmt (stms w s) = Some p \<and> m_handle (hnd w p) = h)"

text \<open>The state after the fetch \<open>c\<close>.\<close>

definition after_row :: "ext \<Rightarrow> odbc_call \<Rightarrow> 'z sworld_scheme \<Rightarrow> 'z sworld_scheme" where
  "after_row X c w = w\<lparr>calls := c # calls w, buf := (\<lambda>a. store_row X (c # calls w) a (buf w a))\<rparr>"

lemma after_row_calls [simp]: "calls (after_row X c w) = c # calls w"
  and usable_after_row [simp]: "usable s h b (after_row X c w) = usable s h b w"
  by (simp_all add: usable_def after_row_def)

lemma select_op_step:
  assumes "usable s h (op \<noteq> Next) w" and "cursor_driver X h n"
  shows "select_op X s op w =
     (Ok (on_row n (cursor_move n op (cursor_pos n h (calls w)))), after_row X (call_of h op) w)"
proof -
  have "rc (driver X (call_of h op # calls w)) =
      (if on_row n (cursor_move n op (cursor_pos n h (calls w))) then SQL_SUCCESS else SQL_NO_DATA)"
    using assms(2) fetch_op_call[of h op] by (auto simp: cursor_driver_def)
  with assms(1) show ?thesis
    by (cases op) (auto simp: usable_def SelectNext_def SelectPrev_def SelectFirst_def SelectLast_def
        SelectAbsolute_def SelectRelative_def SelectFetchScroll_def with_hstmt_def with_ptr_def
        fetched_reply_def SqlHandle_IsAllocated_def SqlHandle_GetHandle_def SQL_SUCCEEDED_def
        after_row_def thenM_exec bindM_exec)
qed

lemma select_ops_run:
  "usable s h (\<exists>op\<in>set ops. op \<noteq> Next) w \<Longrightarrow> cursor_driver X h n \<Longrightarrow>
   select_ops X s ops w =
     (Ok (cursor_run n (cursor_pos n h (calls w)) ops), fold (\<lambda>op. after_row X (call_of h op)) ops w)"
proof (induction ops arbitrary: w)
  case (Cons op ops)
  let ?w = "after_row X (call_of h op) w"
  have "usable s h (op \<noteq> Next) w" and u: "usable s h (\<exists>op\<in>set ops. op \<noteq> Next) ?w"
    using Cons.prems(1) by (auto simp: usable_def after_row_def)
  from select_op_step[OF this(1) Cons.prems(2)] Cons.IH[OF u Cons.prems(2)] show ?case
    by simp
qed simp

lemma ExecuteDirect_opens:
  "ExecuteDirect X s sql w = (Ok (), w') \<Longrightarrow> usable s h b w \<Longrightarrow>
     usable s h b w' \<and> cursor_pos n h (calls w') = 0"
  by (auto simp: ExecuteDirect_def with_hstmt_def with_ptr_def SelectClose_def CloseStmtHandle_def
      call_hstmt_def usable_def SqlHandle_IsAllocated_def SqlHandle_GetHandle_def thenM_exec bindM_exec
      split: if_splits)

text \<open>
  C1. The cursor functions refine the abstract cursor: on a driver that follows the documentation, after
  \<open>ExecuteDirect\<close> any sequence of \<open>SelectNext\<close>, \<open>SelectPrev\<close>, \<open>SelectFirst\<close>, \<open>SelectLast\<close>, \<open>SelectAbsolute\<close> and
  \<open>SelectRelative\<close> returns without an exception, each answer says whether the abstract cursor stands on a
  row after that step, and the driver's cursor ends where the abstract one does. Without a scrollable
  cursor this holds for \<open>SelectNext\<close> alone.
\<close>

theorem cursor_refines:
  fixes w :: "'z sworld_scheme"
  assumes "cursor_driver X h n" and "usable s h (\<exists>op\<in>set ops. op \<noteq> Next) w"
    and "ExecuteDirect X s sql w = (Ok (), w1)"
  shows "\<exists>w2. select_ops X s ops w1 = (Ok (cursor_run n 0 ops), w2) \<and>
     cursor_pos n h (calls w2) = foldl (\<lambda>pos op. cursor_move n op pos) 0 ops"
proof -
  have u: "usable s h (\<exists>op\<in>set ops. op \<noteq> Next) w1" and pos: "cursor_pos n h (calls w1) = 0"
    using ExecuteDirect_opens[OF assms(3,2), of n] by auto
  have "cursor_pos n h (calls (fold (\<lambda>op. after_row X (call_of h op)) ops v)) =
      foldl (\<lambda>pos op. cursor_move n op pos) (cursor_pos n h (calls v)) ops" for v :: "'z sworld_scheme"
    by (induction ops arbitrary: v) simp_all
  with select_ops_run[OF u assms(1)] pos show ?thesis by simp
qed

text \<open>A statement (address 3) on the open database 6 and its statement handle (object 22, value 8).\<close>

definition rows_driver :: "int \<Rightarrow> nat \<Rightarrow> odbc_call list \<Rightarrow> reply" where
  "rows_driver n h cs = reply_rc
     (if cs \<noteq> [] \<and> fetch_op h (hd cs) \<noteq> None \<and> \<not> on_row n (cursor_pos n h cs) then SQL_NO_DATA else SQL_SUCCESS)"

lemma rows_driver_ok: "cursor_driver (ref_ext (rows_driver n h)) h n"
  by (simp add: cursor_driver_def rows_driver_def del: cursor_pos.simps)

definition small_stmt :: "bool \<Rightarrow> sworld" where
  "small_stmt scroll = dworld.extend (small_db True)
     \<lparr>stms = (\<lambda>_. \<lparr>es_pHStmt = Some 22, es_pDb = Some 6, es_isPrepared = False, es_scrollableCursor = scroll,
        es_boundColumns = False, es_boundParams = False\<rparr>)\<rparr>"

lemmas small_stmt_defs = small_stmt_def small_db_def dworld.defs

theorem cursor_refines_witness:
  "\<exists>w1 w2. ExecuteDirect (ref_ext (rows_driver 3 8)) 3 ''SELECT'' (small_stmt True) = (Ok (), w1) \<and>
     select_ops (ref_ext (rows_driver 3 8)) 3
       [Next, Next, Next, Next, Prev, First, Prev, Relative 2, Absolute (- 2), Last, Absolute 4] w1 =
     (Ok [True, True, True, False, True, True, False, True, True, True, False], w2)"
proof -
  let ?X = "ref_ext (rows_driver 3 8)"
  let ?ops = "[Next, Next, Next, Next, Prev, First, Prev, Relative 2, Absolute (- 2), Last, Absolute 4]"
  have u: "usable 3 8 (\<exists>op\<in>set ?ops. op \<noteq> Next) (small_stmt True)"
    by (simp add: usable_def small_stmt_defs)
  obtain w1 where e: "ExecuteDirect ?X 3 ''SELECT'' (small_stmt True) = (Ok (), w1)"
    by (simp add: ExecuteDirect_def with_hstmt_def with_ptr_def SelectClose_def CloseStmtHandle_def call_hstmt_def
        small_stmt_defs SqlHandle_IsAllocated_def SqlHandle_GetHandle_def rows_driver_def SQL_SUCCEEDED_def
        thenM_exec bindM_exec)
  have "cursor_run 3 0 ?ops = [True, True, True, False, True, True, False, True, True, True, False]"
    by (simp add: on_row_def)
  with cursor_refines[OF rows_driver_ok u e] e show ?thesis by auto
qed

section \<open>What initialising and binding do\<close>

text \<open>
  After \<open>SetCursorOptions\<close> the flag for scrollable cursors is the one asked for, except that it is left as
  it was when the driver's cursor was already of the kind asked for. A new statement that wants a
  scrollable cursor from a driver whose cursors are scrollable anyway therefore refuses to scroll.
\<close>

theorem SetCursorOptions_flag:
  assumes "es_pHStmt (stms w s) = Some p" and "SetCursorOptions X s scroll w = (Ok (), w')"
    and "r = driver X (SQLGetStmtAttr (m_handle (hnd w p)) SQL_ATTR_CURSOR_SCROLLABLE # calls w)"
  shows "es_scrollableCursor (stms w' s) =
     (if SQL_SUCCEEDED (rc r) \<and> onum r = (if scroll then SQL_SCROLLABLE else SQL_NONSCROLLABLE)
      then es_scrollableCursor (stms w s) else scroll)"
  using assms
  by (auto simp: SetCursorOptions_def with_hstmt_def with_ptr_def with_db_def call_hstmt_def
      SqlHandle_GetHandle_def thenM_exec bindM_exec catchM_exec split: if_splits option.splits)

definition scrolling_driver :: "odbc_call list \<Rightarrow> reply" where
  "scrolling_driver cs = (reply_rc SQL_SUCCESS)\<lparr>onum := 1\<rparr>"

theorem SetCursorOptions_flag_witness:
  "\<exists>w'. SetCursorOptions (ref_ext scrolling_driver) 3 True (small_stmt False) = (Ok (), w') \<and>
     \<not> es_scrollableCursor (stms w' 3) \<and>
     SelectPrev (ref_ext scrolling_driver) 3 w' = (Exn (AssertionException ''m_scrollableCursor''), w')"
proof -
  obtain w' where r: "SetCursorOptions (ref_ext scrolling_driver) 3 True (small_stmt False) = (Ok (), w')"
    by (simp add: SetCursorOptions_def with_hstmt_def with_ptr_def with_db_def call_hstmt_def small_stmt_defs
        IsOpen_def SqlHandle_IsAllocated_def SqlHandle_GetHandle_def scrolling_driver_def SQL_SUCCEEDED_def
        thenM_exec bindM_exec catchM_exec)
  have "es_pHStmt (stms (small_stmt False) 3) = Some 22" by (simp add: small_stmt_defs)
  from SetCursorOptions_flag[OF this r refl] have "\<not> es_scrollableCursor (stms w' 3)"
    by (simp add: small_stmt_defs scrolling_driver_def SQL_SUCCEEDED_def)
  with r show ?thesis by (simp add: SelectPrev_def SelectFetchScroll_def thenM_exec)
qed

lemma BindParameter_effects:
  assumes "es_pHStmt (stms w s) = Some p" and "es_pDb (stms w s) = Some d" and "b = buf w c"
    and plain: "m_kind b \<noteq> NumericColumnBuffer" "m_kind b \<noteq> SqlCPointerBuffer"
    and run: "Statement_BindParameter X s c paramNr never w = (Ok (), w')"
    and "h = m_handle (hnd w p)"
    and "query = (\<not> never \<and> es_isPrepared (stms w s) \<and> m_dbms (props w d) \<notin> {ACCESS, EXCEL} \<and>
           \<not> (m_dbms (props w d) = MY_SQL \<and> GetSqlCType b = SQL_C_NUMERIC))"
    and "desc = (if query then odesc (driver X (SQLDescribeParam h paramNr # calls w))
           else (m_sqlType b, m_columnSize b, m_decimalDigits b, 0))"
  shows "calls w' = SQLBindParameter h paramNr SQL_PARAM_INPUT (GetSqlCType b) (fst desc) (fst (snd desc))
           (fst (snd (snd desc))) (PBuf c) (GetBufferLength b) (PLen c) #
         (if query then [SQLDescribeParam h paramNr] else []) @ calls w"
    and "fst desc \<noteq> SQL_UNKNOWN_TYPE" and "es_boundParams (stms w' s)"
  using assms
  by (auto simp: Statement_BindParameter_def with_db_def DescribeParameter_def with_hstmt_def with_ptr_def
      ParameterDescription_query_def ParameterDescription_of_def CreateParamDescFromProps_def BindParameter_def
      BindParamImpl_def connect_reset_def ConnectResetParamsSignal_def new_address_def shared_copy_def mod_hnd_def
      mod_bnd_def IsPrepared_def DatabaseSupportsDescribeParam_def SqlHandle_GetHandle_def thenM_exec bindM_exec
      split: if_splits option.splits prod.splits)


lemma char_buffer_members:
  "m_kind char_buffer = CharColumnBuffer" "m_sqlType char_buffer = SQL_VARCHAR"
  "m_columnSize char_buffer = 0" "m_decimalDigits char_buffer = 0" "m_nrOfElements char_buffer = 1"
  by (simp_all add: char_buffer_def ColumnBuffer_one_def ColumnBuffer_base_def setters thenM_exec)

lemmas char_buffer_defs = char_buffer_members GetSqlCType_def GetBufferLength_def


text \<open>The members that setting the cursor options leaves alone.\<close>

definition bindings :: "nat \<Rightarrow> 'z sworld_scheme \<Rightarrow> nat option \<times> nat option \<times> bool \<times> bool" where
  "bindings s w = (es_pHStmt (stms w s), es_pDb (stms w s), es_boundColumns (stms w s), es_boundParams (stms w s))"

lemma bindings_SetCursorOptions: "preserves (bindings s) (SetCursorOptions X s b)"
proof -
  have f: "preserves (bindings s) (mod_stm s (\<lambda>t. t\<lparr>es_scrollableCursor := v\<rparr>))" for v
    by (simp add: preserves_def bindings_def)
  have a: "bindings s (w\<lparr>calls := cs\<rparr>) = bindings s w" for w :: "'z sworld_scheme" and cs
    by (simp add: bindings_def)
  show ?thesis
    unfolding SetCursorOptions_def with_hstmt_def with_ptr_def with_db_def call_hstmt_def
    by (intro pres f a)
qed

lemma above_bindings: "above (bindings s)" "above (\<lambda>w :: 'z sworld_scheme. stms w)"
  by (simp_all add: above_def bindings_def)

lemma release_hstmt_result:
  fixes w :: "'z sworld_scheme"
  assumes "release_hstmt X s w = (r, w')"
  shows "stms w' = (stms w)(s := (stms w s)\<lparr>es_pHStmt := None\<rparr>)" and "r \<noteq> Exn e"
proof -
  have "preserves (\<lambda>w :: 'z sworld_scheme. stms w) (release_option X STMT v)" for v
    unfolding release_option_def by (intro pres above_bindings)
  from preservesD[OF this] assms show "stms w' = (stms w)(s := (stms w s)\<lparr>es_pHStmt := None\<rparr>)"
    by (fastforce simp: release_hstmt_def)
  have "nothrow (release_hstmt X s :: ('z, unit) sprog)"
    unfolding release_hstmt_def release_option_def mod_stm_def by (intro quiet)
  with assms show "r \<noteq> Exn e" using nothrowD by metis
qed

text \<open>
  C12. \<open>Init\<close> of a new statement on an open database. When it returns, the statement has a handle and knows its
  database. When it throws, it has no handle; if the cursor options were what failed it is as it was
  before, but if the handle could not be allocated the pointer to the database stays: the statement
  says that it is initialised, and every further \<open>Init\<close> fails its first assertion.
\<close>

theorem Statement_Init_outcome:
  fixes w :: "'z sworld_scheme"
  assumes new: "es_pHStmt (stms w s) = None" "es_pDb (stms w s) = None"
      "\<not> es_boundColumns (stms w s)" "\<not> es_boundParams (stms w s)"
    and "IsOpen w d" and run: "Statement_Init X s (Some d) scroll w = (r, w')"
    and alloc: "fst (SqlHandle_make_shared X STMT (Some (db_pHDbc (dbs w d)))
        (w\<lparr>stms := (stms w)(s := (stms w s)\<lparr>es_pDb := Some d\<rparr>)\<rparr>)) = a"
  shows "case r of
      Ok _ \<Rightarrow> es_pDb (stms w' s) = Some d \<and> es_pHStmt (stms w' s) \<noteq> None
    | Exn e \<Rightarrow> es_pHStmt (stms w' s) = None \<and>
        (es_pDb (stms w' s) = None \<longleftrightarrow> (\<exists>p. a = Ok p)) \<and>
        (es_pDb (stms w' s) \<noteq> None \<longrightarrow>
           Statement_Init X s (Some d) scroll w' = (Exn (AssertionException ''m_pDb == NULL''), w'))
    | _ \<Rightarrow> True"
proof -
  let ?w = "w\<lparr>stms := (stms w)(s := (stms w s)\<lparr>es_pDb := Some d\<rparr>)\<rparr>" and ?c = "db_pHDbc (dbs w d)"
  have st: "above (\<lambda>w :: 'z sworld_scheme. stms w)" by (simp add: above_def)
  have ms: "preserves (\<lambda>w :: 'z sworld_scheme. stms w) (SqlHandle_make_shared X STMT (Some ?c))"
    by (intro pres st)
  obtain wa where m: "SqlHandle_make_shared X STMT (Some ?c) ?w = (a, wa)"
    using alloc by (metis prod.collapse)
  have sa: "stms wa = stms ?w" using preservesD[OF ms m] .
  show ?thesis
  proof (cases a)
    case (Ok p)
    obtain r1 w1 where 1: "release_hstmt X s wa = (r1, w1)" by fastforce
    let ?w1 = "w1\<lparr>stms := (stms w1)(s := (stms w1 s)\<lparr>es_pHStmt := Some p\<rparr>)\<rparr>"
    obtain rc wc where c: "SetCursorOptions X s scroll ?w1 = (rc, wc)" by fastforce
    obtain rr wr where rr: "Statement_Reset X s wc = (rr, wr)" by fastforce
    have b: "bindings s wc = (Some p, Some d, False, False)"
      using preservesD[OF bindings_SetCursorOptions c] release_hstmt_result(1)[OF 1] sa new
      by (simp add: bindings_def)
    obtain r2 w2 where 2: "release_hstmt X s wc = (r2, w2)" by fastforce
    have reset: "Statement_Reset X s wc = (case r2 of Ok _ \<Rightarrow> mod_stm s (\<lambda>t. t\<lparr>es_pDb := None\<rparr>) w2 | _ \<Rightarrow> (r2, w2))"
      using b 2 release_hstmt_result(2)[OF 2]
      by (cases r2) (simp_all add: Statement_Reset_def bindings_def thenM_exec)
    have init: "Statement_Init X s (Some d) scroll w =
        (case rc of Exn e \<Rightarrow> thenM (Statement_Reset X s) (throwM e) wc | _ \<Rightarrow> (rc, wc))" if "r1 = Ok ()"
      using m Ok 1 c that new \<open>IsOpen w d\<close>
      by (cases rc) (simp_all add: Statement_Init_def thenM_exec bindM_exec catchM_exec IsOpen_def
          split: prod.split res.split)
    show ?thesis
    proof (cases r1)
      case (Ok u)
      with init run b reset release_hstmt_result[OF 2] \<open>a = Ok p\<close> show ?thesis
        by (cases rc; cases r2) (auto simp: thenM_exec bindings_def)
    next
      case (Exn e)
      with release_hstmt_result(2)[OF 1, of e] show ?thesis by simp
    qed (use run new m 1 Ok \<open>IsOpen w d\<close> in \<open>auto simp: Statement_Init_def thenM_exec bindM_exec IsOpen_def\<close>)
  next
    case (Exn e)
    with run new m sa \<open>IsOpen w d\<close> show ?thesis
      by (auto simp: Statement_Init_def thenM_exec bindM_exec IsOpen_def)
  qed (use run new m \<open>IsOpen w d\<close> in \<open>auto simp: Statement_Init_def thenM_exec bindM_exec IsOpen_def\<close>)
qed

theorem Statement_Init_outcome_witness:
  "\<exists>e w'. Statement_Init (ref_ext no_stmt_driver) 3 (Some 6) False
      (dworld.extend (small_db True) \<lparr>stms = (\<lambda>_. \<lparr>es_pHStmt = None, es_pDb = None, es_isPrepared = False,
         es_scrollableCursor = False, es_boundColumns = False, es_boundParams = False\<rparr>)\<rparr>) = (Exn e, w') \<and>
     es_pDb (stms w' 3) \<noteq> None \<and>
     Statement_Init (ref_ext no_stmt_driver) 3 (Some 6) False w' =
       (Exn (AssertionException ''m_pDb == NULL''), w')"
proof -
  let ?w = "dworld.extend (small_db True) \<lparr>stms = (\<lambda>_. \<lparr>es_pHStmt = None, es_pDb = None, es_isPrepared = False,
      es_scrollableCursor = False, es_boundColumns = False, es_boundParams = False\<rparr>)\<rparr>"
  have o: "es_pHStmt (stms ?w 3) = None" "es_pDb (stms ?w 3) = None" "\<not> es_boundColumns (stms ?w 3)"
      "\<not> es_boundParams (stms ?w 3)" "IsOpen ?w 6"
    by (simp_all add: small_stmt_defs IsOpen_def)
  obtain e w' where r: "Statement_Init (ref_ext no_stmt_driver) 3 (Some 6) False ?w = (Exn e, w')"
    and d: "es_pDb (stms w' 3) = Some 6"
    by (simp add: Statement_Init_def SqlHandle_make_shared_def SqlHandle_AllocateWithParent_def new_address_def
        mod_hnd_def small_stmt_defs IsOpen_def SqlHandle_IsAllocated_def SqlHandle_GetHandle_def SqlHandle_init_def
        SQL_SUCCEEDED_def thenM_exec bindM_exec)
  from Statement_Init_outcome[OF o r refl] r d show ?thesis by simp
qed

end
