(* ===== verification/Tables.thy ===== *)
theory Tables
  imports Statements
begin

text \<open>
  \<open>Table.h/.cpp\<close>: a table with its column buffers and the five statements it keeps.

  \<open>tabs w t\<close> is the table at address \<open>t\<close>; its statements are statement objects of their own. \<open>m_columns\<close>
  is the sorted list of pairs of index and address of a buffer. A buffer dies with the last pointer to
  it: \<open>held w c\<close> says that the application keeps one to the buffer \<open>c\<close> besides the table's. The texts of
  exceptions that the library formats are the result of \<open>boost_format\<close> on the printed arguments; lines
  that only log are left out, but a name they ask for is asked for, because that can throw.

  The number \<open>n\<close> that some operations take is the fuel of the fetch loops of the catalog functions.
\<close>

section \<open>The object\<close>

record Table =
  tb_pDb :: "nat option"
  tb_pSql2BufferTypeMap :: "Sql2BufferTypeMap option"
  tb_execStmtCountWhere :: nat
  tb_execStmtSelect :: nat
  tb_execStmtInsert :: nat
  tb_execStmtUpdatePk :: nat
  tb_execStmtDeletePk :: nat
  tb_pSelectCountResultBuffer :: "nat option"
  tb_haveTableInfo :: bool
  tb_tableInfo :: TableInfo
  tb_isOpen :: bool
  tb_openFlags :: EnumFlags
  tb_tableAccessFlags :: EnumFlags
  tb_primaryKeyColumnIndexes :: "nat list"
  tb_columns :: "(nat \<times> nat) list"
  tb_autoCreatedColumns :: bool
  tb_initialTableName :: string
  tb_initialSchemaName :: string
  tb_initialCatalogName :: string
  tb_initialTypeName :: string

record tworld = sworld +
  tabs :: "nat \<Rightarrow> Table"
  held :: "nat \<Rightarrow> bool"

type_synonym ('z, 'a) tprog = "(exn, 'z tworld_scheme, 'a) prog"

definition mod_tab :: "nat \<Rightarrow> (Table \<Rightarrow> Table) \<Rightarrow> ('z, unit) tprog" where
  "mod_tab t f = modifyM (\<lambda>w. w\<lparr>tabs := (tabs w)(t := f (tabs w t))\<rparr>)"

lemma mod_tab_exec [exec, simp]: "mod_tab t f w = (Ok (), w\<lparr>tabs := (tabs w)(t := f (tabs w t))\<rparr>)"
  by (simp add: mod_tab_def)

definition with_tab :: "nat \<Rightarrow> (Table \<Rightarrow> ('z, 'a) tprog) \<Rightarrow> ('z, 'a) tprog" where
  "with_tab t f = bindM (getsM (\<lambda>w. tabs w t)) f"

text \<open>\<open>m_pDb->...\<close> and \<open>m_pDb->GetDbCatalog()->...\<close>: a null pointer is undefined behaviour.\<close>

definition tab_db :: "nat \<Rightarrow> (nat \<Rightarrow> ('z, 'a) tprog) \<Rightarrow> ('z, 'a) tprog" where
  "tab_db t f = with_tab t (\<lambda>b. case tb_pDb b of None \<Rightarrow> undefM | Some d \<Rightarrow> f d)"

definition tab_catalog :: "nat \<Rightarrow> (nat \<Rightarrow> ('z, 'a) tprog) \<Rightarrow> ('z, 'a) tprog" where
  "tab_catalog t f = tab_db t (\<lambda>d. bindM (GetDbCatalog d) (\<lambda>c. case c of None \<Rightarrow> undefM | Some a \<Rightarrow> f a))"

definition tab_name :: "nat \<Rightarrow> ('z, string) tprog" where
  "tab_name t = with_tab t (\<lambda>b. liftM (TableInfo_GetQueryName (tb_tableInfo b)))"

definition Table_IsOpen :: "'z tworld_scheme \<Rightarrow> nat \<Rightarrow> bool" where
  "Table_IsOpen w t = tb_isOpen (tabs w t)"

definition TestAccessFlag :: "Table \<Rightarrow> flag \<Rightarrow> bool" where
  "TestAccessFlag b af = EnumFlags_Test (tb_tableAccessFlags b) af"

definition TestOpenFlag :: "Table \<Rightarrow> flag \<Rightarrow> bool" where
  "TestOpenFlag b f = EnumFlags_Test (tb_openFlags b) f"

definition IsQueryOnly :: "Table \<Rightarrow> bool" where
  "IsQueryOnly b \<longleftrightarrow>
     (TestAccessFlag b AF_SELECT_PK \<or> TestAccessFlag b AF_SELECT_WHERE) \<and>
     \<not> TestAccessFlag b AF_UPDATE_PK \<and> \<not> TestAccessFlag b AF_UPDATE_WHERE \<and>
     \<not> TestAccessFlag b AF_DELETE_PK \<and> \<not> TestAccessFlag b AF_DELETE_WHERE \<and> \<not> TestAccessFlag b AF_INSERT"

definition assert_closed :: "nat \<Rightarrow> ('z, unit) tprog" where
  "assert_closed t = exASSERT ''!IsOpen()'' (\<lambda>w. \<not> Table_IsOpen w t)"

definition assert_open :: "nat \<Rightarrow> ('z, unit) tprog" where
  "assert_open t = exASSERT ''IsOpen()'' (\<lambda>w. Table_IsOpen w t)"

definition assert_access :: "nat \<Rightarrow> string \<Rightarrow> flag \<Rightarrow> ('z, unit) tprog" where
  "assert_access t text af = exASSERT text (\<lambda>w. TestAccessFlag (tabs w t) af)"

section \<open>Flags\<close>

definition SetAccessFlags :: "nat \<Rightarrow> EnumFlags \<Rightarrow> ('z, unit) tprog" where
  "SetAccessFlags t acs = thenM (assert_closed t) (mod_tab t (\<lambda>b. b\<lparr>tb_tableAccessFlags := acs\<rparr>))"

definition SetAccessFlag :: "nat \<Rightarrow> flag \<Rightarrow> ('z, unit) tprog" where
  "SetAccessFlag t ac = thenM (assert_closed t) (with_tab t (\<lambda>b.
     if TestAccessFlag b ac then skipM
     else SetAccessFlags t (EnumFlags_Set (tb_tableAccessFlags b) ac)))"

definition ClearAccessFlag :: "nat \<Rightarrow> flag \<Rightarrow> ('z, unit) tprog" where
  "ClearAccessFlag t ac = thenM (assert_closed t) (with_tab t (\<lambda>b.
     if \<not> TestAccessFlag b ac then skipM
     else SetAccessFlags t (EnumFlags_Clear (tb_tableAccessFlags b) ac)))"

section \<open>Column buffers of a table\<close>

text \<open>An index is a \<open>SQLSMALLINT\<close> argument looked up in a map with \<open>SQLUSMALLINT\<close> keys.\<close>

definition column_key :: "int \<Rightarrow> nat" where
  "column_key columnIndex = nat (columnIndex mod 65536)"

definition ColumnBufferExists :: "Table \<Rightarrow> int \<Rightarrow> bool" where
  "ColumnBufferExists b columnIndex \<longleftrightarrow> map_of (tb_columns b) (column_key columnIndex) \<noteq> None"

definition GetColumnBufferPtrVariant :: "ext \<Rightarrow> nat \<Rightarrow> int \<Rightarrow> ('z, nat) tprog" where
  "GetColumnBufferPtrVariant X t columnIndex = with_tab t (\<lambda>b.
     case map_of (tb_columns b) (column_key columnIndex) of
       None \<Rightarrow> throwM (IllegalArgumentException (boost_format X
         ''ColumnIndex %d is not a zero-based bound or manually defined ColumnBuffer'' [show_int columnIndex]))
     | Some c \<Rightarrow> returnM c)"

definition GetNonNullColumnBufferPtrVariant :: "ext \<Rightarrow> nat \<Rightarrow> int \<Rightarrow> ('z, nat) tprog" where
  "GetNonNullColumnBufferPtrVariant X t columnIndex =
     bindM (GetColumnBufferPtrVariant X t columnIndex) (\<lambda>c.
     bindM (getsM (\<lambda>w. buf w c)) (\<lambda>b.
       if IsNull b then bindM (liftM (GetQueryName b)) (\<lambda>q. throwM (NullValueException q))
       else returnM c))"

text \<open>\<open>GetColumnBufferPtr<T>\<close> for the buffer type of the kind \<open>k\<close>.\<close>

definition GetColumnBufferPtr :: "ext \<Rightarrow> nat \<Rightarrow> ColumnBufferKind \<Rightarrow> int \<Rightarrow> ('z, nat) tprog" where
  "GetColumnBufferPtr X t k columnIndex =
     bindM (GetColumnBufferPtrVariant X t columnIndex) (\<lambda>c.
     bindM (getsM (\<lambda>w. m_kind (buf w c))) (\<lambda>k'.
       if k' = k then returnM c
       else throwM (WrapperException ''boost::bad_get: failed value get using boost::get'')))"

definition GetColumnBufferIndexes :: "Table \<Rightarrow> nat list" where
  "GetColumnBufferIndexes b = map fst (tb_columns b)"

definition GetColumnBufferCount :: "Table \<Rightarrow> nat" where
  "GetColumnBufferCount b = length (tb_columns b)"

fun find_column ::
  "ext \<Rightarrow> (nat \<Rightarrow> ColumnBuffer) \<Rightarrow> string \<Rightarrow> bool \<Rightarrow> (nat \<times> nat) list \<Rightarrow> (exn, nat) res" where
  "find_column X bf columnQueryName caseSensitive [] =
     Exn (NotFoundException (boost_format X (''No ColumnBuffer found with QueryName '' @ quote @ ''%s'' @ quote) [columnQueryName]))"
| "find_column X bf columnQueryName caseSensitive ((i, c) # columns) =
     res_bind (GetQueryName (bf c)) (\<lambda>queryName.
       if (if caseSensitive then queryName = columnQueryName else boost_iequals X queryName columnQueryName)
       then Ok i else find_column X bf columnQueryName caseSensitive columns)"

definition GetColumnBufferIndex_in ::
  "ext \<Rightarrow> string \<Rightarrow> (nat \<times> nat) list \<Rightarrow> bool \<Rightarrow> ('z, nat) tprog" where
  "GetColumnBufferIndex_in X columnQueryName columns caseSensitive =
     bindM (getsM (\<lambda>w. find_column X (buf w) columnQueryName caseSensitive columns)) liftM"

definition GetColumnBufferIndex :: "ext \<Rightarrow> nat \<Rightarrow> string \<Rightarrow> bool \<Rightarrow> ('z, nat) tprog" where
  "GetColumnBufferIndex X t columnQueryName caseSensitive =
     with_tab t (\<lambda>b. GetColumnBufferIndex_in X columnQueryName (tb_columns b) caseSensitive)"

definition SetColumnFlag :: "ext \<Rightarrow> nat \<Rightarrow> nat \<Rightarrow> flag \<Rightarrow> ('z, unit) tprog" where
  "SetColumnFlag X t columnIndex flag = thenM (assert_closed t)
     (bindM (GetColumnBufferPtrVariant X t (int columnIndex)) (\<lambda>c.
        on_buf c (modifyM (\<lambda>b. b\<lparr>m_colFlags := EnumFlags_Set (m_colFlags b) flag\<rparr>))))"

definition ClearColumnFlag :: "ext \<Rightarrow> nat \<Rightarrow> nat \<Rightarrow> flag \<Rightarrow> ('z, unit) tprog" where
  "ClearColumnFlag X t columnIndex flag = thenM (assert_closed t)
     (bindM (GetColumnBufferPtrVariant X t (int columnIndex)) (\<lambda>c.
        on_buf c (modifyM (\<lambda>b. b\<lparr>m_colFlags := EnumFlags_Clear (m_colFlags b) flag\<rparr>))))"

definition has_flag :: "(nat \<Rightarrow> ColumnBuffer) \<Rightarrow> flag \<Rightarrow> nat \<Rightarrow> bool" where
  "has_flag bf flag c = EnumFlags_Test (m_colFlags (bf c)) flag"

definition GetPrimaryKeyColumnBuffers :: "nat \<Rightarrow> ('z, (nat \<times> nat) list) tprog" where
  "GetPrimaryKeyColumnBuffers t = with_tab t (\<lambda>b.
     getsM (\<lambda>w. filter (\<lambda>(i, c). has_flag (buf w) CF_PRIMARY_KEY c) (tb_columns b)))"

definition SetColumnNull :: "ext \<Rightarrow> nat \<Rightarrow> int \<Rightarrow> ('z, unit) tprog" where
  "SetColumnNull X t columnIndex = bindM (GetColumnBufferPtrVariant X t columnIndex) (\<lambda>c.
     thenM (exASSERT ''pFlags->Test(ColumnFlag::CF_NULLABLE)'' (\<lambda>w. has_flag (buf w) CF_NULLABLE c))
       (on_buf c SetNull))"

definition IsColumnNull :: "ext \<Rightarrow> nat \<Rightarrow> int \<Rightarrow> ('z, bool) tprog" where
  "IsColumnNull X t columnIndex = bindM (GetColumnBufferPtrVariant X t columnIndex) (\<lambda>c.
     getsM (\<lambda>w. IsNull (buf w c)))"

definition IsColumnNullable :: "ext \<Rightarrow> nat \<Rightarrow> int \<Rightarrow> ('z, bool) tprog" where
  "IsColumnNullable X t columnIndex = bindM (GetColumnBufferPtrVariant X t columnIndex) (\<lambda>c.
     getsM (\<lambda>w. has_flag (buf w) CF_NULLABLE c))"

definition SetColumnLengthIndicator :: "ext \<Rightarrow> nat \<Rightarrow> int \<Rightarrow> int \<Rightarrow> ('z, unit) tprog" where
  "SetColumnLengthIndicator X t columnIndex cb =
     bindM (GetColumnBufferPtrVariant X t columnIndex) (\<lambda>c. on_buf c (SetCb cb))"

definition SetColumnNTS :: "ext \<Rightarrow> nat \<Rightarrow> int \<Rightarrow> ('z, unit) tprog" where
  "SetColumnNTS X t columnIndex = SetColumnLengthIndicator X t columnIndex SQL_NTS"

text \<open>
  The table lets go of buffers: those nobody else holds are destroyed, in an order the standard does
  not say (here the order of the map). The buffer behind \<open>m_pSelectCountResultBuffer\<close> has no other owner.
\<close>

definition drop_buffer :: "ext \<Rightarrow> nat \<Rightarrow> ('z, unit) tprog" where
  "drop_buffer X c = whenM (\<lambda>w. \<not> held w c) (ColumnBindable_destroy X c)"

definition clear_columns :: "ext \<Rightarrow> nat \<Rightarrow> ('z, unit) tprog" where
  "clear_columns X t = with_tab t (\<lambda>b.
     thenM (mod_tab t (\<lambda>b. b\<lparr>tb_columns := []\<rparr>))
       (forM (remdups (map snd (tb_columns b))) (drop_buffer X)))"

definition reset_count_buffer :: "ext \<Rightarrow> nat \<Rightarrow> ('z, unit) tprog" where
  "reset_count_buffer X t = with_tab t (\<lambda>b.
     thenM (mod_tab t (\<lambda>b. b\<lparr>tb_pSelectCountResultBuffer := None\<rparr>))
       (case tb_pSelectCountResultBuffer b of None \<Rightarrow> skipM | Some c \<Rightarrow> ColumnBindable_destroy X c))"

definition ClearColumns :: "ext \<Rightarrow> nat \<Rightarrow> ('z, unit) tprog" where
  "ClearColumns X t = thenM (assert_closed t) (clear_columns X t)"

text \<open>\<open>SetColumn\<close>, with a buffer of the caller and with memory of the caller.\<close>

definition SetColumn :: "nat \<Rightarrow> nat \<Rightarrow> nat \<Rightarrow> ('z, unit) tprog" where
  "SetColumn t columnIndex column = thenM (assert_closed t)
     (thenM (exASSERT ''m_columns.find(columnIndex) == m_columns.end()''
               (\<lambda>w. map_of (tb_columns (tabs w t)) columnIndex = None))
     (bindM (getsM (\<lambda>w. GetQueryName (buf w column))) (\<lambda>q. bindM (liftM q) (\<lambda>queryName.
      thenM (exASSERT ''!queryName.empty()'' (\<lambda>_. queryName \<noteq> []))
        (mod_tab t (\<lambda>b. b\<lparr>tb_columns := map_put columnIndex column (tb_columns b)\<rparr>))))))"

definition SetColumn_pointer ::
  "nat \<Rightarrow> nat \<Rightarrow> string \<Rightarrow> int \<Rightarrow> nat \<Rightarrow> int \<Rightarrow> int \<Rightarrow> EnumFlags \<Rightarrow> int \<Rightarrow> int \<Rightarrow> ('z, unit) tprog" where
  "SetColumn_pointer t columnIndex queryName sqlType pBuffer sqlCType bufferSize flags columnSize decimalDigits =
     bindM (make_buffer (SqlCPointerBuffer_new queryName sqlType pBuffer sqlCType bufferSize flags columnSize
              decimalDigits 1)) (SetColumn t columnIndex)"

definition SetColumnPrimaryKeyIndexes :: "nat \<Rightarrow> nat list \<Rightarrow> ('z, unit) tprog" where
  "SetColumnPrimaryKeyIndexes t columnIndexes = thenM (assert_closed t)
     (mod_tab t (\<lambda>b. b\<lparr>tb_primaryKeyColumnIndexes := columnIndexes\<rparr>))"

definition Table_SetSql2BufferTypeMap :: "nat \<Rightarrow> Sql2BufferTypeMap option \<Rightarrow> ('z, unit) tprog" where
  "Table_SetSql2BufferTypeMap t m = thenM (assert_closed t)
     (thenM (exASSERT ''pSql2BufferTypeMap'' (\<lambda>_. m \<noteq> None))
       (mod_tab t (\<lambda>b. b\<lparr>tb_pSql2BufferTypeMap := m\<rparr>)))"

definition Table_GetSql2BufferTypeMap :: "nat \<Rightarrow> ('z, Sql2BufferTypeMap) tprog" where
  "Table_GetSql2BufferTypeMap t = with_tab t (\<lambda>b. case tb_pSql2BufferTypeMap b of
     None \<Rightarrow> throwM (AssertionException ''m_pSql2BufferTypeMap'') | Some m \<Rightarrow> returnM m)"

definition GetTableInfo :: "nat \<Rightarrow> ('z, TableInfo) tprog" where
  "GetTableInfo t = thenM (exASSERT ''m_haveTableInfo'' (\<lambda>w. tb_haveTableInfo (tabs w t)))
     (with_tab t (\<lambda>b. returnM (tb_tableInfo b)))"

definition ReadTableInfo :: "ext \<Rightarrow> nat \<Rightarrow> nat \<Rightarrow> ('z, TableInfo) tprog" where
  "ReadTableInfo X n t = thenM
     (whenM (\<lambda>w. \<not> tb_haveTableInfo (tabs w t)) (tab_catalog t (\<lambda>a. with_tab t (\<lambda>b.
        bindM (FindOneTable X n a (tb_initialTableName b) (tb_initialSchemaName b) (tb_initialCatalogName b)
                 (tb_initialTypeName b)) (\<lambda>ti.
          mod_tab t (\<lambda>b. b\<lparr>tb_tableInfo := ti, tb_haveTableInfo := True\<rparr>))))))
     (with_tab t (\<lambda>b. returnM (tb_tableInfo b)))"

section \<open>Creating the buffers from the catalog\<close>

fun set_primary_keys ::
  "ext \<Rightarrow> (nat \<times> nat) list \<Rightarrow> PrimaryKeyInfo list \<Rightarrow> ('z, unit) tprog" where
  "set_primary_keys X columns [] = skipM"
| "set_primary_keys X columns (keyInfo # keys) =
     bindM (liftM (PrimaryKeyInfo_GetQueryName keyInfo)) (\<lambda>q.
     bindM (GetColumnBufferIndex_in X q columns True) (\<lambda>colIndex.
       case map_of columns colIndex of
         None \<Rightarrow> throwM (AssertionException ''itCol != columns.end()'')
       | Some c \<Rightarrow> thenM (on_buf c (modifyM (\<lambda>b. b\<lparr>m_colFlags := EnumFlags_Set (m_colFlags b) CF_PRIMARY_KEY\<rparr>)))
           (set_primary_keys X columns keys)))"

definition QueryPrimaryKeysAndUpdateColumns ::
  "ext \<Rightarrow> nat \<Rightarrow> nat \<Rightarrow> (nat \<times> nat) list \<Rightarrow> ('z, unit) tprog" where
  "QueryPrimaryKeysAndUpdateColumns X n t columns =
     thenM (exASSERT ''m_haveTableInfo'' (\<lambda>w. tb_haveTableInfo (tabs w t)))
     (thenM (exASSERT ''m_pDb'' (\<lambda>w. tb_pDb (tabs w t) \<noteq> None))
     (tab_catalog t (\<lambda>a. with_tab t (\<lambda>b.
        bindM (ReadPrimaryKeyInfo X n a (tb_tableInfo b)) (set_primary_keys X columns)))))"

text \<open>The column flags that follow from the access flags.\<close>

definition access_column_flags :: "Table \<Rightarrow> EnumFlags" where
  "access_column_flags b =
     (let f0 = EnumFlags_new;
          f1 = (if TestAccessFlag b AF_SELECT_WHERE \<or> TestAccessFlag b AF_SELECT_PK then EnumFlags_Set f0 CF_SELECT else f0);
          f2 = (if TestAccessFlag b AF_UPDATE_WHERE \<or> TestAccessFlag b AF_UPDATE_PK then EnumFlags_Set f1 CF_UPDATE else f1)
      in if TestAccessFlag b AF_INSERT then EnumFlags_Set f2 CF_INSERT else f2)"

definition is_nullable_column :: "ext \<Rightarrow> ColumnInfo \<Rightarrow> bool" where
  "is_nullable_column X colInfo \<longleftrightarrow>
     \<not> ci_isIsNullableNull colInfo \<and> boost_iequals X (ci_isNullable colInfo) ''YES''"

text \<open>
  The body of the loop for one column: the new buffer, and the variable \<open>flags\<close>, which lives outside
  of the loop and is not reset.
\<close>

definition auto_column ::
  "ext \<Rightarrow> Sql2BufferTypeMap option \<Rightarrow> EnumFlags \<Rightarrow> ColumnInfo \<Rightarrow> ('z, nat \<times> EnumFlags) tprog" where
  "auto_column X typeMap flags colInfo = (case typeMap of None \<Rightarrow> undefM | Some m \<Rightarrow>
     bindM (liftM (GetBufferType m (ci_sqlType colInfo))) (\<lambda>sqlCType.
     bindM (liftM (ColumnInfo_GetQueryName colInfo)) (\<lambda>queryName.
     bindM (if IsArrayType sqlCType then CreateColumnArrayBufferPtr sqlCType queryName colInfo
            else CreateColumnBufferPtr sqlCType queryName) (\<lambda>c.
     let flags' = (if is_nullable_column X colInfo then EnumFlags_Set flags CF_NULLABLE else flags) in
     thenM (on_buf c (seqM
       [modifyM (\<lambda>b. b\<lparr>m_colFlags := EnumFlags_SetFrom (m_colFlags b) flags'\<rparr>),
        SetSqlType (ci_sqlType colInfo),
        whenM (\<lambda>_. \<not> ci_isColumnSizeNull colInfo) (SetColumnSize (ci_columnSize colInfo)),
        whenM (\<lambda>_. \<not> ci_isDecimalDigitsNull colInfo) (SetDecimalDigits (ci_decimalDigits colInfo))]))
     (returnM (c, flags'))))))"

fun is_NotSupportedException :: "exn \<Rightarrow> bool" where
  "is_NotSupportedException (NotSupportedException t k) = True"
| "is_NotSupportedException _ = False"

fun auto_columns ::
  "ext \<Rightarrow> Sql2BufferTypeMap option \<Rightarrow> bool \<Rightarrow> EnumFlags \<Rightarrow> ColumnInfo list \<Rightarrow> nat list \<Rightarrow> ('z, nat list) tprog" where
  "auto_columns X typeMap skip flags [] columns = returnM columns"
| "auto_columns X typeMap skip flags (colInfo # cis) columns =
     bindM (catchM (bindM (auto_column X typeMap flags colInfo) (\<lambda>r. returnM (Some r)))
              (\<lambda>e. if is_NotSupportedException e \<and> skip
                   then bindM (liftM (ColumnInfo_GetQueryName colInfo)) (\<lambda>_. returnM None) else throwM e)) (\<lambda>r.
       case r of
         None \<Rightarrow> auto_columns X typeMap skip flags cis columns
       | Some (c, flags') \<Rightarrow> auto_columns X typeMap skip flags' cis (columns @ [c]))"

definition CreateAutoColumnBufferPtrs ::
  "ext \<Rightarrow> nat \<Rightarrow> nat \<Rightarrow> bool \<Rightarrow> bool \<Rightarrow> bool \<Rightarrow> ('z, nat list) tprog" where
  "CreateAutoColumnBufferPtrs X n t skipUnsupportedColumns setAsTableColumns queryPrimaryKeys =
     tab_db t (\<lambda>d. thenM (exASSERT ''m_pDb->IsOpen()'' (\<lambda>w. IsOpen w d))
     (bindM (ReadTableInfo X n t) (\<lambda>tableInfo.
      tab_catalog t (\<lambda>a. bindM (ReadColumnInfo X n a tableInfo) (\<lambda>columnInfos.
      thenM (exASSERT ''columnInfos.size() <= SHRT_MAX'' (\<lambda>_. int (length columnInfos) \<le> SHRT_MAX))
      (thenM (if columnInfos = []
              then bindM (liftM (TableInfo_GetQueryName tableInfo)) (\<lambda>q. throwM (BaseException (boost_format X
                     (''No columns found for table '' @ quote @ ''%s'' @ quote) [q])))
              else skipM)
      (with_tab t (\<lambda>b.
        bindM (auto_columns X (tb_pSql2BufferTypeMap b) skipUnsupportedColumns (access_column_flags b) columnInfos [])
          (\<lambda>columns.
        let columnMap = zip [0..<length columns] columns in thenM (seqM
        [if queryPrimaryKeys then QueryPrimaryKeysAndUpdateColumns X n t columnMap else skipM,
         if setAsTableColumns
         then thenM (clear_columns X t)
                (mod_tab t (\<lambda>b. b\<lparr>tb_columns := columnMap, tb_autoCreatedColumns := True\<rparr>))
         else skipM])
        (returnM columns))))))))))"

section \<open>The SQL of the statements\<close>

text \<open>
  The loops over \<open>m_columns\<close> that build a text with a separator behind every part and collect the buffers to
  bind; \<open>boost::erase_last\<close> then removes the last separator.
\<close>

fun select_fields :: "(nat \<Rightarrow> ColumnBuffer) \<Rightarrow> (nat \<times> nat) list \<Rightarrow> string \<Rightarrow> (exn, string) res" where
  "select_fields bf [] names = Ok names"
| "select_fields bf ((i, c) # columns) names =
     (if has_flag bf CF_SELECT c
      then res_bind (GetQueryName (bf c)) (\<lambda>q. select_fields bf columns ((names @ q) @ '', ''))
      else select_fields bf columns names)"

definition BuildSelectFieldsStatement :: "ext \<Rightarrow> nat \<Rightarrow> ('z, string) tprog" where
  "BuildSelectFieldsStatement X t = with_tab t (\<lambda>b.
     thenM (exASSERT ''m_columns.size() > 0'' (\<lambda>_. length (tb_columns b) > 0))
     (bindM (getsM (\<lambda>w. select_fields (buf w) (tb_columns b) [])) (\<lambda>r. bindM (liftM r) (\<lambda>names.
        returnM (boost_erase_last X names '', '')))))"

fun where_pk ::
  "(nat \<Rightarrow> ColumnBuffer) \<Rightarrow> (nat \<times> nat) list \<Rightarrow> string \<Rightarrow> nat list \<Rightarrow> (exn, string \<times> nat list) res" where
  "where_pk bf [] whereMarkers params = Ok (whereMarkers, params)"
| "where_pk bf ((i, c) # columns) whereMarkers params =
     (if has_flag bf CF_PRIMARY_KEY c
      then res_bind (GetQueryName (bf c)) (\<lambda>q.
             where_pk bf columns ((whereMarkers @ q) @ '' = ?, '') (params @ [c]))
      else where_pk bf columns whereMarkers params)"

fun set_and_where ::
  "(nat \<Rightarrow> ColumnBuffer) \<Rightarrow> (nat \<times> nat) list \<Rightarrow> string \<Rightarrow> nat list \<Rightarrow> string \<Rightarrow> nat list \<Rightarrow>
   (exn, string \<times> nat list \<times> string \<times> nat list) res" where
  "set_and_where bf [] setMarkers setParams whereMarkers whereParams =
     Ok (setMarkers, setParams, whereMarkers, whereParams)"
| "set_and_where bf ((i, c) # columns) setMarkers setParams whereMarkers whereParams =
     (if has_flag bf CF_PRIMARY_KEY c
      then res_bind (GetQueryName (bf c)) (\<lambda>q. set_and_where bf columns setMarkers setParams
             ((whereMarkers @ q) @ '' = ?, '') (whereParams @ [c]))
      else if has_flag bf CF_UPDATE c
      then res_bind (GetQueryName (bf c)) (\<lambda>q. set_and_where bf columns
             ((setMarkers @ q) @ '' = ?, '') (setParams @ [c]) whereMarkers whereParams)
      else set_and_where bf columns setMarkers setParams whereMarkers whereParams)"

fun set_update ::
  "(nat \<Rightarrow> ColumnBuffer) \<Rightarrow> (nat \<times> nat) list \<Rightarrow> string \<Rightarrow> nat list \<Rightarrow> (exn, string \<times> nat list) res" where
  "set_update bf [] setMarkers params = Ok (setMarkers, params)"
| "set_update bf ((i, c) # columns) setMarkers params =
     (if has_flag bf CF_UPDATE c
      then res_bind (GetQueryName (bf c)) (\<lambda>q. set_update bf columns ((setMarkers @ q) @ '' = ?, '') (params @ [c]))
      else set_update bf columns setMarkers params)"

fun insert_fields ::
  "(nat \<Rightarrow> ColumnBuffer) \<Rightarrow> (nat \<times> nat) list \<Rightarrow> string \<Rightarrow> string \<Rightarrow> nat list \<Rightarrow>
   (exn, string \<times> string \<times> nat list) res" where
  "insert_fields bf [] names markers params = Ok (names, markers, params)"
| "insert_fields bf ((i, c) # columns) names markers params =
     (if has_flag bf CF_INSERT c
      then res_bind (GetQueryName (bf c)) (\<lambda>q.
             insert_fields bf columns ((names @ q) @ '', '') (markers @ ''?, '') (params @ [c]))
      else insert_fields bf columns names markers params)"

text \<open>The numbers of the parameters are \<open>SQLUSMALLINT\<close>.\<close>

fun bind_params :: "ext \<Rightarrow> nat \<Rightarrow> nat \<Rightarrow> nat list \<Rightarrow> ('z, unit) sprog" where
  "bind_params X s paramNr [] = skipM"
| "bind_params X s paramNr (c # cs) =
     thenM (Statement_BindParameter X s c paramNr False) (bind_params X s ((paramNr + 1) mod 65536) cs)"

fun bind_columns :: "ext \<Rightarrow> nat \<Rightarrow> nat \<Rightarrow> nat list \<Rightarrow> ('z, unit) sprog" where
  "bind_columns X s columnNr [] = skipM"
| "bind_columns X s columnNr (c # cs) =
     thenM (Statement_BindColumn X s c columnNr) (bind_columns X s ((columnNr + 1) mod 65536) cs)"

definition assert_bindable :: "nat \<Rightarrow> string \<Rightarrow> flag \<Rightarrow> (Table \<Rightarrow> nat) \<Rightarrow> ('z, unit) tprog" where
  "assert_bindable t text af stmt = seqM
     [exASSERT ''!m_columns.empty()'' (\<lambda>w. tb_columns (tabs w t) \<noteq> []),
      assert_access t text af,
      exASSERT ''m_execStmt.IsInitialized()'' (\<lambda>w. IsInitialized w (stmt (tabs w t)))]"

definition BindDeletePkParameters :: "ext \<Rightarrow> nat \<Rightarrow> ('z, unit) tprog" where
  "BindDeletePkParameters X t =
     thenM (assert_bindable t ''TestAccessFlag(TableAccessFlag::AF_DELETE_PK)'' AF_DELETE_PK tb_execStmtDeletePk)
     (with_tab t (\<lambda>b.
      bindM (getsM (\<lambda>w. where_pk (buf w) (tb_columns b) [] [])) (\<lambda>r. bindM (liftM r) (\<lambda>(whereMarkers, whereParams).
      bindM (tab_name t) (\<lambda>name. seqM
        [exASSERT ''!whereParamsToBind.empty()'' (\<lambda>_. whereParams \<noteq> []),
         Prepare X (tb_execStmtDeletePk b) (boost_format X ''DELETE FROM %s WHERE %s''
           [name, boost_erase_last X whereMarkers '', '']),
         bind_params X (tb_execStmtDeletePk b) 1 whereParams])))))"

definition BindUpdatePkParameters :: "ext \<Rightarrow> nat \<Rightarrow> ('z, unit) tprog" where
  "BindUpdatePkParameters X t =
     thenM (assert_bindable t ''TestAccessFlag(TableAccessFlag::AF_UPDATE_PK)'' AF_UPDATE_PK tb_execStmtUpdatePk)
     (with_tab t (\<lambda>b.
      bindM (getsM (\<lambda>w. set_and_where (buf w) (tb_columns b) [] [] [] [])) (\<lambda>r.
      bindM (liftM r) (\<lambda>(setMarkers, setParams, whereMarkers, whereParams).
      bindM (tab_name t) (\<lambda>name. seqM
        [exASSERT ''!setParamsToBind.empty()'' (\<lambda>_. setParams \<noteq> []),
         exASSERT ''!whereParamsToBind.empty()'' (\<lambda>_. whereParams \<noteq> []),
         Prepare X (tb_execStmtUpdatePk b) (boost_format X ''UPDATE %s SET %s WHERE %s''
           [name, boost_erase_last X setMarkers '', '', boost_erase_last X whereMarkers '', '']),
         bind_params X (tb_execStmtUpdatePk b) 1 (setParams @ whereParams)])))))"

definition BindInsertParameters :: "ext \<Rightarrow> nat \<Rightarrow> ('z, unit) tprog" where
  "BindInsertParameters X t =
     thenM (assert_bindable t ''TestAccessFlag(TableAccessFlag::AF_INSERT)'' AF_INSERT tb_execStmtInsert)
     (with_tab t (\<lambda>b.
      bindM (getsM (\<lambda>w. insert_fields (buf w) (tb_columns b) [] [] [])) (\<lambda>r.
      bindM (liftM r) (\<lambda>(names, markers, colsToBind).
      bindM (tab_name t) (\<lambda>name. seqM
        [exASSERT ''!colsToBind.empty()'' (\<lambda>_. colsToBind \<noteq> []),
         Prepare X (tb_execStmtInsert b) (boost_format X ''INSERT INTO %s (%s) VALUES(%s)''
           [name, boost_erase_last X names '', '', boost_erase_last X markers '', '']),
         bind_params X (tb_execStmtInsert b) 1 colsToBind])))))"

definition BindSelectPkParameters :: "ext \<Rightarrow> nat \<Rightarrow> ('z, unit) tprog" where
  "BindSelectPkParameters X t =
     thenM (assert_bindable t ''TestAccessFlag(TableAccessFlag::AF_SELECT_PK)'' AF_SELECT_PK tb_execStmtSelect)
     (with_tab t (\<lambda>b.
      bindM (getsM (\<lambda>w. where_pk (buf w) (tb_columns b) [] [])) (\<lambda>r. bindM (liftM r) (\<lambda>(whereMarkers, whereParams).
      thenM (exASSERT ''!whereParamsToBind.empty()'' (\<lambda>_. whereParams \<noteq> []))
      (bindM (BuildSelectFieldsStatement X t) (\<lambda>names. bindM (tab_name t) (\<lambda>name. seqM
        [Prepare X (tb_execStmtSelect b) (boost_format X ''SELECT %s FROM %s WHERE %s''
           [names, name, boost_erase_last X whereMarkers '', '']),
         bind_params X (tb_execStmtSelect b) 1 whereParams])))))))"

section \<open>Checks before binding\<close>

definition flag_mismatch :: "ext \<Rightarrow> nat \<Rightarrow> string \<Rightarrow> nat \<Rightarrow> string \<Rightarrow> ('z, unit) tprog" where
  "flag_mismatch X t fmt i queryName = bindM (tab_name t) (\<lambda>name.
     throwM (BaseException (boost_format X fmt [queryName, show_nat i, name])))"

fun check_column_flags :: "ext \<Rightarrow> nat \<Rightarrow> Table \<Rightarrow> (nat \<times> nat) list \<Rightarrow> ('z, unit) tprog" where
  "check_column_flags X t b [] = skipM"
| "check_column_flags X t b ((i, c) # columns) =
     bindM (getsM (\<lambda>w. buf w c)) (\<lambda>cb. bindM (liftM (GetQueryName cb)) (\<lambda>queryName.
     let test = (\<lambda>f. EnumFlags_Test (m_colFlags cb) f) in seqM
       [if test CF_SELECT \<and> \<not> (TestAccessFlag b AF_SELECT_PK \<or> TestAccessFlag b AF_SELECT_WHERE)
        then flag_mismatch X t ''Defined Column %s (%d) has ColumnFlag CF_SELECT set, but the AccessFlag AF_SELECT_PK or AF_SELECT_WHERE is not set on the table %s'' i queryName
        else skipM,
        if test CF_INSERT \<and> \<not> TestAccessFlag b AF_INSERT
        then flag_mismatch X t ''Defined Column %s (%d) has ColumnFlag CF_INSERT set, but the AccessFlag AF_INSERT is not set on the table %s'' i queryName
        else skipM,
        if test CF_UPDATE \<and> \<not> (TestAccessFlag b AF_UPDATE_PK \<or> TestAccessFlag b AF_UPDATE_WHERE)
        then flag_mismatch X t ''Defined Column %s (%d) has ColumnFlag CF_UPDATE set, but the AccessFlag AF_UPDATE_PK or AF_UPDATE_WHERE is not set on the table %s'' i queryName
        else skipM,
        check_column_flags X t b columns]))"

definition CheckColumnFlags :: "ext \<Rightarrow> nat \<Rightarrow> ('z, unit) tprog" where
  "CheckColumnFlags X t = with_tab t (\<lambda>b. check_column_flags X t b (tb_columns b))"

fun check_sql_types :: "ext \<Rightarrow> nat \<Rightarrow> bool \<Rightarrow> (nat \<times> nat) list \<Rightarrow> ('z, unit) tprog" where
  "check_sql_types X t removeUnsupported [] = skipM"
| "check_sql_types X t removeUnsupported ((i, c) # columns) =
     bindM (getsM (\<lambda>w. buf w c)) (\<lambda>cb. bindM (liftM (GetQueryName cb)) (\<lambda>queryName.
     bindM (tab_db t (\<lambda>d. IsSqlTypeSupported d (m_sqlType cb))) (\<lambda>supported.
     thenM (if supported then skipM
            else if removeUnsupported
            then thenM (mod_tab t (\<lambda>b. b\<lparr>tb_columns := map_del i (tb_columns b)\<rparr>))
                   (whenM (\<lambda>w. c \<notin> snd ` set (tb_columns (tabs w t))) (drop_buffer X c))
            else throwM (BaseException (boost_format X ''Defined Column %s (%d) has SQL Type %s (%d) set, but the Database did not report this type as a supported SQL Type.''
                   [queryName, show_nat i, SqlType2s (m_sqlType cb), show_int (m_sqlType cb)])))
       (check_sql_types X t removeUnsupported columns))))"

definition CheckSqlTypes :: "ext \<Rightarrow> nat \<Rightarrow> bool \<Rightarrow> ('z, unit) tprog" where
  "CheckSqlTypes X t removeUnsupported =
     with_tab t (\<lambda>b. check_sql_types X t removeUnsupported (tb_columns b))"

section \<open>The statements of a table\<close>

definition reset_statements :: "ext \<Rightarrow> nat \<Rightarrow> ('z, unit) tprog" where
  "reset_statements X t = with_tab t (\<lambda>b. seqM
     [Statement_Reset X (tb_execStmtCountWhere b),
      Statement_Reset X (tb_execStmtSelect b),
      Statement_Reset X (tb_execStmtInsert b),
      Statement_Reset X (tb_execStmtUpdatePk b),
      Statement_Reset X (tb_execStmtDeletePk b)])"

definition FreeStatements :: "ext \<Rightarrow> nat \<Rightarrow> ('z, unit) tprog" where
  "FreeStatements X t = thenM (reset_count_buffer X t) (reset_statements X t)"

definition when_access :: "nat \<Rightarrow> flag \<Rightarrow> ('z, unit) tprog \<Rightarrow> ('z, unit) tprog" where
  "when_access t af m = whenM (\<lambda>w. TestAccessFlag (tabs w t) af) m"

definition init_statements :: "ext \<Rightarrow> nat \<Rightarrow> nat \<Rightarrow> bool \<Rightarrow> ('z, unit) tprog" where
  "init_statements X t d scrollableCursors = with_tab t (\<lambda>b. seqM
     [whenM (\<lambda>w. TestAccessFlag (tabs w t) AF_SELECT_WHERE \<or> TestAccessFlag (tabs w t) AF_SELECT_PK)
        (Statement_Init X (tb_execStmtSelect b) (Some d) scrollableCursors),
      when_access t AF_COUNT_WHERE (seqM
        [Statement_Init X (tb_execStmtCountWhere b) (Some d) False,
         bindM (make_buffer (ColumnBuffer_one UBigIntColumnBuffer [] SQL_UNKNOWN_TYPE (EnumFlags_of CF_SELECT)))
           (\<lambda>c. thenM (reset_count_buffer X t) (mod_tab t (\<lambda>b. b\<lparr>tb_pSelectCountResultBuffer := Some c\<rparr>)))]),
      when_access t AF_DELETE_PK (Statement_Init X (tb_execStmtDeletePk b) (Some d) False),
      when_access t AF_UPDATE_PK (Statement_Init X (tb_execStmtUpdatePk b) (Some d) False),
      when_access t AF_INSERT (Statement_Init X (tb_execStmtInsert b) (Some d) False)])"

definition AllocateStatements :: "ext \<Rightarrow> nat \<Rightarrow> bool \<Rightarrow> ('z, unit) tprog" where
  "AllocateStatements X t scrollableCursors = thenM (assert_closed t) (tab_db t (\<lambda>d.
     thenM (exASSERT ''m_pDb->IsOpen()'' (\<lambda>w. IsOpen w d))
       (catchM (init_statements X t d scrollableCursors)
          (\<lambda>ex. thenM (FreeStatements X t) (throwM ex)))))"

section \<open>Opening and closing\<close>

text \<open>The existence check of \<open>Open\<close>, with its exception for Excel.\<close>

definition check_existence :: "ext \<Rightarrow> nat \<Rightarrow> nat \<Rightarrow> nat \<Rightarrow> ('z, unit) tprog" where
  "check_existence X n t d =
     bindM (getsM (\<lambda>w. m_dbms (props w d) = EXCEL)) (\<lambda>excel. tab_catalog t (\<lambda>a. with_tab t (\<lambda>b.
       let ti = tb_tableInfo b in
       thenM (FindOneTable X n a (ti_tableName ti) (ti_schemaName ti)
                (if excel then [] else ti_catalogName ti) (if excel then [] else ti_tableType ti)) skipM)))"

fun mark_primary_keys :: "ext \<Rightarrow> (nat \<times> nat) list \<Rightarrow> nat list \<Rightarrow> ('z, unit) tprog" where
  "mark_primary_keys X columns [] = skipM"
| "mark_primary_keys X columns (i # is) =
     (case map_of columns i of
        None \<Rightarrow> throwM (IllegalArgumentException (boost_format X
          ''No ColumnBuffer was found for a manually defined primary key column index (index = %d)'' [show_nat i]))
      | Some c \<Rightarrow> thenM (on_buf c (modifyM (\<lambda>b. b\<lparr>m_colFlags := EnumFlags_Set (m_colFlags b) CF_PRIMARY_KEY\<rparr>)))
          (mark_primary_keys X columns is))"

definition uses_pk :: "Table \<Rightarrow> bool" where
  "uses_pk b \<longleftrightarrow> TestAccessFlag b AF_UPDATE_PK \<or> TestAccessFlag b AF_DELETE_PK \<or> TestAccessFlag b AF_SELECT_PK"

definition find_table :: "ext \<Rightarrow> nat \<Rightarrow> nat \<Rightarrow> nat \<Rightarrow> ('z, unit) tprog" where
  "find_table X n t d = with_tab t (\<lambda>b.
     if \<not> tb_haveTableInfo b then thenM (ReadTableInfo X n t) skipM
     else if TestOpenFlag b TOF_CHECK_EXISTANCE then check_existence X n t d else skipM)"

definition load_columns :: "ext \<Rightarrow> nat \<Rightarrow> nat \<Rightarrow> ('z, unit) tprog" where
  "load_columns X n t = seqM
     [whenM (\<lambda>w. tb_columns (tabs w t) = [] \<and>
          \<not> (EnumFlags_eq (tb_tableAccessFlags (tabs w t)) (EnumFlags_of AF_NONE) \<or>
             EnumFlags_eq (tb_tableAccessFlags (tabs w t)) (EnumFlags_of AF_COUNT_WHERE)))
        (with_tab t (\<lambda>b. thenM (CreateAutoColumnBufferPtrs X n t
           (TestOpenFlag b TOF_SKIP_UNSUPPORTED_COLUMNS) True False) skipM)),
      whenM (\<lambda>w. tb_primaryKeyColumnIndexes (tabs w t) \<noteq> [])
        (thenM (mod_tab t (\<lambda>b. b\<lparr>tb_openFlags := EnumFlags_Set (tb_openFlags b) TOF_DO_NOT_QUERY_PRIMARY_KEYS\<rparr>))
           (with_tab t (\<lambda>b. mark_primary_keys X (tb_columns b) (tb_primaryKeyColumnIndexes b)))),
      whenM (\<lambda>w. uses_pk (tabs w t) \<and> \<not> TestOpenFlag (tabs w t) TOF_DO_NOT_QUERY_PRIMARY_KEYS)
        (with_tab t (\<lambda>b. QueryPrimaryKeysAndUpdateColumns X n t (tb_columns b)))]"

definition check_columns :: "ext \<Rightarrow> nat \<Rightarrow> ('z, unit) tprog" where
  "check_columns X t = thenM (CheckColumnFlags X t)
     (whenM (\<lambda>w. \<not> tb_autoCreatedColumns (tabs w t) \<and> TestOpenFlag (tabs w t) TOF_CHECK_DB_TYPE_INFOS)
        (with_tab t (\<lambda>b. CheckSqlTypes X t (TestOpenFlag b TOF_SKIP_UNSUPPORTED_COLUMNS))))"

definition prepare_columns :: "ext \<Rightarrow> nat \<Rightarrow> nat \<Rightarrow> ('z, unit) tprog" where
  "prepare_columns X n t = thenM (load_columns X n t) (check_columns X t)"

definition bind_results :: "ext \<Rightarrow> nat \<Rightarrow> ('z, unit) tprog" where
  "bind_results X t = seqM
     [when_access t AF_COUNT_WHERE (with_tab t (\<lambda>b. case tb_pSelectCountResultBuffer b of
        None \<Rightarrow> throwM (AssertionException ''m_pSelectCountResultBuffer'')
      | Some c \<Rightarrow> Statement_BindColumn X (tb_execStmtCountWhere b) c 1)),
      whenM (\<lambda>w. TestAccessFlag (tabs w t) AF_SELECT_WHERE \<or> TestAccessFlag (tabs w t) AF_SELECT_PK)
        (with_tab t (\<lambda>b. bindM (getsM (\<lambda>w. filter (has_flag (buf w) CF_SELECT) (map snd (tb_columns b))))
           (bind_columns X (tb_execStmtSelect b) 1)))]"

definition require_key :: "ext \<Rightarrow> nat \<Rightarrow> ('z, unit) tprog" where
  "require_key X t = bindM (GetPrimaryKeyColumnBuffers t) (\<lambda>pks. if pks = []
     then bindM (tab_name t) (\<lambda>name. throwM (BaseException (boost_format X (''Table '' @ quote @ ''%s'' @ quote @
            '' has no primary keys, cannot open with AF_UPDATE_PK or AF_DELETE_PK'') [name])))
     else skipM)"

definition bind_key_parameters :: "ext \<Rightarrow> nat \<Rightarrow> ('z, unit) tprog" where
  "bind_key_parameters X t = seqM
     [when_access t AF_UPDATE_PK (BindUpdatePkParameters X t),
      when_access t AF_DELETE_PK (BindDeletePkParameters X t),
      when_access t AF_SELECT_PK (BindSelectPkParameters X t)]"

definition bind_statements :: "ext \<Rightarrow> nat \<Rightarrow> ('z, unit) tprog" where
  "bind_statements X t = thenM (bind_results X t)
     (thenM (whenM (\<lambda>w. uses_pk (tabs w t)) (thenM (require_key X t) (bind_key_parameters X t)))
       (when_access t AF_INSERT (BindInsertParameters X t)))"

definition Open_body :: "ext \<Rightarrow> nat \<Rightarrow> nat \<Rightarrow> nat \<Rightarrow> ('z, unit) tprog" where
  "Open_body X n t d = seqM
     [find_table X n t d,
      prepare_columns X n t,
      bind_statements X t,
      mod_tab t (\<lambda>b. b\<lparr>tb_isOpen := True\<rparr>)]"

definition Open_undo :: "ext \<Rightarrow> nat \<Rightarrow> ('z, unit) tprog" where
  "Open_undo X t = thenM (FreeStatements X t)
     (whenM (\<lambda>w. tb_autoCreatedColumns (tabs w t)) (clear_columns X t))"

definition Table_Open :: "ext \<Rightarrow> nat \<Rightarrow> nat \<Rightarrow> EnumFlags \<Rightarrow> ('z, unit) tprog" where
  "Table_Open X n t openFlags = with_tab t (\<lambda>b. case tb_pDb b of
     None \<Rightarrow> throwM (AssertionException ''m_pDb'')
   | Some d \<Rightarrow> seqM
       [exASSERT ''m_pDb->IsOpen()'' (\<lambda>w. IsOpen w d),
        assert_closed t,
        mod_tab t (\<lambda>b. b\<lparr>tb_openFlags := openFlags\<rparr>),
        whenM (\<lambda>w. m_dbms (props w d) = ACCESS \<or> m_dbms (props w d) = EXCEL)
          (mod_tab t (\<lambda>b. b\<lparr>tb_openFlags := EnumFlags_Set (tb_openFlags b) TOF_DO_NOT_QUERY_PRIMARY_KEYS\<rparr>)),
        with_tab t (\<lambda>b. AllocateStatements X t (TestOpenFlag b TOF_SCROLLABLE_CURSORS)),
        catchM (Open_body X n t d) (\<lambda>ex. thenM (Open_undo X t) (throwM ex))])"

definition Table_Close :: "ext \<Rightarrow> nat \<Rightarrow> ('z, unit) tprog" where
  "Table_Close X t = seqM
     [assert_open t,
      whenM (\<lambda>w. tb_autoCreatedColumns (tabs w t)) (clear_columns X t),
      FreeStatements X t,
      mod_tab t (\<lambda>b. b\<lparr>tb_isOpen := False\<rparr>)]"

section \<open>Reading\<close>

definition Count :: "ext \<Rightarrow> nat \<Rightarrow> string \<Rightarrow> ('z, int) tprog" where
  "Count X t whereStatement = thenM (assert_open t)
     (thenM (assert_access t ''m_tableAccessFlags.Test(TableAccessFlag::AF_COUNT_WHERE)'' AF_COUNT_WHERE)
     (with_tab t (\<lambda>b. case tb_pSelectCountResultBuffer b of
        None \<Rightarrow> throwM (AssertionException ''m_pSelectCountResultBuffer'')
      | Some c \<Rightarrow>
          bindM (tab_name t) (\<lambda>name.
          let sqlstmt = (if whereStatement \<noteq> []
                then boost_format X ''SELECT COUNT(*) FROM %s WHERE %s'' [name, whereStatement]
                else boost_format X ''SELECT COUNT(*) FROM %s'' [name]) in
          thenM (ExecuteDirect X (tb_execStmtCountWhere b) sqlstmt)
          (bindM (SelectNext X (tb_execStmtCountWhere b)) (\<lambda>found.
           thenM (exASSERT ''m_execStmtCountWhere.SelectNext()'' (\<lambda>_. found))
           (thenM (SelectClose X (tb_execStmtCountWhere b))
           (bindM (catchM (on_buf c GetValue) (\<lambda>_. undefM)) (\<lambda>v. returnM (v mod 2 ^ 64))))))))))"

definition SelectBySqlStmt :: "ext \<Rightarrow> nat \<Rightarrow> string \<Rightarrow> ('z, unit) tprog" where
  "SelectBySqlStmt X t sqlStmt = thenM (assert_open t)
     (thenM (assert_access t ''m_tableAccessFlags.Test(TableAccessFlag::AF_SELECT_WHERE)'' AF_SELECT_WHERE)
     (thenM (exASSERT ''!sqlStmt.empty()'' (\<lambda>_. sqlStmt \<noteq> []))
     (with_tab t (\<lambda>b. ExecuteDirect X (tb_execStmtSelect b) sqlStmt))))"

definition Table_Select :: "ext \<Rightarrow> nat \<Rightarrow> string \<Rightarrow> string \<Rightarrow> ('z, unit) tprog" where
  "Table_Select X t whereStatement orderStatement = thenM (assert_open t)
     (bindM (BuildSelectFieldsStatement X t) (\<lambda>names. bindM (tab_name t) (\<lambda>name.
      SelectBySqlStmt X t (''SELECT '' @ names @ '' FROM '' @ name @
        (if whereStatement \<noteq> [] then '' WHERE '' @ whereStatement else []) @
        (if orderStatement \<noteq> [] then '' ORDER BY '' @ orderStatement else [])))))"

definition SelectByPkValues :: "ext \<Rightarrow> nat \<Rightarrow> ('z, unit) tprog" where
  "SelectByPkValues X t = thenM (assert_open t) (with_tab t (\<lambda>b. ExecutePrepared X (tb_execStmtSelect b)))"

text \<open>\<open>SelectNext\<close>, \<open>SelectPrev\<close> and the other cursor functions pass the call on to the statement.\<close>

definition Table_select_op :: "ext \<Rightarrow> nat \<Rightarrow> cursor_op \<Rightarrow> ('z, bool) tprog" where
  "Table_select_op X t op = with_tab t (\<lambda>b. select_op X (tb_execStmtSelect b) op)"

definition Table_SelectClose :: "ext \<Rightarrow> nat \<Rightarrow> ('z, unit) tprog" where
  "Table_SelectClose X t = with_tab t (\<lambda>b. SelectClose X (tb_execStmtSelect b))"

section \<open>Writing\<close>

definition Insert :: "ext \<Rightarrow> nat \<Rightarrow> ('z, unit) tprog" where
  "Insert X t = thenM (assert_open t)
     (thenM (assert_access t ''TestAccessFlag(TableAccessFlag::AF_INSERT)'' AF_INSERT)
       (with_tab t (\<lambda>b. ExecutePrepared X (tb_execStmtInsert b))))"

text \<open>A handler that accepts \<open>SQL_NO_DATA\<close> when the caller does.\<close>

definition accept_no_data :: "bool \<Rightarrow> ('z, unit) tprog \<Rightarrow> ('z, unit) tprog" where
  "accept_no_data failOnNoData m = catchM m (\<lambda>ex.
     if is_SqlResultException ex \<and> \<not> failOnNoData \<and> GetRet ex = Some SQL_NO_DATA then skipM else throwM ex)"

definition DeleteByPkValues :: "ext \<Rightarrow> nat \<Rightarrow> bool \<Rightarrow> ('z, unit) tprog" where
  "DeleteByPkValues X t failOnNoData = thenM (assert_open t)
     (thenM (assert_access t ''TestAccessFlag(TableAccessFlag::AF_DELETE_PK)'' AF_DELETE_PK)
       (with_tab t (\<lambda>b. accept_no_data failOnNoData (ExecutePrepared X (tb_execStmtDeletePk b)))))"

definition UpdateByPkValues :: "ext \<Rightarrow> nat \<Rightarrow> ('z, unit) tprog" where
  "UpdateByPkValues X t = thenM (assert_open t)
     (thenM (assert_access t ''TestAccessFlag(TableAccessFlag::AF_UPDATE_PK)'' AF_UPDATE_PK)
       (with_tab t (\<lambda>b. ExecutePrepared X (tb_execStmtUpdatePk b))))"

text \<open>A local \<open>ExecutableStatement\<close> that is initialised first and destroyed on every way out.\<close>

definition with_statement :: "ext \<Rightarrow> nat \<Rightarrow> (nat \<Rightarrow> ('z, unit) tprog) \<Rightarrow> ('z, unit) tprog" where
  "with_statement X t body = bindM Statement_new (\<lambda>s. with_tab t (\<lambda>b.
     finallyM (thenM (Statement_Init X s (tb_pDb b) False) (body s)) (Statement_destroy X s)))"

definition Delete :: "ext \<Rightarrow> nat \<Rightarrow> string \<Rightarrow> bool \<Rightarrow> ('z, unit) tprog" where
  "Delete X t whereStmt failOnNoData =
     thenM (exASSERT ''!m_columns.empty()'' (\<lambda>w. tb_columns (tabs w t) \<noteq> []))
     (thenM (assert_access t ''TestAccessFlag(TableAccessFlag::AF_DELETE_WHERE)'' AF_DELETE_WHERE)
     (thenM (exASSERT ''!where.empty()'' (\<lambda>_. whereStmt \<noteq> []))
     (with_statement X t (\<lambda>s. bindM (tab_name t) (\<lambda>name.
        accept_no_data failOnNoData
          (ExecuteDirect X s (boost_format X ''DELETE FROM %s WHERE %s'' [name, whereStmt])))))))"

definition Update :: "ext \<Rightarrow> nat \<Rightarrow> string \<Rightarrow> ('z, unit) tprog" where
  "Update X t whereStmt =
     thenM (exASSERT ''!m_columns.empty()'' (\<lambda>w. tb_columns (tabs w t) \<noteq> []))
     (thenM (assert_access t ''TestAccessFlag(TableAccessFlag::AF_UPDATE_WHERE)'' AF_UPDATE_WHERE)
     (thenM (exASSERT ''!where.empty()'' (\<lambda>_. whereStmt \<noteq> []))
     (with_statement X t (\<lambda>s. with_tab t (\<lambda>b.
        bindM (getsM (\<lambda>w. set_update (buf w) (tb_columns b) [] [])) (\<lambda>r. bindM (liftM r) (\<lambda>(setMarkers, setParams).
        bindM (tab_name t) (\<lambda>name. seqM
          [exASSERT ''!setParamsToBind.empty()'' (\<lambda>_. setParams \<noteq> []),
           Prepare X s (boost_format X ''UPDATE %s SET %s WHERE %s''
             [name, boost_erase_last X setMarkers '', '', whereStmt]),
           bind_params X s 1 setParams,
           ExecutePrepared X s]))))))))"

section \<open>Construction and destruction\<close>

definition Table_new :: "('z, nat) tprog" where
  "Table_new =
     bindM Statement_new (\<lambda>s1. bindM Statement_new (\<lambda>s2. bindM Statement_new (\<lambda>s3. bindM Statement_new (\<lambda>s4.
     bindM Statement_new (\<lambda>s5. bindM new_address (\<lambda>t. thenM (mod_tab t (\<lambda>_.
       \<lparr>tb_pDb = None, tb_pSql2BufferTypeMap = None, tb_execStmtCountWhere = s1, tb_execStmtSelect = s2,
        tb_execStmtInsert = s3, tb_execStmtUpdatePk = s4, tb_execStmtDeletePk = s5,
        tb_pSelectCountResultBuffer = None, tb_haveTableInfo = False, tb_tableInfo = TableInfo_new,
        tb_isOpen = False, tb_openFlags = EnumFlags_of TOF_NONE, tb_tableAccessFlags = EnumFlags_of AF_NONE,
        tb_primaryKeyColumnIndexes = [], tb_columns = [], tb_autoCreatedColumns = False,
        tb_initialTableName = [], tb_initialSchemaName = [], tb_initialCatalogName = [], tb_initialTypeName = []\<rparr>))
     (returnM t)))))))"

definition Table_Init_with :: "nat \<Rightarrow> nat option \<Rightarrow> EnumFlags \<Rightarrow> (Table \<Rightarrow> Table) \<Rightarrow> ('z, unit) tprog" where
  "Table_Init_with t pDb afs names = (case pDb of
     None \<Rightarrow> throwM (AssertionException ''pDb'')
   | Some d \<Rightarrow> seqM
       [exASSERT ''pDb->IsOpen()'' (\<lambda>w. IsOpen w d),
        exASSERT ''m_pDb == NULL'' (\<lambda>w. tb_pDb (tabs w t) = None),
        mod_tab t (\<lambda>b. names (b\<lparr>tb_pDb := Some d\<rparr>)),
        bindM (GetSql2BufferTypeMap d) (\<lambda>m. mod_tab t (\<lambda>b. b\<lparr>tb_pSql2BufferTypeMap := Some m\<rparr>)),
        SetAccessFlags t afs])"

definition Table_Init_info :: "nat \<Rightarrow> nat option \<Rightarrow> EnumFlags \<Rightarrow> TableInfo \<Rightarrow> ('z, unit) tprog" where
  "Table_Init_info t pDb afs tableInfo =
     Table_Init_with t pDb afs (\<lambda>b. b\<lparr>tb_haveTableInfo := True, tb_tableInfo := tableInfo\<rparr>)"

definition Table_Init_names ::
  "nat \<Rightarrow> nat option \<Rightarrow> EnumFlags \<Rightarrow> string \<Rightarrow> string \<Rightarrow> string \<Rightarrow> string \<Rightarrow> ('z, unit) tprog" where
  "Table_Init_names t pDb afs tableName schemaName catalogName tableType =
     Table_Init_with t pDb afs (\<lambda>b. b\<lparr>tb_haveTableInfo := False, tb_initialTableName := tableName,
       tb_initialSchemaName := schemaName, tb_initialCatalogName := catalogName, tb_initialTypeName := tableType\<rparr>)"

definition Table_members :: "ext \<Rightarrow> nat \<Rightarrow> ('z, unit) tprog" where
  "Table_members X t = thenM (clear_columns X t) (thenM (reset_count_buffer X t) (with_tab t (\<lambda>b. seqM
     [Statement_destroy X (tb_execStmtDeletePk b), Statement_destroy X (tb_execStmtUpdatePk b),
      Statement_destroy X (tb_execStmtInsert b), Statement_destroy X (tb_execStmtSelect b),
      Statement_destroy X (tb_execStmtCountWhere b)])))"

definition construct_table :: "ext \<Rightarrow> (nat \<Rightarrow> ('z, unit) tprog) \<Rightarrow> ('z, nat) tprog" where
  "construct_table X init = bindM Table_new (\<lambda>t.
     thenM (catchM (init t) (\<lambda>ex. thenM (Table_members X t) (throwM ex))) (returnM t))"

definition Table_of_names ::
  "ext \<Rightarrow> nat option \<Rightarrow> EnumFlags \<Rightarrow> string \<Rightarrow> string \<Rightarrow> string \<Rightarrow> string \<Rightarrow> ('z, nat) tprog" where
  "Table_of_names X pDb afs tableName schemaName catalogName tableType =
     construct_table X (\<lambda>t. Table_Init_names t pDb afs tableName schemaName catalogName tableType)"

definition Table_of_info :: "ext \<Rightarrow> nat option \<Rightarrow> EnumFlags \<Rightarrow> TableInfo \<Rightarrow> ('z, nat) tprog" where
  "Table_of_info X pDb afs tableInfo = construct_table X (\<lambda>t. Table_Init_info t pDb afs tableInfo)"

definition Table_copy :: "ext \<Rightarrow> nat \<Rightarrow> ('z, nat) tprog" where
  "Table_copy X other = with_tab other (\<lambda>o'. construct_table X (\<lambda>t.
     if tb_haveTableInfo o'
     then thenM (Table_Init_info t (tb_pDb o') (tb_tableAccessFlags o') (tb_tableInfo o'))
            (mod_tab t (\<lambda>b. b\<lparr>tb_initialTableName := tb_initialTableName o',
               tb_initialSchemaName := tb_initialSchemaName o', tb_initialCatalogName := tb_initialCatalogName o',
               tb_initialTypeName := tb_initialTypeName o'\<rparr>))
     else Table_Init_names t (tb_pDb o') (tb_tableAccessFlags o') (tb_initialTableName o')
            (tb_initialSchemaName o') (tb_initialCatalogName o') (tb_initialTypeName o')))"

definition Table_destroy :: "ext \<Rightarrow> nat \<Rightarrow> ('z, unit) tprog" where
  "Table_destroy X t = thenM (tryM (whenM (\<lambda>w. Table_IsOpen w t) (Table_Close X t))) (Table_members X t)"

end
