(* ===== verification/TableProps.thy ===== *)
theory TableProps
  imports Tables
begin

text \<open>
  Properties of the operations of \<open>Tables\<close>: the flags of columns and tables, the SQL text of the prepared
  statements and the parameters bound to it, what a table does that was opened for reading, and how
  \<open>Open\<close> leaves a table.
\<close>

section \<open>Column flags and access flags\<close>

text \<open>The flags of a column that its table does not have the access for.\<close>

definition flags_allowed :: "Table \<Rightarrow> ColumnBuffer \<Rightarrow> bool" where
  "flags_allowed b cb \<longleftrightarrow>
     (EnumFlags_Test (m_colFlags cb) CF_SELECT \<longrightarrow> TestAccessFlag b AF_SELECT_PK \<or> TestAccessFlag b AF_SELECT_WHERE) \<and>
     (EnumFlags_Test (m_colFlags cb) CF_INSERT \<longrightarrow> TestAccessFlag b AF_INSERT) \<and>
     (EnumFlags_Test (m_colFlags cb) CF_UPDATE \<longrightarrow> TestAccessFlag b AF_UPDATE_PK \<or> TestAccessFlag b AF_UPDATE_WHERE)"

lemma tab_name_exec: "tab_name t w = (TableInfo_GetQueryName (tb_tableInfo (tabs w t)), w)"
  by (simp add: tab_name_def with_tab_def)

lemma TableInfo_name_result:
  "(\<exists>s. TableInfo_GetQueryName ti = Ok s) \<or> (\<exists>e. TableInfo_GetQueryName ti = Exn e)"
  by (simp add: TableInfo_GetQueryName_def)

lemma flag_mismatch_throws: "\<exists>e. flag_mismatch X t fmt i q w = (Exn e, w)"
  using TableInfo_name_result[of "tb_tableInfo (tabs w t)"]
  by (auto simp: flag_mismatch_def tab_name_exec bindM_exec)

lemma check_column_flags_run:
  "if \<forall>(i, c)\<in>set columns. HasQueryName (buf w c) \<and> flags_allowed b (buf w c)
   then check_column_flags X t b columns w = (Ok (), w)
   else \<exists>e. check_column_flags X t b columns w = (Exn e, w)"
proof (induction columns)
  case (Cons ic columns)
  obtain i c where ic: "ic = (i, c)" by fastforce
  show ?case
  proof (cases "HasQueryName (buf w c)")
    case True
    then have q: "GetQueryName (buf w c) = Ok (m_queryName (buf w c))" by (simp add: GetQueryName_def)
    have "\<forall>fmt. \<exists>e. flag_mismatch X t fmt i (m_queryName (buf w c)) w = (Exn e, w)"
      by (simp add: flag_mismatch_throws)
    then obtain e where e: "\<And>fmt. flag_mismatch X t fmt i (m_queryName (buf w c)) w = (Exn (e fmt), w)"
      by metis
    have "(flags_allowed b (buf w c) \<longrightarrow> check_column_flags X t b (ic # columns) w = check_column_flags X t b columns w) \<and>
        (\<not> flags_allowed b (buf w c) \<longrightarrow> (\<exists>e. check_column_flags X t b (ic # columns) w = (Exn e, w)))"
      by (simp add: ic q e bindM_exec thenM_exec Let_def flags_allowed_def split: prod.split res.split)
    with Cons True show ?thesis by (auto simp: ic split: if_splits)
  qed (simp add: ic GetQueryName_def bindM_exec)
qed simp

text \<open>
  C17. \<open>CheckColumnFlags\<close> changes nothing. It returns if and only if every column of the table has a query name
  and none has the flag \<open>CF_SELECT\<close>, \<open>CF_INSERT\<close> or \<open>CF_UPDATE\<close> without one of the access flags that it needs;
  otherwise it throws.
\<close>

theorem CheckColumnFlags_iff:
  "if \<forall>(i, c)\<in>set (tb_columns (tabs w t)). HasQueryName (buf w c) \<and> flags_allowed (tabs w t) (buf w c)
   then CheckColumnFlags X t w = (Ok (), w)
   else \<exists>e. CheckColumnFlags X t w = (Exn e, w)"
  using check_column_flags_run[of "tb_columns (tabs w t)" w "tabs w t" X t]
  by (simp add: CheckColumnFlags_def with_tab_def)

section \<open>A table for reading\<close>

text \<open>
  C18. A table whose access flags are those of a query only table writes nothing: \<open>Insert\<close>,
  \<open>DeleteByPkValues\<close>, \<open>UpdateByPkValues\<close>, \<open>Delete\<close> and \<open>Update\<close> throw an \<open>AssertionException\<close>, make no call of the
  driver and leave the state as it was, whether the table is open or not.
\<close>

theorem query_only_never_writes:
  assumes "IsQueryOnly (tabs w t)"
    and "m \<in> {Insert X t, DeleteByPkValues X t b, UpdateByPkValues X t, Delete X t sql b, Update X t sql}"
  shows "\<exists>text. m w = (Exn (AssertionException text), w)"
  using assms
  by (auto simp: IsQueryOnly_def Insert_def DeleteByPkValues_def UpdateByPkValues_def Delete_def Update_def
      assert_open_def assert_access_def thenM_exec)

text \<open>A table (address 9) over the statement at address 3, with columns at the addresses 4 and 5.\<close>

definition small_table :: "flag list \<Rightarrow> Table" where
  "small_table afs = \<lparr>tb_pDb = Some 6, tb_pSql2BufferTypeMap = None, tb_execStmtCountWhere = 3, tb_execStmtSelect = 3,
     tb_execStmtInsert = 3, tb_execStmtUpdatePk = 3, tb_execStmtDeletePk = 3, tb_pSelectCountResultBuffer = None,
     tb_haveTableInfo = True, tb_tableInfo = TableInfo_new\<lparr>ti_tableName := ''t''\<rparr>, tb_isOpen = True,
     tb_openFlags = EnumFlags_of TOF_NONE, tb_tableAccessFlags = fold (\<lambda>f fs. EnumFlags_Set fs f) afs EnumFlags_new,
     tb_primaryKeyColumnIndexes = [], tb_columns = [(0, 4), (1, 5)], tb_autoCreatedColumns = False,
     tb_initialTableName = [], tb_initialSchemaName = [], tb_initialCatalogName = [], tb_initialTypeName = []\<rparr>"

definition small_column :: "string \<Rightarrow> flag list \<Rightarrow> ColumnBuffer" where
  "small_column name fs = char_buffer\<lparr>m_queryName := name, m_colFlags := fold (\<lambda>f fs. EnumFlags_Set fs f) fs EnumFlags_new\<rparr>"

definition small_tables :: "flag list \<Rightarrow> flag list \<Rightarrow> flag list \<Rightarrow> tworld" where
  "small_tables afs fs gs = sworld.extend ((small_stmt False)
       \<lparr>buf := (\<lambda>c. if c = 4 then small_column ''a'' fs else small_column ''b'' gs)\<rparr>)
     \<lparr>tabs = (\<lambda>_. small_table afs), held = (\<lambda>_. False)\<rparr>"

lemma small_tables_simps [simp]:
  "tabs (small_tables afs fs gs) t = small_table afs"
  "buf (small_tables afs fs gs) c = (if c = 4 then small_column ''a'' fs else small_column ''b'' gs)"
  "stms (small_tables afs fs gs) = stms (small_stmt False)"
  "hnd (small_tables afs fs gs) = hnd (small_stmt False)"
  "bnd (small_tables afs fs gs) = bnd (small_stmt False)"
  "fresh (small_tables afs fs gs) = fresh (small_stmt False)"
  "props (small_tables afs fs gs) = props (small_stmt False)"
  "dbs (small_tables afs fs gs) = dbs (small_stmt False)"
  "calls (small_tables afs fs gs) = calls (small_stmt False)"
  by (simp_all add: small_tables_def sworld.defs small_stmt_def dworld.defs)

theorem query_only_never_writes_witness:
  "\<exists>text. Insert (ref_ext good_driver) 9 (small_tables [AF_SELECT_WHERE] [] []) =
     (Exn (AssertionException text), small_tables [AF_SELECT_WHERE] [] [])"
proof (rule query_only_never_writes)
  show "IsQueryOnly (tabs (small_tables [AF_SELECT_WHERE] [] []) 9)"
    by (simp add: IsQueryOnly_def small_table_def TestAccessFlag_def EnumFlags_defs af_defs bm_defs)
qed (rule insertI1)

text \<open>The check above, on a table without and with the access its columns need.\<close>

theorem CheckColumnFlags_iff_witness:
  "CheckColumnFlags (ref_ext good_driver) 9 (small_tables [AF_INSERT] [CF_INSERT] [CF_INSERT]) =
     (Ok (), small_tables [AF_INSERT] [CF_INSERT] [CF_INSERT]) \<and>
   (\<exists>e. CheckColumnFlags (ref_ext good_driver) 9 (small_tables [AF_SELECT_PK] [CF_INSERT] [CF_INSERT]) =
     (Exn e, small_tables [AF_SELECT_PK] [CF_INSERT] [CF_INSERT]))"
proof -
  have "\<forall>(i, c)\<in>set (tb_columns (small_table [AF_INSERT])). HasQueryName (buf (small_tables [AF_INSERT] [CF_INSERT] [CF_INSERT]) c) \<and>
      flags_allowed (small_table [AF_INSERT]) (buf (small_tables [AF_INSERT] [CF_INSERT] [CF_INSERT]) c)"
    "\<not> flags_allowed (small_table [AF_SELECT_PK]) (buf (small_tables [AF_SELECT_PK] [CF_INSERT] [CF_INSERT]) 4)"
    "(0, 4) \<in> set (tb_columns (small_table [AF_SELECT_PK]))"
    by (simp_all add: small_table_def small_column_def HasQueryName_def flags_allowed_def TestAccessFlag_def
        EnumFlags_defs af_defs cf_defs bm_defs)
  then show ?thesis
    using CheckColumnFlags_iff[of "small_tables [AF_INSERT] [CF_INSERT] [CF_INSERT]" 9 "ref_ext good_driver"]
      CheckColumnFlags_iff[of "small_tables [AF_SELECT_PK] [CF_INSERT] [CF_INSERT]" 9 "ref_ext good_driver"]
    by (auto split: if_splits)
qed

section \<open>What a statement was prepared with and what is bound to it\<close>

text \<open>The part of the history of calls that prepares statements and binds buffers to parameters.\<close>

datatype stmt_event = Prepared nat string | Bound nat nat nat

fun event_of :: "odbc_call \<Rightarrow> stmt_event list" where
  "event_of (SQLPrepare h sql) = [Prepared h sql]"
| "event_of (SQLBindParameter h nr io ct st sz dd p len (PLen c)) = [Bound h nr c]"
| "event_of _ = []"

definition events :: "'z world0_scheme \<Rightarrow> stmt_event list" where
  "events w = concat (map event_of (rev (calls w)))"

lemma events_call [simp]: "events (w\<lparr>calls := c # calls w\<rparr>) = events w @ event_of c"
  by (simp add: events_def)

lemma events_frame [pres]: "event_of c = [] \<Longrightarrow> preserves events (odbc X c)"
  by (simp add: preserves_def events_def)

lemma events_above: "preserves events (mod_hnd p f)" "preserves events (mod_bnd b g)" "preserves events new_address"
  "preserves events (mod_stm s k)"
  by (simp_all add: preserves_def events_def)

lemma events_connect [pres]: "preserves events (connect_reset c p)" "preserves events (shared_copy p)"
  unfolding connect_reset_def ConnectResetParamsSignal_def shared_copy_def
  by (intro pres events_above)+

lemma events_numeric [pres]: "preserves events (BindParameter_numeric X nr p d data)"
  unfolding BindParameter_numeric_def SqlDescHandle_new_def set_fields_def SetDescriptionField_desc_def
    SetDescriptionField_def
  by (intro pres) simp_all

lemma events_DescribeParameter [pres]: "preserves events (DescribeParameter X s nr)"
  unfolding DescribeParameter_def ParameterDescription_query_def with_hstmt_def with_ptr_def
  by (intro pres) simp_all

text \<open>What binding leaves alone: the statement's handle, its value, the buffers and the tables.\<close>

definition handle_of :: "nat \<Rightarrow> 'z sworld_scheme \<Rightarrow> nat option" where
  "handle_of s w = map_option (\<lambda>p. m_handle (hnd w p)) (es_pHStmt (stms w s))"

definition fixed_by_binding :: "nat \<Rightarrow> 'z tworld_scheme \<Rightarrow> nat option \<times> (nat \<Rightarrow> ColumnBuffer) \<times> (nat \<Rightarrow> Table)" where
  "fixed_by_binding s w = (handle_of s w, buf w, tabs w)"

lemma fixed_prims:
  "(\<And>h. m_handle (f h) = m_handle h) \<Longrightarrow> preserves (fixed_by_binding s) (mod_hnd p f)"
  "preserves (fixed_by_binding s) (mod_bnd b g)" "preserves (fixed_by_binding s) new_address"
  "preserves (fixed_by_binding s) (odbc X c)"
  "(\<And>t. es_pHStmt (k t) = es_pHStmt t) \<Longrightarrow> preserves (fixed_by_binding s) (mod_stm s' k)"
  by (auto simp: preserves_def fixed_by_binding_def handle_of_def map_option_case split: option.split)

lemma fixed_connect [pres]: "preserves (fixed_by_binding s) (connect_reset c p)"
  unfolding connect_reset_def ConnectResetParamsSignal_def shared_copy_def
  by (intro pres fixed_prims) simp_all

lemma fixed_numeric [pres]: "preserves (fixed_by_binding s) (BindParameter_numeric X nr p d data)"
  unfolding BindParameter_numeric_def SqlDescHandle_new_def set_fields_def SetDescriptionField_desc_def
    SetDescriptionField_def
  by (intro pres fixed_prims)

lemma fixed_DescribeParameter [pres]: "preserves (fixed_by_binding s) (DescribeParameter X s' nr)"
  unfolding DescribeParameter_def ParameterDescription_query_def with_hstmt_def with_ptr_def
  by (intro pres fixed_prims)

lemma fixed_BindParamImpl [pres]: "preserves (fixed_by_binding s) (BindParamImpl X c nr p ct buffer len d)"
  unfolding BindParamImpl_def by (intro pres fixed_prims)

lemma fixed_BindParameter [pres]: "preserves (fixed_by_binding s) (Statement_BindParameter X s' c nr never)"
  unfolding Statement_BindParameter_def with_db_def BindParameter_def by (intro pres fixed_prims) simp_all

lemma fixed_Prepare [pres]: "preserves (fixed_by_binding s) (Prepare X s' sql)"
  unfolding Prepare_def with_hstmt_def with_ptr_def call_hstmt_def by (intro pres fixed_prims) simp_all

lemma event_BindParamImpl:
  "BindParamImpl X c nr (Some p) ct buffer len d w = (Ok (), w') \<Longrightarrow>
     events w' = events w @ [Bound (m_handle (hnd w p)) nr c]"
  by (auto simp: BindParamImpl_def thenM_exec bindM_exec SqlHandle_GetHandle_def split: if_splits
      dest!: preservesD[OF events_connect(1)])

lemma event_BindParameter:
  assumes "BindParameter X c nr (Some p) d w = (Ok (), w')"
  shows "events w' = events w @ [Bound (m_handle (hnd w p)) nr c]"
  using assms
  by (auto simp: BindParameter_def split: if_splits elim!: thenM_OkE dest!: event_BindParamImpl
      preservesD[OF events_numeric])

lemma event_Statement_BindParameter:
  fixes w :: "'z tworld_scheme"
  assumes "Statement_BindParameter X s c nr never w = (Ok (), w')" and h: "handle_of s w = Some h"
  shows "events w' = events w @ [Bound h nr c]"
proof -
  from assms(1) obtain d where d: "es_pDb (stms w s) = Some d"
    by (auto simp: Statement_BindParameter_def with_db_def split: option.splits)
  let ?q = "\<not> never \<and> IsPrepared w s \<and> DatabaseSupportsDescribeParam (m_dbms (props w d)) (GetSqlCType (buf w c))"
  let ?m = "if ?q then DescribeParameter X s nr else getsM (\<lambda>w. CreateParamDescFromProps (buf w c))"
  have e: "preserves events ?m" and f: "preserves (fixed_by_binding s) ?m"
    by (auto intro: pres)
  from assms(1) d obtain pd w1 where 1: "?m w = (Ok pd, w1)"
    and 2: "bindM (getsM (\<lambda>w. es_pHStmt (stms w s))) (\<lambda>p.
       thenM (BindParameter X c nr p pd) (mod_stm s (\<lambda>t. t\<lparr>es_boundParams := True\<rparr>))) w1 = (Ok (), w')"
    by (auto simp: Statement_BindParameter_def with_db_def elim!: bindM_OkE)
  have h1: "handle_of s w1 = Some h" and e1: "events w1 = events w"
    using preservesD[OF f 1] preservesD[OF e 1] h by (simp_all add: fixed_by_binding_def)
  then obtain p where p: "es_pHStmt (stms w1 s) = Some p" "m_handle (hnd w1 p) = h"
    by (auto simp: handle_of_def)
  from 2 p(1) obtain w2 where "BindParameter X c nr (Some p) pd w1 = (Ok (), w2)"
    and "w' = w2\<lparr>stms := (stms w2)(s := (stms w2 s)\<lparr>es_boundParams := True\<rparr>)\<rparr>"
    by (auto elim!: thenM_OkE)
  with event_BindParameter[of X c nr p pd w1 w2] p(2) e1 show ?thesis by (simp add: events_def)
qed

lemma event_Prepare:
  "Prepare X s sql w = (Ok (), w') \<Longrightarrow> handle_of s w = Some h \<Longrightarrow> events w' = events w @ [Prepared h sql]"
  by (auto simp: Prepare_def with_hstmt_def with_ptr_def call_hstmt_def handle_of_def SqlHandle_GetHandle_def
      events_def thenM_exec bindM_exec split: if_splits)

text \<open>The parameters are bound in the order of the list, numbered from the first number on.\<close>

lemma event_bind_params:
  fixes w :: "'z tworld_scheme"
  shows "bind_params X s nr cs w = (Ok (), w') \<Longrightarrow> handle_of s w = Some h \<Longrightarrow> nr + length cs \<le> 65536 \<Longrightarrow>
    events w' = events w @ map (\<lambda>(i, c). Bound h i c) (enumerate nr cs)"
proof (induction cs arbitrary: nr w)
  case (Cons c cs)
  from Cons.prems(1) obtain w1 where 1: "Statement_BindParameter X s c nr False w = (Ok (), w1)"
    and 2: "bind_params X s ((nr + 1) mod 65536) cs w1 = (Ok (), w')"
    by (auto elim!: thenM_OkE)
  have "handle_of s w1 = Some h"
    using preservesD[OF fixed_BindParameter 1, of s] Cons.prems(2) by (simp add: fixed_by_binding_def)
  moreover have "cs \<noteq> [] \<Longrightarrow> (nr + 1) mod 65536 = nr + 1"
    using Cons.prems(3) by (cases cs) auto
  ultimately show ?case
    using Cons.IH[OF 2] 2 Cons.prems(3) event_Statement_BindParameter[OF 1 Cons.prems(2)]
    by (cases cs) auto
qed simp

lemma event_prepare_and_bind:
  fixes w :: "'z tworld_scheme"
  assumes "seqM [Prepare X s sql, bind_params X s 1 cs] w = (Ok (), w')" and h: "handle_of s w = Some h"
    and "length cs < 65536"
  shows "events w' = events w @ Prepared h sql # map (\<lambda>(i, c). Bound h i c) (enumerate 1 cs)"
proof -
  from assms(1) obtain w1 where 1: "Prepare X s sql w = (Ok (), w1)" and 2: "bind_params X s 1 cs w1 = (Ok (), w')"
    by (auto elim!: thenM_OkE)
  have "handle_of s w1 = Some h"
    using preservesD[OF fixed_Prepare 1, of s] h by (simp add: fixed_by_binding_def)
  with event_bind_params[OF 2] event_Prepare[OF 1 h] assms(3) show ?thesis by simp
qed

section \<open>The loops that build the text\<close>

text \<open>The columns of a table with a flag, in the order of their index.\<close>

definition flagged :: "flag \<Rightarrow> nat \<Rightarrow> 'z tworld_scheme \<Rightarrow> nat list" where
  "flagged f t w = filter (has_flag (buf w) f) (map snd (tb_columns (tabs w t)))"

text \<open>Each loop either throws or has appended a part with its separator for every column it collected.\<close>

lemma res_bind_OkE:
  assumes "res_bind r f = Ok y"
  obtains x where "r = Ok x" and "f x = Ok y"
  using assms by (cases r) (simp_all add: res_bind_def)

definition parts :: "(nat \<Rightarrow> ColumnBuffer) \<Rightarrow> string \<Rightarrow> nat list \<Rightarrow> string" where
  "parts bf sep cs = concat (map (\<lambda>c. m_queryName (bf c) @ sep) cs)"

lemma parts_simps [simp]: "parts bf sep [] = []" "parts bf sep (c # cs) = m_queryName (bf c) @ sep @ parts bf sep cs"
  by (simp_all add: parts_def)

lemma GetQueryName_Ok: "GetQueryName b = Ok q \<Longrightarrow> q = m_queryName b"
  by (auto simp: GetQueryName_def split: if_splits)

lemma select_fields_Ok:
  "select_fields bf columns s = Ok r \<Longrightarrow> r = s @ parts bf '', '' (filter (has_flag bf CF_SELECT) (map snd columns))"
  by (induction bf columns s rule: select_fields.induct)
    (auto elim!: res_bind_OkE dest!: GetQueryName_Ok split: if_splits)

lemma where_pk_Ok:
  "where_pk bf columns s ps = Ok (r, qs) \<Longrightarrow> cs = filter (has_flag bf CF_PRIMARY_KEY) (map snd columns) \<Longrightarrow>
     r = s @ parts bf '' = ?, '' cs \<and> qs = ps @ cs"
  by (induction bf columns s ps arbitrary: cs rule: where_pk.induct)
    (auto elim!: res_bind_OkE dest!: GetQueryName_Ok split: if_splits)

lemma insert_fields_Ok:
  "insert_fields bf columns s m ps = Ok (r, n, qs) \<Longrightarrow> cs = filter (has_flag bf CF_INSERT) (map snd columns) \<Longrightarrow>
     r = s @ parts bf '', '' cs \<and> n = m @ concat (replicate (length cs) ''?, '') \<and> qs = ps @ cs"
  by (induction bf columns s m ps arbitrary: cs rule: insert_fields.induct)
    (auto elim!: res_bind_OkE dest!: GetQueryName_Ok split: if_splits)

lemma set_and_where_Ok:
  "set_and_where bf columns s ps u qs = Ok (s', ps', u', qs') \<Longrightarrow>
     cs = filter (\<lambda>c. has_flag bf CF_UPDATE c \<and> \<not> has_flag bf CF_PRIMARY_KEY c) (map snd columns) \<Longrightarrow>
     ds = filter (has_flag bf CF_PRIMARY_KEY) (map snd columns) \<Longrightarrow>
     s' = s @ parts bf '' = ?, '' cs \<and> ps' = ps @ cs \<and> u' = u @ parts bf '' = ?, '' ds \<and> qs' = qs @ ds"
  by (induction bf columns s ps u qs arbitrary: cs ds rule: set_and_where.induct)
    (auto elim!: res_bind_OkE dest!: GetQueryName_Ok split: if_splits)

lemma erase_parts:
  assumes "erase_last_ok X"
  shows "boost_erase_last X (parts bf (u @ '', '') cs) '', '' = join '', '' (map (\<lambda>c. m_queryName (bf c) @ u) cs)"
proof (cases "cs = []")
  case False
  then have "parts bf (u @ '', '') cs = join '', '' (map (\<lambda>c. m_queryName (bf c) @ u) cs) @ '', ''"
    using concat_sep_join[of "map (\<lambda>c. m_queryName (bf c) @ u) cs" "'', ''"] by (simp add: parts_def o_def)
  then show ?thesis using assms erase_last_doc_suffix[of "'', ''"] by (simp add: erase_last_ok_def)
qed (use assms in \<open>simp add: erase_last_ok_def\<close>)

lemma erase_markers:
  assumes "erase_last_ok X"
  shows "boost_erase_last X (concat (replicate n ''?, '')) '', '' = join '', '' (replicate n ''?'')"
proof (cases "n = 0")
  case False
  then have "concat (replicate n ''?, '') = join '', '' (replicate n ''?'') @ '', ''"
    using concat_sep_join[of "replicate n ''?''" "'', ''"] by simp
  then show ?thesis using assms erase_last_doc_suffix[of "'', ''"] by (simp add: erase_last_ok_def)
qed (use assms in \<open>simp add: erase_last_ok_def\<close>)

text \<open>How a list of column names and of conditions or assignments \<open>name = ?\<close> is written.\<close>

definition name_list :: "'z tworld_scheme \<Rightarrow> nat list \<Rightarrow> string" where
  "name_list w cs = join '', '' (map (\<lambda>c. m_queryName (buf w c)) cs)"

definition marker_list :: "'z tworld_scheme \<Rightarrow> nat list \<Rightarrow> string" where
  "marker_list w cs = join '', '' (map (\<lambda>c. m_queryName (buf w c) @ '' = ?'') cs)"

lemma erase_lists:
  assumes "erase_last_ok X"
  shows "boost_erase_last X (parts (buf w) '', '' cs) '', '' = name_list w cs"
    and "boost_erase_last X (parts (buf w) '' = ?, '' cs) '', '' = marker_list w cs"
  using erase_parts[OF assms, of "buf w" "[]" cs] erase_parts[OF assms, of "buf w" "'' = ?''" cs]
  by (simp_all add: name_list_def marker_list_def)

text \<open>What preparing the text \<open>sql\<close> and binding the buffers \<open>cs\<close> as its parameters 1, 2, ... does.\<close>

definition statement_events :: "nat \<Rightarrow> string \<Rightarrow> nat list \<Rightarrow> stmt_event list" where
  "statement_events h sql cs = Prepared h sql # map (\<lambda>(i, c). Bound h i c) (enumerate 1 cs)"

lemma assert_bindable_Ok: "assert_bindable t text af st w = (Ok (), w') \<Longrightarrow> w' = w"
  by (auto simp: assert_bindable_def assert_access_def thenM_exec split: if_splits)

lemma liftM_OkE:
  assumes "bindM (liftM r) f w = (Ok y, w')"
  obtains x where "r = Ok x" and "f x w = (Ok y, w')"
  using assms by (cases r) (simp_all add: bindM_exec)

lemma tab_name_OkE:
  assumes "bindM (tab_name t) f w = (Ok y, w')"
  obtains name where "TableInfo_GetQueryName (tb_tableInfo (tabs w t)) = Ok name" and "f name w = (Ok y, w')"
  using assms by (auto simp: tab_name_exec bindM_exec split: res.splits)

lemma assertM_OkE:
  assumes "seqM (exASSERT text c # ms) w = (Ok (), w')"
  obtains "c w" and "seqM ms w = (Ok (), w')"
  using assms by (auto simp: thenM_exec split: if_splits)

text \<open>The four texts, by the format strings of the code.\<close>

lemma format_texts:
  assumes "format_ok X"
  shows "boost_format X ''INSERT INTO %s (%s) VALUES(%s)'' [a, b, c] = ''INSERT INTO '' @ a @ '' ('' @ b @ '') VALUES('' @ c @ '')''"
    and "boost_format X ''DELETE FROM %s WHERE %s'' [a, b] = ''DELETE FROM '' @ a @ '' WHERE '' @ b"
    and "boost_format X ''UPDATE %s SET %s WHERE %s'' [a, b, c] = ''UPDATE '' @ a @ '' SET '' @ b @ '' WHERE '' @ c"
    and "boost_format X ''SELECT %s FROM %s WHERE %s'' [a, b, c] = ''SELECT '' @ a @ '' FROM '' @ b @ '' WHERE '' @ c"
  using assms by (simp_all add: format_ok_def)

text \<open>
  C6. When \<open>BindInsertParameters\<close> returns, the statement for inserting was prepared with one \<open>INSERT\<close> that
  names exactly the columns with \<open>CF_INSERT\<close>, in the order of their index, with one marker for each, and these
  columns' buffers are bound to the parameters 1, 2, ... in the same order. There is at least one.
\<close>

theorem insert_statement:
  fixes w :: "'z tworld_scheme"
  assumes "format_ok X" and "erase_last_ok X" and run: "BindInsertParameters X t w = (Ok (), w')"
    and h: "handle_of (tb_execStmtInsert (tabs w t)) w = Some h" and cs: "cs = flagged CF_INSERT t w" "length cs < 65536"
    and name: "TableInfo_GetQueryName (tb_tableInfo (tabs w t)) = Ok name"
  shows "cs \<noteq> [] \<and> events w' = events w @ statement_events h
    (''INSERT INTO '' @ name @ '' ('' @ name_list w cs @ '') VALUES('' @ join '', '' (replicate (length cs) ''?'') @ '')'') cs"
proof -
  from run obtain r m qs where "insert_fields (buf w) (tb_columns (tabs w t)) [] [] [] = Ok (r, m, qs)"
    and s: "seqM [exASSERT ''!colsToBind.empty()'' (\<lambda>_. qs \<noteq> []),
      Prepare X (tb_execStmtInsert (tabs w t)) (boost_format X ''INSERT INTO %s (%s) VALUES(%s)''
        [name, boost_erase_last X r '', '', boost_erase_last X m '', '']),
      bind_params X (tb_execStmtInsert (tabs w t)) 1 qs] w = (Ok (), w')"
    using name unfolding BindInsertParameters_def with_tab_def
    by (auto elim!: thenM_OkE liftM_OkE tab_name_OkE dest!: assert_bindable_Ok simp del: seqM.simps)
  with insert_fields_Ok[OF this(1) refl] cs
  have "r = parts (buf w) '', '' cs" "m = concat (replicate (length cs) ''?, '')" "qs = cs"
    by (simp_all add: flagged_def)
  with event_prepare_and_bind[OF _ h cs(2)] assertM_OkE[OF s] erase_lists[OF assms(2)] erase_markers[OF assms(2)]
    format_texts[OF assms(1)] show ?thesis
    by (metis statement_events_def)
qed

text \<open>
  C7. When \<open>BindUpdatePkParameters\<close> returns, the statement for updating was prepared with an \<open>UPDATE\<close> that sets
  the columns with \<open>CF_UPDATE\<close> that are not part of the key and selects by the columns of the key; the
  buffers of the columns set are bound first, those of the key behind them, as the markers stand in the
  text. Both lists have an element.
\<close>

theorem update_statement:
  fixes w :: "'z tworld_scheme"
  assumes "format_ok X" and "erase_last_ok X" and run: "BindUpdatePkParameters X t w = (Ok (), w')"
    and h: "handle_of (tb_execStmtUpdatePk (tabs w t)) w = Some h"
    and cs: "cs = filter (\<lambda>c. \<not> has_flag (buf w) CF_PRIMARY_KEY c) (flagged CF_UPDATE t w)"
    and ks: "ks = flagged CF_PRIMARY_KEY t w" and len: "length (cs @ ks) < 65536"
    and name: "TableInfo_GetQueryName (tb_tableInfo (tabs w t)) = Ok name"
  shows "cs \<noteq> [] \<and> ks \<noteq> [] \<and> events w' = events w @ statement_events h
    (''UPDATE '' @ name @ '' SET '' @ marker_list w cs @ '' WHERE '' @ marker_list w ks) (cs @ ks)"
proof -
  from run obtain r ps u qs where "set_and_where (buf w) (tb_columns (tabs w t)) [] [] [] [] = Ok (r, ps, u, qs)"
    and s: "seqM [exASSERT ''!setParamsToBind.empty()'' (\<lambda>_. ps \<noteq> []),
      exASSERT ''!whereParamsToBind.empty()'' (\<lambda>_. qs \<noteq> []),
      Prepare X (tb_execStmtUpdatePk (tabs w t)) (boost_format X ''UPDATE %s SET %s WHERE %s''
        [name, boost_erase_last X r '', '', boost_erase_last X u '', '']),
      bind_params X (tb_execStmtUpdatePk (tabs w t)) 1 (ps @ qs)] w = (Ok (), w')"
    using name unfolding BindUpdatePkParameters_def with_tab_def
    by (auto elim!: thenM_OkE liftM_OkE tab_name_OkE dest!: assert_bindable_Ok simp del: seqM.simps)
  with set_and_where_Ok[OF this(1) refl refl] cs ks
  have "r = parts (buf w) '' = ?, '' cs" "ps = cs" "u = parts (buf w) '' = ?, '' ks" "qs = ks"
    by (simp_all add: flagged_def)
  with assertM_OkE[OF s] erase_lists[OF assms(2), of w] format_texts(3)[OF assms(1)]
  have "cs \<noteq> []" and s2: "seqM [exASSERT ''!whereParamsToBind.empty()'' (\<lambda>_. ks \<noteq> []),
      Prepare X (tb_execStmtUpdatePk (tabs w t))
        (''UPDATE '' @ name @ '' SET '' @ marker_list w cs @ '' WHERE '' @ marker_list w ks),
      bind_params X (tb_execStmtUpdatePk (tabs w t)) 1 (cs @ ks)] w = (Ok (), w')"
    by metis+
  with event_prepare_and_bind[OF _ h len] assertM_OkE[OF s2] show ?thesis
    by (metis statement_events_def)
qed

text \<open>
  C14. When \<open>BindDeletePkParameters\<close> returns, the statement for deleting was prepared with a \<open>DELETE\<close> whose
  condition is made of the columns of the key, and their buffers are bound in that order. The parts of the
  condition are joined by a comma: it is the condition \<open>name = ?\<close> for a key of one column, and no
  condition of SQL for a key of more columns.
\<close>

theorem delete_statement:
  fixes w :: "'z tworld_scheme"
  assumes "format_ok X" and "erase_last_ok X" and run: "BindDeletePkParameters X t w = (Ok (), w')"
    and h: "handle_of (tb_execStmtDeletePk (tabs w t)) w = Some h"
    and ks: "ks = flagged CF_PRIMARY_KEY t w" "length ks < 65536"
    and name: "TableInfo_GetQueryName (tb_tableInfo (tabs w t)) = Ok name"
  shows "ks \<noteq> [] \<and>
    events w' = events w @ statement_events h (''DELETE FROM '' @ name @ '' WHERE '' @ marker_list w ks) ks"
proof -
  from run obtain r qs where "where_pk (buf w) (tb_columns (tabs w t)) [] [] = Ok (r, qs)"
    and s: "seqM [exASSERT ''!whereParamsToBind.empty()'' (\<lambda>_. qs \<noteq> []),
      Prepare X (tb_execStmtDeletePk (tabs w t)) (boost_format X ''DELETE FROM %s WHERE %s''
        [name, boost_erase_last X r '', '']),
      bind_params X (tb_execStmtDeletePk (tabs w t)) 1 qs] w = (Ok (), w')"
    using name unfolding BindDeletePkParameters_def with_tab_def
    by (auto elim!: thenM_OkE liftM_OkE tab_name_OkE dest!: assert_bindable_Ok simp del: seqM.simps)
  with where_pk_Ok[OF this(1) refl] ks have "r = parts (buf w) '' = ?, '' ks" "qs = ks"
    by (simp_all add: flagged_def)
  with event_prepare_and_bind[OF _ h ks(2)] assertM_OkE[OF s] erase_lists[OF assms(2)] format_texts[OF assms(1)]
  show ?thesis by (metis statement_events_def)
qed

text \<open>A driver that describes every parameter as a \<open>VARCHAR\<close> of 10 characters.\<close>

definition describing_driver :: "odbc_call list \<Rightarrow> reply" where
  "describing_driver cs = (reply_rc SQL_SUCCESS)\<lparr>odesc := (SQL_VARCHAR, 10, 0, 0)\<rparr>"

lemmas binding_defs = with_tab_def assert_bindable_def assert_access_def TestAccessFlag_def IsInitialized_def
  tab_name_exec Prepare_def with_hstmt_def with_ptr_def with_db_def call_hstmt_def Statement_BindParameter_def
  DescribeParameter_def ParameterDescription_query_def ParameterDescription_of_def IsPrepared_def
  DatabaseSupportsDescribeParam_def BindParameter_def BindParamImpl_def connect_reset_def
  ConnectResetParamsSignal_def new_address_def shared_copy_def mod_hnd_def mod_bnd_def SqlHandle_GetHandle_def
  SqlHandle_IsAllocated_def describing_driver_def SQL_SUCCEEDED_def res_bind_def

lemma ref_ext_text [simp]: "boost_format (ref_ext d) = format_doc" "boost_erase_last (ref_ext d) = erase_last_doc"
  by (simp_all add: ref_ext_def)

lemma small_dbms [simp]: "m_dbms (props small_catalog p) = POSTGRESQL"
  by (simp add: small_catalog_def)

lemmas small_defs = small_table_def small_column_def small_stmt_defs small_heap_def char_buffer_defs
  HasQueryName_def GetQueryName_def has_flag_def TableInfo_GetQueryName_def TableInfo_HasCatalog_def
  TableInfo_HasSchema_def TableInfo_new_def

lemmas flag_defs = EnumFlags_defs af_defs cf_defs bm_defs

theorem insert_statement_witness:
  "\<exists>w'. BindInsertParameters (ref_ext describing_driver) 9 (small_tables [AF_INSERT] [CF_INSERT] [CF_INSERT]) = (Ok (), w') \<and>
     events w' = [Prepared 8 ''INSERT INTO t (a, b) VALUES(?, ?)'', Bound 8 1 4, Bound 8 2 5]"
proof -
  let ?w = "small_tables [AF_INSERT] [CF_INSERT] [CF_INSERT]" and ?X = "ref_ext describing_driver"
  have f: "flagged CF_INSERT 9 ?w = [4, 5]" and n: "TableInfo_GetQueryName (tb_tableInfo (tabs ?w 9)) = Ok ''t''"
    and h: "handle_of (tb_execStmtInsert (tabs ?w 9)) ?w = Some 8"
    by (simp_all add: flagged_def handle_of_def small_defs flag_defs)
  obtain w' where r: "BindInsertParameters ?X 9 ?w = (Ok (), w')"
    by (simp add: BindInsertParameters_def binding_defs small_defs flag_defs thenM_exec bindM_exec)
  have "events ?w = []" "name_list ?w [4, 5] = ''a, b''"
    by (simp_all add: events_def name_list_def small_defs)
  with insert_statement[OF ref_ext_ok(1) ref_ext_ok(2) r h f[symmetric] _ n] r show ?thesis
    by (simp add: statement_events_def)
qed

theorem update_statement_witness:
  "\<exists>w'. BindUpdatePkParameters (ref_ext describing_driver) 9
      (small_tables [AF_UPDATE_PK] [CF_PRIMARY_KEY, CF_UPDATE] [CF_UPDATE]) = (Ok (), w') \<and>
     events w' = [Prepared 8 ''UPDATE t SET b = ? WHERE a = ?'', Bound 8 1 5, Bound 8 2 4]"
proof -
  let ?w = "small_tables [AF_UPDATE_PK] [CF_PRIMARY_KEY, CF_UPDATE] [CF_UPDATE]" and ?X = "ref_ext describing_driver"
  have f: "filter (\<lambda>c. \<not> has_flag (buf ?w) CF_PRIMARY_KEY c) (flagged CF_UPDATE 9 ?w) = [5]" "flagged CF_PRIMARY_KEY 9 ?w = [4]"
    and n: "TableInfo_GetQueryName (tb_tableInfo (tabs ?w 9)) = Ok ''t''"
    and h: "handle_of (tb_execStmtUpdatePk (tabs ?w 9)) ?w = Some 8"
    by (simp_all add: flagged_def handle_of_def small_defs flag_defs)
  obtain w' where r: "BindUpdatePkParameters ?X 9 ?w = (Ok (), w')"
    by (simp add: BindUpdatePkParameters_def binding_defs small_defs flag_defs thenM_exec bindM_exec)
  have "events ?w = []" "marker_list ?w [4] = ''a = ?''" "marker_list ?w [5] = ''b = ?''"
    by (simp_all add: events_def marker_list_def small_defs)
  with update_statement[OF ref_ext_ok(1) ref_ext_ok(2) r h f(1)[symmetric] f(2)[symmetric] _ n] r show ?thesis
    by (simp add: statement_events_def)
qed

theorem delete_statement_witness:
  "\<exists>w'. BindDeletePkParameters (ref_ext describing_driver) 9
      (small_tables [AF_DELETE_PK] [CF_PRIMARY_KEY] [CF_PRIMARY_KEY]) = (Ok (), w') \<and>
     events w' = [Prepared 8 ''DELETE FROM t WHERE a = ?, b = ?'', Bound 8 1 4, Bound 8 2 5]"
proof -
  let ?w = "small_tables [AF_DELETE_PK] [CF_PRIMARY_KEY] [CF_PRIMARY_KEY]" and ?X = "ref_ext describing_driver"
  have f: "flagged CF_PRIMARY_KEY 9 ?w = [4, 5]" and n: "TableInfo_GetQueryName (tb_tableInfo (tabs ?w 9)) = Ok ''t''"
    and h: "handle_of (tb_execStmtDeletePk (tabs ?w 9)) ?w = Some 8"
    by (simp_all add: flagged_def handle_of_def small_defs flag_defs)
  obtain w' where r: "BindDeletePkParameters ?X 9 ?w = (Ok (), w')"
    by (simp add: BindDeletePkParameters_def binding_defs small_defs flag_defs thenM_exec bindM_exec)
  have "events ?w = []" "marker_list ?w [4, 5] = ''a = ?, b = ?''"
    by (simp_all add: events_def marker_list_def small_defs)
  with delete_statement[OF ref_ext_ok(1) ref_ext_ok(2) r h f[symmetric] _ n] r show ?thesis
    by (simp add: statement_events_def)
qed

section \<open>Automatic columns\<close>

text \<open>A buffer as it is made for the column described by \<open>ci\<close>, with the flags \<open>fs\<close>.\<close>

definition auto_buffer :: "ColumnInfo \<Rightarrow> EnumFlags \<Rightarrow> ColumnBuffer \<Rightarrow> bool" where
  "auto_buffer ci fs b \<longleftrightarrow> ColumnInfo_GetQueryName ci = Ok (m_queryName b) \<and> m_sqlType b = ci_sqlType ci \<and>
     m_colFlags b = EnumFlags_SetFrom (EnumFlags_of CF_NONE) fs"

lemma array_members:
  "ColumnBuffer_array k n q ty fs = Ok b \<Longrightarrow> m_queryName b = q \<and> m_colFlags b = fs"
  "m_queryName (ColumnBuffer_one k q ty fs) = q" "m_colFlags (ColumnBuffer_one k q ty fs) = fs"
  by (auto simp: ColumnBuffer_array_def ColumnBuffer_one_def ColumnBuffer_base_def setters thenM_exec Let_def
      split: if_splits)

lemma array_buffer_members:
  "CreateColumnArrayBuffer ct q ci = Ok b \<Longrightarrow> m_queryName b = q \<and> m_colFlags b = EnumFlags_of CF_NONE"
  unfolding CreateColumnArrayBuffer_def assert_then_def Let_def
  by (auto split: if_splits res.splits dest: array_members(1))

lemma make_buffer_result:
  "make_buffer b w = (Ok c, w1) \<longleftrightarrow> c = fresh w \<and> w1 = w\<lparr>fresh := fresh w + 1, buf := (buf w)(fresh w := b),
     bnd := (bnd w)(fresh w := \<lparr>m_unbindColumnsConnections = [], m_resetParamsConnections = []\<rparr>)\<rparr>"
  by (auto simp: make_buffer_def new_address_def thenM_exec bindM_exec)

lemma new_buffer_members:
  fixes w :: "'z bworld_scheme"
  assumes "(if IsArrayType ct then CreateColumnArrayBufferPtr ct q ci else CreateColumnBufferPtr ct q) w = (Ok c, w1)"
  shows "c = fresh w \<and> fresh w1 = fresh w + 1 \<and> m_queryName (buf w1 c) = q \<and>
     m_colFlags (buf w1 c) = EnumFlags_of CF_NONE \<and> (\<forall>a. a \<noteq> c \<longrightarrow> buf w1 a = buf w a)"
proof -
  have "\<exists>b. m_queryName b = q \<and> m_colFlags b = EnumFlags_of CF_NONE \<and> make_buffer b w = (Ok c, w1)"
  proof (cases "IsArrayType ct")
    case True
    with assms show ?thesis
      by (auto simp: CreateColumnArrayBufferPtr_def elim!: liftM_OkE dest: array_buffer_members)
  next
    case False
    with assms obtain k where "make_buffer (ColumnBuffer_one k q SQL_UNKNOWN_TYPE (EnumFlags_of CF_NONE)) w = (Ok c, w1)"
      by (auto simp: CreateColumnBufferPtr_def elim!: liftM_OkE)
    with array_members(2,3) show ?thesis by blast
  qed
  then show ?thesis by (auto simp: make_buffer_result)
qed

text \<open>The flags a column gets: those of the start, and \<open>CF_NULLABLE\<close> once a nullable column was met.\<close>

fun sticky_flags :: "ext \<Rightarrow> EnumFlags \<Rightarrow> ColumnInfo list \<Rightarrow> EnumFlags" where
  "sticky_flags X fs cis = (if \<exists>ci\<in>set cis. is_nullable_column X ci then EnumFlags_Set fs CF_NULLABLE else fs)"

text \<open>What the end of the loop's body does to the new buffer.\<close>

lemma auto_fill:
  "\<exists>b'. seqM [modifyM (\<lambda>b. b\<lparr>m_colFlags := EnumFlags_SetFrom (m_colFlags b) fs\<rparr>), SetSqlType ty,
       whenM (\<lambda>_. c1) (SetColumnSize n), whenM (\<lambda>_. c2) (SetDecimalDigits d)] b = (Ok (), b') \<and>
     m_queryName b' = m_queryName b \<and> m_sqlType b' = ty \<and> m_colFlags b' = EnumFlags_SetFrom (m_colFlags b) fs"
  by (simp add: setters thenM_exec)

lemma auto_column_result:
  fixes w :: "'z tworld_scheme"
  assumes "auto_column X m fs ci w = (Ok (c, fs'), w')"
  shows "c = fresh w \<and> fresh w' = fresh w + 1 \<and> fs' = sticky_flags X fs [ci] \<and> auto_buffer ci fs' (buf w' c) \<and>
     (\<forall>a. a \<noteq> c \<longrightarrow> buf w' a = buf w a)"
proof -
  let ?fs = "if is_nullable_column X ci then EnumFlags_Set fs CF_NULLABLE else fs"
  let ?fill = "seqM [modifyM (\<lambda>b. b\<lparr>m_colFlags := EnumFlags_SetFrom (m_colFlags b) ?fs\<rparr>), SetSqlType (ci_sqlType ci),
      whenM (\<lambda>_. \<not> ci_isColumnSizeNull ci) (SetColumnSize (ci_columnSize ci)),
      whenM (\<lambda>_. \<not> ci_isDecimalDigitsNull ci) (SetDecimalDigits (ci_decimalDigits ci))]"
  obtain m' where m: "m = Some m'" using assms by (cases m) (simp_all add: auto_column_def)
  from assms obtain ct q a w1 where q: "ColumnInfo_GetQueryName ci = Ok q"
    and 1: "(if IsArrayType ct then CreateColumnArrayBufferPtr ct q ci else CreateColumnBufferPtr ct q) w = (Ok a, w1)"
    and 2: "thenM (on_buf a ?fill) (returnM (a, ?fs)) w1 = (Ok (c, fs'), w')"
    unfolding auto_column_def Let_def m option.case by (elim liftM_OkE, elim bindM_OkE) blast
  obtain b where b: "?fill (buf w1 a) = (Ok (), b)" "m_queryName b = m_queryName (buf w1 a)"
      "m_sqlType b = ci_sqlType ci" "m_colFlags b = EnumFlags_SetFrom (m_colFlags (buf w1 a)) ?fs"
    using auto_fill by blast
  from b(1) have "on_buf a ?fill w1 = (Ok (), w1\<lparr>buf := (buf w1)(a := b)\<rparr>)"
    by (simp only: on_buf_def prod.case)
  with 2 have "c = a" "fs' = ?fs" "w' = w1\<lparr>buf := (buf w1)(a := b)\<rparr>" by auto
  with new_buffer_members[OF 1] b(2-4) q show ?thesis by (auto simp: auto_buffer_def)
qed

lemma sticky_Cons: "sticky_flags X (sticky_flags X fs [ci]) cis = sticky_flags X fs (ci # cis)"
  by (auto simp: EnumFlags_defs bm_defs or.assoc[symmetric])

lemma auto_columns_result:
  fixes w :: "'z tworld_scheme"
  shows "auto_columns X m False fs cis cs w = (Ok cs', w') \<Longrightarrow>
    cs' = cs @ [fresh w ..< fresh w + length cis] \<and>
    (\<forall>i<length cis. auto_buffer (cis ! i) (sticky_flags X fs (take (Suc i) cis)) (buf w' (fresh w + i))) \<and>
    (\<forall>a<fresh w. buf w' a = buf w a)"
proof (induction cis arbitrary: fs cs w)
  case (Cons ci cis)
  have n: "catchM p throwM = p" for p :: "('z, 'b) tprog"
    by (auto simp: fun_eq_iff catchM_exec split: prod.split res.split)
  from Cons.prems obtain c fs' w1 where 1: "auto_column X m fs ci w = (Ok (c, fs'), w1)"
    and 2: "auto_columns X m False fs' cis (cs @ [c]) w1 = (Ok cs', w')"
    by (auto simp: n elim!: bindM_OkE split: prod.splits)
  note r = auto_column_result[OF 1]
  from Cons.IH[OF 2] r have b: "\<forall>i<length cis. auto_buffer (cis ! i) (sticky_flags X fs' (take (Suc i) cis))
      (buf w' (fresh w + Suc i))" and o: "buf w' c = buf w1 c" "\<forall>a<fresh w. buf w' a = buf w a"
    and "cs' = cs @ c # [fresh w1 ..< fresh w1 + length cis]"
    by auto
  have "auto_buffer ((ci # cis) ! i) (sticky_flags X fs (take (Suc i) (ci # cis))) (buf w' (fresh w + i))"
    if "i < Suc (length cis)" for i
    using that r b o(1) sticky_Cons[of X fs ci "take i cis"] by (cases i) (auto simp del: sticky_flags.simps)
  moreover have "c # [fresh w1 ..< fresh w1 + length cis] = [fresh w ..< fresh w + length (ci # cis)]"
    using r upt_conv_Cons[of "fresh w" "fresh w + Suc (length cis)"] by (simp del: upt_Suc)
  ultimately show ?case using o(2) \<open>cs' = _\<close> by simp
qed simp

text \<open>
  C21. When no column is left out, the loop of \<open>CreateAutoColumnBufferPtrs\<close> makes one new buffer for every column
  of the catalog, in order, with the column's query name and SQL type. Its flags are those that follow from
  the access flags (\<open>fs\<close>), with \<open>CF_NULLABLE\<close> added if that column or any column before it is nullable: the
  variable with the flags is not reset between two columns. Buffers that exist stay as they are.
\<close>

theorem auto_columns_sticky_nullable:
  fixes w :: "'z tworld_scheme"
  assumes "auto_columns X m False fs cis [] w = (Ok cs, w')"
  shows "length cs = length cis \<and> distinct cs \<and> (\<forall>c\<in>set cs. fresh w \<le> c) \<and> (\<forall>a<fresh w. buf w' a = buf w a) \<and>
    (\<forall>i<length cis. let b = buf w' (cs ! i) in
       ColumnInfo_GetQueryName (cis ! i) = Ok (m_queryName b) \<and> m_sqlType b = ci_sqlType (cis ! i) \<and>
       m_colFlags b = (if \<exists>j\<le>i. is_nullable_column X (cis ! j) then EnumFlags_Set fs CF_NULLABLE else fs))"
proof -
  have e: "(\<exists>ci\<in>set (take (Suc i) cis). is_nullable_column X ci) \<longleftrightarrow> (\<exists>j\<le>i. is_nullable_column X (cis ! j))"
    if "i < length cis" for i
    using that by (fastforce simp: set_conv_nth less_Suc_eq_le)
  have f: "EnumFlags_SetFrom x y = y" for x y :: EnumFlags by (simp add: EnumFlags_SetFrom_def)
  from auto_columns_result[OF assms] show ?thesis
    by (auto simp: auto_buffer_def Let_def e f)
qed

definition int_map :: Sql2BufferTypeMap where
  "int_map = SetDefault SQL_C_SLONG Sql2BufferTypeMap_new"

lemma int_map_runs:
  fixes w :: "'z tworld_scheme"
  assumes "ci_columnName ci \<noteq> []"
  shows "\<exists>r w'. auto_column X (Some int_map) fs ci w = (Ok r, w')"
proof -
  have m: "GetBufferType int_map t = Ok SQL_C_SLONG" for t
    by (simp add: GetBufferType_def int_map_def SetDefault_def Sql2BufferTypeMap_new_def HasDefault_def GetDefault_def)
  have c: "\<exists>c w1. CreateColumnBufferPtr SQL_C_SLONG q w = (Ok c, w1)" for q
    by (simp add: CreateColumnBufferPtr_def CreateColumnBuffer_kind_def bindM_exec make_buffer_result)
  then obtain c w1 where "CreateColumnBufferPtr SQL_C_SLONG (ci_columnName ci) w = (Ok c, w1)" by blast
  then show ?thesis
    using assms by (simp add: auto_column_def m ColumnInfo_GetQueryName_def IsArrayType_def on_buf_def setters Let_def
        thenM_exec bindM_exec)
qed

theorem auto_columns_sticky_nullable_witness:
  "\<exists>c1 c2 w'. auto_columns (ref_ext good_driver) (Some int_map) False EnumFlags_new
      [numeric_column, numeric_column\<lparr>ci_isNullable := ''NO''\<rparr>] [] (small_tables [] [] []) = (Ok [c1, c2], w') \<and>
     EnumFlags_Test (m_colFlags (buf w' c2)) CF_NULLABLE"
proof -
  let ?X = "ref_ext good_driver" and ?c1 = numeric_column and ?c2 = "numeric_column\<lparr>ci_isNullable := ''NO''\<rparr>"
  have n: "ci_columnName ?c1 \<noteq> []" "ci_columnName ?c2 \<noteq> []" by (simp_all add: numeric_column_def)
  obtain a fs w1 where 1: "auto_column ?X (Some int_map) EnumFlags_new ?c1 (small_tables [] [] []) = (Ok (a, fs), w1)"
    using int_map_runs[OF n(1)] by (metis prod.exhaust)
  obtain b gs w2 where 2: "auto_column ?X (Some int_map) fs ?c2 w1 = (Ok (b, gs), w2)"
    using int_map_runs[OF n(2)] by (metis prod.exhaust)
  have r: "auto_columns ?X (Some int_map) False EnumFlags_new [?c1, ?c2] [] (small_tables [] [] []) = (Ok [a, b], w2)"
    using 1 2 by simp
  have "is_nullable_column ?X ?c1"
    by (simp add: is_nullable_column_def numeric_column_def ref_ext_def iequals_doc_def)
  then have "\<exists>j\<le>1. is_nullable_column ?X ([?c1, ?c2] ! j)" by (intro exI[of _ 0]) simp
  then have "m_colFlags (buf w2 b) = EnumFlags_Set EnumFlags_new CF_NULLABLE"
    using conjunct2[OF conjunct2[OF conjunct2[OF conjunct2[OF auto_columns_sticky_nullable[OF r]]]], rule_format, of 1]
    by (simp add: Let_def)
  with r show ?thesis by auto
qed

end
