(* ===== verification/TableOpen.thy ===== *)
theory TableOpen
  imports TableProps
begin

text \<open>
  How \<open>Table::Open\<close> leaves a table: the frames of everything it calls, and what an open table's columns and
  flags are.
\<close>

section \<open>Frames of the statements and of the catalog\<close>

text \<open>
  \<open>over f\<close>: \<open>f\<close> reads nothing below the tables: neither what \<open>beyond\<close> excludes nor databases, buffers and
  statements.
\<close>

definition over :: "('z sworld_scheme \<Rightarrow> 'b) \<Rightarrow> bool" where
  "over f \<longleftrightarrow> beyond f \<and> (\<forall>w b. f (w\<lparr>buf := b\<rparr>) = f w) \<and> (\<forall>w s. f (w\<lparr>stms := s\<rparr>) = f w)"

lemma over_beyond: "over f \<Longrightarrow> beyond f"
  and over_above: "over f \<Longrightarrow> above f"
  by (simp_all add: over_def beyond_above)

lemma over_prims [pres]:
  assumes "over f"
  shows "preserves f (mod_stm s k)" and "preserves f (on_buf c m)" and "preserves f (make_buffer b)"
    and "preserves f (receive_row X)"
proof -
  note o = assms over_above[OF assms]
  have b: "f (w\<lparr>buf := x\<rparr>) = f w" "f (w\<lparr>bnd := y\<rparr>) = f w" for w x y
    using o by (simp_all add: over_def above_def)
  have c: "f (w\<lparr>buf := x, bnd := y\<rparr>) = f w" for w x y
    using b(2)[where w = "w\<lparr>buf := x\<rparr>" and y = y] b(1) by simp
  show "preserves f (mod_stm s k)" "preserves f (receive_row X)"
    using assms by (simp_all add: preserves_def over_def)
  show "preserves f (on_buf c m)"
    by (auto simp: preserves_def on_buf_def b split: prod.split)
  show "preserves f (make_buffer b)"
    unfolding make_buffer_def by (intro pres o c)
qed

lemma above_binding [pres]:
  assumes "above f"
  shows "preserves f (connect_unbind c p)" and "preserves f (connect_reset c p)"
    and "preserves f (set_fields X h nr fs)" and "preserves f (BindColumn X c nr v)"
    and "preserves f (BindParameter X c nr v d)" and "preserves f (ColumnBindable_destroy X c)"
proof -
  show u: "preserves f (connect_unbind c p)" for p
    unfolding connect_unbind_def by (intro pres assms)
  show r: "preserves f (connect_reset c p)" for p
    unfolding connect_reset_def by (intro pres assms)
  show s: "preserves f (set_fields X h nr fs)" for h fs
    unfolding set_fields_def by (intro pres assms)
  show "preserves f (BindColumn X c nr v)"
    unfolding BindColumn_def BindColumn_numeric_def BindColumnImpl_def
    by (intro pres assms u s above_prims(1)[OF assms])
  show "preserves f (BindParameter X c nr v d)"
    unfolding BindParameter_def BindParamImpl_def BindParameter_numeric_def
    by (intro pres assms r s above_prims(1)[OF assms])
  show "preserves f (ColumnBindable_destroy X c)"
    unfolding ColumnBindable_destroy_def destroy_loop_def disconnect_reset_def disconnect_unbind_def
    by (intro pres assms)
qed

lemma over_statement [pres]:
  assumes "over f"
  shows "preserves f (release_hstmt X s)" and "preserves f (SetCursorOptions X s b)"
    and "preserves f (Statement_Reset X s)" and "preserves f (Statement_Init X s d b)"
    and "preserves f (Prepare X s sql)" and "preserves f (Statement_BindColumn X s c nr)"
    and "preserves f (Statement_BindParameter X s c nr nv)"
proof -
  note o = assms over_above[OF assms] over_beyond[OF assms] beyond_calls[OF over_beyond[OF assms]]
  show r: "preserves f (release_hstmt X s)"
    unfolding release_hstmt_def by (intro pres o)
  show c: "preserves f (SetCursorOptions X s b)"
    unfolding SetCursorOptions_def with_hstmt_def with_ptr_def with_db_def call_hstmt_def by (intro pres o)
  show t: "preserves f (Statement_Reset X s)"
    unfolding Statement_Reset_def deref_hstmt_def by (intro pres o r)
  show "preserves f (Statement_Init X s d b)"
    unfolding Statement_Init_def by (intro pres o r c t)
  show "preserves f (Prepare X s sql)"
    unfolding Prepare_def with_hstmt_def with_ptr_def call_hstmt_def by (intro pres o)
  show "preserves f (Statement_BindColumn X s c nr)"
    unfolding Statement_BindColumn_def by (intro pres o)
  show "preserves f (Statement_BindParameter X s c nr nv)"
    unfolding Statement_BindParameter_def with_db_def DescribeParameter_def with_hstmt_def with_ptr_def
    by (intro pres o)
qed

lemma beyond_catalog_reads [pres]:
  assumes "beyond f"
  shows "preserves f (FindOneTable X n a t s c ty)" and "preserves f (ReadColumnInfo X n a ti)"
    and "preserves f (ReadPrimaryKeyInfo X n a ti)"
proof -
  note b = assms beyond_above[OF assms] beyond_calls[OF assms]
  have m: "preserves f (ensure_mode X a mode)" and i: "preserves f (identifier_asserts mode xs)" for mode xs
    unfolding ensure_mode_def identifier_asserts_def by (intro pres b)+
  note q = catalog_query_def with_stmt_def stmt_allocated_def
  have s: "preserves f (SearchTables_impl X n a p q r ty mode)" for p q r mode
    unfolding SearchTables_impl_def q by (intro pres b m i)
  show "preserves f (FindOneTable X n a t s c ty)"
    unfolding FindOneTable_def SearchTables_names_def SearchTables_typed_def SearchTables_any_def
    by (intro pres b s)
  show "preserves f (ReadColumnInfo X n a ti)"
    unfolding ReadColumnInfo_def ReadColumnInfo_impl_def q by (intro pres b m i)
  show "preserves f (ReadPrimaryKeyInfo X n a ti)"
    unfolding ReadPrimaryKeyInfo_def ReadPrimaryKeyInfo_impl_def q by (intro pres b m)
qed

section \<open>Frames of opening a table\<close>

text \<open>The members of a table that opening leaves alone, bar the flag at the very end.\<close>

definition core :: "nat \<Rightarrow> 'z tworld_scheme \<Rightarrow> bool \<times> EnumFlags" where
  "core t w = (tb_isOpen (tabs w t), tb_tableAccessFlags (tabs w t))"

lemma over_core: "over (core t)"
  by (simp add: over_def beyond_def above_def core_def)

lemmas core_base = over_core over_beyond[OF over_core] over_above[OF over_core] beyond_calls[OF over_beyond[OF over_core]]

lemma core_mod_tab [pres]:
  "(\<And>b. tb_isOpen (k b) = tb_isOpen b \<and> tb_tableAccessFlags (k b) = tb_tableAccessFlags b) \<Longrightarrow>
     preserves (core t) (mod_tab u k)"
  by (auto simp: preserves_def core_def)

lemma core_access [pres]:
  "(\<And>b. preserves (core t) (f b)) \<Longrightarrow> preserves (core t) (with_tab u f)"
  "(\<And>d. preserves (core t) (g d)) \<Longrightarrow> preserves (core t) (tab_db u g)"
  "(\<And>d. preserves (core t) (g d)) \<Longrightarrow> preserves (core t) (tab_catalog u g)"
  "preserves (core t) (tab_name u)"
  unfolding tab_catalog_def tab_db_def tab_name_def with_tab_def GetDbCatalog_def
  by (intro pres; simp)+

lemma core_ReadTableInfo [pres]: "preserves (core t) (ReadTableInfo X n u)"
  unfolding ReadTableInfo_def by (intro pres core_base; simp)

lemma core_set_primary_keys [pres]: "preserves (core t) (set_primary_keys X columns keys)"
proof (induction keys)
  case Nil
  show ?case unfolding set_primary_keys.simps by (rule pres)
next
  case (Cons key keys)
  show ?case unfolding set_primary_keys.simps GetColumnBufferIndex_in_def by (intro pres core_base Cons.IH)
qed

lemma core_mark_primary_keys [pres]: "preserves (core t) (mark_primary_keys X columns keys)"
proof (induction keys)
  case Nil
  show ?case unfolding mark_primary_keys.simps by (rule pres)
next
  case (Cons key keys)
  show ?case unfolding mark_primary_keys.simps by (intro pres core_base Cons.IH)
qed

lemma core_auto_columns [pres]: "preserves (core t) (auto_columns X m skip fs cis cs)"
proof (induction cis arbitrary: fs cs)
  case Nil
  show ?case unfolding auto_columns.simps by (rule pres)
next
  case (Cons ci cis)
  show ?case
    unfolding auto_columns.simps auto_column_def Let_def CreateColumnArrayBufferPtr_def CreateColumnBufferPtr_def
    by (intro pres core_base Cons.IH)
qed

lemma core_releasing [pres]:
  "preserves (core t) (drop_buffer X c)" "preserves (core t) (clear_columns X u)"
  "preserves (core t) (reset_count_buffer X u)" "preserves (core t) (FreeStatements X u)"
proof -
  show d: "preserves (core t) (drop_buffer X c)" for c
    unfolding drop_buffer_def by (intro pres core_base)
  show "preserves (core t) (clear_columns X u)"
    unfolding clear_columns_def by (intro pres d; simp)
  show r: "preserves (core t) (reset_count_buffer X u)"
    unfolding reset_count_buffer_def by (intro pres core_base; simp)
  show "preserves (core t) (FreeStatements X u)"
    unfolding FreeStatements_def reset_statements_def by (intro pres r core_base)
qed

lemma core_auto [pres]:
  "preserves (core t) (QueryPrimaryKeysAndUpdateColumns X n u columns)"
  "preserves (core t) (CreateAutoColumnBufferPtrs X n u skip sets query)"
proof -
  show q: "preserves (core t) (QueryPrimaryKeysAndUpdateColumns X n u columns)" for columns
    unfolding QueryPrimaryKeysAndUpdateColumns_def by (intro pres core_base)
  show "preserves (core t) (CreateAutoColumnBufferPtrs X n u skip sets query)"
    unfolding CreateAutoColumnBufferPtrs_def Let_def by (intro pres core_base q; simp)
qed

lemma core_check_sql_types [pres]: "preserves (core t) (check_sql_types X u remove columns)"
proof (induction columns)
  case Nil
  show ?case unfolding check_sql_types.simps by (rule pres)
next
  case (Cons ic columns)
  obtain i c where "ic = (i, c)" by fastforce
  show ?case
    unfolding \<open>ic = _\<close> check_sql_types.simps IsSqlTypeSupported_def by (intro pres core_base Cons.IH; simp)
qed

lemma core_statements [pres]:
  "preserves (core t) (AllocateStatements X u scroll)" "preserves (core t) (find_table X n u d)"
  unfolding AllocateStatements_def assert_closed_def init_statements_def when_access_def find_table_def check_existence_def
    Let_def
  by (intro pres core_base; simp)+

lemma CheckColumnFlags_result:
  "CheckColumnFlags X t w = (r, w') \<Longrightarrow> w' = w \<and> (r = Ok () \<longleftrightarrow>
     (\<forall>(i, c)\<in>set (tb_columns (tabs w t)). HasQueryName (buf w c) \<and> flags_allowed (tabs w t) (buf w c)))"
  using check_column_flags_run[of "tb_columns (tabs w t)" w "tabs w t" X t]
  by (auto simp: CheckColumnFlags_def with_tab_def split: if_splits)

lemma core_prepare_columns [pres]: "preserves (core t) (prepare_columns X n u)"
proof -
  have c: "preserves (core t) (CheckColumnFlags X u)"
    by (metis CheckColumnFlags_result preserves_def prod.collapse)
  show ?thesis
    unfolding prepare_columns_def load_columns_def check_columns_def CheckSqlTypes_def by (intro pres c; simp)
qed

section \<open>Binding changes neither buffers nor tables\<close>

definition memory :: "'z tworld_scheme \<Rightarrow> (nat \<Rightarrow> ColumnBuffer) \<times> (nat \<Rightarrow> Table)" where
  "memory w = (buf w, tabs w)"

lemma above_memory: "above memory"
  by (simp add: above_def memory_def)

lemma memory_stm [pres]: "preserves memory (mod_stm s k)"
  by (simp add: preserves_def memory_def)

lemmas memory_base = above_memory above_prims(1)[OF above_memory]

lemma memory_statement [pres]:
  "preserves memory (Prepare X s sql)" "preserves memory (Statement_BindColumn X s c nr)"
  "preserves memory (Statement_BindParameter X s c nr nv)"
  unfolding Prepare_def Statement_BindColumn_def Statement_BindParameter_def with_db_def DescribeParameter_def
    with_hstmt_def with_ptr_def call_hstmt_def
  by (intro pres memory_base)+

lemma memory_loops [pres]: "preserves memory (bind_params X s nr cs)" "preserves memory (bind_columns X s nr cs)"
proof -
  show "preserves memory (bind_params X s nr cs)"
  proof (induction cs arbitrary: nr)
    case Nil
    show ?case unfolding bind_params.simps by (rule pres)
  next
    case (Cons c cs)
    show ?case unfolding bind_params.simps by (intro pres Cons.IH)
  qed
  show "preserves memory (bind_columns X s nr cs)"
  proof (induction cs arbitrary: nr)
    case Nil
    show ?case unfolding bind_columns.simps by (rule pres)
  next
    case (Cons c cs)
    show ?case unfolding bind_columns.simps by (intro pres Cons.IH)
  qed
qed

lemma memory_bind [pres]:
  "preserves memory (BindDeletePkParameters X t)" "preserves memory (BindUpdatePkParameters X t)"
  "preserves memory (BindInsertParameters X t)" "preserves memory (BindSelectPkParameters X t)"
  unfolding BindDeletePkParameters_def BindUpdatePkParameters_def BindInsertParameters_def BindSelectPkParameters_def
    BuildSelectFieldsStatement_def assert_bindable_def assert_access_def with_tab_def tab_name_def
  by (intro pres)+

lemma memory_bind_statements:
  "preserves memory (bind_results X t)" "preserves memory (bind_statements X t)"
proof -
  show r: "preserves memory (bind_results X t)"
    unfolding bind_results_def when_access_def with_tab_def by (intro pres)
  have k: "preserves memory (require_key X t)"
    unfolding require_key_def with_tab_def tab_name_def GetPrimaryKeyColumnBuffers_def by (intro pres)
  have b: "preserves memory (bind_key_parameters X t)"
    unfolding bind_key_parameters_def when_access_def by (intro pres)
  show "preserves memory (bind_statements X t)"
    unfolding bind_statements_def when_access_def by (intro pres r k b)
qed

section \<open>Opening\<close>

definition columns_ok :: "nat \<Rightarrow> 'z tworld_scheme \<Rightarrow> bool" where
  "columns_ok t w \<longleftrightarrow>
     (\<forall>(i, c)\<in>set (tb_columns (tabs w t)). HasQueryName (buf w c) \<and> flags_allowed (tabs w t) (buf w c))"

lemma columns_ok_memory: "memory w = memory w' \<Longrightarrow> columns_ok t w = columns_ok t w'"
  by (simp add: memory_def columns_ok_def)

lemma columns_ok_delete:
  "keeps (columns_ok t) (mod_tab t (\<lambda>b. b\<lparr>tb_columns := map_del i (tb_columns b)\<rparr>))"
  using set_map_del by (fastforce simp: keeps_def columns_ok_def flags_allowed_def TestAccessFlag_def)

lemma columns_ok_check_sql_types: "keeps (columns_ok t) (check_sql_types X t remove columns)"
proof (induction columns)
  case Nil
  show ?case unfolding check_sql_types.simps by (intro keep)
next
  case (Cons ic columns)
  obtain i c where ic: "ic = (i, c)" by fastforce
  have d: "keeps (columns_ok t) (drop_buffer X c)"
    unfolding drop_buffer_def by (intro keep keeps_preserves[OF above_binding(6)[OF above_memory]] columns_ok_memory)
  show ?case
    unfolding ic check_sql_types.simps IsSqlTypeSupported_def tab_db_def with_tab_def
    by (intro keep Cons.IH d columns_ok_delete)
qed

text \<open>What has been checked by the end of preparing the columns.\<close>

lemma prepare_columns_ok:
  fixes w :: "'z tworld_scheme"
  assumes "prepare_columns X n t w = (Ok (), w')"
  shows "columns_ok t w'"
proof -
  let ?k = "whenM (\<lambda>w. \<not> tb_autoCreatedColumns (tabs w t) \<and> TestOpenFlag (tabs w t) TOF_CHECK_DB_TYPE_INFOS)
      (with_tab t (\<lambda>b. CheckSqlTypes X t (TestOpenFlag b TOF_SKIP_UNSUPPORTED_COLUMNS))) :: ('z, unit) tprog"
  from assms obtain w1 x w2 where "CheckColumnFlags X t w1 = (Ok x, w2)" and 2: "?k w2 = (Ok (), w')"
    unfolding prepare_columns_def check_columns_def by (elim thenM_OkE) blast
  then have "columns_ok t w2" by (auto simp: columns_ok_def dest: CheckColumnFlags_result)
  moreover have "keeps (columns_ok t) ?k"
    unfolding CheckSqlTypes_def with_tab_def by (intro keep columns_ok_check_sql_types)
  ultimately show ?thesis using keepsD[where I = "columns_ok t" and m = ?k and s = w2, OF _ _ 2] by blast
qed

text \<open>A table that works with keys has a column in its key once its parameters are bound.\<close>

lemma require_key_Ok: "require_key X t w = (Ok x, w') \<Longrightarrow> flagged CF_PRIMARY_KEY t w \<noteq> []"
  using TableInfo_name_result[of "tb_tableInfo (tabs w t)"]
  by (auto simp: require_key_def GetPrimaryKeyColumnBuffers_def with_tab_def tab_name_exec bindM_exec flagged_def
      filter_empty_conv split: if_splits; force)

lemma flagged_memory: "memory w = memory w' \<Longrightarrow> flagged f t w = flagged f t w'"
  by (simp add: memory_def flagged_def)

lemma bind_statements_key:
  fixes w :: "'z tworld_scheme"
  assumes "bind_statements X t w = (Ok x, w')" and "uses_pk (tabs w t)"
  shows "flagged CF_PRIMARY_KEY t w \<noteq> []"
proof -
  from assms(1) obtain y w1 where 1: "bind_results X t w = (Ok y, w1)"
    and 2: "uses_pk (tabs w1 t) \<Longrightarrow> \<exists>z w2. require_key X t w1 = (Ok z, w2)"
    unfolding bind_statements_def by (fastforce elim!: thenM_OkE split: if_splits)
  from preservesD[OF memory_bind_statements(1) 1] have "memory w1 = memory w" .
  with 2 assms(2) require_key_Ok flagged_memory show ?thesis by (metis memory_def prod.inject)
qed

definition closed :: "nat \<Rightarrow> 'z tworld_scheme \<Rightarrow> bool" where
  "closed t w \<longleftrightarrow> \<not> Table_IsOpen w t"

definition checked :: "nat \<Rightarrow> 'z tworld_scheme \<Rightarrow> bool" where
  "checked t w \<longleftrightarrow> columns_ok t w \<and> (uses_pk (tabs w t) \<longrightarrow> flagged CF_PRIMARY_KEY t w \<noteq> [])"

lemma valid_closed: "preserves (core t) m \<Longrightarrow> valid (closed t) m (\<lambda>_. closed t) (\<lambda>_. closed t)"
  by (rule validI) (auto simp: closed_def core_def Table_IsOpen_def dest: preservesD)

lemma valid_prepare_columns:
  "valid (closed t) (prepare_columns X n t) (\<lambda>_ w. closed t w \<and> columns_ok t w) (\<lambda>_. closed t)"
  using valid_closed[OF core_prepare_columns, of t X n t] prepare_columns_ok
  by (intro validI) (auto dest: valid_Ok valid_Exn)

lemma valid_bind_statements:
  "valid (\<lambda>w. closed t w \<and> columns_ok t w) (bind_statements X t) (\<lambda>_ w. closed t w \<and> checked t w) (\<lambda>_. closed t)"
proof -
  have c: "closed t w = closed t w'" if "memory w = memory w'" for w w' :: "'z tworld_scheme"
    using that by (simp add: closed_def memory_def Table_IsOpen_def)
  show ?thesis
  proof (rule validI)
    fix s s' :: "'z tworld_scheme" and x
    assume s: "closed t s \<and> columns_ok t s" and r: "bind_statements X t s = (Ok x, s')"
    have m: "memory s' = memory s" using preservesD[OF memory_bind_statements(2) r] .
    then have "uses_pk (tabs s' t) = uses_pk (tabs s t)" by (simp add: memory_def)
    with s r m show "closed t s' \<and> checked t s'"
      using c[OF m] columns_ok_memory[OF m] flagged_memory[OF m] bind_statements_key[OF r] by (auto simp: checked_def)
  qed (auto dest: c preservesD[OF memory_bind_statements(2)])
qed

lemma valid_Open_body:
  "valid (closed t) (Open_body X n t d) (\<lambda>_ w. Table_IsOpen w t \<and> checked t w) (\<lambda>_. closed t)"
proof -
  have m: "valid (\<lambda>w. closed t w \<and> checked t w) (thenM (mod_tab t (\<lambda>b. b\<lparr>tb_isOpen := True\<rparr>)) skipM)
      (\<lambda>_ w. Table_IsOpen w t \<and> checked t w) (\<lambda>_. closed t)"
    by (rule validI) (auto simp: thenM_exec checked_def columns_ok_def flagged_def uses_pk_def flags_allowed_def
        TestAccessFlag_def Table_IsOpen_def)
  show ?thesis
    unfolding Open_body_def seqM.simps
    by (intro valid_thenM[OF valid_closed[OF core_statements(2)]] valid_thenM[OF valid_prepare_columns]
        valid_thenM[OF valid_bind_statements] m)
qed

text \<open>
  C4. \<open>Open\<close> of a closed table. If it returns, the table is open, every column has a query name and no flag that the
  access flags do not cover, and a table that reads, updates or deletes by its key has a column in the
  key. If it throws, the table is closed.
\<close>

theorem Table_Open_outcome:
  fixes w :: "'z tworld_scheme"
  assumes "\<not> Table_IsOpen w t" and "Table_Open X n t openFlags w = (r, w')"
  shows "case r of
      Ok _ \<Rightarrow> Table_IsOpen w' t \<and> columns_ok t w' \<and> (uses_pk (tabs w' t) \<longrightarrow> flagged CF_PRIMARY_KEY t w' \<noteq> [])
    | Exn _ \<Rightarrow> \<not> Table_IsOpen w' t
    | _ \<Rightarrow> True"
proof -
  have undo: "valid (closed t) (thenM (Open_undo X t) (throwM e)) (\<lambda>_ w. Table_IsOpen w t \<and> checked t w) (\<lambda>_. closed t)"
    for e :: exn
  proof -
    have "preserves (core t) (Open_undo X t)" unfolding Open_undo_def by (intro pres)
    then show ?thesis by (intro valid_thenM[OF valid_closed] validI) simp_all
  qed
  have alloc: "valid (closed t) (with_tab t (\<lambda>b. AllocateStatements X t (TestOpenFlag b TOF_SCROLLABLE_CURSORS)))
      (\<lambda>_. closed t) (\<lambda>_. closed t)"
    by (intro valid_closed pres)
  have flags: "preserves (core t) (mod_tab t (\<lambda>b. b\<lparr>tb_openFlags := k b\<rparr>))" for k
    by (intro pres) simp
  have body: "valid (closed t) (case tb_pDb b of None \<Rightarrow> throwM (AssertionException ''m_pDb'')
      | Some d \<Rightarrow> seqM
         [exASSERT ''m_pDb->IsOpen()'' (\<lambda>w. IsOpen w d), assert_closed t,
          mod_tab t (\<lambda>b. b\<lparr>tb_openFlags := openFlags\<rparr>),
          whenM (\<lambda>w. m_dbms (props w d) = ACCESS \<or> m_dbms (props w d) = EXCEL)
            (mod_tab t (\<lambda>b. b\<lparr>tb_openFlags := EnumFlags_Set (tb_openFlags b) TOF_DO_NOT_QUERY_PRIMARY_KEYS\<rparr>)),
          with_tab t (\<lambda>b. AllocateStatements X t (TestOpenFlag b TOF_SCROLLABLE_CURSORS)),
          catchM (Open_body X n t d) (\<lambda>ex. thenM (Open_undo X t) (throwM ex))])
      (\<lambda>_ w. Table_IsOpen w t \<and> checked t w) (\<lambda>_. closed t)" for b
  proof (cases "tb_pDb b")
    case (Some d)
    have c: "valid (closed t) (thenM (catchM (Open_body X n t d) (\<lambda>ex. thenM (Open_undo X t) (throwM ex))) skipM)
        (\<lambda>_ w. Table_IsOpen w t \<and> checked t w) (\<lambda>_. closed t)"
      by (rule valid_thenM[OF valid_catchM[OF valid_Open_body undo]]) (auto intro: validI)
    show ?thesis
      unfolding Some option.case seqM.simps assert_closed_def
      by (intro valid_thenM[OF valid_closed] valid_thenM[OF alloc] c flags preserves_macros preserves_whenM)
  qed (auto intro: validI)
  have g: "valid (closed t) (getsM (\<lambda>w. tabs w t)) (\<lambda>_. closed t) (\<lambda>_. closed t)"
    by (intro validI) simp_all
  have "valid (closed t) (Table_Open X n t openFlags) (\<lambda>_ w. Table_IsOpen w t \<and> checked t w) (\<lambda>_. closed t)"
    unfolding Table_Open_def with_tab_def[of t "\<lambda>b. case tb_pDb b of None \<Rightarrow> _ b | Some d \<Rightarrow> _ b d"]
    by (rule valid_bindM[OF g body])
  with assms show ?thesis by (auto simp: closed_def checked_def valid_def split: res.splits)
qed

text \<open>The table of the examples before it is opened.\<close>

definition closed_tables :: "flag list \<Rightarrow> flag list \<Rightarrow> flag list \<Rightarrow> tworld" where
  "closed_tables afs fs gs = (small_tables afs fs gs)
     \<lparr>stms := (\<lambda>_. \<lparr>es_pHStmt = None, es_pDb = None, es_isPrepared = False, es_scrollableCursor = False,
        es_boundColumns = False, es_boundParams = False\<rparr>),
      tabs := (\<lambda>_. (small_table afs)\<lparr>tb_isOpen := False\<rparr>)\<rparr>"

definition opening_driver :: "odbc_call list \<Rightarrow> reply" where
  "opening_driver cs = (reply_rc SQL_SUCCESS)\<lparr>onum := 11, odesc := (SQL_VARCHAR, 10, 0, 0)\<rparr>"

theorem Table_Open_outcome_witness:
  "\<exists>w'. Table_Open (ref_ext opening_driver) 1 9 EnumFlags_new (closed_tables [AF_INSERT] [CF_INSERT] [CF_INSERT]) = (Ok (), w') \<and>
     Table_IsOpen w' 9 \<and> columns_ok 9 w'"
proof -
  let ?w = "closed_tables [AF_INSERT] [CF_INSERT] [CF_INSERT]"
  obtain w' where r: "Table_Open (ref_ext opening_driver) 1 9 EnumFlags_new ?w = (Ok (), w')"
    by (simp add: Table_Open_def tab_db_def opening_driver_def closed_tables_def Open_body_def find_table_def prepare_columns_def load_columns_def
        check_columns_def CheckColumnFlags_def bind_statements_def bind_results_def AllocateStatements_def
        init_statements_def assert_closed_def Table_IsOpen_def when_access_def IsOpen_def uses_pk_def
        Statement_Init_def SqlHandle_make_shared_def SqlHandle_AllocateWithParent_def SqlHandle_init_def
        release_hstmt_def release_option_def SetCursorOptions_def TestOpenFlag_def tof_defs
        BindInsertParameters_def binding_defs small_defs flag_defs thenM_exec bindM_exec catchM_exec)
  have "\<not> Table_IsOpen ?w 9" by (simp add: Table_IsOpen_def closed_tables_def small_table_def)
  from Table_Open_outcome[OF this r] r show ?thesis by simp
qed

end
