(* ===== verification/TableQueries.thy ===== *)
theory TableQueries
  imports TableOpen
begin

text \<open>
  Reading through a table: counting, and the two ways of selecting, which share one statement.
\<close>

section \<open>A query and a prepared query on one statement\<close>

text \<open>
  Whether the statement \<open>h\<close> has a prepared plan after a history of calls: executing a text directly
  discards what was prepared before.
\<close>

fun has_plan :: "nat \<Rightarrow> odbc_call list \<Rightarrow> bool" where
  "has_plan h [] = False"
| "has_plan h (SQLPrepare h' sql # cs) = (h' = h \<or> has_plan h cs)"
| "has_plan h (SQLExecDirect h' sql # cs) = (h' \<noteq> h \<and> has_plan h cs)"
| "has_plan h (_ # cs) = has_plan h cs"

text \<open>A driver that follows the state table of ODBC: \<open>SQLExecute\<close> without a plan is an error.\<close>

definition plan_driver :: "ext \<Rightarrow> nat \<Rightarrow> bool" where
  "plan_driver X h \<longleftrightarrow> (\<forall>cs. \<not> has_plan h cs \<longrightarrow> rc (driver X (SQLExecute h # cs)) = SQL_ERROR)"

lemma ExecuteDirect_effect:
  "ExecuteDirect X s sql w = (Ok (), w') \<Longrightarrow> handle_of s w = Some h \<Longrightarrow>
     w' = w\<lparr>calls := SQLExecDirect h sql # SQLFreeStmt h SQL_CLOSE # calls w\<rparr>"
  by (auto simp: ExecuteDirect_def with_hstmt_def with_ptr_def SelectClose_def CloseStmtHandle_def call_hstmt_def
      handle_of_def SqlHandle_IsAllocated_def SqlHandle_GetHandle_def thenM_exec bindM_exec split: if_splits)

lemma SelectNext_effect:
  "SelectNext X s w = (Ok b, w') \<Longrightarrow> handle_of s w = Some h \<Longrightarrow> w' = after_row X (SQLFetch h) w"
  by (auto simp: SelectNext_def with_hstmt_def with_ptr_def handle_of_def SqlHandle_IsAllocated_def SqlHandle_GetHandle_def
      fetched_reply_def after_row_def thenM_exec bindM_exec split: if_splits)

lemma SelectClose_effect:
  "SelectClose X s w = (Ok (), w') \<Longrightarrow> handle_of s w = Some h \<Longrightarrow> w' = w\<lparr>calls := SQLFreeStmt h SQL_CLOSE # calls w\<rparr>"
  by (auto simp: SelectClose_def CloseStmtHandle_def handle_of_def SqlHandle_IsAllocated_def SqlHandle_GetHandle_def
      thenM_exec bindM_exec split: if_splits option.splits)

lemma ExecutePrepared_without_plan:
  assumes "plan_driver X h" and "handle_of s w = Some h" and "h \<noteq> 0" and "\<not> has_plan h (calls w)"
    and "es_isPrepared (stms w s)"
  shows "\<exists>f n errs w'. ExecutePrepared X s w = (Exn (SqlResultException f n errs), w')"
proof -
  from assms(2) obtain p where p: "es_pHStmt (stms w s) = Some p" "m_handle (hnd w p) = h" by (auto simp: handle_of_def)
  let ?cs = "SQLFreeStmt h SQL_CLOSE # calls w"
  have "rc (driver X (SQLExecute h # ?cs)) = SQL_ERROR"
    using assms(1,4) by (simp add: plan_driver_def)
  with p assms(3,5) show ?thesis
    by (simp add: ExecutePrepared_def SelectClose_def CloseStmtHandle_def call_hstmt_def deref_hstmt_def
        SqlHandle_IsAllocated_def SqlHandle_GetHandle_def SQL_SUCCEEDED_def thenM_exec bindM_exec)
qed

lemma BuildSelectFields_pure: "BuildSelectFieldsStatement X t w = (r, w') \<Longrightarrow> w' = w"
  by (auto simp: BuildSelectFieldsStatement_def with_tab_def thenM_exec bindM_exec split: if_splits res.splits)

lemma Table_Select_Ok:
  assumes "Table_Select X t whereStmt order w = (Ok (), w')"
  shows "Table_IsOpen w t \<and> (\<exists>sql. ExecuteDirect X (tb_execStmtSelect (tabs w t)) sql w = (Ok (), w'))"
  using assms
  by (auto simp: Table_Select_def SelectBySqlStmt_def assert_open_def assert_access_def with_tab_def thenM_exec
      elim!: bindM_OkE tab_name_OkE dest!: BuildSelectFields_pure split: if_splits)

text \<open>
  C16. \<open>Select\<close> and \<open>SelectByPkValues\<close> use the same statement. On a driver that follows the state table of ODBC, once
  \<open>Select\<close> has returned on an open table, the statement has lost the plan that \<open>Open\<close> prepared, but still says that it
  is prepared: \<open>SelectByPkValues\<close> passes its assertion and throws an \<open>SqlResultException\<close>.
\<close>

theorem Select_loses_plan:
  fixes w :: "'z tworld_scheme"
  assumes "plan_driver X h" and "s = tb_execStmtSelect (tabs w t)" and "handle_of s w = Some h" and "h \<noteq> 0"
    and "es_isPrepared (stms w s)" and run: "Table_Select X t whereStmt order w = (Ok (), w')"
  shows "es_isPrepared (stms w' s) \<and> (\<exists>f n errs w2. SelectByPkValues X t w' = (Exn (SqlResultException f n errs), w2))"
proof -
  obtain sql where "Table_IsOpen w t" and e: "ExecuteDirect X s sql w = (Ok (), w')"
    using Table_Select_Ok[OF run] assms(2) by auto
  note d = ExecuteDirect_effect[OF e assms(3)]
  have "es_isPrepared (stms w' s)" "handle_of s w' = Some h" "\<not> has_plan h (calls w')"
    using d assms(3,5) by (simp_all add: handle_of_def)
  with ExecutePrepared_without_plan[OF assms(1) _ assms(4), of s w'] d \<open>Table_IsOpen w t\<close> assms(2) show ?thesis
    by (auto simp: SelectByPkValues_def assert_open_def with_tab_def Table_IsOpen_def thenM_exec)
qed

section \<open>Counting\<close>

text \<open>
  C22. When \<open>Count\<close> returns, it has closed the statement, executed \<open>SELECT COUNT(*)\<close> with the condition it was given,
  fetched one row and closed the cursor again; its value is the number the driver stored in the count buffer.
\<close>

theorem Count_value:
  fixes w :: "'z tworld_scheme"
  assumes "format_ok X" and run: "Count X t whereStmt w = (Ok v, w')"
    and s: "s = tb_execStmtCountWhere (tabs w t)" and h: "handle_of s w = Some h"
    and c: "tb_pSelectCountResultBuffer (tabs w t) = Some c"
    and name: "TableInfo_GetQueryName (tb_tableInfo (tabs w t)) = Ok name"
    and sql: "sql = ''SELECT COUNT(*) FROM '' @ name @ (if whereStmt = [] then [] else '' WHERE '' @ whereStmt)"
    and d: "delivers X (SQLFetch h # SQLExecDirect h sql # SQLFreeStmt h SQL_CLOSE # calls w) c = Some ([n], cb)"
    and n: "0 \<le> n" "n < 2 ^ 64"
  shows "v = n \<and> calls w' = SQLFreeStmt h SQL_CLOSE # SQLFetch h # SQLExecDirect h sql # SQLFreeStmt h SQL_CLOSE # calls w"
proof -
  have f: "whereStmt \<noteq> [] \<Longrightarrow> boost_format X ''SELECT COUNT(*) FROM %s WHERE %s'' [name, whereStmt] = sql"
      "whereStmt = [] \<Longrightarrow> boost_format X ''SELECT COUNT(*) FROM %s'' [name] = sql"
    using assms(1) sql by (simp_all add: format_ok_def)
  from run c name obtain w1 w2 w3 x where 1: "ExecuteDirect X s sql w = (Ok (), w1)" and 2: "SelectNext X s w1 = (Ok True, w2)"
    and 3: "SelectClose X s w2 = (Ok (), w3)" and 4: "catchM (on_buf c GetValue) (\<lambda>_. undefM) w3 = (Ok x, w')"
    and v: "v = x mod 2 ^ 64"
    unfolding Count_def assert_open_def assert_access_def with_tab_def s
    by (auto simp: f Let_def elim!: thenM_OkE bindM_OkE tab_name_OkE split: if_splits)
  note w1 = ExecuteDirect_effect[OF 1 h]
  then have "handle_of s w1 = Some h" using h by (simp add: handle_of_def)
  note w2 = SelectNext_effect[OF 2 this]
  then have "handle_of s w2 = Some h" using w1 h by (simp add: handle_of_def after_row_def)
  note w3 = SelectClose_effect[OF 3 this]
  have "m_buffer (buf w3 c) ! 0 = n"
    using w1 w2 w3 d by (simp add: after_row_def store_row_def)
  with 4 v n w1 w2 w3 show ?thesis
    by (auto simp: on_buf_def GetValue_def throw_if_null_def after_row_def thenM_exec bindM_exec catchM_exec
        split: if_splits prod.splits res.splits)
qed

section \<open>Examples\<close>

fun planning_driver :: "nat \<Rightarrow> odbc_call list \<Rightarrow> reply" where
  "planning_driver h (c # cs) = reply_rc (if c = SQLExecute h \<and> \<not> has_plan h cs then SQL_ERROR else SQL_SUCCESS)"
| "planning_driver h [] = reply_rc SQL_SUCCESS"

definition prepared_tables :: tworld where
  "prepared_tables = (small_tables [AF_SELECT_WHERE] [CF_SELECT] [CF_SELECT])
     \<lparr>stms := (\<lambda>s. (stms (small_stmt False) s)\<lparr>es_isPrepared := True\<rparr>), calls := [SQLPrepare 8 ''SELECT a FROM t WHERE b = ?'']\<rparr>"

theorem Select_loses_plan_witness:
  "\<exists>w'. has_plan 8 (calls prepared_tables) \<and>
     Table_Select (ref_ext (planning_driver 8)) 9 [] [] prepared_tables = (Ok (), w') \<and>
     (\<exists>f n errs w2. SelectByPkValues (ref_ext (planning_driver 8)) 9 w' = (Exn (SqlResultException f n errs), w2))"
proof -
  let ?X = "ref_ext (planning_driver 8)" and ?w = prepared_tables
  have p: "plan_driver ?X 8" by (simp add: plan_driver_def)
  have h: "handle_of (tb_execStmtSelect (tabs ?w 9)) ?w = Some 8" "es_isPrepared (stms ?w (tb_execStmtSelect (tabs ?w 9)))"
    by (simp_all add: handle_of_def prepared_tables_def small_defs)
  obtain w' where r: "Table_Select ?X 9 [] [] ?w = (Ok (), w')"
    by (simp add: Table_Select_def SelectBySqlStmt_def BuildSelectFieldsStatement_def assert_open_def Table_IsOpen_def
        ExecuteDirect_def SelectClose_def CloseStmtHandle_def prepared_tables_def binding_defs small_defs flag_defs
        thenM_exec bindM_exec)
  from Select_loses_plan[OF p refl h(1) _ h(2) r] r show ?thesis by (simp add: prepared_tables_def)
qed

definition counting_ext :: ext where
  "counting_ext = (ref_ext good_driver)\<lparr>delivers := (\<lambda>cs a. Some ([5], 8))\<rparr>"

definition counting_tables :: tworld where
  "counting_tables = (small_tables [AF_COUNT_WHERE] [] [])
     \<lparr>tabs := (\<lambda>_. (small_table [AF_COUNT_WHERE])\<lparr>tb_pSelectCountResultBuffer := Some 4\<rparr>)\<rparr>"

theorem Count_value_witness:
  "\<exists>w'. Count counting_ext 9 ''a > 1'' counting_tables = (Ok 5, w') \<and>
     calls w' = [SQLFreeStmt 8 SQL_CLOSE, SQLFetch 8, SQLExecDirect 8 ''SELECT COUNT(*) FROM t WHERE a > 1'', SQLFreeStmt 8 SQL_CLOSE]"
proof -
  let ?w = counting_tables and ?X = counting_ext
  have f: "format_ok ?X" using ref_ext_ok(1)[of good_driver] by (simp add: counting_ext_def format_ok_def)
  have h: "handle_of (tb_execStmtCountWhere (tabs ?w 9)) ?w = Some 8" "tb_pSelectCountResultBuffer (tabs ?w 9) = Some 4"
      "TableInfo_GetQueryName (tb_tableInfo (tabs ?w 9)) = Ok ''t''" "calls ?w = []"
    by (simp_all add: handle_of_def counting_tables_def small_defs)
  obtain v w' where r: "Count ?X 9 ''a > 1'' ?w = (Ok v, w')"
    by (simp add: Count_def assert_open_def Table_IsOpen_def ExecuteDirect_def SelectClose_def CloseStmtHandle_def
        SelectNext_def fetched_reply_def store_row_def on_buf_def GetValue_def throw_if_null_def IsNull_def
        counting_tables_def counting_ext_def binding_defs small_defs flag_defs Let_def thenM_exec bindM_exec catchM_exec)
  from Count_value[OF f r refl h(1,2,3) refl, of 5 8] r h(4) show ?thesis
    by (simp add: counting_ext_def)
qed

end
