(* ===== verification/BufferVariants.thy ===== *)
theory BufferVariants
  imports Buffers
begin

text \<open>
  Around the buffers: the other constructors and the \<open>Create\<close> functions of \<open>ColumnBuffer.h\<close>, the visitors of
  \<open>ColumnBufferVisitors.h\<close>, and the class \<open>ColumnBufferWrapper\<close>.

  A \<open>ColumnBufferPtrVariant\<close> is an address; a visitor applies one member function of whichever class the buffer has. The
  visitors that return a pointer to a base class (\<open>ColumnFlags\<close>, \<open>ColumnProperties\<close>, \<open>LengthIndicator\<close>) return the
  same object, whose cast cannot fail; they have no definition here.
\<close>

section \<open>Construction\<close>

definition ColumnBuffer_one_unnamed :: "ColumnBufferKind \<Rightarrow> int \<Rightarrow> EnumFlags \<Rightarrow> ColumnBuffer" where
  "ColumnBuffer_one_unnamed k sqlType flags =
     snd (seqM [SetNull, SetSqlType sqlType] (ColumnBuffer_base k flags 1))"

definition ColumnBuffer_array_unnamed :: "ColumnBufferKind \<Rightarrow> int \<Rightarrow> int \<Rightarrow> EnumFlags \<Rightarrow> (exn, ColumnBuffer) res" where
  "ColumnBuffer_array_unnamed k nrOfElements sqlType flags =
     (let n = (if nrOfElements = SQL_NO_TOTAL then SQL_NO_TOTAL_BUFFER_LENGTH else nrOfElements)
      in if n > 0
         then Ok (snd (seqM [SetNull, SetSqlType sqlType] (ColumnBuffer_base k flags n)))
         else Exn (AssertionException ''m_nrOfElements > 0''))"

definition Create_one :: "ColumnBufferKind \<Rightarrow> string \<Rightarrow> int \<Rightarrow> EnumFlags \<Rightarrow> ('z, nat) bprog" where
  "Create_one k queryName sqlType flags = make_buffer (ColumnBuffer_one k queryName sqlType flags)"

definition Create_one_unnamed :: "ColumnBufferKind \<Rightarrow> int \<Rightarrow> EnumFlags \<Rightarrow> ('z, nat) bprog" where
  "Create_one_unnamed k sqlType flags = make_buffer (ColumnBuffer_one_unnamed k sqlType flags)"

definition Create_array :: "ColumnBufferKind \<Rightarrow> int \<Rightarrow> string \<Rightarrow> int \<Rightarrow> EnumFlags \<Rightarrow> ('z, nat) bprog" where
  "Create_array k nrOfElements queryName sqlType flags =
     bindM (liftM (ColumnBuffer_array k nrOfElements queryName sqlType flags)) make_buffer"

definition Create_array_unnamed :: "ColumnBufferKind \<Rightarrow> int \<Rightarrow> int \<Rightarrow> EnumFlags \<Rightarrow> ('z, nat) bprog" where
  "Create_array_unnamed k nrOfElements sqlType flags =
     bindM (liftM (ColumnBuffer_array_unnamed k nrOfElements sqlType flags)) make_buffer"

definition SqlCPointerBuffer_Create ::
  "string \<Rightarrow> int \<Rightarrow> nat \<Rightarrow> int \<Rightarrow> int \<Rightarrow> EnumFlags \<Rightarrow> int \<Rightarrow> int \<Rightarrow> int \<Rightarrow> ('z, nat) bprog" where
  "SqlCPointerBuffer_Create queryName sqlType pBuffer sqlCType bufferLength flags columnSize decimalDigits nrOfElements =
     make_buffer (SqlCPointerBuffer_new queryName sqlType pBuffer sqlCType bufferLength flags columnSize decimalDigits
       nrOfElements)"

text \<open>A buffer without a name is one whose name is empty: asking for the name fails.\<close>

lemma unnamed_buffers:
  "ColumnBuffer_one_unnamed k t flags = ColumnBuffer_one k [] t flags"
  "ColumnBuffer_array_unnamed k n t flags = ColumnBuffer_array k n [] t flags"
  "GetQueryName (ColumnBuffer_one_unnamed k t flags) = Exn (AssertionException ''HasQueryName()'')"
  by (simp_all add: ColumnBuffer_one_unnamed_def ColumnBuffer_one_def ColumnBuffer_array_unnamed_def ColumnBuffer_array_def
      ColumnBuffer_base_def setters thenM_exec Let_def GetQueryName_def HasQueryName_def)

section \<open>Visitors\<close>

definition BindColumnVisitor :: "ext \<Rightarrow> nat \<Rightarrow> nat option \<Rightarrow> nat \<Rightarrow> ('z, unit) bprog" where
  "BindColumnVisitor X columnNr pHStmt t = BindColumn X t columnNr pHStmt"

definition BindParamVisitor :: "ext \<Rightarrow> nat \<Rightarrow> nat option \<Rightarrow> ParameterDescription \<Rightarrow> nat \<Rightarrow> ('z, unit) bprog" where
  "BindParamVisitor X paramNr pHStmt paramDesc t = BindParameter X t paramNr pHStmt paramDesc"

definition QueryNameVisitor :: "nat \<Rightarrow> ('z, string) bprog" where
  "QueryNameVisitor t = bindM (getsM (\<lambda>w. GetQueryName (buf w t))) liftM"

definition IsNullVisitor :: "'z bworld_scheme \<Rightarrow> nat \<Rightarrow> bool" where
  "IsNullVisitor w t \<longleftrightarrow> IsNull (buf w t)"

definition SqlCTypeVisitor :: "'z bworld_scheme \<Rightarrow> nat \<Rightarrow> int" where
  "SqlCTypeVisitor w t = GetSqlCType (buf w t)"

definition SqlTypeVisitor :: "'z bworld_scheme \<Rightarrow> nat \<Rightarrow> int" where
  "SqlTypeVisitor w t = m_sqlType (buf w t)"

definition ParamDescVisitor :: "'z bworld_scheme \<Rightarrow> nat \<Rightarrow> ParameterDescription" where
  "ParamDescVisitor w t = CreateParamDescFromProps (buf w t)"

definition NrOfElementsVisitor :: "'z bworld_scheme \<Rightarrow> nat \<Rightarrow> int" where
  "NrOfElementsVisitor w t = m_nrOfElements (buf w t)"

section \<open>ColumnBufferWrapper\<close>

definition ColumnBufferWrapper_GetSqlCType :: "'z bworld_scheme \<Rightarrow> nat \<Rightarrow> int" where
  "ColumnBufferWrapper_GetSqlCType w t = SqlCTypeVisitor w t"

definition ColumnBufferWrapper_IsNull :: "'z bworld_scheme \<Rightarrow> nat \<Rightarrow> bool" where
  "ColumnBufferWrapper_IsNull w t \<longleftrightarrow> IsNullVisitor w t"

definition ColumnBufferWrapper_SetNull :: "nat \<Rightarrow> ('z, unit) bprog" where
  "ColumnBufferWrapper_SetNull t = on_buf t SetNullVisitor"

end
