(* ===== verification/DatabaseLifecycle.thy ===== *)
theory DatabaseLifecycle
  imports Databases
begin

text \<open>
  The life of one \<open>Database\<close> (\<open>Database.cpp\<close>) as a state machine: the application calls its member functions in any order,
  catches what they throw and goes on, and other objects work in between. The abstract machine has three phases;
  the step relation over the full state refines it. The third phase is the one of a database whose
  \<open>Close\<close> failed after it had freed its statement handle: nothing leads out of it.
\<close>

section \<open>Calls and steps\<close>

datatype db_op =
    Call_Open string string string
  | Call_OpenString string bool
  | Call_Close
  | Call_Commit
  | Call_Rollback
  | Call_SetCommitMode CommitMode
  | Call_ReadCommitMode
  | Call_SetIsolation TransactionIsolationMode
  | Call_ReadIsolation
  | Call_ExecSql string ExecFailMode
  | Call_SetTypeMap "Sql2BufferTypeMap option"

definition ignoring :: "('e, 's, 'a) prog \<Rightarrow> ('e, 's, unit) prog" where
  "ignoring m = bindM m (\<lambda>_. skipM)"

fun db_run :: "ext \<Rightarrow> nat \<Rightarrow> nat \<Rightarrow> db_op \<Rightarrow> ('z, unit) dprog" where
  "db_run X n d (Call_Open dsn uid auth) = Open_dsn X n d dsn uid auth"
| "db_run X n d (Call_OpenString s wnd) = ignoring (Open_connectionString X n d s wnd)"
| "db_run X n d Call_Close = Close X d"
| "db_run X n d Call_Commit = CommitTrans X d"
| "db_run X n d Call_Rollback = RollbackTrans X d"
| "db_run X n d (Call_SetCommitMode m) = SetCommitMode X d m"
| "db_run X n d Call_ReadCommitMode = ignoring (ReadCommitMode X d)"
| "db_run X n d (Call_SetIsolation m) = SetTransactionIsolationMode X d m"
| "db_run X n d Call_ReadIsolation = ignoring (ReadTransactionIsolationMode X d)"
| "db_run X n d (Call_ExecSql sql mode) = ExecSql X d sql mode"
| "db_run X n d (Call_SetTypeMap m) = SetSql2BufferTypeMap d m"

text \<open>What of the state the phase of a database depends on.\<close>

definition life :: "nat \<Rightarrow> 'z dworld_scheme \<Rightarrow> bool \<times> nat option \<times> nat \<times> nat" where
  "life d w = (db_isOpen (dbs w d), db_pDbCatalog (dbs w d), db_pHStmtExecSql (dbs w d),
     m_handle (hnd w (db_pHStmtExecSql (dbs w d))))"

text \<open>
  A call that returns or throws is a step, with any number \<open>n\<close> of rows the driver may deliver; a call whose behaviour is
  undefined has no successor. A step is also anything that leaves \<open>life\<close> alone: what statements, tables and other
  databases do, and the members of this one that only read.
\<close>

inductive db_step :: "ext \<Rightarrow> nat \<Rightarrow> 'z dworld_scheme \<Rightarrow> 'z dworld_scheme \<Rightarrow> bool" for X d where
  returned: "db_run X n d call w = (Ok (), w') \<Longrightarrow> db_step X d w w'"
| thrown: "db_run X n d call w = (Exn e, w') \<Longrightarrow> db_step X d w w'"
| elsewhere: "life d w' = life d w \<Longrightarrow> db_step X d w w'"

inductive_cases db_stepE: "db_step X d w w'"

abbreviation db_steps :: "ext \<Rightarrow> nat \<Rightarrow> 'z dworld_scheme \<Rightarrow> 'z dworld_scheme \<Rightarrow> bool" where
  "db_steps X d \<equiv> (db_step X d)\<^sup>*\<^sup>*"

section \<open>The abstract machine\<close>

datatype phase = Closed | Opened | Stuck

inductive phase_step :: "phase \<Rightarrow> phase \<Rightarrow> bool" where
  stay: "phase_step p p"
| opens: "phase_step Closed Opened"
| closes: "phase_step Opened Closed"
| jams: "phase_step Opened Stuck"

inductive_simps phase_step_from [simp]: "phase_step Closed p" "phase_step Opened p" "phase_step Stuck p"

fun in_phase :: "nat \<Rightarrow> phase \<Rightarrow> 'z dworld_scheme \<Rightarrow> bool" where
  "in_phase d Closed w \<longleftrightarrow> \<not> IsOpen w d \<and> cleaned d (db_pHStmtExecSql (dbs w d)) w"
| "in_phase d Opened w \<longleftrightarrow> IsOpen w d \<and> has_catalog d w"
| "in_phase d Stuck w \<longleftrightarrow> IsOpen w d \<and> cleaned d (db_pHStmtExecSql (dbs w d)) w"

lemmas phase_defs = IsOpen_def cleaned_def null_handle_def life_def

lemma in_phase_unique: "in_phase d p w \<Longrightarrow> in_phase d q w \<Longrightarrow> p = q"
  by (cases p; cases q) (simp_all add: phase_defs)

lemma in_phase_life: "life d w' = life d w \<Longrightarrow> in_phase d p w' = in_phase d p w"
  by (cases p) (auto simp: phase_defs)

lemma Stuck_final: "phase_step\<^sup>*\<^sup>* Stuck p \<Longrightarrow> p = Stuck"
  by (induction rule: rtranclp_induct) simp_all

section \<open>Calls that leave the phase alone\<close>

lemma life_prims [pres]:
  "(\<And>b. db_isOpen (k b) = db_isOpen b \<and> db_pDbCatalog (k b) = db_pDbCatalog b \<and>
        db_pHStmtExecSql (k b) = db_pHStmtExecSql b) \<Longrightarrow> preserves (life d) (mod_db e k)"
  "preserves (life d) (odbc X c)" "life d (w\<lparr>calls := cs\<rparr>) = life d w"
  by (auto simp: preserves_def life_def)

lemma life_calls [pres]:
  "preserves (life d) (CommitTrans X e)" "preserves (life d) (RollbackTrans X e)"
  "preserves (life d) (ReadCommitMode X e)" "preserves (life d) (ReadTransactionIsolationMode X e)"
  "preserves (life d) (CloseStmtHandle X v c)" "preserves (life d) (SetSql2BufferTypeMap e t)"
  unfolding CommitTrans_def RollbackTrans_def ReadCommitMode_def ReadTransactionIsolationMode_def
    CloseStmtHandle_def SetSql2BufferTypeMap_def dbc_allocated_def with_hdbc_def Let_def
  by (intro pres; simp)+

lemma life_more_calls [pres]:
  "preserves (life d) (SetCommitMode X e m)" "preserves (life d) (SetTransactionIsolationMode X e i)"
  "preserves (life d) (ExecSql X e sql mode)"
  unfolding SetCommitMode_def SetTransactionIsolationMode_def ExecSql_def dbc_allocated_def with_hdbc_def
  by (intro pres; simp)+

lemma life_ignoring [pres]: "preserves f m \<Longrightarrow> preserves f (ignoring m)"
  unfolding ignoring_def by (intro pres)

fun changes_phase :: "db_op \<Rightarrow> bool" where
  "changes_phase (Call_Open dsn uid auth) = True"
| "changes_phase (Call_OpenString s wnd) = True"
| "changes_phase Call_Close = True"
| "changes_phase _ = False"

lemma quiet_calls: "\<not> changes_phase call \<Longrightarrow> preserves (life d) (db_run X n d call)"
  by (cases call) (simp_all add: pres)

section \<open>Opening and closing\<close>

lemma Open_connected_phase:
  fixes w :: "'z dworld_scheme"
  assumes drv: "\<And>cs h. rc (driver X (SQLFreeHandle SQL_HANDLE_STMT h # cs)) \<noteq> SQL_ERROR"
    and "Open_connected X n d w = (r, w')" and "in_phase d Closed w"
  shows "r = Ok () \<Longrightarrow> in_phase d Opened w'" and "r = Exn e \<Longrightarrow> in_phase d Closed w'"
  using Open_connected_outcome[OF drv assms(2)] assms(3) by auto

lemma Open_again:
  "IsOpen w d \<Longrightarrow> \<exists>e. Open_dsn X n d dsn uid auth w = (Exn e, w)"
  "IsOpen w d \<Longrightarrow> \<exists>e. Open_connectionString X n d s wnd w = (Exn e, w)"
  by (simp_all add: Open_dsn_def Open_connectionString_def dbc_allocated_def thenM_exec)

lemma Open_dsn_phase:
  fixes w :: "'z dworld_scheme"
  assumes drv: "\<And>cs h. rc (driver X (SQLFreeHandle SQL_HANDLE_STMT h # cs)) \<noteq> SQL_ERROR"
    and run: "Open_dsn X n d dsn uid auth w = (r, w')" and ph: "in_phase d Closed w"
  shows "r = Ok () \<Longrightarrow> in_phase d Opened w'" and "r = Exn e \<Longrightarrow> in_phase d Closed w'"
proof -
  have "(r = Ok () \<longrightarrow> in_phase d Opened w') \<and> (r = Exn e \<longrightarrow> in_phase d Closed w')"
    using run
  proof (rule Open_dsn_run)
    show "\<not> IsOpen w d" using ph by simp
  next
    fix h
    let ?w = "dsn_set d dsn uid auth (SQLConnect h dsn uid auth) w"
    assume o: "Open_connected X n d ?w = (r, w')"
    have "in_phase d Closed ?w" using ph by (simp add: phase_defs)
    from Open_connected_phase[OF drv o this] show ?thesis by blast
  qed (use ph in \<open>auto simp: phase_defs\<close>)
  then show "r = Ok () \<Longrightarrow> in_phase d Opened w'" "r = Exn e \<Longrightarrow> in_phase d Closed w'" by blast+
qed

lemma Open_connectionString_phase:
  fixes w :: "'z dworld_scheme"
  assumes drv: "\<And>cs h. rc (driver X (SQLFreeHandle SQL_HANDLE_STMT h # cs)) \<noteq> SQL_ERROR"
    and run: "Open_connectionString X n d s wnd w = (r, w')" and ph: "in_phase d Closed w"
  shows "r = Ok t \<Longrightarrow> in_phase d Opened w'" and "r = Exn e \<Longrightarrow> in_phase d Closed w'"
proof -
  let ?m = "if wnd then SQL_DRIVER_COMPLETE else SQL_DRIVER_NOPROMPT"
  let ?c = "SQLDriverConnect (SqlHandle_GetHandle w (db_pHDbc (dbs w d))) s ?m"
  let ?r = "driver X (?c # calls w)"
  let ?b = "(dbs w d)\<lparr>db_dsn := [], db_uid := [], db_authStr := [], db_inConnectionStr := s\<rparr>"
  let ?b' = "?b\<lparr>db_outConnectionStr := c_string (take (nat (oind ?r)) (ostr ?r)), db_openedWithConnectionString := True\<rparr>"
  let ?w = "w\<lparr>calls := ?c # calls w, dbs := (dbs w)(d := ?b')\<rparr>"
  have closed: "in_phase d Closed ?w" "in_phase d Closed (w\<lparr>dbs := (dbs w)(d := ?b), calls := ?c # calls w\<rparr>)"
    "in_phase d Closed (w\<lparr>dbs := (dbs w)(d := ?b)\<rparr>)"
    using ph by (simp_all add: phase_defs)
  obtain r1 w1 where o: "Open_connected X n d ?w = (r1, w1)" by fastforce
  have all: "case r of Ok x \<Rightarrow> r1 = Ok () \<and> w' = w1 | Exn e \<Rightarrow> in_phase d Closed w' \<or> r1 = Exn e \<and> w' = w1 | _ \<Rightarrow> True"
    using run o ph closed
    by (cases r1) (auto simp: Open_connectionString_def dbc_allocated_def with_hdbc_def thenM_exec bindM_exec
        SqlHandle_GetHandle_def split: if_splits simp del: in_phase.simps)
  show "r = Ok t \<Longrightarrow> in_phase d Opened w'" "r = Exn e \<Longrightarrow> in_phase d Closed w'"
    using all Open_connected_phase[OF drv o closed(1)] by auto
qed

lemma seqM_ExnE:
  assumes "seqM (m # ms) s = (Exn e, s'')"
  obtains "m s = (Exn e, s'')" | s' where "m s = (Ok (), s')" and "seqM ms s' = (Exn e, s'')"
  using assms by (cases "m s"; cases "fst (m s)") (auto simp: thenM_exec)

lemma Close_steps_Exn:
  assumes "IsOpen w d" and "Close X d w = (Exn e, w')"
  shows "Close_steps X d w = (Exn e, w')"
proof (cases "Close_steps X d w")
  case (Pair r w1)
  then show ?thesis using assms by (cases r) (simp_all add: Close_split thenM_exec del: seqM.simps)
qed

lemma Close_rest_throws:
  fixes w :: "'z dworld_scheme"
  assumes "seqM [mod_props d SqlInfoProperties_Reset, reset_catalog X d, Close_disconnect X d] w = (Exn e, w')"
    and "null_handle s w"
  shows "cleaned d s w'"
proof -
  let ?w = "snd (mod_props d SqlInfoProperties_Reset w)"
  have n: "null_handle s ?w" using assms(2) by (simp add: null_handle_def)
  from assms(1) have "seqM [reset_catalog X d, Close_disconnect X d] ?w = (Exn e, w')"
    by (simp add: thenM_exec)
  then show ?thesis
  proof (rule seqM_ExnE)
    assume "reset_catalog X d ?w = (Exn e, w')"
    with nothrowD[OF nothrow_reset_catalog] show ?thesis by blast
  next
    fix w3
    assume 3: "reset_catalog X d ?w = (Ok (), w3)" and l: "seqM [Close_disconnect X d] w3 = (Exn e, w')"
    from keepsD[OF keeps_null_reset_catalog n 3] reset_catalog_None[OF 3] l show ?thesis
      by (auto simp: cleaned_def null_handle_def with_hdbc_def thenM_exec bindM_exec split: if_splits)
  qed
qed

text \<open>A \<open>Close\<close> that throws does so before the catalog goes, or when everything but the connection is gone.\<close>

lemma Close_throws:
  fixes w :: "'z dworld_scheme"
  assumes "IsOpen w d" and "Close X d w = (Exn e, w')"
  shows "IsOpen w' d \<and> db_pHStmtExecSql (dbs w' d) = db_pHStmtExecSql (dbs w d) \<and>
    (cleaned d (db_pHStmtExecSql (dbs w d)) w' \<or>
     db_pDbCatalog (dbs w' d) = db_pDbCatalog (dbs w d) \<and>
     (null_handle (db_pHStmtExecSql (dbs w d)) w \<longrightarrow> null_handle (db_pHStmtExecSql (dbs w d)) w'))"
proof -
  let ?s = "db_pHStmtExecSql (dbs w d)"
  let ?rb = "whenM (\<lambda>w. db_commitMode (dbs w d) = MANUAL) (RollbackTrans X d) :: ('z, unit) dprog"
  have run: "Close_steps X d w = (Exn e, w')"
    by (rule Close_steps_Exn[OF assms])
  have f: "fixed d w' = fixed d w" using preservesD[OF fixed_Close_steps run] .
  have prb: "preserves (life d) ?rb" by (intro pres)
  have pfree: "preserves (\<lambda>w. dbs w d) (SqlHandle_Free X STMT ?s :: ('z, unit) dprog)"
    by (intro pres beyond_above beyond_dbs[of "\<lambda>D. D d"])
  have kfree: "keeps (null_handle ?s) (SqlHandle_Free X STMT ?s :: ('z, unit) dprog)"
    unfolding SqlHandle_Free_def by (intro keep)
  from run show ?thesis
  proof (rule seqM_ExnE)
    assume "?rb w = (Exn e, w')"
    from preservesD[OF prb this] assms(1) show ?thesis by (auto simp: phase_defs)
  next
    fix w1
    assume 1: "?rb w = (Ok (), w1)" and "seqM [bindM (getsM (\<lambda>w. db_pHStmtExecSql (dbs w d))) (SqlHandle_Free X STMT),
      mod_props d SqlInfoProperties_Reset, reset_catalog X d, Close_disconnect X d] w1 = (Exn e, w')"
    from this(2) have rest: "seqM [SqlHandle_Free X STMT (db_pHStmtExecSql (dbs w1 d)),
      mod_props d SqlInfoProperties_Reset, reset_catalog X d, Close_disconnect X d] w1 = (Exn e, w')"
      by (simp add: thenM_exec bindM_exec)
    have l1: "life d w1 = life d w" using preservesD[OF prb 1] .
    then have s1: "db_pHStmtExecSql (dbs w1 d) = ?s" by (simp add: life_def)
    from rest[unfolded s1] show ?thesis
    proof (rule seqM_ExnE)
      assume 2: "SqlHandle_Free X STMT ?s w1 = (Exn e, w')"
      from l1 f assms(1) preservesD[OF pfree 2] keepsD[OF kfree _ 2] show ?thesis
        by (auto simp: phase_defs fixed_def)
    next
      fix w2
      assume 2: "SqlHandle_Free X STMT ?s w1 = (Ok (), w2)"
        and late: "seqM [mod_props d SqlInfoProperties_Reset, reset_catalog X d, Close_disconnect X d] w2 = (Exn e, w')"
      from Close_rest_throws[OF late Free_Ok_nulls[OF 2]] f assms(1) show ?thesis
        by (auto simp: phase_defs fixed_def)
    qed
  qed
qed

lemma Close_returns:
  assumes "IsOpen w d" and "Close X d w = (Ok (), w')"
  shows "in_phase d Closed w'"
proof -
  obtain w1 where 1: "Close_steps X d w = (Ok (), w1)" and w': "w' = w1\<lparr>dbs := (dbs w1)(d := (dbs w1 d)\<lparr>db_isOpen := False\<rparr>)\<rparr>"
    using assms(2) unfolding Close_split[OF assms(1)] by (auto elim!: thenM_OkE simp del: seqM.simps)
  from Close_steps_Ok(1)[OF 1] preservesD[OF fixed_Close_steps 1] w' show ?thesis
    by (simp add: phase_defs fixed_def)
qed

lemma Close_phase:
  fixes w :: "'z dworld_scheme"
  assumes "Close X d w = (r, w')" and "in_phase d p w" and "r = Ok () \<or> r = Exn e"
  shows "\<exists>q. phase_step p q \<and> in_phase d q w'"
proof (cases p)
  case Closed
  with assms show ?thesis by (auto simp: Close_def whenM_def ifM_def)
next
  case Opened
  with assms Close_returns[of w d X w'] Close_throws[of w d X e w'] show ?thesis by fastforce
next
  case Stuck
  then have "IsOpen w d" "null_handle (db_pHStmtExecSql (dbs w d)) w" "db_pDbCatalog (dbs w d) = None"
    using assms(2) by (simp_all add: cleaned_def)
  from this Close_stuck[OF this(1,2), of X] Close_throws[OF this(1), of X e w'] assms(1,3) Stuck show ?thesis
    by (auto simp: cleaned_def)
qed

section \<open>Refinement\<close>

lemma ignoring_results:
  "ignoring m w = (Ok u, w') \<Longrightarrow> \<exists>x. m w = (Ok x, w')" "ignoring m w = (Exn e, w') \<Longrightarrow> m w = (Exn e, w')"
  by (cases "m w"; cases "fst (m w)"; auto simp: ignoring_def bindM_exec)+

lemma Open_phase:
  fixes w :: "'z dworld_scheme"
  assumes drv: "\<And>cs h. rc (driver X (SQLFreeHandle SQL_HANDLE_STMT h # cs)) \<noteq> SQL_ERROR"
    and ph: "in_phase d p w" and r: "r = Ok () \<or> r = Exn e"
    and run: "Open_dsn X n d dsn uid auth w = (r, w') \<or> ignoring (Open_connectionString X n d s wnd) w = (r, w')"
  shows "\<exists>q. phase_step p q \<and> in_phase d q w'"
proof (cases "p = Closed")
  case True
  from run show ?thesis
  proof
    assume "Open_dsn X n d dsn uid auth w = (r, w')"
    from Open_dsn_phase[OF drv this] ph r True show ?thesis by auto
  next
    assume o: "ignoring (Open_connectionString X n d s wnd) w = (r, w')"
    obtain r1 w1 where o1: "Open_connectionString X n d s wnd w = (r1, w1)" by fastforce
    from Open_connectionString_phase[OF drv o1] o o1 ph r True have "in_phase d Opened w' \<or> in_phase d Closed w'"
      by (auto dest!: ignoring_results simp del: in_phase.simps)
    with True show ?thesis by (blast intro: phase_step.intros)
  qed
next
  case False
  with ph have o: "IsOpen w d" by (cases p) simp_all
  with run r Open_again[OF o] ph show ?thesis
    by (metis ignoring_results fst_conv Pair_inject phase_step.stay res.distinct(1))
qed

lemma call_phase:
  fixes w :: "'z dworld_scheme"
  assumes drv: "\<And>cs h. rc (driver X (SQLFreeHandle SQL_HANDLE_STMT h # cs)) \<noteq> SQL_ERROR"
    and run: "db_run X n d call w = (r, w')" and r: "r = Ok () \<or> r = Exn e" and ph: "in_phase d p w"
  shows "\<exists>q. phase_step p q \<and> in_phase d q w'"
proof (cases "changes_phase call")
  case False
  from in_phase_life[OF preservesD[OF quiet_calls[OF False] run]] ph show ?thesis
    by (blast intro: phase_step.stay)
next
  case True
  with run consider dsn uid auth where "Open_dsn X n d dsn uid auth w = (r, w')"
    | s wnd where "ignoring (Open_connectionString X n d s wnd) w = (r, w')" | "Close X d w = (r, w')"
    by (cases call) auto
  then show ?thesis
    using Open_phase[OF drv ph r, OF disjI1] Open_phase[OF drv ph r, OF disjI2] Close_phase[OF _ ph r]
    by cases blast+
qed

lemma step_refines:
  fixes w :: "'z dworld_scheme"
  assumes drv: "\<And>cs h. rc (driver X (SQLFreeHandle SQL_HANDLE_STMT h # cs)) \<noteq> SQL_ERROR"
    and step: "db_step X d w w'" and ph: "in_phase d p w"
  shows "\<exists>q. phase_step p q \<and> in_phase d q w'"
  using step
proof (elim db_stepE)
  assume "life d w' = life d w"
  with in_phase_life[of d w' w] ph show ?thesis by (blast intro: phase_step.stay)
qed (use call_phase[OF drv _ _ ph] in blast)+

lemma steps_refine:
  fixes w :: "'z dworld_scheme"
  assumes drv: "\<And>cs h. rc (driver X (SQLFreeHandle SQL_HANDLE_STMT h # cs)) \<noteq> SQL_ERROR"
    and "db_steps X d w w'" and "in_phase d p w"
  shows "\<exists>q. phase_step\<^sup>*\<^sup>* p q \<and> in_phase d q w'"
  using assms(2,3)
proof (induction rule: rtranclp_induct)
  case (step v v')
  then obtain q where q: "phase_step\<^sup>*\<^sup>* p q" "in_phase d q v" by blast
  from step_refines[OF drv step.hyps(2) q(2)] q(1) show ?case by (blast intro: rtranclp.rtrancl_into_rtrancl)
qed blast

text \<open>
  C2. A database, once constructed, is always in one of three phases: closed without catalog and statement handle, open with a
  catalog, or stuck: still open by its flag, but without catalog and statement handle. Whatever members the application
  calls, in whatever order, whatever they throw and whatever happens elsewhere in between, the phase moves
  as the abstract machine does (closed to opened, opened to closed or stuck), provided that freeing
  a statement handle does not fail. Stuck is final: from then on the database says that it is open, and every
  \<open>Close\<close> and every \<open>Open\<close> throws.
\<close>

theorem lifecycle_refines:
  fixes w :: "'z dworld_scheme"
  assumes drv: "\<And>cs h. rc (driver X (SQLFreeHandle SQL_HANDLE_STMT h # cs)) \<noteq> SQL_ERROR"
    and run: "db_steps X d w w'" and start: "in_phase d p w"
  shows "\<exists>q. phase_step\<^sup>*\<^sup>* p q \<and> in_phase d q w' \<and> (q = Stuck \<longrightarrow>
      (\<forall>v. db_steps X d w' v \<longrightarrow> IsOpen v d \<and> (\<exists>e. fst (Close X d v) = Exn e) \<and>
        (\<forall>n dsn uid auth. \<exists>e. Open_dsn X n d dsn uid auth v = (Exn e, v)) \<and>
        (\<forall>n s wnd. \<exists>e. Open_connectionString X n d s wnd v = (Exn e, v))))"
proof -
  obtain q where q: "phase_step\<^sup>*\<^sup>* p q" "in_phase d q w'" using steps_refine[OF drv run start] by blast
  have "in_phase d Stuck v" if "q = Stuck" "db_steps X d w' v" for v
    using steps_refine[OF drv that(2)] q(2) that(1) Stuck_final by blast
  then have "IsOpen v d \<and> (\<exists>e. fst (Close X d v) = Exn e) \<and> (\<forall>n dsn uid auth. \<exists>e. Open_dsn X n d dsn uid auth v = (Exn e, v)) \<and>
        (\<forall>n s wnd. \<exists>e. Open_connectionString X n d s wnd v = (Exn e, v))"
    if "q = Stuck" "db_steps X d w' v" for v
    using Close_stuck[of v d X] Open_again[of v d] that by (auto simp: cleaned_def)
  with q show ?thesis by blast
qed

text \<open>
  An open database with a catalog at address 5, which the application shares, and a driver that cannot disconnect: one
  \<open>Close\<close>, and it is stuck.
\<close>

definition open_db :: dworld where
  "open_db = (let w = small_db True in
     w\<lparr>cats := (\<lambda>_. (cats w 5)\<lparr>dc_use_count := 2\<rparr>), dbs := (\<lambda>_. (dbs w 6)\<lparr>db_pDbCatalog := Some 5\<rparr>)\<rparr>)"

theorem lifecycle_refines_witness:
  "\<exists>e w'. Close (ref_ext no_disconnect_driver) 6 open_db = (Exn e, w') \<and> in_phase 6 Stuck w' \<and>
     (\<forall>v. db_steps (ref_ext no_disconnect_driver) 6 w' v \<longrightarrow> IsOpen v 6)"
proof -
  have drv: "rc (driver (ref_ext no_disconnect_driver) (SQLFreeHandle SQL_HANDLE_STMT h # cs)) \<noteq> SQL_ERROR" for h cs
    by simp
  obtain e w' where r: "Close (ref_ext no_disconnect_driver) 6 open_db = (Exn e, w')"
    and s: "in_phase 6 Stuck w'"
    by (simp add: Close_def RollbackTrans_def reset_catalog_def with_hdbc_def dbc_allocated_def small_db_def open_db_def
        SqlHandle_IsAllocated_def SqlHandle_GetHandle_def SqlHandle_init_def SqlHandle_Free_def Free_body_def
        fire_def thenM_exec bindM_exec SQL_SUCCEEDED_def phase_defs ref_ext_def
        DatabaseCatalog_release_def)
  have "db_run (ref_ext no_disconnect_driver) 0 6 Call_Close open_db = (Exn e, w')" using r by simp
  then have "db_steps (ref_ext no_disconnect_driver) 6 open_db w'" by (blast intro: db_step.thrown)
  moreover have "in_phase 6 Opened open_db" by (simp add: open_db_def small_db_def phase_defs)
  ultimately obtain q where q: "in_phase 6 q w'" "q = Stuck \<longrightarrow> (\<forall>v. db_steps (ref_ext no_disconnect_driver) 6 w' v \<longrightarrow> IsOpen v 6)"
    using lifecycle_refines[OF drv] by blast
  with in_phase_unique[OF q(1) s] r s show ?thesis by blast
qed

end
