(* ===== verification/Logging.thy ===== *)
theory Logging
  imports OdbcApi
begin

text \<open>
  \<open>LogManager.h/.cpp\<close> and \<open>LogHandler.h/.cpp\<close>: the log levels, the handlers of the library and the manager that
  hands every message to the registered ones.

  A \<open>shared_ptr\<close> to a handler is an address; \<open>handlers w a\<close> is the object. The two standard streams and the files
  are the text written to them. The environment gives two things: whether a file can be opened for
  writing, and the time stamp of a line. The mutexes are held for the extent of one function and are left out: the
  model is one thread. Handlers of the user's own are left out as well.
\<close>

section \<open>Levels\<close>

datatype LogLevel = LL_None | LL_Error | LL_Warning | LL_Output | LL_Info | LL_Debug

fun level_value :: "LogLevel \<Rightarrow> nat" where
  "level_value LL_None = 100"
| "level_value LL_Error = 10"
| "level_value LL_Warning = 9"
| "level_value LL_Output = 7"
| "level_value LL_Info = 5"
| "level_value LL_Debug = 3"

lemma level_value_inj: "level_value l = level_value k \<longleftrightarrow> l = k"
  by (cases l; cases k) simp_all

instantiation LogLevel :: linorder
begin

definition less_eq_LogLevel :: "LogLevel \<Rightarrow> LogLevel \<Rightarrow> bool" where
  "l \<le> k \<longleftrightarrow> level_value l \<le> level_value k"

definition less_LogLevel :: "LogLevel \<Rightarrow> LogLevel \<Rightarrow> bool" where
  "l < k \<longleftrightarrow> level_value l < level_value k"

instance
  by standard (auto simp: less_eq_LogLevel_def less_LogLevel_def level_value_inj)

end

section \<open>Handlers\<close>

text \<open>
  The constructor of \<open>LogHandlerBase\<close> gives no value to \<open>m_hasCustomLogLevel\<close> and \<open>m_customLogLevel\<close>: \<open>None\<close> is an
  indeterminate value, which must not be read.
\<close>

record LogHandlerBase =
  lh_showFileInfo :: bool
  lh_showLogLevel :: bool
  lh_hideLogLevel :: "LogLevel list"
  lh_hasCustomLogLevel :: "bool option"
  lh_customLogLevel :: "LogLevel option"

datatype LogHandler =
    StdLogHandler LogHandlerBase bool bool
  | NullLogHandler LogHandlerBase
  | FileLogHandler LogHandlerBase bool string bool bool

record LogManager =
  lm_logHandlers :: "nat list"
  lm_globalLogLevel :: LogLevel

record logworld =
  handlers :: "nat \<Rightarrow> LogHandler"
  manager :: LogManager
  std_err :: string
  std_out :: string
  files :: "string \<Rightarrow> string"
  next_handler :: nat

record logenv =
  can_open :: "string \<Rightarrow> bool"
  put_time :: "logworld \<Rightarrow> string"

type_synonym 'a lprog = "(exn, logworld, 'a) prog"

definition LogHandlerBase_new :: LogHandlerBase where
  "LogHandlerBase_new = \<lparr>lh_showFileInfo = True, lh_showLogLevel = True, lh_hideLogLevel = [],
     lh_hasCustomLogLevel = None, lh_customLogLevel = None\<rparr>"

definition SetShowFileInfo :: "bool \<Rightarrow> LogHandlerBase \<Rightarrow> LogHandlerBase" where
  "SetShowFileInfo enable h = h\<lparr>lh_showFileInfo := enable\<rparr>"

definition SetShowLogLevel :: "bool \<Rightarrow> LogHandlerBase \<Rightarrow> LogHandlerBase" where
  "SetShowLogLevel enable h = h\<lparr>lh_showLogLevel := enable\<rparr>"

definition SetHideLogLevel :: "LogLevel \<Rightarrow> LogHandlerBase \<Rightarrow> LogHandlerBase" where
  "SetHideLogLevel level h = h\<lparr>lh_hideLogLevel := List.insert level (lh_hideLogLevel h)\<rparr>"

definition ClearHideLogLevel :: "LogLevel \<Rightarrow> LogHandlerBase \<Rightarrow> LogHandlerBase" where
  "ClearHideLogLevel level h = h\<lparr>lh_hideLogLevel := removeAll level (lh_hideLogLevel h)\<rparr>"

definition GetHideLogLevel :: "LogHandlerBase \<Rightarrow> LogLevel \<Rightarrow> bool" where
  "GetHideLogLevel h level \<longleftrightarrow> level \<in> set (lh_hideLogLevel h)"

definition SetLogLevel :: "LogLevel \<Rightarrow> LogHandlerBase \<Rightarrow> LogHandlerBase" where
  "SetLogLevel level h = h\<lparr>lh_hasCustomLogLevel := Some True, lh_customLogLevel := Some level\<rparr>"

definition ClearLogLevel :: "LogHandlerBase \<Rightarrow> LogHandlerBase" where
  "ClearLogLevel h = h\<lparr>lh_hasCustomLogLevel := Some False\<rparr>"

definition CustomLogLevelHidesMsg :: "LogHandlerBase \<Rightarrow> LogLevel \<Rightarrow> (exn, bool) res" where
  "CustomLogLevelHidesMsg h msgLevel = (case lh_hasCustomLogLevel h of
     None \<Rightarrow> Undef
   | Some False \<Rightarrow> Ok False
   | Some True \<Rightarrow> (case lh_customLogLevel h of None \<Rightarrow> Undef | Some l \<Rightarrow> Ok (msgLevel < l)))"

fun level_name :: "LogLevel \<Rightarrow> string" where
  "level_name LL_Error = ''ERROR''"
| "level_name LL_Warning = ''WARNING''"
| "level_name LL_Output = ''OUTPUT''"
| "level_name LL_Info = ''INFO''"
| "level_name LL_Debug = ''DEBUG''"
| "level_name LL_None = ''UNKNOWN''"

definition FormatLogMessage ::
  "LogHandlerBase \<Rightarrow> LogLevel \<Rightarrow> string \<Rightarrow> string \<Rightarrow> int \<Rightarrow> string \<Rightarrow> string" where
  "FormatLogMessage h level msg filename line functionname =
     (let s1 = (if lh_showLogLevel h \<and> level \<notin> set (lh_hideLogLevel h) then level_name level @ '' '' else []);
          haveSourceInfo = (filename \<noteq> [] \<or> line > 0 \<or> functionname \<noteq> []);
          s2 = (if haveSourceInfo \<and> lh_showFileInfo h
                then ''['' @ filename @
                     (if line > 0 then ''('' @ show_int line @ '')'' else if filename \<noteq> [] then ''(??)'' else []) @
                     functionname @ '']''
                else []);
          s = s1 @ s2
      in s @ (if length s > 0 then '': '' else []) @ msg)"

section \<open>Writing\<close>

definition newline :: string where "newline = [CHR 0x0A]"

definition WriteStdErr :: "string \<Rightarrow> bool \<Rightarrow> unit lprog" where
  "WriteStdErr msg appendEndl = modifyM (\<lambda>w. w\<lparr>std_err := std_err w @ msg @ (if appendEndl then newline else [])\<rparr>)"

definition WriteStdOut :: "string \<Rightarrow> bool \<Rightarrow> unit lprog" where
  "WriteStdOut msg appendEndl = modifyM (\<lambda>w. w\<lparr>std_out := std_out w @ msg @ (if appendEndl then newline else [])\<rparr>)"

definition set_handler :: "nat \<Rightarrow> LogHandler \<Rightarrow> unit lprog" where
  "set_handler a h = modifyM (\<lambda>w. w\<lparr>handlers := (handlers w)(a := h)\<rparr>)"

text \<open>\<open>OnLogMessage\<close> of the three handlers. A file is opened, and emptied, by the first message.\<close>

definition StdLogHandler_OnLogMessage ::
  "LogHandlerBase \<Rightarrow> bool \<Rightarrow> bool \<Rightarrow> LogLevel \<Rightarrow> string \<Rightarrow> string \<Rightarrow> int \<Rightarrow> string \<Rightarrow> unit lprog" where
  "StdLogHandler_OnLogMessage h redirectToStdErr redirectToStdOut level msg filename line functionname =
     bindM (liftM (CustomLogLevelHidesMsg h level)) (\<lambda>hides. if hides then skipM else
       let formatedMessage = (if lh_showFileInfo h then FormatLogMessage h level msg filename line functionname
                              else FormatLogMessage h level msg [] 0 []) in seqM
         [if redirectToStdErr then WriteStdErr formatedMessage True else skipM,
          if redirectToStdOut then WriteStdOut formatedMessage True else skipM,
          if \<not> redirectToStdErr \<and> \<not> redirectToStdOut
          then if level \<ge> LL_Warning then WriteStdErr formatedMessage True else WriteStdOut formatedMessage True
          else skipM])"

definition append_file :: "string \<Rightarrow> string \<Rightarrow> unit lprog" where
  "append_file f s = modifyM (\<lambda>w. w\<lparr>files := (files w)(f := files w f @ s)\<rparr>)"

definition open_logfile :: "logenv \<Rightarrow> nat \<Rightarrow> LogHandlerBase \<Rightarrow> bool \<Rightarrow> string \<Rightarrow> unit lprog" where
  "open_logfile E this h prependTimestamp filepath = thenM
     (if can_open E filepath then modifyM (\<lambda>w. w\<lparr>files := (files w)(filepath := [])\<rparr>) else skipM)
     (set_handler this (FileLogHandler h prependTimestamp filepath False (can_open E filepath)))"

definition FileLogHandler_OnLogMessage ::
  "logenv \<Rightarrow> nat \<Rightarrow> LogHandlerBase \<Rightarrow> bool \<Rightarrow> string \<Rightarrow> bool \<Rightarrow> bool \<Rightarrow>
   LogLevel \<Rightarrow> string \<Rightarrow> string \<Rightarrow> int \<Rightarrow> string \<Rightarrow> unit lprog" where
  "FileLogHandler_OnLogMessage E this h prependTimestamp filepath firstMessage isOpen level msg filename line functionname =
     bindM (liftM (CustomLogLevelHidesMsg h level)) (\<lambda>hides. if hides then skipM else thenM
       (if firstMessage then open_logfile E this h prependTimestamp filepath else skipM)
       (if (if firstMessage then can_open E filepath else isOpen)
        then bindM (getsM (put_time E)) (\<lambda>now. append_file filepath
               ((if prependTimestamp then now @ '': '' else []) @
                FormatLogMessage h level msg filename line functionname @ newline))
        else skipM))"

definition OnLogMessage :: "logenv \<Rightarrow> nat \<Rightarrow> LogLevel \<Rightarrow> string \<Rightarrow> string \<Rightarrow> int \<Rightarrow> string \<Rightarrow> unit lprog" where
  "OnLogMessage E a level msg filename line functionname = bindM (getsM (\<lambda>w. handlers w a)) (\<lambda>h. case h of
     StdLogHandler b e out \<Rightarrow> StdLogHandler_OnLogMessage b e out level msg filename line functionname
   | NullLogHandler b \<Rightarrow> skipM
   | FileLogHandler b ts path first isOpen \<Rightarrow>
       FileLogHandler_OnLogMessage E a b ts path first isOpen level msg filename line functionname)"

text \<open>\<open>operator==\<close>: all standard handlers are equal, all null handlers are, and file handlers of one path.\<close>

fun handler_eq :: "LogHandler \<Rightarrow> LogHandler \<Rightarrow> bool" where
  "handler_eq (StdLogHandler b e out) other = (case other of StdLogHandler _ _ _ \<Rightarrow> True | _ \<Rightarrow> False)"
| "handler_eq (NullLogHandler b) other = (case other of NullLogHandler _ \<Rightarrow> True | _ \<Rightarrow> False)"
| "handler_eq (FileLogHandler b ts path first isOpen) other =
     (case other of FileLogHandler _ _ path' _ _ \<Rightarrow> path' = path | _ \<Rightarrow> False)"

definition new_handler :: "LogHandler \<Rightarrow> nat lprog" where
  "new_handler h = bindM (getsM next_handler) (\<lambda>a. thenM
     (modifyM (\<lambda>w. w\<lparr>handlers := (handlers w)(a := h), next_handler := a + 1\<rparr>)) (returnM a))"

definition StdLogHandler_new :: LogHandler where
  "StdLogHandler_new = StdLogHandler LogHandlerBase_new False False"

definition NullLogHandler_new :: LogHandler where
  "NullLogHandler_new = NullLogHandler LogHandlerBase_new"

definition FileLogHandler_new :: "string \<Rightarrow> bool \<Rightarrow> LogHandler" where
  "FileLogHandler_new filepath prependTimestamp = FileLogHandler LogHandlerBase_new prependTimestamp filepath True False"

fun RedirectToStdErr :: "bool \<Rightarrow> LogHandler \<Rightarrow> LogHandler" where
  "RedirectToStdErr enable (StdLogHandler b e out) = StdLogHandler b enable out"
| "RedirectToStdErr enable h = h"

fun RedirectoToStdOut :: "bool \<Rightarrow> LogHandler \<Rightarrow> LogHandler" where
  "RedirectoToStdOut enable (StdLogHandler b e out) = StdLogHandler b e enable"
| "RedirectoToStdOut enable h = h"

section \<open>The manager\<close>

definition mod_manager :: "(LogManager \<Rightarrow> LogManager) \<Rightarrow> unit lprog" where
  "mod_manager f = modifyM (\<lambda>w. w\<lparr>manager := f (manager w)\<rparr>)"

definition ClearLogHandlers :: "unit lprog" where
  "ClearLogHandlers = mod_manager (\<lambda>m. m\<lparr>lm_logHandlers := []\<rparr>)"

fun registered_eq :: "(nat \<Rightarrow> LogHandler) \<Rightarrow> nat list \<Rightarrow> nat \<Rightarrow> bool" where
  "registered_eq hs [] p = False"
| "registered_eq hs (a # as) p = (handler_eq (hs a) (hs p) \<or> registered_eq hs as p)"

definition RegisterLogHandler :: "nat option \<Rightarrow> unit lprog" where
  "RegisterLogHandler pHandler = (case pHandler of
     None \<Rightarrow> throwM (AssertionException ''pHandler'')
   | Some p \<Rightarrow> ifM (\<lambda>w. registered_eq (handlers w) (lm_logHandlers (manager w)) p) skipM
       (mod_manager (\<lambda>m. m\<lparr>lm_logHandlers := lm_logHandlers m @ [p]\<rparr>)))"

fun erase_first_eq :: "(nat \<Rightarrow> LogHandler) \<Rightarrow> nat list \<Rightarrow> nat \<Rightarrow> nat list" where
  "erase_first_eq hs [] p = []"
| "erase_first_eq hs (a # as) p = (if handler_eq (hs a) (hs p) then as else a # erase_first_eq hs as p)"

text \<open>A null pointer is dereferenced if any handler is registered.\<close>

definition RemoveLogHandler :: "nat option \<Rightarrow> unit lprog" where
  "RemoveLogHandler pHandler = (case pHandler of
     None \<Rightarrow> ifM (\<lambda>w. lm_logHandlers (manager w) = []) skipM undefM
   | Some p \<Rightarrow> bindM (getsM handlers) (\<lambda>hs.
       mod_manager (\<lambda>m. m\<lparr>lm_logHandlers := erase_first_eq hs (lm_logHandlers m) p\<rparr>)))"

definition LogMessage :: "logenv \<Rightarrow> LogLevel \<Rightarrow> string \<Rightarrow> string \<Rightarrow> int \<Rightarrow> string \<Rightarrow> unit lprog" where
  "LogMessage E level msg filename line functionName =
     ifM (\<lambda>w. level < lm_globalLogLevel (manager w)) skipM
       (bindM (getsM (\<lambda>w. lm_logHandlers (manager w))) (\<lambda>as.
          forM as (\<lambda>a. OnLogMessage E a level msg filename line functionName)))"

definition GetRegisteredLogHandlersCount :: "logworld \<Rightarrow> nat" where
  "GetRegisteredLogHandlersCount w = length (lm_logHandlers (manager w))"

definition GetLogHandlers :: "logworld \<Rightarrow> nat list" where
  "GetLogHandlers w = lm_logHandlers (manager w)"

definition SetGlobalLogLevel :: "LogLevel \<Rightarrow> unit lprog" where
  "SetGlobalLogLevel level = mod_manager (\<lambda>m. m\<lparr>lm_globalLogLevel := level\<rparr>)"

definition GetGlobalLogLevel :: "logworld \<Rightarrow> LogLevel" where
  "GetGlobalLogLevel w = lm_globalLogLevel (manager w)"

text \<open>The constructor, run by the first \<open>Get\<close>; \<open>debug\<close> says whether \<open>_DEBUG\<close> is defined.\<close>

definition LogManager_new :: "bool \<Rightarrow> unit lprog" where
  "LogManager_new debug = thenM
     (mod_manager (\<lambda>_. \<lparr>lm_logHandlers = [], lm_globalLogLevel = (if debug then LL_Debug else LL_Info)\<rparr>))
     (bindM (new_handler StdLogHandler_new) (\<lambda>a. RegisterLogHandler (Some a)))"

text \<open>The scope of a \<open>LogLevelSetter\<close>.\<close>

definition LogLevelSetter_new :: "LogLevel \<Rightarrow> LogLevel lprog" where
  "LogLevelSetter_new level = bindM (getsM GetGlobalLogLevel) (\<lambda>original.
     thenM (SetGlobalLogLevel level) (returnM original))"

definition LogLevelSetter_destroy :: "LogLevel \<Rightarrow> unit lprog" where
  "LogLevelSetter_destroy original = SetGlobalLogLevel original"

definition with_LogLevelSetter :: "LogLevel \<Rightarrow> 'a lprog \<Rightarrow> 'a lprog" where
  "with_LogLevelSetter level body = bindM (LogLevelSetter_new level) (\<lambda>original.
     finallyM body (LogLevelSetter_destroy original))"

section \<open>What the manager promises\<close>

text \<open>Equality of handlers is an equivalence, which neither using nor configuring a handler changes.\<close>

lemma handler_eq_refl: "handler_eq h h"
  by (cases h) simp_all

lemma handler_eq_sym: "handler_eq h k \<Longrightarrow> handler_eq k h"
  by (cases h; cases k) simp_all

lemma handler_eq_trans: "handler_eq h k \<Longrightarrow> handler_eq k l \<Longrightarrow> handler_eq h l"
  by (cases h; cases k; cases l) simp_all

lemma registered_eq_iff: "registered_eq hs as p \<longleftrightarrow> (\<exists>a\<in>set as. handler_eq (hs a) (hs p))"
  by (induction as) auto

text \<open>No two registered handlers are equal, and every one of them is an object that exists.\<close>

definition log_inv :: "logworld \<Rightarrow> bool" where
  "log_inv w \<longleftrightarrow>
     sorted_wrt (\<lambda>a b. \<not> handler_eq (handlers w a) (handlers w b)) (lm_logHandlers (manager w)) \<and>
     (\<forall>a\<in>set (lm_logHandlers (manager w)). a < next_handler w)"

lemma sorted_wrt_erase: "sorted_wrt R as \<Longrightarrow> sorted_wrt R (erase_first_eq hs as p) \<and> set (erase_first_eq hs as p) \<subseteq> set as"
  by (induction as) auto

lemma log_inv_frame:
  "(\<And>w. manager (f w) = manager w \<and> handlers (f w) = handlers w \<and> next_handler (f w) = next_handler w) \<Longrightarrow>
     keeps log_inv (modifyM f)"
  by (simp add: keeps_def log_inv_def)

lemma log_inv_writing [keep]:
  "keeps log_inv (WriteStdErr msg e)" "keeps log_inv (WriteStdOut msg e)" "keeps log_inv (append_file f s)"
  unfolding WriteStdErr_def WriteStdOut_def append_file_def by (intro log_inv_frame; simp)+

text \<open>A file handler is replaced by one that is equal to it.\<close>

lemma log_inv_equal_handler:
  assumes "log_inv w" and "\<And>k. handler_eq h k = handler_eq (handlers w a) k"
  shows "log_inv (w\<lparr>handlers := (handlers w)(a := h)\<rparr>)"
proof -
  have "handler_eq k h = handler_eq k (handlers w a)" for k
    using assms(2) handler_eq_sym by blast
  with assms(2) have "handler_eq (((handlers w)(a := h)) b) (((handlers w)(a := h)) c) =
      handler_eq (handlers w b) (handlers w c)" for b c
    by simp
  with assms(1) show ?thesis by (simp add: log_inv_def)
qed

lemma keeps_at: "I (snd (m w)) \<Longrightarrow> keeps I n \<Longrightarrow> I (snd (thenM m n w))"
  by (cases "m w"; cases "fst (m w)") (auto simp: thenM_exec keeps_def)

lemma log_inv_open:
  assumes "log_inv w" and "handlers w a = FileLogHandler b ts path first isOpen"
  shows "log_inv (snd (open_logfile E a b ts path w))"
proof -
  let ?h = "FileLogHandler b ts path False (can_open E path)"
  let ?w = "if can_open E path then w\<lparr>files := (files w)(path := [])\<rparr> else w"
  have "log_inv ?w" and "handlers ?w = handlers w"
    using assms(1) by (simp_all add: log_inv_def)
  then have "log_inv (?w\<lparr>handlers := (handlers ?w)(a := ?h)\<rparr>)"
    by (intro log_inv_equal_handler) (simp_all add: assms(2))
  then show ?thesis by (simp add: open_logfile_def set_handler_def thenM_exec split: if_splits)
qed

lemma keeps_OnLogMessage [keep]: "keeps log_inv (OnLogMessage E a level msg fn line func)"
proof (rule keepsI)
  fix w assume w: "log_inv w"
  show "log_inv (snd (OnLogMessage E a level msg fn line func w))"
  proof (cases "handlers w a")
    case (StdLogHandler b e out)
    have "keeps log_inv (StdLogHandler_OnLogMessage b e out level msg fn line func)"
      unfolding StdLogHandler_OnLogMessage_def Let_def by (intro keep)
    with StdLogHandler w show ?thesis by (simp add: OnLogMessage_def bindM_exec keeps_def)
  next
    case (FileLogHandler b ts path first isOpen)
    let ?open = "if first then open_logfile E a b ts path else skipM"
    let ?wrt = "if (if first then can_open E path else isOpen)
        then bindM (getsM (put_time E)) (\<lambda>now. append_file path
               ((if ts then now @ '': '' else []) @ FormatLogMessage b level msg fn line func @ newline))
        else skipM"
    have "log_inv (snd (?open w))" using w FileLogHandler log_inv_open by simp
    moreover have "keeps log_inv ?wrt" by (intro keep)
    ultimately have k: "log_inv (snd (thenM ?open ?wrt w))" by (rule keeps_at)
    obtain q where q: "q = thenM ?open ?wrt w" by simp
    have "FileLogHandler_OnLogMessage E a b ts path first isOpen level msg fn line func w =
        (case CustomLogLevelHidesMsg b level of
           Ok hides \<Rightarrow> if hides then (Ok (), w) else q
         | Exn e \<Rightarrow> (Exn e, w) | Undef \<Rightarrow> (Undef, w) | OutOfFuel \<Rightarrow> (OutOfFuel, w))"
      unfolding q by (simp add: FileLogHandler_OnLogMessage_def bindM_def split: res.split)
    with k[folded q] w have "log_inv (snd (FileLogHandler_OnLogMessage E a b ts path first isOpen level msg fn line func w))"
      by (simp split: res.split)
    with FileLogHandler show ?thesis by (simp add: OnLogMessage_def bindM_exec)
  qed (simp_all add: OnLogMessage_def bindM_exec w)
qed


text \<open>
  The standard handler that the constructor registers has no value for \<open>m_hasCustomLogLevel\<close>: the first message that
  passes the global level is undefined behaviour.
\<close>

lemma default_handler_undefined:
  assumes "(if debug then LL_Debug else LL_Info) \<le> level" and "LogManager_new debug w = (r, w')"
  shows "LogMessage E level msg fn line func w' = (Undef, w')"
  using assms
  by (auto simp: LogManager_new_def mod_manager_def new_handler_def RegisterLogHandler_def StdLogHandler_new_def
      LogHandlerBase_new_def LogMessage_def OnLogMessage_def StdLogHandler_OnLogMessage_def CustomLogLevelHidesMsg_def
      thenM_exec bindM_exec)

text \<open>Whatever the body does, the setter puts the level back that it found.\<close>

lemma LogLevelSetter_restores:
  assumes "with_LogLevelSetter level body w = (r, w')" and "r \<noteq> Undef" and "r \<noteq> OutOfFuel"
  shows "GetGlobalLogLevel w' = GetGlobalLogLevel w"
  using assms
  by (auto simp: with_LogLevelSetter_def LogLevelSetter_new_def LogLevelSetter_destroy_def SetGlobalLogLevel_def
      mod_manager_def GetGlobalLogLevel_def finallyM_def thenM_exec bindM_exec split: prod.splits res.splits)

end
