(* ===== verification/Diagnostics.thy ===== *)
theory Diagnostics
  imports Logging
begin

text \<open>
  Where errors and logging meet: \<open>ErrorHelper::FormatOdbcMessages\<close>, the lines \<open>GetAllErrors\<close> logs, the macros of
  \<open>LogManagerOdbcMacros.h\<close> and \<open>exOnAssert\<close>.

  The other theories leave logging out. Here it is put back: a program runs on a pair, the state of the library and the
  state of the log manager, and a log line of level \<open>l\<close> is \<open>LOG_MSG l\<close>. The main theorem justifies leaving it out.
  The environment \<open>S\<close> of a log line is what the compiler and the standard library give: the place in the source, the
  text of a pointer, and the log environment of \<open>Logging\<close>.
\<close>

section \<open>Programs that log\<close>

record logsite =
  log_env :: logenv
  log_file :: string
  log_line :: int
  log_function :: string
  show_pointer :: "nat \<Rightarrow> string"

type_synonym ('z, 'a) loggedprog = "(exn, 'z world0_scheme \<times> logworld, 'a) prog"

definition LOG_MSG :: "logsite \<Rightarrow> LogLevel \<Rightarrow> string \<Rightarrow> ('z, unit) loggedprog" where
  "LOG_MSG S logLevel msg = (\<lambda>(w, l).
     (case LogMessage (log_env S) logLevel msg (log_file S) (log_line S) (log_function S) l of (r, l') \<Rightarrow> (r, (w, l'))))"

section \<open>The lines of GetAllErrors\<close>

text \<open>
  What the loop of \<open>diag_loop\<close> logs besides: a truncated message is reported, and at the end a return code that is
  not \<open>SQL_NO_DATA\<close>. The value is the last return code with the lines.
\<close>

function diag_warnings :: "ext \<Rightarrow> odbc_call list \<Rightarrow> int \<Rightarrow> nat \<Rightarrow> int \<Rightarrow> string list" where
  "diag_warnings X cs ht h recNr =
     (let ret = (if SHRT_MAX < recNr then SQL_ERROR else drc (getDiagRec X cs ht h recNr)) in
      if SQL_SUCCEEDED ret then
        (if ret = SQL_SUCCESS_WITH_INFO then [''Error msg from recNr '' @ show_int recNr @ '' got truncated''] else []) @
        diag_warnings X cs ht h (recNr + 1)
      else if ret \<noteq> SQL_NO_DATA then
        [boost_format X ''Calling SQLGetDiagRec did not end with %s (%d) but with %s (%d)''
           [SqlReturn2s SQL_NO_DATA, show_int SQL_NO_DATA, SqlReturn2s ret, show_int ret]]
      else [])"
  by pat_completeness auto
termination
  by (relation "measure (\<lambda>(X, cs, ht, h, recNr). nat (SHRT_MAX + 1 - recNr))") (auto split: if_splits)

declare diag_warnings.simps [simp del]

definition GetAllErrors_logged ::
  "logsite \<Rightarrow> ext \<Rightarrow> nat \<Rightarrow> nat \<Rightarrow> nat \<Rightarrow> nat \<Rightarrow> ('z, SErrorInfo list) loggedprog" where
  "GetAllErrors_logged S X hEnv hDbc hStmt hDesc = (\<lambda>(w, l).
     bindM (liftM (GetAllErrors4 X (calls w) hEnv hDbc hStmt hDesc)) (\<lambda>errs. thenM
       (forM (concat (map (\<lambda>(ht, h). if h = 0 then [] else diag_warnings X (calls w) ht h 1)
                [(SQL_HANDLE_ENV, hEnv), (SQL_HANDLE_DBC, hDbc), (SQL_HANDLE_STMT, hStmt), (SQL_HANDLE_DESC, hDesc)]))
          (LOG_MSG S LL_Warning))
       (returnM errs)) (w, l))"

definition FormatOdbcMessages ::
  "logsite \<Rightarrow> ext \<Rightarrow> nat \<Rightarrow> nat \<Rightarrow> nat \<Rightarrow> nat \<Rightarrow> int \<Rightarrow> string \<Rightarrow> string \<Rightarrow> ('z, string) loggedprog" where
  "FormatOdbcMessages S X hEnv hDbc hStmt hDesc ret sqlFunctionName msg =
     bindM (GetAllErrors_logged S X hEnv hDbc hStmt hDesc) (\<lambda>errs.
       let handles = concat (map (\<lambda>(name, h). if h = 0 then [] else name @ show_pointer S h @ '';'')
             [(''Env='', hEnv), (''Dbc='', hDbc), (''Stmt='', hStmt), (''Desc='', hDesc)]);
           type = (if ret = SQL_SUCCESS_WITH_INFO then ''Info(s)'' else ''Error(s)'')
       in returnM
         ((if length msg > 0 then msg @ '': '' else []) @
          ''ODBC-Function '' @ [CHR 0x27] @ sqlFunctionName @ [CHR 0x27] @ '' returned '' @ SqlReturn2s ret @
          '' ('' @ show_int ret @ ''), with '' @ show_nat (length errs) @ '' ODBC-'' @ type @ '' from handle(s) '' @
          [CHR 0x27] @ handles @ [CHR 0x27] @ '': '' @
          concat (map (\<lambda>err. newline @ [CHR 0x09] @ SErrorInfo_ToString err) errs)))"

definition LOG_ODBC_MSG ::
  "logsite \<Rightarrow> ext \<Rightarrow> nat \<Rightarrow> nat \<Rightarrow> nat \<Rightarrow> nat \<Rightarrow> int \<Rightarrow> string \<Rightarrow> string \<Rightarrow> LogLevel \<Rightarrow> ('z, unit) loggedprog" where
  "LOG_ODBC_MSG S X hEnv hDbc hStmt hDesc ret SqlFunction msg logLevel =
     bindM (FormatOdbcMessages S X hEnv hDbc hStmt hDesc ret SqlFunction msg) (LOG_MSG S logLevel)"

text \<open>
  The macros for one kind of handle, \<open>LOG_ERROR_ENV_MSG\<close> and so on, twelve with a message and twelve without; \<open>level\<close>
  is \<open>LL_Error\<close>, \<open>LL_Warning\<close> or \<open>LL_Info\<close>. Of those without a message, \<open>LOG_WARNING_DESC\<close> passes the
  descriptor in the place of the statement.
\<close>

datatype handle_place = EnvPlace | DbcPlace | StmtPlace | DescPlace

fun LOG_HANDLE_MSG ::
  "logsite \<Rightarrow> ext \<Rightarrow> LogLevel \<Rightarrow> handle_place \<Rightarrow> nat \<Rightarrow> int \<Rightarrow> string \<Rightarrow> string \<Rightarrow> ('z, unit) loggedprog" where
  "LOG_HANDLE_MSG S X level EnvPlace h ret SqlFunction msg = LOG_ODBC_MSG S X h 0 0 0 ret SqlFunction msg level"
| "LOG_HANDLE_MSG S X level DbcPlace h ret SqlFunction msg = LOG_ODBC_MSG S X 0 h 0 0 ret SqlFunction msg level"
| "LOG_HANDLE_MSG S X level StmtPlace h ret SqlFunction msg = LOG_ODBC_MSG S X 0 0 h 0 ret SqlFunction msg level"
| "LOG_HANDLE_MSG S X level DescPlace h ret SqlFunction msg = LOG_ODBC_MSG S X 0 0 0 h ret SqlFunction msg level"

definition LOG_HANDLE ::
  "logsite \<Rightarrow> ext \<Rightarrow> LogLevel \<Rightarrow> handle_place \<Rightarrow> nat \<Rightarrow> int \<Rightarrow> string \<Rightarrow> ('z, unit) loggedprog" where
  "LOG_HANDLE S X level place h ret SqlFunction =
     LOG_HANDLE_MSG S X level (if level = LL_Warning \<and> place = DescPlace then StmtPlace else place) h ret SqlFunction []"

section \<open>Throwing, with the log lines\<close>

text \<open>
  The constructor of \<open>SqlResultException\<close> catches what \<open>GetAllErrors\<close> throws; the \<open>switch\<close> of the handle type does
  not.
\<close>

definition handle_slots :: "int \<Rightarrow> nat \<Rightarrow> (nat \<times> nat \<times> nat \<times> nat) option" where
  "handle_slots handleType h =
     (if handleType = SQL_HANDLE_ENV then Some (h, 0, 0, 0)
      else if handleType = SQL_HANDLE_DBC then Some (0, h, 0, 0)
      else if handleType = SQL_HANDLE_STMT then Some (0, 0, h, 0)
      else if handleType = SQL_HANDLE_DESC then Some (0, 0, 0, h)
      else None)"

definition FetchErrorInfo_logged :: "logsite \<Rightarrow> ext \<Rightarrow> int \<Rightarrow> nat \<Rightarrow> ('z, SErrorInfo list) loggedprog" where
  "FetchErrorInfo_logged S X handleType h = catchM
     (case handle_slots handleType h of
        None \<Rightarrow> throwM (AssertionException ''Unknown handleType'')
      | Some (e, d, s, c) \<Rightarrow> GetAllErrors_logged S X e d s c)
     (\<lambda>_. returnM [\<lparr>ErrorHandleType = handleType, SqlState = [], NativeError = 0, Msg = ''Failed to fetch Error-Info: ''\<rparr>])"

definition throw_logged :: "logsite \<Rightarrow> ext \<Rightarrow> string \<Rightarrow> int \<Rightarrow> int \<Rightarrow> nat \<Rightarrow> ('z, 'a) loggedprog" where
  "throw_logged S X fn ret handleType h =
     bindM (FetchErrorInfo_logged S X handleType h) (\<lambda>errs. throwM (SqlResultException_handle fn ret errs))"

definition THROW_IFN_SUCCEEDED_logged :: "logsite \<Rightarrow> ext \<Rightarrow> string \<Rightarrow> int \<Rightarrow> int \<Rightarrow> nat \<Rightarrow> ('z, unit) loggedprog" where
  "THROW_IFN_SUCCEEDED_logged S X fn ret handleType h = thenM
     (if \<not> SQL_SUCCEEDED ret then throw_logged S X fn ret handleType h else skipM)
     (if ret = SQL_SUCCESS_WITH_INFO then
        (case handle_slots handleType h of
           None \<Rightarrow> throwM (IllegalArgumentException ''Unknown handleType'')
         | Some (e, d, s, c) \<Rightarrow> LOG_ODBC_MSG S X e d s c ret fn [] LL_Info)
      else skipM)"

definition THROW_IFN_SUCCESS_logged :: "logsite \<Rightarrow> ext \<Rightarrow> string \<Rightarrow> int \<Rightarrow> int \<Rightarrow> nat \<Rightarrow> ('z, unit) loggedprog" where
  "THROW_IFN_SUCCESS_logged S X fn ret handleType h =
     (if ret \<noteq> SQL_SUCCESS then throw_logged S X fn ret handleType h else skipM)"

definition exOnAssert :: "logsite \<Rightarrow> string \<Rightarrow> string \<Rightarrow> ('z, unit) loggedprog" where
  "exOnAssert S condition msg = thenM
     (LOG_MSG S LL_Error
        (''ASSERTION failure!'' @ newline @
         '' File:      '' @ log_file S @ newline @
         '' Line:      '' @ show_int (log_line S) @ newline @
         '' Function:  '' @ log_function S @ newline @
         '' Condition: '' @ condition @ newline @
         (if length msg > 0 then '' Msg:       '' @ msg @ newline else [])))
     (throwM (AssertionException condition))"

definition exASSERT_logged ::
  "logsite \<Rightarrow> string \<Rightarrow> string \<Rightarrow> ('z world0_scheme \<Rightarrow> bool) \<Rightarrow> ('z, unit) loggedprog" where
  "exASSERT_logged S condition msg c = ifM (\<lambda>(w, l). c w) skipM (exOnAssert S condition msg)"

definition AssertionException_ToString :: "string \<Rightarrow> string \<Rightarrow> string" where
  "AssertionException_ToString base condition = base @ newline @ [CHR 0x09] @ ''Condition: '' @ condition"

section \<open>Logging does not change what an operation does\<close>

text \<open>Every registered handler has values for its members: the level of its own was set or cleared once.\<close>

fun handler_base :: "LogHandler \<Rightarrow> LogHandlerBase" where
  "handler_base (StdLogHandler b e out) = b"
| "handler_base (NullLogHandler b) = b"
| "handler_base (FileLogHandler b ts path first isOpen) = b"

definition has_level :: "LogHandlerBase \<Rightarrow> bool" where
  "has_level b \<longleftrightarrow> lh_hasCustomLogLevel b = Some False \<or> lh_hasCustomLogLevel b = Some True \<and> lh_customLogLevel b \<noteq> None"

definition log_ready :: "logworld \<Rightarrow> bool" where
  "log_ready l \<longleftrightarrow> (\<forall>a\<in>set (lm_logHandlers (manager l)). has_level (handler_base (handlers l a)))"

lemma has_level_hides: "has_level b \<Longrightarrow> \<exists>x. CustomLogLevelHidesMsg b level = Ok x"
  by (auto simp: has_level_def CustomLogLevelHidesMsg_def)

text \<open>The program ends well and changes neither the manager nor the settings of a handler.\<close>

definition only_writes :: "unit lprog \<Rightarrow> logworld \<Rightarrow> bool" where
  "only_writes m l \<longleftrightarrow> fst (m l) = Ok () \<and> manager (snd (m l)) = manager l \<and>
     (\<forall>a. handler_base (handlers (snd (m l)) a) = handler_base (handlers l a))"

lemma only_writes_simple:
  "only_writes skipM l" "only_writes (WriteStdErr msg x) l" "only_writes (WriteStdOut msg x) l" "only_writes (append_file f s) l"
  by (simp_all add: only_writes_def WriteStdErr_def WriteStdOut_def append_file_def)

lemma only_writes_thenM:
  assumes "only_writes m l" and "\<And>l'. manager l' = manager l \<Longrightarrow>
      (\<And>a. handler_base (handlers l' a) = handler_base (handlers l a)) \<Longrightarrow> only_writes n l'"
  shows "only_writes (thenM m n) l"
proof (cases "m l")
  case (Pair r l')
  with assms(1) have "r = Ok ()" "manager l' = manager l" "\<And>a. handler_base (handlers l' a) = handler_base (handlers l a)"
    by (auto simp: only_writes_def)
  with Pair assms(2)[of l'] show ?thesis by (simp add: only_writes_def)
qed

lemma only_writes_open: "handler_base (handlers l a) = b \<Longrightarrow> only_writes (open_logfile E a b ts path) l"
  by (simp add: only_writes_def open_logfile_def set_handler_def thenM_exec)

lemma only_writes_OnLogMessage:
  assumes "has_level (handler_base (handlers l a))"
  shows "only_writes (OnLogMessage E a level msg fn line func) l"
proof (cases "handlers l a")
  case (StdLogHandler b e out)
  from assms StdLogHandler obtain x where "CustomLogLevelHidesMsg b level = Ok x" using has_level_hides by fastforce
  then have "only_writes (StdLogHandler_OnLogMessage b e out level msg fn line func) l"
    by (auto simp: StdLogHandler_OnLogMessage_def only_writes_def WriteStdErr_def WriteStdOut_def thenM_exec bindM_exec Let_def)
  with StdLogHandler show ?thesis by (simp add: only_writes_def OnLogMessage_def bindM_exec)
next
  case (NullLogHandler b)
  then show ?thesis by (simp add: only_writes_def OnLogMessage_def bindM_exec)
next
  case (FileLogHandler b ts path first isOpen)
  from assms FileLogHandler obtain x where x: "CustomLogLevelHidesMsg b level = Ok x" using has_level_hides by fastforce
  have "only_writes (if first then open_logfile E a b ts path else skipM) l"
    using FileLogHandler by (simp add: only_writes_open only_writes_simple)
  then have "only_writes (FileLogHandler_OnLogMessage E a b ts path first isOpen level msg fn line func) l"
    using x unfolding FileLogHandler_OnLogMessage_def only_writes_def[of "bindM _ _"] append_file_def
    by (auto simp: only_writes_def thenM_exec bindM_exec split: prod.split)
  with FileLogHandler show ?thesis by (simp add: only_writes_def OnLogMessage_def bindM_exec)
qed

lemma only_writes_LogMessage:
  assumes "log_ready l"
  shows "only_writes (LogMessage E level msg fn line func) l"
proof -
  have "only_writes (forM as (\<lambda>a. OnLogMessage E a level msg fn line func)) l"
    if "\<forall>a\<in>set as. has_level (handler_base (handlers l a))" for as l
    using that
  proof (induction as arbitrary: l)
    case (Cons a as)
    then show ?case by (auto intro!: only_writes_thenM only_writes_OnLogMessage)
  qed (simp add: only_writes_simple)
  with assms show ?thesis
    by (simp add: only_writes_def LogMessage_def log_ready_def bindM_exec)
qed

text \<open>
  \<open>silent p q\<close>: on a log manager that is ready, the program with log lines does to the library what \<open>q\<close> does, with
  the same result, and leaves the log manager ready.
\<close>

definition silent :: "('z, 'a) loggedprog \<Rightarrow> ('z, 'a) exprog \<Rightarrow> bool" where
  "silent p q \<longleftrightarrow> (\<forall>w l. log_ready l \<longrightarrow> (\<exists>l'. p (w, l) = (fst (q w), (snd (q w), l')) \<and> log_ready l'))"

named_theorems silence "programs whose log lines change nothing"

lemma silentE:
  assumes "silent p q" and "log_ready l" and "q w = (r, w')"
  obtains l' where "p (w, l) = (r, (w', l'))" and "log_ready l'"
  using assms(1)[unfolded silent_def, rule_format, OF assms(2), of w] assms(3) by auto

lemma silentI:
  assumes "\<And>w l. log_ready l \<Longrightarrow> \<exists>l'. p (w, l) = (fst (q w), (snd (q w), l')) \<and> log_ready l'"
  shows "silent p q"
  using assms unfolding silent_def by blast

lemma silent_LOG_MSG [silence]: "silent (LOG_MSG S level msg) skipM"
proof (rule silentI)
  fix w l assume "log_ready l"
  then show "\<exists>l'. LOG_MSG S level msg (w, l) = (fst (skipM w), (snd (skipM w), l')) \<and> log_ready l'"
    using only_writes_LogMessage[of l "log_env S" level msg "log_file S" "log_line S" "log_function S"]
    by (auto simp: only_writes_def LOG_MSG_def log_ready_def split: prod.split)
qed

lemma silent_simple [silence]:
  "silent (returnM x) (returnM x)" "silent (throwM e) (throwM e)" "silent skipM skipM" "silent (liftM r) (liftM r)"
  by (auto simp: silent_def)

lemma silent_bindM [silence]:
  assumes "silent p q" and "\<And>x. silent (f x) (g x)"
  shows "silent (bindM p f) (bindM q g)"
  unfolding silent_def
proof (intro allI impI)
  fix w l assume l: "log_ready (l :: logworld)"
  obtain r w' where q: "q w = (r, w')" by (cases "q w")
  from silentE[OF assms(1) l q] obtain l' where p: "p (w, l) = (r, (w', l'))" and l': "log_ready l'" .
  show "\<exists>l'. bindM p f (w, l) = (fst (bindM q g w), (snd (bindM q g w), l')) \<and> log_ready l'"
  proof (cases r)
    case (Ok x)
    have "g x w' = (fst (g x w'), snd (g x w'))" by simp
    from silentE[OF assms(2) l' this] obtain l'' where "f x (w', l') = (fst (g x w'), (snd (g x w'), l''))" "log_ready l''" .
    with Ok p q show ?thesis by simp
  qed (use p q l' in \<open>simp_all add: bindM_exec\<close>)
qed

lemma silent_thenM [silence]: "silent p q \<Longrightarrow> silent p' q' \<Longrightarrow> silent (thenM p p') (thenM q q')"
  by (simp add: thenM_def silent_bindM)

lemma silent_catchM [silence]:
  assumes "silent p q" and "\<And>e. silent (f e) (g e)"
  shows "silent (catchM p f) (catchM q g)"
  unfolding silent_def
proof (intro allI impI)
  fix w l assume l: "log_ready (l :: logworld)"
  obtain r w' where q: "q w = (r, w')" by (cases "q w")
  from silentE[OF assms(1) l q] obtain l' where p: "p (w, l) = (r, (w', l'))" and l': "log_ready l'" .
  show "\<exists>l'. catchM p f (w, l) = (fst (catchM q g w), (snd (catchM q g w), l')) \<and> log_ready l'"
  proof (cases r)
    case (Exn e)
    have "g e w' = (fst (g e w'), snd (g e w'))" by simp
    from silentE[OF assms(2) l' this] obtain l'' where "f e (w', l') = (fst (g e w'), (snd (g e w'), l''))" "log_ready l''" .
    with Exn p q show ?thesis by simp
  qed (use p q l' in \<open>simp_all add: catchM_exec\<close>)
qed

lemma thenM_regroup: "thenM (thenM a b) c = thenM a (thenM b c)"
  by (rule ext) (simp add: thenM_exec split: prod.split res.split)

lemma thenM_skipM: "thenM skipM q = q"
  by (rule ext) (simp add: thenM_exec)

lemma thenM_skipM_right: "thenM m skipM = m"
  by (rule ext) (auto simp: thenM_exec split: prod.split res.split)

text \<open>Lines logged one after the other, in front of a program.\<close>

lemma silent_lines: "silent p q \<Longrightarrow> silent (thenM (forM msgs (LOG_MSG S level)) p) q"
proof (induction msgs)
  case (Cons msg msgs)
  then have "silent (thenM (LOG_MSG S level msg) (thenM (forM msgs (LOG_MSG S level)) p)) (thenM skipM q)"
    by (intro silence)
  then show ?case by (simp add: thenM_regroup thenM_skipM)
qed (simp add: thenM_skipM)

lemma silent_state: "(\<And>w. silent (p w) (q w)) \<Longrightarrow> silent (\<lambda>(w, l). p w (w, l)) (\<lambda>w. q w w)"
  by (simp add: silent_def)

lemma silent_GetAllErrors [silence]:
  "silent (GetAllErrors_logged S X e d s c) (\<lambda>w. (GetAllErrors4 X (calls w) e d s c, w))"
proof -
  have e: "(\<lambda>w. (GetAllErrors4 X (calls w) e d s c, w)) = (\<lambda>w. bindM (liftM (GetAllErrors4 X (calls w) e d s c)) returnM w)"
    by (rule ext) (simp add: bindM_exec split: res.split)
  show ?thesis
    unfolding e GetAllErrors_logged_def by (rule silent_state) (intro silent_bindM silent_lines silent_simple)
qed

text \<open>A program that only reads, whose value does not matter afterwards.\<close>

lemma silent_reading:
  assumes "silent p q" and "\<And>w. \<exists>x. q w = (Ok x, w)" and "\<And>x. silent (f x) g"
  shows "silent (bindM p f) g"
proof (rule silentI)
  fix w l assume l: "log_ready (l :: logworld)"
  from assms(2) obtain x where q: "q w = (Ok x, w)" by blast
  from silentE[OF assms(1) l q] obtain l' where p: "p (w, l) = (Ok x, (w, l'))" and l': "log_ready l'" .
  have "g w = (fst (g w), snd (g w))" by simp
  from silentE[OF assms(3) l' this] obtain l'' where "f x (w, l') = (fst (g w), (snd (g w), l''))" "log_ready l''" .
  with p show "\<exists>l'. bindM p f (w, l) = (fst (g w), (snd (g w), l')) \<and> log_ready l'" by simp
qed

lemma silent_FetchErrorInfo [silence]:
  "silent (FetchErrorInfo_logged S X ht h) (\<lambda>w. (Ok (FetchErrorInfo X (calls w) ht h), w))"
proof -
  define faked where "faked = \<lparr>ErrorHandleType = ht, SqlState = [], NativeError = 0, Msg = ''Failed to fetch Error-Info: ''\<rparr>"
  define get :: "('a, SErrorInfo list) exprog" where "get = (\<lambda>w. (GetAllErrors X (calls w) ht h, w))"
  have "silent (case handle_slots ht h of None \<Rightarrow> throwM (AssertionException ''Unknown handleType'')
      | Some (e, d, s, c) \<Rightarrow> GetAllErrors_logged S X e d s c) get"
  proof (cases "handle_slots ht h")
    case None
    then have "get = throwM (AssertionException ''Unknown handleType'')"
      by (intro ext) (auto simp: get_def handle_slots_def GetAllErrors_def split: if_splits)
    with None show ?thesis by (simp add: silent_simple)
  next
    case (Some t)
    obtain e d s c where t: "t = (e, d, s, c)" by (cases t)
    with Some have "get = (\<lambda>w. (GetAllErrors4 X (calls w) e d s c, w))"
      by (intro ext) (auto simp: get_def handle_slots_def GetAllErrors_def split: if_splits)
    with Some t show ?thesis by (simp add: silent_GetAllErrors)
  qed
  then have "silent (FetchErrorInfo_logged S X ht h) (catchM get (\<lambda>_. returnM [faked]))"
    unfolding FetchErrorInfo_logged_def faked_def by (intro silent_catchM silent_simple)
  moreover have "catchM get (\<lambda>_. returnM [faked]) = (\<lambda>w. (Ok (FetchErrorInfo X (calls w) ht h), w))"
    by (rule ext) (auto simp: get_def faked_def catchM_exec FetchErrorInfo_def GetAllErrors_def GetAllErrors4_def split: res.split)
  ultimately show ?thesis by simp
qed

lemma silent_throw [silence]: "silent (throw_logged S X fn ret ht h) (throw_handle X fn ret ht h)"
proof -
  have e: "throw_handle X fn ret ht h = bindM (\<lambda>w. (Ok (FetchErrorInfo X (calls w) ht h), w))
      (\<lambda>errs. throwM (SqlResultException_handle fn ret errs))"
    by (rule ext) (simp add: SqlResultException_handle_def bindM_exec)
  show ?thesis unfolding throw_logged_def e by (intro silence)
qed

lemma silent_exOnAssert [silence]: "silent (exOnAssert S condition msg) (throwM (AssertionException condition))"
proof -
  have "silent (exOnAssert S condition msg) (thenM skipM (throwM (AssertionException condition)))"
    unfolding exOnAssert_def by (intro silence)
  then show ?thesis by (simp add: thenM_skipM)
qed

text \<open>A success with information is logged; the lines come from a handle that is not null.\<close>

lemma silent_info:
  assumes "handle_slots ht h = Some (e, d, s, c)" and "h \<noteq> 0"
  shows "silent (LOG_ODBC_MSG S X e d s c ret fn msg level) skipM"
proof -
  have get: "\<exists>errs. GetAllErrors4 X cs e d s c = Ok errs" for cs
    using assms by (auto simp: GetAllErrors4_def handle_slots_def split: if_splits)
  have pure: "\<exists>x. bindM (\<lambda>w. (GetAllErrors4 X (calls w) e d s c, w)) (\<lambda>errs. returnM (t errs)) w = (Ok x, w)"
    for t :: "SErrorInfo list \<Rightarrow> string" and w :: "'a world0_scheme"
    using get[of "calls w"] by auto
  show ?thesis
    unfolding LOG_ODBC_MSG_def FormatOdbcMessages_def Let_def
    by (rule silent_reading[OF silent_bindM[OF silent_GetAllErrors silent_simple(1)] pure]) (rule silence)
qed

lemma silent_ifM [silence]: "silent p q \<Longrightarrow> silent p' q' \<Longrightarrow> silent (ifM (\<lambda>(w, l). c w) p p') (ifM c q q')"
  by (simp add: silent_def)

text \<open>
  C39. Logging never changes what a call does: on a handle that is not null, the macros that check a return code and the
  assertion macro, with every line they log, end as they end without logging, with the same exception and the same
  state of the library, as long as every registered handler has a level; and they leave the handlers so.
\<close>

theorem logging_transparent:
  assumes "h \<noteq> 0" and "ht \<in> {SQL_HANDLE_ENV, SQL_HANDLE_DBC, SQL_HANDLE_STMT, SQL_HANDLE_DESC}"
  shows "silent (THROW_IFN_SUCCEEDED_logged S X fn ret ht h) (THROW_IFN_SUCCEEDED X fn ret ht h) \<and>
    silent (THROW_IFN_SUCCESS_logged S X fn ret ht h) (THROW_IFN_SUCCESS X fn ret ht h) \<and>
    silent (exASSERT_logged S condition msg c) (exASSERT condition c)"
proof (intro conjI)
  obtain e d s k where slots: "handle_slots ht h = Some (e, d, s, k)"
    using assms(2) by (auto simp: handle_slots_def)
  have "silent (THROW_IFN_SUCCEEDED_logged S X fn ret ht h) (thenM (THROW_IFN_SUCCEEDED X fn ret ht h) skipM)"
    unfolding THROW_IFN_SUCCEEDED_logged_def THROW_IFN_SUCCEEDED_def slots
    by (auto intro!: silence silent_info[OF slots assms(1)])
  then show "silent (THROW_IFN_SUCCEEDED_logged S X fn ret ht h) (THROW_IFN_SUCCEEDED X fn ret ht h)"
    by (simp add: thenM_skipM_right)
  show "silent (THROW_IFN_SUCCESS_logged S X fn ret ht h) (THROW_IFN_SUCCESS X fn ret ht h)"
    unfolding THROW_IFN_SUCCESS_logged_def THROW_IFN_SUCCESS_def by (auto intro!: silence)
  show "silent (exASSERT_logged S condition msg c) (exASSERT condition c)"
    unfolding exASSERT_logged_def exASSERT_def by (intro silence)
qed

text \<open>One standard handler whose level was cleared, and a statement that succeeds with information.\<close>

definition small_log :: logworld where
  "small_log = \<lparr>handlers = (\<lambda>_. StdLogHandler (ClearLogLevel LogHandlerBase_new) False False),
     manager = \<lparr>lm_logHandlers = [0], lm_globalLogLevel = LL_Info\<rparr>, std_err = [], std_out = [], files = (\<lambda>_. []),
     next_handler = 1\<rparr>"

definition small_site :: logsite where
  "small_site = \<lparr>log_env = \<lparr>can_open = (\<lambda>_. True), put_time = (\<lambda>_. [])\<rparr>, log_file = ''Database.cpp'', log_line = 7,
     log_function = ''Open'', show_pointer = show_nat\<rparr>"

lemma logging_transparent_witness:
  "\<exists>l'. THROW_IFN_SUCCEEDED_logged small_site ((ref_ext good_driver)\<lparr>getDiagRec := one_diag\<rparr>) ''SQLExecDirect''
       SQL_SUCCESS_WITH_INFO SQL_HANDLE_STMT 5 (\<lparr>calls = []\<rparr>, small_log) = (Ok (), (\<lparr>calls = []\<rparr>, l')) \<and> log_ready l'"
proof -
  have "log_ready small_log" by (simp add: log_ready_def small_log_def has_level_def ClearLogLevel_def)
  moreover have "silent (THROW_IFN_SUCCEEDED_logged small_site ((ref_ext good_driver)\<lparr>getDiagRec := one_diag\<rparr>) ''SQLExecDirect''
       SQL_SUCCESS_WITH_INFO SQL_HANDLE_STMT 5 :: (unit, unit) loggedprog)
     (THROW_IFN_SUCCEEDED ((ref_ext good_driver)\<lparr>getDiagRec := one_diag\<rparr>) ''SQLExecDirect'' SQL_SUCCESS_WITH_INFO SQL_HANDLE_STMT 5)"
    by (rule logging_transparent[THEN conjunct1]) simp_all
  ultimately show ?thesis unfolding silent_def by simp
qed

end
