(* ===== verification/InfoTexts.thy ===== *)
theory InfoTexts
  imports Infos
begin

text \<open>
  The rest of the rows of the catalog functions: the constructors that do not read a row, the accessors that check
  something, and the texts of \<open>SqlTypeInfo\<close>.

  A member that a constructor does not initialise has an indeterminate value, an argument here.
\<close>

section \<open>Constructors\<close>

definition ColumnInfo_new :: ColumnInfo where
  "ColumnInfo_new =
     \<lparr>ci_catalogName = [], ci_schemaName = [], ci_tableName = [], ci_columnName = [], ci_sqlType = SQL_UNKNOWN_TYPE,
      ci_typeName = [], ci_columnSize = 0, ci_bufferSize = 0, ci_decimalDigits = 0, ci_numPrecRadix = 0,
      ci_nullable = SQL_NULLABLE_UNKNOWN, ci_remarks = [], ci_defaultValue = [], ci_sqlDataType = SQL_UNKNOWN_TYPE,
      ci_sqlDatetimeSub = 0, ci_charOctetLength = 0, ci_ordinalPosition = 0, ci_isNullable = [],
      ci_isCatalogNull = True, ci_isSchemaNull = True, ci_isColumnSizeNull = True, ci_isBufferSizeNull = True,
      ci_isDecimalDigitsNull = True, ci_isNumPrecRadixNull = True, ci_isRemarksNull = True, ci_isDefaultValueNull = True,
      ci_isSqlDatetimeSubNull = True, ci_isCharOctetLengthNull = True, ci_isIsNullableNull = True\<rparr>"

text \<open>The constructor that takes every member forgets \<open>m_isCharOctetLengthNull\<close>.\<close>

definition ColumnInfo_of ::
  "bool \<Rightarrow> string \<Rightarrow> string \<Rightarrow> string \<Rightarrow> string \<Rightarrow> int \<Rightarrow> string \<Rightarrow> int \<Rightarrow> int \<Rightarrow> int \<Rightarrow> int \<Rightarrow> int \<Rightarrow> string \<Rightarrow> string \<Rightarrow>
   int \<Rightarrow> int \<Rightarrow> int \<Rightarrow> int \<Rightarrow> string \<Rightarrow> bool \<Rightarrow> bool \<Rightarrow> bool \<Rightarrow> bool \<Rightarrow> bool \<Rightarrow> bool \<Rightarrow> bool \<Rightarrow> bool \<Rightarrow> bool \<Rightarrow> bool \<Rightarrow> ColumnInfo" where
  "ColumnInfo_of indeterminate catalogName schemaName tableName columnName sqlType typeName columnSize bufferSize
     decimalDigits numPrecRadix nullable remarks defaultValue sqlDataType sqlDatetimeSub charOctetLength ordinalPosition
     isNullable isCatalogNull isSchemaNull isColumnSizeNull isBufferSizeNull isDecimalDigitsNull isNumPrecRadixNull
     isRemarksNull isDefaultValueNull isSqlDatetimeSubNull isIsNullableNull =
     \<lparr>ci_catalogName = catalogName, ci_schemaName = schemaName, ci_tableName = tableName, ci_columnName = columnName,
      ci_sqlType = sqlType, ci_typeName = typeName, ci_columnSize = columnSize, ci_bufferSize = bufferSize,
      ci_decimalDigits = decimalDigits, ci_numPrecRadix = numPrecRadix, ci_nullable = nullable, ci_remarks = remarks,
      ci_defaultValue = defaultValue, ci_sqlDataType = sqlDataType, ci_sqlDatetimeSub = sqlDatetimeSub,
      ci_charOctetLength = charOctetLength, ci_ordinalPosition = ordinalPosition, ci_isNullable = isNullable,
      ci_isCatalogNull = isCatalogNull, ci_isSchemaNull = isSchemaNull, ci_isColumnSizeNull = isColumnSizeNull,
      ci_isBufferSizeNull = isBufferSizeNull, ci_isDecimalDigitsNull = isDecimalDigitsNull,
      ci_isNumPrecRadixNull = isNumPrecRadixNull, ci_isRemarksNull = isRemarksNull,
      ci_isDefaultValueNull = isDefaultValueNull, ci_isSqlDatetimeSubNull = isSqlDatetimeSubNull,
      ci_isCharOctetLengthNull = indeterminate, ci_isIsNullableNull = isIsNullableNull\<rparr>"

definition ColumnInfo_HasSchema :: "ColumnInfo \<Rightarrow> bool" where
  "ColumnInfo_HasSchema c \<longleftrightarrow> \<not> ci_isSchemaNull c \<and> length (ci_schemaName c) > 0"

definition ColumnInfo_HasCatalog :: "ColumnInfo \<Rightarrow> bool" where
  "ColumnInfo_HasCatalog c \<longleftrightarrow> \<not> ci_isCatalogNull c \<and> length (ci_catalogName c) > 0"

definition PrimaryKeyInfo_new :: PrimaryKeyInfo where
  "PrimaryKeyInfo_new =
     \<lparr>pk_catalogName = [], pk_schemaName = [], pk_tableName = [], pk_columnName = [], pk_keySequence = 0, pk_keyName = [],
      pk_isCatalogNull = True, pk_isSchemaNull = True, pk_isKeyNameNull = True\<rparr>"

definition PrimaryKeyInfo_full ::
  "string \<Rightarrow> string \<Rightarrow> string \<Rightarrow> string \<Rightarrow> int \<Rightarrow> string \<Rightarrow> bool \<Rightarrow> bool \<Rightarrow> bool \<Rightarrow> PrimaryKeyInfo" where
  "PrimaryKeyInfo_full catalogName schemaName tableName columnName keySequence keyName isCatalogNull isSchemaNull
     isPrimaryKeyNameNull =
     \<lparr>pk_catalogName = catalogName, pk_schemaName = schemaName, pk_tableName = tableName, pk_columnName = columnName,
      pk_keySequence = keySequence, pk_keyName = keyName, pk_isCatalogNull = isCatalogNull,
      pk_isSchemaNull = isSchemaNull, pk_isKeyNameNull = isPrimaryKeyNameNull\<rparr>"

definition PrimaryKeyInfo_HasSchema :: "PrimaryKeyInfo \<Rightarrow> bool" where
  "PrimaryKeyInfo_HasSchema k \<longleftrightarrow> \<not> pk_isSchemaNull k \<and> pk_schemaName k \<noteq> []"

definition PrimaryKeyInfo_HasCatalog :: "PrimaryKeyInfo \<Rightarrow> bool" where
  "PrimaryKeyInfo_HasCatalog k \<longleftrightarrow> \<not> pk_isCatalogNull k \<and> pk_catalogName k \<noteq> []"

definition PrimaryKeyInfo_GetColumnName :: "PrimaryKeyInfo \<Rightarrow> (exn, string) res" where
  "PrimaryKeyInfo_GetColumnName k =
     (if pk_columnName k = [] then Exn (AssertionException ''!m_columnName.empty()'') else Ok (pk_columnName k))"

definition PrimaryKeyInfo_GetKeyName :: "PrimaryKeyInfo \<Rightarrow> (exn, string) res" where
  "PrimaryKeyInfo_GetKeyName k =
     (if pk_isKeyNameNull k then Exn (AssertionException ''!IsKeyNameNull()'') else Ok (pk_keyName k))"

datatype PseudoColumn = PC_UNKNOWN | PC_NOT_PSEUDO | PC_PSEUDO

fun PseudoColumn_value :: "PseudoColumn \<Rightarrow> int" where
  "PseudoColumn_value PC_UNKNOWN = 0"
| "PseudoColumn_value PC_NOT_PSEUDO = 1"
| "PseudoColumn_value PC_PSEUDO = 2"

definition SpecialColumnInfo_new :: "IdentifierType \<Rightarrow> RowIdScope \<Rightarrow> SpecialColumnInfo" where
  "SpecialColumnInfo_new anyType anyScope =
     \<lparr>sc_identType = anyType, sc_scope = anyScope, sc_isScopeNull = True, sc_columnName = [], sc_sqlType = 0,
      sc_sqlTypeName = [], sc_columnSize = 0, sc_bufferLength = 0, sc_decimalDigits = 0,
      sc_pseudoColumn = PseudoColumn_value PC_UNKNOWN\<rparr>"

text \<open>The scope is stored and marked as NULL.\<close>

definition SpecialColumnInfo_unique_row ::
  "RowIdScope \<Rightarrow> string \<Rightarrow> int \<Rightarrow> string \<Rightarrow> int \<Rightarrow> int \<Rightarrow> int \<Rightarrow> PseudoColumn \<Rightarrow> SpecialColumnInfo" where
  "SpecialColumnInfo_unique_row scope columnName sqlType sqlTypeName columnSize bufferLength decimalDigits pseudoColumn =
     \<lparr>sc_identType = UNIQUE_ROW, sc_scope = scope, sc_isScopeNull = True, sc_columnName = columnName,
      sc_sqlType = sqlType, sc_sqlTypeName = sqlTypeName, sc_columnSize = columnSize, sc_bufferLength = bufferLength,
      sc_decimalDigits = decimalDigits, sc_pseudoColumn = PseudoColumn_value pseudoColumn\<rparr>"

definition SpecialColumnInfo_row_version ::
  "RowIdScope \<Rightarrow> string \<Rightarrow> int \<Rightarrow> string \<Rightarrow> int \<Rightarrow> int \<Rightarrow> int \<Rightarrow> PseudoColumn \<Rightarrow> SpecialColumnInfo" where
  "SpecialColumnInfo_row_version anyScope columnName sqlType sqlTypeName columnSize bufferLength decimalDigits pseudoColumn =
     \<lparr>sc_identType = ROW_VERSION, sc_scope = anyScope, sc_isScopeNull = True, sc_columnName = columnName,
      sc_sqlType = sqlType, sc_sqlTypeName = sqlTypeName, sc_columnSize = columnSize, sc_bufferLength = bufferLength,
      sc_decimalDigits = decimalDigits, sc_pseudoColumn = PseudoColumn_value pseudoColumn\<rparr>"

definition SpecialColumnInfo_GetScope :: "SpecialColumnInfo \<Rightarrow> (exn, RowIdScope) res" where
  "SpecialColumnInfo_GetScope c =
     (if sc_isScopeNull c then Exn (AssertionException ''!m_isScopeNull'') else Ok (sc_scope c))"

text \<open>The default constructor leaves \<open>m_numPrecRadix\<close> and the other numbers 0 and every flag for NULL set.\<close>

definition SqlTypeInfo_new :: SqlTypeInfo where
  "SqlTypeInfo_new =
     \<lparr>st_typeName = [], st_sqlType = 0, st_columnSize = 0, st_literalPrefix = [], st_literalSuffix = [],
      st_createParams = [], st_nullable = SQL_NULLABLE_UNKNOWN, st_caseSensitive = SQL_FALSE, st_searchable = SQL_PRED_NONE,
      st_isUnsigned = SQL_FALSE, st_fixedPrecisionScale = SQL_FALSE, st_autoUniqueValue = SQL_FALSE,
      st_localTypeName = [], st_minimumScale = 0, st_maximumScale = 0, st_sqlDataType = 0, st_sqlDateTimeSub = 0,
      st_numPrecRadix = 0, st_intervalPrecision = 0, st_columnSizeIsNull = True, st_literalPrefixIsNull = True,
      st_literalSuffixIsNull = True, st_createParamsIsNull = True, st_unsignedIsNull = True,
      st_autoUniqueValueIsNull = True, st_localTypeNameIsNull = True, st_minimumScaleIsNull = True,
      st_maximumScaleIsNull = True, st_sqlDateTimeSubIsNull = True, st_numPrecRadixIsNull = True,
      st_intervalPrecisionIsNull = True\<rparr>"

definition ColumnDescription_new :: ColumnDescription where
  "ColumnDescription_new =
     \<lparr>cd_name = [], cd_sqlType = SQL_UNKNOWN_TYPE, cd_charSize = 0, cd_decimalDigits = 0, cd_nullable = SQL_NULLABLE_UNKNOWN\<rparr>"

definition ColumnDescription_of :: "int \<Rightarrow> int \<Rightarrow> int \<Rightarrow> int \<Rightarrow> ColumnDescription" where
  "ColumnDescription_of sqlType charSize decimalDigits nullable =
     \<lparr>cd_name = [], cd_sqlType = sqlType, cd_charSize = charSize, cd_decimalDigits = decimalDigits, cd_nullable = nullable\<rparr>"

definition ColumnDescription_of3 :: "int \<Rightarrow> int \<Rightarrow> int \<Rightarrow> ColumnDescription" where
  "ColumnDescription_of3 sqlType charSize decimalDigits =
     \<lparr>cd_name = [], cd_sqlType = sqlType, cd_charSize = charSize, cd_decimalDigits = decimalDigits,
      cd_nullable = SQL_NULLABLE_UNKNOWN\<rparr>"

section \<open>The texts of a type\<close>

definition endl :: string where "endl = [CHR 0x0A]"

definition null_or :: "bool \<Rightarrow> string \<Rightarrow> string" where
  "null_or isNull s = (if isNull then ''NULL'' else s)"

text \<open>The two \<open>switch\<close>es of the texts in one line.\<close>

definition nullable_text :: "int \<Rightarrow> string" where
  "nullable_text = switch [(SQL_NO_NULLS, ''NO_NULLS''), (SQL_NULLABLE, ''NULLABLE'')] ''UNKNOWN''"

definition searchable_text :: "int \<Rightarrow> string" where
  "searchable_text = switch
     [(SQL_PRED_NONE, ''PRED_NONE''), (SQL_PRED_CHAR, ''PRED_CHAR''),
      (SQL_PRED_BASIC, ''PRED_BASIC''), (SQL_SEARCHABLE, ''SEARCHABLE'')] ''???''"

definition number_text :: "ext \<Rightarrow> bool \<Rightarrow> int \<Rightarrow> string" where
  "number_text X isNull n = null_or isNull (boost_format X ''%d'' [show_int n])"

definition type_cell :: "ext \<Rightarrow> int \<Rightarrow> string" where
  "type_cell X t = boost_format X ''%18s (%4d)'' [SqlType2s t, show_int t]"

text \<open>
  The cells of a line, in the order of the columns. \<open>maximumScale\<close> is the text printed in the column of the maximum
  scale.
\<close>

definition type_cells :: "ext \<Rightarrow> SqlTypeInfo \<Rightarrow> string \<Rightarrow> string list" where
  "type_cells X st maximumScale =
     [type_cell X (st_sqlType st), type_cell X (st_sqlDataType st), st_typeName st,
      null_or (st_localTypeNameIsNull st) (st_localTypeName st),
      null_or (st_unsignedIsNull st) (SqlTrueFalse2s (st_isUnsigned st)),
      number_text X (st_columnSizeIsNull st) (st_columnSize st),
      nullable_text (st_nullable st),
      null_or (st_autoUniqueValueIsNull st) (SqlTrueFalse2s (st_autoUniqueValue st)),
      SqlTrueFalse2s (st_caseSensitive st),
      searchable_text (st_searchable st),
      null_or (st_literalPrefixIsNull st) (st_literalPrefix st),
      null_or (st_literalSuffixIsNull st) (st_literalSuffix st),
      SqlTrueFalse2s (st_fixedPrecisionScale st),
      number_text X (st_minimumScaleIsNull st) (st_minimumScale st),
      maximumScale,
      number_text X (st_sqlDateTimeSubIsNull st) (st_sqlDateTimeSub st),
      number_text X (st_numPrecRadixIsNull st) (st_numPrecRadix st),
      number_text X (st_intervalPrecisionIsNull st) (st_intervalPrecision st),
      null_or (st_createParamsIsNull st) (st_createParams st)]"

definition ToOneLineStrForTrac :: "ext \<Rightarrow> SqlTypeInfo \<Rightarrow> bool \<Rightarrow> string" where
  "ToOneLineStrForTrac X st withHeaderLine =
     (if withHeaderLine then boost_format X
        ''||= %25s=||= %25s=||= %34s =||= %45s =||= %5s =||= %10s =||= %8s =||= %6s =||= %6s =||= %10s =||= %10s =||= %10s =||= %5s =||= %5s =||= %5s =||= %5s =||= %5s =||= %5s =||= %34s =||''
        [''SQLType'', ''SQL Data Type (3)'', ''!TypeName'', ''Local !TypeName'', ''Unsigned'', ''Precision'', ''Nullable'',
         ''Auto Inc.'', ''Case Sens.'', ''Searchable'', ''Prefix'', ''Suffix'', ''Fixed Prec. Scale'', ''Min. Scale'',
         ''Max. Scale'', ''Sql DateTimeSub'', ''Num. Prec. Radix'', ''Interval Precision'', ''Create Params''] @ endl
      else []) @
     boost_format X
       ''|| %25s|| %2s|| %34s || %45s || %5s || %10s || %8s || %6s || %6s || %10s || %10s || %10s || %5s || %5s || %5s || %5s || %5s || %5s || %34s ||''
       (type_cells X st (number_text X (st_maximumScaleIsNull st) (st_maximumScale st)))"

definition ruler :: string where
  "ruler = replicate 316 (CHR ''-'')"

text \<open>The column of the maximum scale shows the minimum scale.\<close>

definition ToOneLineStr :: "ext \<Rightarrow> SqlTypeInfo \<Rightarrow> bool \<Rightarrow> bool \<Rightarrow> string" where
  "ToOneLineStr X st withHeaderLines withEndLine =
     (if withHeaderLines then
        boost_format X ruler [] @ endl @
        boost_format X
          ''| %25s | %25s | %34s | %45s | %5s | %10s | %8s | %6s | %6s | %10s | %10s | %10s | %5s | %5s | %5s | %5s | %5s | %5s | %34s |''
          [''SQLType'', ''SQL Data Type (3)'', ''TypeName'', ''Local TypeName'', ''Unsig'', ''Precision'', ''Nullable'',
           ''AutoI'', ''CaseS.'', ''Searchable'', ''Prefix'', ''Suffix'', ''FixPS'', ''MinSc'', ''MaxSc'', ''DTS3'', ''NuPR'',
           ''IntPr'', ''Create Params''] @ endl @
        boost_format X ruler [] @ endl
      else []) @
     boost_format X
       ''| %25s | %2s | %34s | %45s | %5s | %10s | %8s | %6s | %6s | %10s | %10s | %10s | %5s | %5s | %5s | %5s | %5s | %5s | %34s |''
       (type_cells X st (number_text X (st_minimumScaleIsNull st) (st_minimumScale st))) @
     (if withEndLine then endl @ boost_format X ruler [] @ endl else [])"

definition true_false :: "int \<Rightarrow> string" where
  "true_false v = (if v = SQL_TRUE then ''SQL_TRUE'' else ''SQL_FALSE'')"

definition ToStr :: "ext \<Rightarrow> SqlTypeInfo \<Rightarrow> string" where
  "ToStr X st =
     ''***** DATA TYPE INFORMATION *****'' @ endl @
     '' Name:                   '' @ st_typeName st @ endl @
     ''  SQL Type:              '' @ show_int (st_sqlType st) @ endl @
     ''  Precision:             '' @ number_text X (st_columnSizeIsNull st) (st_columnSize st) @ endl @
     ''  Literal Prefix:        '' @ null_or (st_literalPrefixIsNull st) (st_literalPrefix st) @ endl @
     ''  Literal Suffix:        '' @ null_or (st_literalSuffixIsNull st) (st_literalSuffix st) @ endl @
     ''  Create Params:         '' @ null_or (st_createParamsIsNull st) (st_createParams st) @ endl @
     ''  Nullable:              '' @ switch [(SQL_NO_NULLS, ''SQL_NO_NULL''), (SQL_NULLABLE, ''SQL_NULLABLE''),
         (SQL_NULLABLE_UNKNOWN, ''SQL_NULLABLE_UNKNOWN'')] ''???'' (st_nullable st) @ endl @
     ''  Case Sensitive:        '' @ true_false (st_caseSensitive st) @ endl @
     ''  Searchable:            '' @ switch [(SQL_PRED_NONE, ''SQL_PRED_NONE''), (SQL_PRED_CHAR, ''SQL_PRED_CHAR''),
         (SQL_PRED_BASIC, ''SQL_PRED_BASIC''), (SQL_SEARCHABLE, ''SQL_SEARCHABLE'')] ''???'' (st_searchable st) @ endl @
     ''  Unsigned:              '' @ null_or (st_unsignedIsNull st) (true_false (st_isUnsigned st)) @ endl @
     ''  Fixed Precision Scale: '' @ true_false (st_fixedPrecisionScale st) @ endl @
     ''  Auto Unique Value:     '' @ null_or (st_autoUniqueValueIsNull st) (true_false (st_autoUniqueValue st)) @ endl @
     ''  Local Type Name:       '' @ null_or (st_localTypeNameIsNull st) (st_localTypeName st) @ endl @
     ''  Minimum Scale:         '' @ number_text X (st_minimumScaleIsNull st) (st_minimumScale st) @ endl @
     ''  Maximum Scale:         '' @ number_text X (st_maximumScaleIsNull st) (st_maximumScale st) @ endl @
     ''  SQL Data type:         '' @ show_int (st_sqlDataType st) @ endl @
     ''  SQL Date Time Sub:     '' @ number_text X (st_sqlDateTimeSubIsNull st) (st_sqlDateTimeSub st) @ endl @
     ''  Num Prec Radix:        '' @ number_text X (st_numPrecRadixIsNull st) (st_numPrecRadix st) @ endl @
     ''  Interval Precision:    '' @ number_text X (st_intervalPrecisionIsNull st) (st_intervalPrecision st) @ endl"

text \<open>The one-line text does not tell types apart that differ in the maximum scale.\<close>

lemma ToOneLineStr_no_maximum_scale:
  "ToOneLineStr X (st\<lparr>st_maximumScale := n, st_maximumScaleIsNull := isNull\<rparr>) h e = ToOneLineStr X st h e"
  by (simp add: ToOneLineStr_def type_cells_def)

text \<open>A special column made with a scope has none to give.\<close>

lemma scope_of_unique_row:
  "SpecialColumnInfo_GetScope (SpecialColumnInfo_unique_row scope n t tn cs bl dd pc) = Exn (AssertionException ''!m_isScopeNull'')"
  by (simp add: SpecialColumnInfo_GetScope_def SpecialColumnInfo_unique_row_def)

end
