(* ===== verification/ExecCommands.thy ===== *)
theory ExecCommands
  imports Tables Diagnostics InfoTexts
begin

text \<open>
  The sample program \<open>samples/ExodbcExec\<close>: the interactive shell that executes SQL and prints results. This theory has
  the state, the commands of \<open>Command.h/.cpp\<close> with their names and help texts, and \<open>Execute\<close> of the commands that work
  on the statement: \<open>ExecuteSql\<close>, \<open>Exit\<close>, \<open>Select\<close>, \<open>Commit\<close>, \<open>Rollback\<close> and \<open>Print\<close>.

  The state is that of the library with three additions: the object \<open>ExodbcExec\<close>, the lines still to be read from
  standard input (wide strings, lists of code units), and the log manager of \<open>Logging\<close>, through which the program prints.
  The lines the library itself logs are left out, as everywhere (\<open>Diagnostics\<close> says why). A log line carries one place in
  the source for all of them; the handlers of the program do not print it.

  An exception that leaves a function declared \<open>noexcept\<close> ends the program with \<open>std::terminate\<close>; it is \<open>Undef\<close> here.
  The build is the one without \<open>_WIN32\<close>.
\<close>

section \<open>What the program calls and does not contain\<close>

text \<open>
  What the C++ library decides in converting texts (\<open>Conversions\<close>), the text of an exception (which names the place it was
  thrown from), and the time that passed between two points of the history. The rest are functions of Boost.
\<close>

record shellenv =
  sh_site :: logsite
  sh_codecvt :: codecvt
  sh_millis :: "odbc_call list \<Rightarrow> odbc_call list \<Rightarrow> int"
  sh_text :: "exn \<Rightarrow> string"
  boost_starts_with :: "string \<Rightarrow> string \<Rightarrow> bool"
  boost_istarts_with :: "string \<Rightarrow> string \<Rightarrow> bool"
  boost_iends_with :: "string \<Rightarrow> string \<Rightarrow> bool"
  boost_equals :: "string \<Rightarrow> string \<Rightarrow> bool"
  boost_trim :: "string \<Rightarrow> string"
  boost_lower :: "string \<Rightarrow> string"
  boost_upper :: "string \<Rightarrow> string"
  boost_lexical_int :: "string \<Rightarrow> int option"

section \<open>The commands\<close>

datatype SelectMode = SelNext | SelPrev | SelFirst | SelLast

datatype PrintMode = CurrentRecord | AllRecords

datatype ListMode = TableTypes | Schemas | Catalogs

datatype FindMode = Short | Interactive

datatype TracMode = TracDbInfo | TracTestTables

text \<open>
  One constructor per class, with the members of the class: the statement, the database, and the settings of the printing
  commands. \<open>Exit\<close> points to the one \<open>ExodbcExec\<close>, and \<open>Print\<close> refers to its vector of columns. The members of \<open>Help\<close>
  are the commands it lists.
\<close>

datatype Command =
    ExecuteSql (cmd_stmt: nat)
  | Exit
  | Select SelectMode nat
  | Commit nat
  | Rollback nat
  | Help "Command list"
  | Print PrintMode nat (pr_separator: string) (pr_header: bool) (pr_rowNr: bool) (pr_fixed: bool) (pr_width: nat)
  | DbInfo nat
  | ListCatalog ListMode nat bool
  | Find FindMode nat (fd_header: bool) (fd_rowNr: bool) (fd_fixed: bool) (fd_separator: string)
  | CreateTracPages TracMode nat

definition COMMAND_PREFIX :: string where "COMMAND_PREFIX = ''!''"

definition ExecuteSql_NAME :: string where "ExecuteSql_NAME = ''execSql''"

fun Select_GetAliases :: "SelectMode \<Rightarrow> string list" where
  "Select_GetAliases SelFirst = [''first'', ''sf'']"
| "Select_GetAliases SelLast = [''last'', ''sl'']"
| "Select_GetAliases SelNext = [''next'', ''sn'']"
| "Select_GetAliases SelPrev = [''prev'', ''sp'']"

fun Print_GetAliases :: "PrintMode \<Rightarrow> string list" where
  "Print_GetAliases CurrentRecord = [''printCurrent'', ''pc'']"
| "Print_GetAliases AllRecords = [''printAll'', ''pa'']"

fun ListCatalog_GetAliases :: "ListMode \<Rightarrow> string list" where
  "ListCatalog_GetAliases TableTypes = [''listTypes'', ''lt'']"
| "ListCatalog_GetAliases Schemas = [''listSchemas'', ''ls'']"
| "ListCatalog_GetAliases Catalogs = [''listCatalogs'', ''lc'']"

fun Find_GetAliases :: "FindMode \<Rightarrow> string list" where
  "Find_GetAliases Short = [''find'', ''f'']"
| "Find_GetAliases Interactive = [''ifind'', ''if'']"

fun Trac_GetAliases :: "TracMode \<Rightarrow> string list" where
  "Trac_GetAliases TracDbInfo = [''tracDbInfo'', ''tdbi'']"
| "Trac_GetAliases TracTestTables = [''tracTestTableInfo'', ''ttti'']"

fun GetAliases :: "Command \<Rightarrow> string list" where
  "GetAliases (ExecuteSql s) = [ExecuteSql_NAME]"
| "GetAliases Exit = [''exit'', ''e'', ''quit'', ''q'']"
| "GetAliases (Select m s) = Select_GetAliases m"
| "GetAliases (Commit d) = [''commitTrans'', ''ct'']"
| "GetAliases (Rollback d) = [''rollbackTrans'', ''rt'']"
| "GetAliases (Help cs) = [''help'', ''h'']"
| "GetAliases (Print m s sep h r fx wd) = Print_GetAliases m"
| "GetAliases (DbInfo d) = [''dbInfo'']"
| "GetAliases (ListCatalog m d h) = ListCatalog_GetAliases m"
| "GetAliases (Find m d h r fx sep) = Find_GetAliases m"
| "GetAliases (CreateTracPages m d) = Trac_GetAliases m"

fun Hidden :: "Command \<Rightarrow> bool" where
  "Hidden (ExecuteSql s) = True"
| "Hidden _ = False"

section \<open>Help texts\<close>

fun Select_GetHelp :: "SelectMode \<Rightarrow> string" where
  "Select_GetHelp SelFirst = ''Select first record.''"
| "Select_GetHelp SelLast = ''Select last record.''"
| "Select_GetHelp SelNext = ''Select next record.''"
| "Select_GetHelp SelPrev = ''Select previous record.''"

fun Print_GetHelp :: "PrintMode \<Rightarrow> string" where
  "Print_GetHelp CurrentRecord = ''Print the current record.''"
| "Print_GetHelp AllRecords =
     ''Print all records of the current record set. '' @
     ''If forward only cursors is set to false, !printAll '' @
     ''will first execute a '!first' and then print and '' @
     ''iterate all records by calling '!next'. '' @
     ''If forward only cursors is set to true, all '' @
     ''remaining records found using '!next' are printed.''"

fun ListCatalog_GetHelp :: "ListMode \<Rightarrow> string" where
  "ListCatalog_GetHelp TableTypes = ''List all table types.''"
| "ListCatalog_GetHelp Schemas = ''List all schemas.''"
| "ListCatalog_GetHelp Catalogs = ''List all catalogs.''"

fun Find_GetHelp :: "FindMode \<Rightarrow> string" where
  "Find_GetHelp Short =
     ''Search for tables, views, etc.'' @
     ''If any argument of schema, catalog or type is empty, the argument is '' @
     ''ignored. Use '%' to match zero or more characters and '%' to match '' @
     ''any single character. If argument '-pc' is passed, the column information '' @
     ''for any found table is printed after the list of tables has been printed.''"
| "Find_GetHelp Interactive =
     ''Search for tables, views, etc.'' @
     ''Values for table, schema, catalog and type name are queried interactive.'' @
     ''If argument '-pc' is passed, the column information '' @
     ''for any found table is printed after the list of tables has been printed.''"

fun Trac_GetHelp :: "TracMode \<Rightarrow> string" where
  "Trac_GetHelp TracDbInfo = ''Create a Trac page with database and driver information''"
| "Trac_GetHelp TracTestTables = ''Create a Trac page with test tables information.''"

fun GetHelp :: "Command \<Rightarrow> string" where
  "GetHelp (ExecuteSql s) = ''Execute SQL.''"
| "GetHelp Exit = ''Exit exodbcexec.''"
| "GetHelp (Select m s) = Select_GetHelp m"
| "GetHelp (Commit d) = ''Commit any ongoing transations.''"
| "GetHelp (Rollback d) = ''Rollback all ongoing transactions.''"
| "GetHelp (Help cs) = ''Show this help text.''"
| "GetHelp (Print m s sep h r fx wd) = Print_GetHelp m"
| "GetHelp (DbInfo d) = ''Print various database properties''"
| "GetHelp (ListCatalog m d h) = ListCatalog_GetHelp m"
| "GetHelp (Find m d h r fx sep) = Find_GetHelp m"
| "GetHelp (CreateTracPages m d) = Trac_GetHelp m"

fun Find_GetArgumentsSyntax :: "FindMode \<Rightarrow> string" where
  "Find_GetArgumentsSyntax Short = ''name [schema] [catalog] [type] [-pc]''"
| "Find_GetArgumentsSyntax Interactive = ''[-pc]''"

fun GetArgumentsSyntax :: "Command \<Rightarrow> string" where
  "GetArgumentsSyntax (Find m d h r fx sep) = Find_GetArgumentsSyntax m"
| "GetArgumentsSyntax (CreateTracPages m d) = ''[outfile]''"
| "GetArgumentsSyntax _ = []"

definition HasArguments :: "Command \<Rightarrow> bool" where
  "HasArguments c \<longleftrightarrow> GetArgumentsSyntax c \<noteq> []"

section \<open>The state\<close>

datatype CharColumnMode = CharAuto | CharMode | WCharMode

text \<open>
  The members of \<open>ExodbcExec\<close>. \<open>xe_stmt\<close> is \<open>m_stmt\<close>, an object that is initialised and never used; \<open>xe_pStmt\<close> is
  \<open>m_pStmt\<close>. A column wrapper is the buffer it holds.
\<close>

record ExodbcExec =
  xe_exitOnError :: bool
  xe_pDb :: nat
  xe_stmt :: nat
  xe_forwardOnlyCursors :: bool
  xe_currentColumns :: "nat list"
  xe_columnSeparator :: string
  xe_printNoHeader :: bool
  xe_fixedPrintSize :: bool
  xe_printRowNr :: bool
  xe_charColumnMode :: CharColumnMode
  xe_charColSize :: int
  xe_sqlSeparator :: string
  xe_pStmt :: "nat option"
  xe_commands :: "(string \<times> Command) list"
  xe_exitFlag :: bool

record xworld = tworld +
  shell :: ExodbcExec
  stdin :: "int list list"
  logs :: logworld

type_synonym ('z, 'a) xprog = "(exn, 'z xworld_scheme, 'a) prog"

definition mod_shell :: "(ExodbcExec \<Rightarrow> ExodbcExec) \<Rightarrow> ('z, unit) xprog" where
  "mod_shell f = modifyM (\<lambda>w. w\<lparr>shell := f (shell w)\<rparr>)"

lemma mod_shell_exec [exec, simp]: "mod_shell f w = (Ok (), w\<lparr>shell := f (shell w)\<rparr>)"
  by (simp add: mod_shell_def)

text \<open>What a program does to the log manager, and the two ways to print.\<close>

definition on_log :: "'a lprog \<Rightarrow> ('z, 'a) xprog" where
  "on_log m w = (case m (logs w) of (r, l) \<Rightarrow> (r, w\<lparr>logs := l\<rparr>))"

definition LOG :: "shellenv \<Rightarrow> LogLevel \<Rightarrow> string \<Rightarrow> ('z, unit) xprog" where
  "LOG E level msg = on_log (LogMessage (log_env (sh_site E)) level msg (log_file (sh_site E)) (log_line (sh_site E))
     (log_function (sh_site E)))"

definition WRITE_STDOUT_ENDL :: "string \<Rightarrow> ('z, unit) xprog" where
  "WRITE_STDOUT_ENDL msg = on_log (WriteStdOut msg True)"

definition WRITE_STDERR_ENDL :: "string \<Rightarrow> ('z, unit) xprog" where
  "WRITE_STDERR_ENDL msg = on_log (WriteStdErr msg True)"

definition noexceptM :: "('e, 's, 'a) prog \<Rightarrow> ('e, 's, 'a) prog" where
  "noexceptM m = catchM m (\<lambda>_. undefM)"

text \<open>Standard input: past the last line \<open>std::getline\<close> leaves the string empty.\<close>

datatype GetCommandResult = HAVE_COMMAND | NO_COMMAND

definition GetNextCommand :: "shellenv \<Rightarrow> ('z, GetCommandResult \<times> string) xprog" where
  "GetNextCommand E = bindM (getsM (\<lambda>w. case stdin w of [] \<Rightarrow> [] | line # _ \<Rightarrow> line)) (\<lambda>line.
     thenM (modifyM (\<lambda>w. w\<lparr>stdin := tl (stdin w)\<rparr>))
     (bindM (liftM (utf16ToUtf8 (sh_codecvt E) line)) (\<lambda>command. returnM (HAVE_COMMAND, command))))"

definition ExecuteTimed :: "shellenv \<Rightarrow> ('z, 'a) xprog \<Rightarrow> ('z, 'a \<times> int) xprog" where
  "ExecuteTimed E func = bindM (getsM calls) (\<lambda>start. bindM func (\<lambda>x. bindM (getsM calls) (\<lambda>stop.
     returnM (x, sh_millis E start stop))))"

section \<open>Execute\<close>

definition ExecuteSql_Execute :: "ext \<Rightarrow> shellenv \<Rightarrow> nat \<Rightarrow> string list \<Rightarrow> ('z, unit) xprog" where
  "ExecuteSql_Execute X E pStmt args = forM args (\<lambda>cmd. if cmd = [] then skipM else seqM
     [LOG E LL_Info (boost_format X (''Executing '%s'' @ quote) [cmd]),
      bindM (ExecuteTimed E (ExecuteDirect X pStmt cmd)) (\<lambda>(_, millis).
        LOG E LL_Info (boost_format X ''Success. Execution took %1%ms.'' [show_int millis]))])"

definition Exit_Execute :: "('z, unit) xprog" where
  "Exit_Execute = mod_shell (\<lambda>x. x\<lparr>xe_exitFlag := True\<rparr>)"

fun Select_call :: "ext \<Rightarrow> SelectMode \<Rightarrow> nat \<Rightarrow> ('z, bool) xprog" where
  "Select_call X SelFirst pStmt = SelectFirst X pStmt"
| "Select_call X SelLast pStmt = SelectLast X pStmt"
| "Select_call X SelNext pStmt = SelectNext X pStmt"
| "Select_call X SelPrev pStmt = SelectPrev X pStmt"

definition Select_Execute :: "ext \<Rightarrow> shellenv \<Rightarrow> SelectMode \<Rightarrow> nat \<Rightarrow> ('z, unit) xprog" where
  "Select_Execute X E mode pStmt = bindM (Select_call X mode pStmt) (\<lambda>res.
     if \<not> res then LOG E LL_Warning ''No Record selected'' else skipM)"

definition Commit_Execute :: "ext \<Rightarrow> nat \<Rightarrow> ('z, unit) xprog" where
  "Commit_Execute X pDb = CommitTrans X pDb"

definition Rollback_Execute :: "ext \<Rightarrow> nat \<Rightarrow> ('z, unit) xprog" where
  "Rollback_Execute X pDb = RollbackTrans X pDb"

section \<open>Printing records\<close>

definition Print_DEFAULT_ROWNR_WIDTH :: nat where "Print_DEFAULT_ROWNR_WIDTH = 10"

definition row_format :: "bool \<Rightarrow> nat \<Rightarrow> string \<Rightarrow> string" where
  "row_format fixedPrintSize width conv =
     (if fixedPrintSize \<and> width > 0 then ''%'' @ show_nat width @ conv
      else if fixedPrintSize \<and> width = 0 then ''%'' @ show_nat Print_DEFAULT_ROWNR_WIDTH @ conv
      else ''%'' @ conv)"

text \<open>
  The cell of a column, padded to the size of the buffer without its terminator, or to the header if that is longer. The
  header itself is a cell.
\<close>

definition print_cell :: "ext \<Rightarrow> bool \<Rightarrow> ColumnBuffer \<Rightarrow> string \<Rightarrow> (exn, string) res" where
  "print_cell X fixedPrintSize b s =
     (if fixedPrintSize
      then res_bind (GetQueryName b) (\<lambda>sheader.
        let printSize = max (m_nrOfElements b - 1) (int (length sheader)) in
        assert_then ''printSize >= 1'' (printSize \<ge> 1) (Ok (boost_format X (''%'' @ show_int printSize @ ''s'') [s])))
      else Ok s)"

fun header_cells :: "ext \<Rightarrow> bool \<Rightarrow> ColumnBuffer list \<Rightarrow> (exn, string list) res" where
  "header_cells X fixedPrintSize [] = Ok []"
| "header_cells X fixedPrintSize (b # bs) =
     res_bind (res_bind (GetQueryName b) (print_cell X fixedPrintSize b)) (\<lambda>c.
     res_bind (header_cells X fixedPrintSize bs) (\<lambda>cs. Ok (c # cs)))"

definition current_buffers :: "'z xworld_scheme \<Rightarrow> ColumnBuffer list" where
  "current_buffers w = map (buf w) (xe_currentColumns (shell w))"

definition GetHeaderRow :: "ext \<Rightarrow> string \<Rightarrow> bool \<Rightarrow> bool \<Rightarrow> nat \<Rightarrow> ('z, string) xprog" where
  "GetHeaderRow X columnSeparator printRowNr fixedPrintSize width = noexceptM (
     bindM (getsM current_buffers) (\<lambda>bs. bindM (liftM (header_cells X fixedPrintSize bs)) (\<lambda>cells. returnM
       ((if printRowNr then boost_format X (row_format fixedPrintSize width ''s'') [''ROW''] @ columnSeparator else []) @
        join columnSeparator cells))))"

definition GetHeaderRows :: "ext \<Rightarrow> string \<Rightarrow> bool \<Rightarrow> bool \<Rightarrow> nat \<Rightarrow> ('z, string list) xprog" where
  "GetHeaderRows X columnSeparator printRowNr fixedPrintSize width =
     bindM (GetHeaderRow X columnSeparator printRowNr fixedPrintSize width) (\<lambda>s1.
       returnM [s1, replicate (length s1) (CHR ''='')])"

definition column_text :: "shellenv \<Rightarrow> nat \<Rightarrow> ('z, string) xprog" where
  "column_text E a = bindM (getsM (\<lambda>w. IsNull (buf w a))) (\<lambda>null.
     if null then returnM ''NULL'' else on_buf a (StringColumnWrapper_GetValue (sh_codecvt E)))"

fun record_cells :: "ext \<Rightarrow> shellenv \<Rightarrow> bool \<Rightarrow> nat list \<Rightarrow> ('z, string list) xprog" where
  "record_cells X E fixedPrintSize [] = returnM []"
| "record_cells X E fixedPrintSize (a # as) =
     bindM (column_text E a) (\<lambda>sval.
     bindM (bindM (getsM (\<lambda>w. print_cell X fixedPrintSize (buf w a) sval)) liftM) (\<lambda>c.
     bindM (record_cells X E fixedPrintSize as) (\<lambda>cs. returnM (c # cs))))"

definition CurrentRecordToString :: "ext \<Rightarrow> shellenv \<Rightarrow> string \<Rightarrow> bool \<Rightarrow> ('z, string) xprog" where
  "CurrentRecordToString X E columnSeparator fixedPrintSize =
     bindM (getsM (\<lambda>w. xe_currentColumns (shell w))) (\<lambda>as.
     bindM (record_cells X E fixedPrintSize as) (\<lambda>cells. returnM (join columnSeparator cells)))"

definition GetRecordRow :: "ext \<Rightarrow> shellenv \<Rightarrow> string \<Rightarrow> bool \<Rightarrow> bool \<Rightarrow> nat \<Rightarrow> nat \<Rightarrow> ('z, string) xprog" where
  "GetRecordRow X E columnSeparator printRowNr fixedPrintSize width rowNr =
     (if \<not> printRowNr then CurrentRecordToString X E columnSeparator fixedPrintSize
      else bindM (CurrentRecordToString X E columnSeparator fixedPrintSize) (\<lambda>s. returnM
        (boost_format X (row_format fixedPrintSize width ''d'') [show_nat rowNr] @ columnSeparator @ s)))"

text \<open>
  The loop of \<open>!printAll\<close> with fuel: \<open>row rowCount\<close> prints a row. It ends when the driver has no further row.
\<close>

fun print_loop :: "ext \<Rightarrow> nat \<Rightarrow> nat \<Rightarrow> (nat \<Rightarrow> ('z, unit) xprog) \<Rightarrow> nat \<Rightarrow> bool \<Rightarrow> ('z, unit) xprog" where
  "print_loop X 0 pStmt row rowCount haveNext = fuelM"
| "print_loop X (Suc n) pStmt row rowCount haveNext =
     (if haveNext
      then thenM (row rowCount) (bindM (SelectNext X pStmt) (print_loop X n pStmt row (rowCount + 1)))
      else skipM)"

definition Print_Execute ::
  "ext \<Rightarrow> shellenv \<Rightarrow> nat \<Rightarrow> PrintMode \<Rightarrow> nat \<Rightarrow> string \<Rightarrow> bool \<Rightarrow> bool \<Rightarrow> bool \<Rightarrow> nat \<Rightarrow> ('z, unit) xprog" where
  "Print_Execute X E n mode pStmt columnSeparator printHeaderRow printRowNr fixedPrintSize width =
     ifM (\<lambda>w. xe_currentColumns (shell w) = []) (LOG E LL_Warning ''No record set with bound columns is open.'') (
     let row = (\<lambda>rowNr. bindM (GetRecordRow X E columnSeparator printRowNr fixedPrintSize width rowNr) (LOG E LL_Output)) in
     thenM (if printHeaderRow
            then bindM (GetHeaderRows X columnSeparator printRowNr fixedPrintSize width) (\<lambda>headers.
                   forM headers (LOG E LL_Output))
            else skipM)
     (if mode = CurrentRecord then row 1
      else thenM
        (bindM (ifM (\<lambda>w. IsForwardOnlyCursor w pStmt) (SelectNext X pStmt) (SelectFirst X pStmt))
          (print_loop X n pStmt row 1))
        (LOG E LL_Info ''No more results available.'')))"

end
