(* ===== verification/ExecHelp.thy ===== *)
theory ExecHelp
  imports ExecCommands
begin

text \<open>
  The command \<open>Help\<close>: the set of the commands ordered by their first name, the line breaking of \<open>Help::Split\<close>, and what is
  written for each command. The help goes to standard output directly and not through the log.
\<close>

section \<open>The commands in order\<close>

definition first_alias :: "Command \<Rightarrow> string" where
  "first_alias c = (case GetAliases c of [] \<Rightarrow> [] | a # _ \<Rightarrow> a)"

text \<open>\<open>std::set\<close> with \<open>SOrderCommands\<close>: of two commands with one first name the set keeps the first inserted.\<close>

definition Help_new :: "Command list \<Rightarrow> Command" where
  "Help_new cmds = Help (map snd (fold (\<lambda>c m. map_insert_new (first_alias c) c m) cmds []))"

section \<open>Breaking lines\<close>

fun Split_loop :: "nat \<Rightarrow> string \<Rightarrow> string list \<Rightarrow> bool \<Rightarrow> string \<Rightarrow> string list" where
  "Split_loop maxChars sindent [] firstWord tmp = (if tmp \<noteq> [] then [tmp] else [])"
| "Split_loop maxChars sindent (word # words) firstWord tmp =
     (if length tmp + (if firstWord then 0 else 1) + length word \<le> maxChars
      then Split_loop maxChars sindent words False (tmp @ (if firstWord then [] else '' '') @ word)
      else tmp # Split_loop maxChars sindent words firstWord (sindent @ word))"

definition Split :: "ext \<Rightarrow> string \<Rightarrow> nat \<Rightarrow> nat \<Rightarrow> string list" where
  "Split X str maxChars indent =
     (let sindent = replicate indent (CHR '' '') in
      Split_loop maxChars sindent (boost_split X str (CHR '' '')) True sindent)"

section \<open>Writing\<close>

definition DEFAULT_MAXCHARS :: nat where "DEFAULT_MAXCHARS = 79"

definition maxAliasesWidth :: nat where "maxAliasesWidth = 20"

definition alias_text :: "Command \<Rightarrow> string" where
  "alias_text c = '' '' @ join '','' (map (\<lambda>a. COMMAND_PREFIX @ a) (GetAliases c))"

definition command_lines :: "ext \<Rightarrow> shellenv \<Rightarrow> Command \<Rightarrow> nat \<Rightarrow> (exn, string list) res" where
  "command_lines X E c maxChars =
     (let lines = Split X (GetHelp c) maxChars maxAliasesWidth;
          line = (\<lambda>s. boost_format X (''%-'' @ show_nat maxAliasesWidth @ ''s%s'') [alias_text c, s]) in
      assert_then ''!lines.empty()'' (lines \<noteq> [])
        (Ok (if HasArguments c then line (GetArgumentsSyntax c) # lines
             else line (boost_trim E (hd lines)) # tl lines)))"

definition Help_WriteCommand :: "ext \<Rightarrow> shellenv \<Rightarrow> Command \<Rightarrow> ('z, unit) xprog" where
  "Help_WriteCommand X E c = noexceptM (bindM (liftM (command_lines X E c DEFAULT_MAXCHARS)) (\<lambda>lines.
     forM lines WRITE_STDOUT_ENDL))"

definition Help_WriteText :: "ext \<Rightarrow> string \<Rightarrow> ('z, unit) xprog" where
  "Help_WriteText X str = forM (Split X str DEFAULT_MAXCHARS 0) WRITE_STDOUT_ENDL"

definition Help_Execute :: "ext \<Rightarrow> shellenv \<Rightarrow> Command list \<Rightarrow> ('z, unit) xprog" where
  "Help_Execute X E commands = seqM
     [Help_WriteText X ''The following commands are available:'',
      forM commands (Help_WriteCommand X E),
      Help_WriteText X
        (''Commands can be abbreviated. For example the command 'Exit SQL '' @
         ''execution', documented as '!exit,!e,!q', can be invoked using '!exit' '' @
         '' or '!e' or '!q'.''),
      Help_WriteText X
        (''Any input that is not recognized as a command will be executed as SQL '' @
         ''against the database connected to.'')]"

section \<open>What Split does\<close>

definition short_line :: "nat \<Rightarrow> string \<Rightarrow> string list \<Rightarrow> string \<Rightarrow> bool" where
  "short_line maxChars sindent words line \<longleftrightarrow>
     length line \<le> maxChars \<or> line = sindent \<or> (\<exists>word\<in>set words. line = sindent @ word)"

lemma Split_loop_short:
  "short_line maxChars sindent all tmp \<Longrightarrow> set words \<subseteq> set all \<Longrightarrow>
   line \<in> set (Split_loop maxChars sindent words first tmp) \<Longrightarrow> short_line maxChars sindent all line"
proof (induction words arbitrary: first tmp)
  case (Cons word words)
  have w: "short_line maxChars sindent all (sindent @ word)" and sub: "set words \<subseteq> set all"
    using Cons.prems(2) by (auto simp: short_line_def)
  let ?tmp = "tmp @ (if first then [] else '' '') @ word"
  show ?case
  proof (cases "length tmp + (if first then 0 else 1) + length word \<le> maxChars")
    case True
    then have "short_line maxChars sindent all ?tmp" by (auto simp: short_line_def)
    from Cons.IH[OF this sub] True Cons.prems(3) show ?thesis by simp
  next
    case False
    with Cons.prems Cons.IH[OF w sub] show ?thesis by auto
  qed
qed (simp split: if_splits)

lemma split_doc_snoc:
  assumes "CHR '' '' \<notin> set word"
  shows "split_doc (t @ CHR '' '' # word) (CHR '' '') = split_doc t (CHR '' '') @ [word]"
proof (induction t)
  case Nil
  with assms show ?case by (simp add: split_doc_no)
next
  case (Cons c t)
  have "split_doc t (CHR '' '') \<noteq> []" for t by (induction t) (auto split: list.split)
  then obtain v vs where v: "split_doc t (CHR '' '') = v # vs" by (metis neq_Nil_conv)
  with Cons show ?case by simp
qed

lemma split_doc_no_blank: "word \<in> set (split_doc s c) \<Longrightarrow> c \<notin> set word"
  by (induction s arbitrary: word) (auto split: if_splits list.splits)

text \<open>The words of a line behind the indent.\<close>

definition line_words :: "nat \<Rightarrow> string \<Rightarrow> string list" where
  "line_words indent line = split_doc (drop indent line) (CHR '' '')"

lemma Split_loop_words:
  assumes "\<forall>word\<in>set words. CHR '' '' \<notin> set word" and "sindent \<noteq> [] \<or> t \<noteq> [] \<and> [] \<notin> set words"
  shows "concat (map (line_words (length sindent)) (Split_loop maxChars sindent words False (sindent @ t))) =
    split_doc t (CHR '' '') @ words \<and>
    (\<forall>line\<in>set (Split_loop maxChars sindent words False (sindent @ t)). take (length sindent) line = sindent)"
  using assms
proof (induction words arbitrary: t)
  case (Cons word words)
  have "CHR '' '' \<notin> set word" using Cons.prems by simp
  note w = split_doc_snoc[OF this] split_doc_no[OF this]
  have 1: "sindent \<noteq> [] \<or> t @ CHR '' '' # word \<noteq> [] \<and> [] \<notin> set words"
    and 2: "sindent \<noteq> [] \<or> word \<noteq> [] \<and> [] \<notin> set words" using Cons.prems by auto
  from Cons.IH[OF _ 1] Cons.IH[OF _ 2] Cons.prems(1) w show ?case
    by (simp add: line_words_def)
qed (auto simp: line_words_def)

text \<open>
  Breaking a help text into lines loses no word and changes no order: when the first word fits behind the indent, the
  words of the lines, in order, are the words of the text; every line begins with the indent; and a line is longer than
  the limit only if it is a single word behind the indent. (When the first word does not fit, \<open>firstWord\<close> stays true
  and later words are joined without a blank.)
\<close>

theorem Split_words:
  assumes "split_ok X" and "words = split_doc str (CHR '' '')"
    and "indent + length (hd words) \<le> maxChars" and "0 < indent \<or> [] \<notin> set words"
  shows "concat (map (line_words indent) (Split X str maxChars indent)) = words \<and>
    (\<forall>line\<in>set (Split X str maxChars indent).
       take indent line = replicate indent (CHR '' '') \<and>
       (length line \<le> maxChars \<or> (\<exists>word\<in>set words. line = replicate indent (CHR '' '') @ word)))"
proof -
  let ?s = "replicate indent (CHR '' '')"
  have "words \<noteq> []" unfolding assms(2) by (induction str) (auto split: list.split)
  then obtain w ws where ws: "words = w # ws" by (cases words) auto
  have nb: "\<forall>word\<in>set words. CHR '' '' \<notin> set word"
    using assms(2) split_doc_no_blank by blast
  have S: "Split X str maxChars indent = Split_loop maxChars ?s ws False (?s @ w)"
    using assms(1,3) ws by (simp add: Split_def Let_def split_ok_def assms(2)[symmetric])
  have "concat (map (line_words indent) (Split X str maxChars indent)) = words \<and>
      (\<forall>line\<in>set (Split X str maxChars indent). take indent line = ?s)"
    using Split_loop_words[of ws ?s w maxChars] nb assms(4) ws split_doc_no[of "CHR '' ''" w] by (auto simp: S)
  moreover have "short_line maxChars ?s words line" if "line \<in> set (Split X str maxChars indent)" for line
    using that Split_loop_short[of maxChars ?s words "?s @ w" ws line False] assms(3) ws
    by (auto simp: S short_line_def)
  ultimately show ?thesis
    using assms(3) ws by (fastforce simp: short_line_def)
qed

lemma Split_words_witness:
  "\<exists>lines. Split (ref_ext good_driver) ''Print the current record.'' 18 8 = lines \<and> length lines = 3 \<and>
     concat (map (line_words 8) lines) = [''Print'', ''the'', ''current'', ''record.'']"
proof -
  have "split_ok (ref_ext good_driver)" by simp
  note T = Split_words[OF this refl, where str = "''Print the current record.''" and indent = 8 and maxChars = 18]
  have "Split (ref_ext good_driver) ''Print the current record.'' 18 8 =
      [''        Print the'', ''        current'', ''        record.'']"
    by (simp add: Split_def ref_ext_def numeral_eq_Suc)
  with T[THEN conjunct1] show ?thesis by simp
qed

text \<open>What happens when the first word is too long: an empty line, and two words become one.\<close>

lemma Split_joins_words:
  "Split (ref_ext good_driver) ''abcdef a b'' 4 0 = [[], ''abcdef'', ''ab'']"
  by (simp add: Split_def ref_ext_def)

end
