(* ===== verification/ExecCatalog.thy ===== *)
theory ExecCatalog
  imports ExecCommands
begin

text \<open>
  The commands of the sample program that read from the catalog and from the properties of the connection: \<open>DbInfo\<close>,
  \<open>ListCatalog\<close> and \<open>Find\<close>. \<open>n\<close> is the fuel of the loop that fetches the rows of a catalog function.
\<close>

section \<open>DbInfo\<close>

text \<open>
  The local \<open>SqlInfoProperties\<close> gets an address of its own. A section is a blank line, a title, a rule and the properties of
  one type in the order of their names.
\<close>

definition print_subset ::
  "ext \<Rightarrow> shellenv \<Rightarrow> nat \<Rightarrow> InfoType \<Rightarrow> string \<Rightarrow> string \<Rightarrow> ('z, unit) xprog" where
  "print_subset X E this infoType title rule = bindM (getsM (\<lambda>w. GetSubset (props w this) infoType)) (\<lambda>ps. seqM
     [LOG E LL_Output [], LOG E LL_Output title, LOG E LL_Output rule,
      forM ps (\<lambda>it. LOG E LL_Output (boost_format X ''%-40s: %s''
        [m_infoName it, SqlInfoProperty_GetStringValue (m_value it)]))])"

definition DbInfo_Execute :: "ext \<Rightarrow> shellenv \<Rightarrow> nat \<Rightarrow> ('z, unit) xprog" where
  "DbInfo_Execute X E pDb = bindM new_address (\<lambda>this. seqM
     [mod_props this (\<lambda>_. SqlInfoProperties_new),
      bindM (getsM (\<lambda>w. db_pHDbc (dbs w pDb))) (\<lambda>h. SqlInfoProperties_Init_detect X this (Some h)),
      print_subset X E this IT_DBMS ''DBMS Product Information'' ''========================'',
      print_subset X E this IT_DataSource ''Data Source Information'' ''======================='',
      print_subset X E this IT_Driver ''Driver Information'' ''=================='',
      print_subset X E this IT_SupportedSql ''Supported SQL Information'' ''========================='',
      print_subset X E this IT_SqlLimits ''SQL Limits Information'' ''======================'',
      print_subset X E this IT_ScalarFunction ''Scalar Function Information'' ''==========================='',
      print_subset X E this IT_Conversion ''Conversion Information'' ''======================''])"

section \<open>ListCatalog\<close>

definition with_catalog :: "nat \<Rightarrow> (nat \<Rightarrow> ('z, 'a) xprog) \<Rightarrow> ('z, 'a) xprog" where
  "with_catalog pDb f = bindM (GetDbCatalog pDb) (\<lambda>c. case c of None \<Rightarrow> undefM | Some a \<Rightarrow> f a)"

fun list_title :: "ListMode \<Rightarrow> string" where
  "list_title TableTypes = ''Table Types''"
| "list_title Schemas = ''Schemas''"
| "list_title Catalogs = ''Catalogs''"

fun list_data :: "ext \<Rightarrow> nat \<Rightarrow> ListMode \<Rightarrow> nat \<Rightarrow> ('z, string list) xprog" where
  "list_data X n TableTypes a = ListTableTypes X n a"
| "list_data X n Schemas a = ListSchemas X n a"
| "list_data X n Catalogs a = ListCatalogs X n a"

definition ListCatalog_Execute ::
  "ext \<Rightarrow> shellenv \<Rightarrow> nat \<Rightarrow> ListMode \<Rightarrow> nat \<Rightarrow> bool \<Rightarrow> ('z, unit) xprog" where
  "ListCatalog_Execute X E n mode pDb printHeaderRow = (let modes = list_title mode in
     with_catalog pDb (\<lambda>a.
     thenM (LOG E LL_Info (boost_format X ''Listing all %s ..'' [modes]))
     (bindM (ExecuteTimed E (list_data X n mode a)) (\<lambda>(data, millis). seqM
       [LOG E LL_Info (boost_format X ''Success, found %d %s. Execution took %dms.''
          [show_nat (length data), modes, show_int millis]),
        if data \<noteq> [] \<and> printHeaderRow
        then thenM (LOG E LL_Output (boost_format X modes []))
               (LOG E LL_Output (replicate (length modes) (CHR ''='')))
        else skipM,
        forM data (LOG E LL_Output)]))))"

section \<open>Find\<close>

text \<open>What is searched: a name, and schema, catalog and type with a flag whether they are given.\<close>

record FindArgs =
  fa_name :: string
  fa_schem :: string
  fa_cat :: string
  fa_type :: string
  fa_haveSchem :: bool
  fa_haveCat :: bool
  fa_haveType :: bool

definition print_columns :: "string list \<Rightarrow> bool" where
  "print_columns args \<longleftrightarrow> args \<noteq> [] \<and> last args = ''-pc''"

definition Find_short :: "string list \<Rightarrow> FindArgs" where
  "Find_short args =
     (let p = print_columns args;
          haveType = (length args \<ge> (if p then 5 else 4));
          haveCat = (length args \<ge> (if p then 4 else 3));
          haveSchem = (length args \<ge> (if p then 3 else 2))
      in \<lparr>fa_name = (if length args \<ge> (if p then 2 else 1) then args ! 0 else ''%''),
          fa_schem = (if haveSchem then args ! 1 else []), fa_cat = (if haveCat then args ! 2 else []),
          fa_type = (if haveType then args ! 3 else []),
          fa_haveSchem = haveSchem, fa_haveCat = haveCat, fa_haveType = haveType\<rparr>)"

definition ask :: "shellenv \<Rightarrow> string \<Rightarrow> ('z, string) xprog" where
  "ask E prompt = thenM (LOG E LL_Output prompt) (bindM (GetNextCommand E) (\<lambda>(_, command). returnM command))"

definition Find_interactive :: "shellenv \<Rightarrow> ('z, FindArgs) xprog" where
  "Find_interactive E =
     bindM (ask E ''Enter Name pattern: '') (\<lambda>name.
     bindM (ask E ''Enter Schema pattern or 'NULL' to ignore: '') (\<lambda>schem.
     bindM (ask E ''Enter Catalog pattern or 'NULL' to ignore: '') (\<lambda>cat.
     bindM (ask E ''Enter Type(s), separated by ',': '') (\<lambda>type. returnM
       \<lparr>fa_name = name, fa_schem = schem, fa_cat = cat, fa_type = type,
        fa_haveSchem = (schem \<noteq> ''NULL''), fa_haveCat = (cat \<noteq> ''NULL''), fa_haveType = True\<rparr>))))"

text \<open>With a catalog and no schema the pattern handed over for the catalog is that of the schema.\<close>

definition Find_search :: "ext \<Rightarrow> nat \<Rightarrow> nat \<Rightarrow> FindArgs \<Rightarrow> ('z, TableInfo list) xprog" where
  "Find_search X n a fa =
     (if fa_haveSchem fa \<and> fa_haveCat fa then SearchTables_names X n a (fa_name fa) (fa_schem fa) (fa_cat fa) (fa_type fa)
      else if fa_haveSchem fa then SearchTables_typed X n a (fa_name fa) (fa_schem fa) Schema (fa_type fa)
      else if fa_haveCat fa then SearchTables_typed X n a (fa_name fa) (fa_schem fa) Catalog (fa_type fa)
      else SearchTables_any X n a (fa_name fa) (fa_type fa))"

definition Find_DEFAULT_ROWNR_WIDTH :: nat where "Find_DEFAULT_ROWNR_WIDTH = 6"

definition DEFAULT_FIELD_WIDTH :: nat where "DEFAULT_FIELD_WIDTH = 18"

definition DEFAULT_TYPE_WIDTH :: nat where "DEFAULT_TYPE_WIDTH = 10"

definition table_format :: "bool \<Rightarrow> string \<Rightarrow> string" where
  "table_format fixedPrintSize columnSeparator =
     (let f = (\<lambda>width. ''%-'' @ show_nat width @ ''s'') in
      join columnSeparator (if fixedPrintSize
        then [f DEFAULT_FIELD_WIDTH, f DEFAULT_FIELD_WIDTH, f DEFAULT_FIELD_WIDTH, f DEFAULT_TYPE_WIDTH]
        else [''%s'', ''%s'', ''%s'', ''%s'']))"

definition GetTableHeaderRows :: "ext \<Rightarrow> bool \<Rightarrow> bool \<Rightarrow> string \<Rightarrow> string list" where
  "GetTableHeaderRows X printRowNr fixedPrintSize columnSeparator =
     (let header1 =
        (if printRowNr
         then boost_format X (if fixedPrintSize then ''%-'' @ show_nat Find_DEFAULT_ROWNR_WIDTH @ ''s'' else ''%s'') [''ROW''] @
              columnSeparator
         else []) @
        boost_format X (table_format fixedPrintSize columnSeparator) [''Catalog'', ''Schema'', ''Name'', ''Type'']
      in [header1, replicate (length header1) (CHR ''='')])"

definition GetTableRecordRow :: "ext \<Rightarrow> bool \<Rightarrow> bool \<Rightarrow> string \<Rightarrow> TableInfo \<Rightarrow> nat \<Rightarrow> string" where
  "GetTableRecordRow X printRowNr fixedPrintSize columnSeparator ti rowNr =
     (if printRowNr
      then boost_format X (if fixedPrintSize then ''%'' @ show_nat Find_DEFAULT_ROWNR_WIDTH @ ''d'' else ''%d'') [show_nat rowNr] @
           columnSeparator
      else []) @
     boost_format X (table_format fixedPrintSize columnSeparator)
       [ti_catalogName ti, ti_schemaName ti, ti_tableName ti, ti_tableType ti]"

definition column_lines :: "ext \<Rightarrow> nat \<Rightarrow> ColumnInfo \<Rightarrow> string list" where
  "column_lines X pos c =
     [boost_format X '' [%d] Column Name:              %s'' [show_nat pos, ci_columnName c],
      boost_format X '' [%d] SQL Type:                 %d (%s)'' [show_nat pos, show_int (ci_sqlType c), SqlType2s (ci_sqlType c)],
      boost_format X '' [%d] SQL Data Type [ODBC 3.0]: %d (%s)''
        [show_nat pos, show_int (ci_sqlDataType c), SqlType2s (ci_sqlDataType c)],
      boost_format X '' [%d] Type Name:                %s'' [show_nat pos, ci_typeName c],
      boost_format X '' [%d] Column Size:              %d'' [show_nat pos, show_int (ci_columnSize c)],
      boost_format X '' [%d] Decimal Digits:           %d'' [show_nat pos, show_int (ci_decimalDigits c)],
      boost_format X '' [%d] Nullable:                 %d (%s)''
        [show_nat pos, show_int (ci_nullable c), SqlNullable2s (ci_nullable c)]]"

definition Find_columns :: "ext \<Rightarrow> shellenv \<Rightarrow> nat \<Rightarrow> nat \<Rightarrow> TableInfo \<Rightarrow> ('z, unit) xprog" where
  "Find_columns X E n a ti =
     bindM (liftM (TableInfo_GetQueryName ti)) (\<lambda>name.
     thenM (LOG E LL_Info (boost_format X (''Reading Column Information for '%s'' @ quote @ ''..'') [name]))
     (bindM (ExecuteTimed E (ReadColumnInfo X n a ti)) (\<lambda>(columns, millis). seqM
       [LOG E LL_Info (boost_format X ''Success, found %d Columns. Execution took %dms.''
          [show_nat (length columns), show_int millis]),
        LOG E LL_Info (boost_format X (''Columns of '%s'' @ quote @ '':'') [name]),
        forM (enumerate 0 columns) (\<lambda>(pos, c). forM (column_lines X pos c) (LOG E LL_Output))])))"

definition Find_Execute ::
  "ext \<Rightarrow> shellenv \<Rightarrow> nat \<Rightarrow> FindMode \<Rightarrow> nat \<Rightarrow> bool \<Rightarrow> bool \<Rightarrow> bool \<Rightarrow> string \<Rightarrow> string list \<Rightarrow> ('z, unit) xprog" where
  "Find_Execute X E n mode pDb printHeaderRow printRowNr fixedPrintSize columnSeparator args =
     with_catalog pDb (\<lambda>a.
     bindM (if mode = Short then returnM (Find_short args) else Find_interactive E) (\<lambda>fa.
     thenM (LOG E LL_Info (boost_format X (''Searching using name: '%s', schema: '%s', catalog: '%s', type: '%s'' @ quote)
        [fa_name fa, if fa_haveSchem fa then fa_schem fa else ''NULL'', if fa_haveCat fa then fa_cat fa else ''NULL'',
         if fa_haveType fa then fa_type fa else ''NULL'']))
     (bindM (ExecuteTimed E (Find_search X n a fa)) (\<lambda>(tables, millis). seqM
       [LOG E LL_Info (boost_format X ''Success, found %d Tables. Execution took %dms.''
          [show_nat (length tables), show_int millis]),
        if tables \<noteq> [] \<and> printHeaderRow
        then forM (GetTableHeaderRows X printRowNr fixedPrintSize columnSeparator) (LOG E LL_Output) else skipM,
        forM (enumerate 0 tables) (\<lambda>(rowNr, ti).
          LOG E LL_Output (GetTableRecordRow X printRowNr fixedPrintSize columnSeparator ti rowNr)),
        if print_columns args then forM tables (Find_columns X E n a) else skipM]))))"

text \<open>A search for a catalog alone does not use what was entered for the catalog.\<close>

lemma Find_search_catalog:
  "fa_haveCat fa \<Longrightarrow> \<not> fa_haveSchem fa \<Longrightarrow> Find_search X n a (fa\<lparr>fa_cat := c\<rparr>) = Find_search X n a fa"
  by (simp add: Find_search_def)

end
