(* ===== verification/TracPages.thy ===== *)
theory TracPages
  imports ExecCommands
begin

text \<open>
  \<open>CreateTracPages.h/.cpp\<close> of the sample program: the command that writes pages for a Trac wiki about the database and about
  the tables of the tests, to the log and, when a file is named, through a \<open>FileLogHandler\<close> of its own to that file. The
  pages are computed first and written afterwards. \<open>n\<close> is the fuel of every loop that waits for the driver.
\<close>

unbundle bit_operations_syntax

section \<open>Header, connection\<close>

definition GetHeaderLines :: "ext \<Rightarrow> TracMode \<Rightarrow> nat \<Rightarrow> ('z, string list) xprog" where
  "GetHeaderLines X mode pDb =
     bindM (bindM (getsM (\<lambda>w. GetDbmsName (props w pDb))) liftM) (\<lambda>dbmsName. returnM
       [boost_format X ''= %s: %s ='' [dbmsName,
          if mode = TracDbInfo then ''Database and Driver Information'' else ''Test Table Information''],
        ''[[PageOutline]]''])"

definition GetConnectionLines :: "ext \<Rightarrow> nat \<Rightarrow> ('z, string list) xprog" where
  "GetConnectionLines X pDb = bindM (getsM (\<lambda>w. dbs w pDb)) (\<lambda>b. returnM
     ([''== Connection Information =='', ''The following connection information was used to create this page:''] @
      (if db_openedWithConnectionString b
       then [boost_format X ''* Connection String: //%s//'' [db_inConnectionStr b]]
       else [boost_format X ''* DSN: //%s//'' [db_dsn b], boost_format X ''* User: //%s//'' [db_uid b],
             boost_format X ''* Pass: //%s//'' [db_authStr b]])))"

section \<open>Properties of the connection\<close>

fun section_title :: "InfoType \<Rightarrow> string" where
  "section_title IT_Conversion = ''== Conversion ==''"
| "section_title IT_DataSource = ''== Data Source Information ==''"
| "section_title IT_DBMS = ''== DBMS Product Information ==''"
| "section_title IT_Driver = ''== Driver Information ==''"
| "section_title IT_ScalarFunction = ''== Scalar Function Information ==''"
| "section_title IT_SqlLimits = ''== SQL Limits Information ==''"
| "section_title IT_SupportedSql = ''== Supported SQL Information ==''"

definition flag_lines :: "int \<Rightarrow> (string \<times> int) list \<Rightarrow> string" where
  "flag_lines iv flags = concat (map (\<lambda>(name, f). ''[[BR]]'' @ name @ '': '' @ (if iv AND f \<noteq> 0 then ''Y'' else ''N'')) flags)"

text \<open>The values \<open>SQL_SO_...\<close> and \<open>SQL_CA1_...\<close> are those of \<open>sqlext.h\<close>.\<close>

definition scroll_flags :: "(string \<times> int) list" where
  "scroll_flags = [(''SQL_SO_FORWARD_ONLY'', 1), (''SQL_SO_STATIC'', 16), (''SQL_SO_KEYSET_DRIVEN'', 2),
     (''SQL_SO_DYNAMIC'', 4), (''SQL_SO_MIXED '', 8)]"

definition cursor_flags :: "(string \<times> int) list" where
  "cursor_flags = [(''SQL_CA1_NEXT'', 1), (''SQL_CA1_ABSOLUTE'', 2), (''SQL_CA1_RELATIVE'', 4), (''SQL_CA1_BOOKMARK'', 8)]"

definition fine_tuned :: "SqlInfoProperty \<Rightarrow> (string \<times> int) list" where
  "fine_tuned p =
     (if m_infoId p = SQL_SCROLL_OPTIONS then scroll_flags
      else if m_infoId p \<in> {SQL_DYNAMIC_CURSOR_ATTRIBUTES1, SQL_KEYSET_CURSOR_ATTRIBUTES1, SQL_STATIC_CURSOR_ATTRIBUTES1}
      then cursor_flags
      else if m_infoId p = SQL_FORWARD_ONLY_CURSOR_ATTRIBUTES1 then [(''SQL_CA1_NEXT'', 1)]
      else [])"

definition property_line :: "ext \<Rightarrow> SqlInfoProperty \<Rightarrow> (exn, string) res" where
  "property_line X p =
     res_bind (if fine_tuned p \<noteq> [] then res_bind (get_UInt (m_value p)) (\<lambda>iv. Ok (flag_lines iv (fine_tuned p))) else Ok [])
     (\<lambda>extra.
        let strVal = SqlInfoProperty_GetStringValue (m_value p) @ extra;
            strVal' = (if m_infoId p = SQL_KEYWORDS then boost_replace_all X strVal '','' '', '' else strVal)
        in Ok (if m_valueType p = VT_UInt \<or> m_valueType p = VT_USmallInt
               then boost_format X ''|| %s || %s||'' [m_infoName p, strVal']
               else boost_format X ''|| %s ||  %s  ||'' [m_infoName p, strVal']))"

fun property_lines :: "ext \<Rightarrow> SqlInfoProperty list \<Rightarrow> (exn, string list) res" where
  "property_lines X [] = Ok []"
| "property_lines X (p # ps) =
     res_bind (property_line X p) (\<lambda>l. res_bind (property_lines X ps) (\<lambda>ls. Ok (l # ls)))"

definition GetDbInfoLines :: "ext \<Rightarrow> nat \<Rightarrow> InfoType \<Rightarrow> ('z, string list) xprog" where
  "GetDbInfoLines X pDb infoType =
     bindM (bindM (getsM (\<lambda>w. property_lines X (GetSubset (props w pDb) infoType))) liftM) (\<lambda>ls. returnM
       ([section_title infoType, ''||=Property Name =||= Property Value =||''] @ ls))"

section \<open>Types\<close>

definition types_header :: string where
  "types_header =
     ''||= SQLType =||= SQL Data Type (3) =||= !TypeName =||=  Local !TypeName =||= Unsigned =||= Column Size =||= Nullable ='' @
     ''||= Auto Unique =||= Case Sensitive =||= Searchable =||= Prefix =||= Suffix =||= Fixed Prec. Scale =||= Min. Scale ='' @
     ''||= Max. Scale =||= Sql !DateTimeSub =||= Num. Prec. Radix =||= Interval Precision =||= Create Params =||''"

definition types_format :: string where
  "types_format =
     ''||= %s (%d) =||= %s (%d) =||= %s =||= %s =||= %s =||= %d =||= %s ='' @
     ''||= %s =||= %s =||= %s =||= %s =||= %s =||= %s =||= %s ='' @
     ''||= %s =||= %s =||= %s =||= %s =||= %s =||''"

definition type_line :: "ext \<Rightarrow> SqlTypeInfo \<Rightarrow> string" where
  "type_line X ti = boost_format X types_format
     [SqlType2s (st_sqlType ti), show_int (st_sqlType ti), SqlType2s (st_sqlDataType ti), show_int (st_sqlDataType ti),
      st_typeName ti, null_or (st_localTypeNameIsNull ti) (st_localTypeName ti),
      null_or (st_unsignedIsNull ti) (SqlTrueFalse2s (st_isUnsigned ti)),
      show_int (if st_columnSizeIsNull ti then 0 else st_columnSize ti), SqlNullable2s (st_nullable ti),
      null_or (st_autoUniqueValueIsNull ti) (SqlTrueFalse2s (st_autoUniqueValue ti)), SqlTrueFalse2s (st_caseSensitive ti),
      SqlSearchable2s (st_searchable ti), null_or (st_literalPrefixIsNull ti) (st_literalPrefix ti),
      null_or (st_literalSuffixIsNull ti) (st_literalSuffix ti), SqlTrueFalse2s (st_fixedPrecisionScale ti),
      number_text X (st_minimumScaleIsNull ti) (st_minimumScale ti),
      number_text X (st_maximumScaleIsNull ti) (st_maximumScale ti),
      number_text X (st_sqlDateTimeSubIsNull ti) (st_sqlDateTimeSub ti),
      number_text X (st_numPrecRadixIsNull ti) (st_numPrecRadix ti),
      number_text X (st_intervalPrecisionIsNull ti) (st_intervalPrecision ti),
      null_or (st_createParamsIsNull ti) (st_createParams ti)]"

definition pages_catalog :: "nat \<Rightarrow> (nat \<Rightarrow> ('z, 'a) xprog) \<Rightarrow> ('z, 'a) xprog" where
  "pages_catalog pDb f = bindM (GetDbCatalog pDb) (\<lambda>c. case c of None \<Rightarrow> undefM | Some a \<Rightarrow> f a)"

definition GetTypeLines :: "ext \<Rightarrow> nat \<Rightarrow> nat \<Rightarrow> ('z, string list) xprog" where
  "GetTypeLines X n pDb = pages_catalog pDb (\<lambda>a. bindM (ReadSqlTypeInfo X n a) (\<lambda>types.
     returnM (types_header # map (type_line X) types)))"

section \<open>The tables of the tests\<close>

definition testTableNames :: "string list" where
  "testTableNames = [''blobtypes'', ''blobtypes_tmp'', ''chartypes'', ''chartypes_tmp'', ''datetypes'', ''datetypes_tmp'',
     ''floattypes'', ''floattypes_tmp'', ''integertypes'', ''integertypes_tmp'', ''multikey'', ''numerictypes'',
     ''numerictypes_tmp'', ''unicodetable'', ''unicodetable_tmp'']"

fun is_NotFoundException :: "exn \<Rightarrow> bool" where
  "is_NotFoundException (NotFoundException m) = True"
| "is_NotFoundException _ = False"

definition not_found_lines :: "ext \<Rightarrow> shellenv \<Rightarrow> string \<Rightarrow> string list" where
  "not_found_lines X E tableSearchName =
     [boost_format X ''== %s =='' [tableSearchName],
      boost_format X (''[[span(style=color: #FF0000, **WARNING:**)]] No table was found while searching for a table '%s'/'%s'!'')
        [boost_lower E tableSearchName, tableSearchName]]"

definition search_error_lines :: "ext \<Rightarrow> shellenv \<Rightarrow> string \<Rightarrow> exn \<Rightarrow> string list" where
  "search_error_lines X E tableSearchName ex =
     [boost_format X ''== %s =='' [tableSearchName],
      boost_format X
        ''[[span(style=color: #FF0000, **ERROR:**)]] Exeption catched while searching for table '%s'/'%s': '%s'!''
        [boost_lower E tableSearchName, tableSearchName, sh_text E ex]]"

text \<open>
  The search for one table: by its name in lower case, then, if there is none, in upper case. What the second search
  throws besides \<open>NotFoundException\<close> leaves the function: the handlers of one \<open>try\<close> do not guard each other.
\<close>

definition find_test_table ::
  "ext \<Rightarrow> shellenv \<Rightarrow> nat \<Rightarrow> nat \<Rightarrow> string \<Rightarrow> ('z, TableInfo option \<times> string list) xprog" where
  "find_test_table X E n a name = (let lower = boost_lower E name; upper = boost_upper E lower in
     catchM (bindM (FindOneTable X n a lower [] [] []) (\<lambda>ti. returnM (Some ti, [])))
       (\<lambda>ex. if is_NotFoundException ex
             then catchM (bindM (FindOneTable X n a upper [] [] []) (\<lambda>ti. returnM (Some ti, [])))
                    (\<lambda>ex2. if is_NotFoundException ex2 then returnM (None, not_found_lines X E upper) else throwM ex2)
             else returnM (None, search_error_lines X E lower ex)))"

fun find_test_tables ::
  "ext \<Rightarrow> shellenv \<Rightarrow> nat \<Rightarrow> nat \<Rightarrow> string list \<Rightarrow> ('z, TableInfo list \<times> string list) xprog" where
  "find_test_tables X E n a [] = returnM ([], [])"
| "find_test_tables X E n a (name # names) =
     bindM (find_test_table X E n a name) (\<lambda>(t, ls).
     bindM (find_test_tables X E n a names) (\<lambda>(ts, ls').
       returnM ((case t of None \<Rightarrow> ts | Some ti \<Rightarrow> ti # ts), ls @ ls')))"

definition structure_line :: "ext \<Rightarrow> ColumnInfo \<Rightarrow> string" where
  "structure_line X ci = boost_format X ''||%s || %s (%d) || %s|| %s||''
     [ci_columnName ci, SqlType2s (ci_sqlDataType ci), show_int (ci_sqlDataType ci),
      number_text X (ci_isColumnSizeNull ci) (ci_columnSize ci),
      number_text X (ci_isDecimalDigitsNull ci) (ci_decimalDigits ci)]"

definition GetTestTableStructureLines :: "ext \<Rightarrow> nat \<Rightarrow> nat \<Rightarrow> TableInfo \<Rightarrow> ('z, string list) xprog" where
  "GetTestTableStructureLines X n pDb ti = pages_catalog pDb (\<lambda>a. bindM (ReadColumnInfo X n a ti) (\<lambda>cols. returnM
     (boost_format X ''||=Column Name =||= SQL Type =||= Column Size=||= Decimal Digits=||'' [] # map (structure_line X) cols)))"

section \<open>Content\<close>

text \<open>The buffers behind the indexes, each with its query name.\<close>

fun named_columns :: "ext \<Rightarrow> nat \<Rightarrow> nat list \<Rightarrow> ('z, (string \<times> int) list) xprog" where
  "named_columns X t [] = returnM []"
| "named_columns X t (i # is) =
     bindM (GetColumnBufferPtrVariant X t (int i)) (\<lambda>c.
     bindM (getsM (\<lambda>w. m_sqlType (buf w c))) (\<lambda>sqlType.
     bindM (bindM (getsM (\<lambda>w. GetQueryName (buf w c))) liftM) (\<lambda>q.
     bindM (named_columns X t is) (\<lambda>qs. returnM ((q, sqlType) # qs)))))"

definition cells_line :: "string list \<Rightarrow> string" where
  "cells_line cells = concat (map (\<lambda>c. ''||= '' @ c @ '' ='') cells) @ ''||''"

text \<open>MySQL is asked for the binary columns as hexadecimal text.\<close>

definition blob_select :: "ext \<Rightarrow> (string \<times> int) list \<Rightarrow> string \<Rightarrow> string" where
  "blob_select X qs tableName =
     ''SELECT '' @
     join '', '' (map (\<lambda>(q, sqlType). if sqlType = SQL_BINARY \<or> sqlType = SQL_VARBINARY then boost_format X ''HEX(%s)'' [q] else q) qs) @
     '' FROM '' @ tableName"

definition content_cell :: "ext \<Rightarrow> shellenv \<Rightarrow> nat \<Rightarrow> nat \<Rightarrow> ('z, string) xprog" where
  "content_cell X E t i = bindM (GetColumnBufferPtrVariant X t (int i)) (\<lambda>c.
     bindM (bindM (getsM (\<lambda>w. StringColumnWrapper_new (buf w c))) liftM) (\<lambda>_. column_text E c))"

fun content_cells :: "ext \<Rightarrow> shellenv \<Rightarrow> nat \<Rightarrow> nat list \<Rightarrow> ('z, string list) xprog" where
  "content_cells X E t [] = returnM []"
| "content_cells X E t (i # is) =
     bindM (content_cell X E t i) (\<lambda>c. bindM (content_cells X E t is) (\<lambda>cs. returnM (c # cs)))"

fun content_rows :: "ext \<Rightarrow> shellenv \<Rightarrow> nat \<Rightarrow> nat \<Rightarrow> nat list \<Rightarrow> ('z, string list) xprog" where
  "content_rows X E 0 t is = fuelM"
| "content_rows X E (Suc n) t is = bindM (Table_select_op X t Next) (\<lambda>b.
     if b then bindM (content_cells X E t is) (\<lambda>cs.
            bindM (content_rows X E n t is) (\<lambda>ls. returnM (cells_line cs # ls)))
     else returnM [])"

definition GetTestTableContentLines ::
  "ext \<Rightarrow> shellenv \<Rightarrow> nat \<Rightarrow> nat \<Rightarrow> TableInfo \<Rightarrow> ('z, string list) xprog" where
  "GetTestTableContentLines X E n pDb ti =
     bindM (Table_of_info X (Some pDb) (EnumFlags_of AF_SELECT_WHERE) ti) (\<lambda>t. finallyM
       (thenM (Table_SetSql2BufferTypeMap t (Some CharSql2BufferMap))
       (thenM (Table_Open X n t (EnumFlags_of TOF_NONE))
       (bindM (getsM (\<lambda>w. GetColumnBufferIndexes (tabs w t))) (\<lambda>colIndexes.
        bindM (named_columns X t colIndexes) (\<lambda>qs.
        bindM (getsM (\<lambda>w. m_dbms (props w pDb))) (\<lambda>dbms.
        thenM (if dbms = MY_SQL \<and> boost_istarts_with E (ti_tableName ti) ''blobtypes''
               then bindM (liftM (TableInfo_GetQueryName ti)) (\<lambda>name. SelectBySqlStmt X t (blob_select X qs name))
               else Table_Select X t [] [])
        (bindM (content_rows X E n t colIndexes) (\<lambda>ls. returnM (cells_line (map fst qs) # ls)))))))))
       (Table_destroy X t))"

section \<open>The pages\<close>

definition page_error :: "ext \<Rightarrow> shellenv \<Rightarrow> string \<Rightarrow> string \<Rightarrow> exn \<Rightarrow> string" where
  "page_error X E what name ex = boost_format X
     (''[[span(style=color: #FF0000, **ERROR:**)]] Exeption catched while reading '' @ what @ '' of '%s': '%s'!'')
     [name, sh_text E ex]"

definition table_page :: "ext \<Rightarrow> shellenv \<Rightarrow> nat \<Rightarrow> nat \<Rightarrow> TableInfo \<Rightarrow> ('z, string list) xprog" where
  "table_page X E n pDb ti = bindM (liftM (TableInfo_GetQueryName ti)) (\<lambda>name.
     bindM (catchM (GetTestTableStructureLines X n pDb ti) (\<lambda>ex. returnM [page_error X E ''structure'' name ex])) (\<lambda>structureLines.
     bindM (if boost_iends_with E name ''_tmp'' then returnM []
            else bindM (catchM (GetTestTableContentLines X E n pDb ti) (\<lambda>ex. returnM [page_error X E ''content'' name ex]))
                   (\<lambda>contentLines. returnM (''=== Content ==='' # contentLines))) (\<lambda>contentLines.
     returnM ([boost_format X ''== %s =='' [name], ''=== Structure ===''] @ structureLines @ contentLines))))"

fun table_pages :: "ext \<Rightarrow> shellenv \<Rightarrow> nat \<Rightarrow> nat \<Rightarrow> TableInfo list \<Rightarrow> ('z, string list) xprog" where
  "table_pages X E n pDb [] = returnM []"
| "table_pages X E n pDb (ti # tis) =
     bindM (table_page X E n pDb ti) (\<lambda>ls. bindM (table_pages X E n pDb tis) (\<lambda>ls'. returnM (ls @ ls')))"

definition GetTestTableLines :: "ext \<Rightarrow> shellenv \<Rightarrow> nat \<Rightarrow> nat \<Rightarrow> ('z, string list) xprog" where
  "GetTestTableLines X E n pDb = pages_catalog pDb (\<lambda>a.
     bindM (getsM (\<lambda>w. m_dbms (props w pDb))) (\<lambda>dbms.
     bindM (if dbms = EXCEL then bindM (SearchTables_any X n a ''%'' []) (\<lambda>ts. returnM (ts, []))
            else find_test_tables X E n a testTableNames) (\<lambda>(tables, ls).
     bindM (table_pages X E n pDb tables) (\<lambda>ls'. returnM (ls @ ls')))))"

fun sequence_lines :: "('z, string list) xprog list \<Rightarrow> ('z, string list) xprog" where
  "sequence_lines [] = returnM []"
| "sequence_lines (m # ms) = bindM m (\<lambda>ls. bindM (sequence_lines ms) (\<lambda>ls'. returnM (ls @ ls')))"

definition page_lines :: "ext \<Rightarrow> shellenv \<Rightarrow> nat \<Rightarrow> TracMode \<Rightarrow> nat \<Rightarrow> ('z, string list) xprog" where
  "page_lines X E n mode pDb = sequence_lines
     ([GetHeaderLines X mode pDb, GetConnectionLines X pDb] @
      (if mode = TracDbInfo
       then [GetDbInfoLines X pDb IT_Driver, GetDbInfoLines X pDb IT_DataSource, GetDbInfoLines X pDb IT_DBMS,
             GetDbInfoLines X pDb IT_SqlLimits, GetDbInfoLines X pDb IT_SupportedSql, GetDbInfoLines X pDb IT_ScalarFunction,
             GetDbInfoLines X pDb IT_Conversion, returnM [''== Datatypes Information ==''], GetTypeLines X n pDb]
       else [GetTestTableLines X E n pDb]))"

text \<open>The handler for the file: without level and place, and with a level of its own.\<close>

definition page_handler :: "string \<Rightarrow> LogHandler" where
  "page_handler path =
     FileLogHandler (SetLogLevel LL_Output (SetShowFileInfo False (SetShowLogLevel False LogHandlerBase_new))) False path True False"

definition Trac_Execute :: "ext \<Rightarrow> shellenv \<Rightarrow> nat \<Rightarrow> TracMode \<Rightarrow> nat \<Rightarrow> string list \<Rightarrow> ('z, unit) xprog" where
  "Trac_Execute X E n mode pDb args = bindM (page_lines X E n mode pDb) (\<lambda>lines.
     if args = [] then forM lines (LOG E LL_Output)
     else thenM (LOG E LL_Info (boost_format X (''Writting all output for Trac to '%s'' @ quote) [hd args]))
       (bindM (on_log (new_handler (page_handler (hd args)))) (\<lambda>pFileLogger. seqM
         [on_log (RegisterLogHandler (Some pFileLogger)),
          forM lines (LOG E LL_Output),
          on_log (RemoveLogHandler (Some pFileLogger))])))"

definition AddEmptyLine :: "string list \<Rightarrow> string list" where
  "AddEmptyLine lines = lines @ [[]]"

end
