(* ===== verification/ExecShell.thy ===== *)
theory ExecShell
  imports ExecHelp ExecCatalog TracPages
begin

text \<open>
  \<open>ExodbcExec.h/.cpp\<close> and \<open>InputGenerator.h/.cpp\<close> of the sample program: the shell that reads a line, runs the command it
  names or executes it as SQL, and binds the columns of the result; its construction and destruction; the arguments of the
  program and \<open>main\<close>.

  \<open>n\<close> is the fuel of the loops inside a command, \<open>k\<close> that of the loop over the input.
\<close>

section \<open>Execute of any command\<close>

fun Execute :: "ext \<Rightarrow> shellenv \<Rightarrow> nat \<Rightarrow> Command \<Rightarrow> string list \<Rightarrow> ('z, unit) xprog" where
  "Execute X E n (ExecuteSql s) args = ExecuteSql_Execute X E s args"
| "Execute X E n Exit args = Exit_Execute"
| "Execute X E n (Select m s) args = Select_Execute X E m s"
| "Execute X E n (Commit d) args = Commit_Execute X d"
| "Execute X E n (Rollback d) args = Rollback_Execute X d"
| "Execute X E n (Help cs) args = Help_Execute X E cs"
| "Execute X E n (Print m s sep h r fx wd) args = Print_Execute X E n m s sep h r fx wd"
| "Execute X E n (DbInfo d) args = DbInfo_Execute X E d"
| "Execute X E n (ListCatalog m d h) args = ListCatalog_Execute X E n m d h"
| "Execute X E n (Find m d h r fx sep) args = Find_Execute X E n m d h r fx sep args"
| "Execute X E n (CreateTracPages m d) args = Trac_Execute X E n m d args"

section \<open>The table of commands\<close>

definition RegisterCommand :: "ext \<Rightarrow> Command \<Rightarrow> ('z, unit) xprog" where
  "RegisterCommand X c = thenM
     (forM (GetAliases c) (\<lambda>a. exASSERT ''m_commands.find(*it) == m_commands.end()''
        (\<lambda>w. map_of (xe_commands (shell w)) a = None)))
     (forM (GetAliases c) (\<lambda>a. mod_shell (\<lambda>x. x\<lparr>xe_commands := map_put a c (xe_commands x)\<rparr>)))"

definition GetCommand :: "(string \<times> Command) list \<Rightarrow> string \<Rightarrow> bool \<Rightarrow> (exn, Command option) res" where
  "GetCommand commands name includeHidden = assert_then ''!name.empty()'' (name \<noteq> [])
     (Ok (case map_of commands name of
        None \<Rightarrow> None
      | Some c \<Rightarrow> if \<not> Hidden c \<or> includeHidden then Some c else None))"

text \<open>The set of pointers is ordered by address, which only decides the order of commands of one name, of which there are none.\<close>

definition GetCommands :: "(string \<times> Command) list \<Rightarrow> Command list" where
  "GetCommands commands = remdups (filter (\<lambda>c. \<not> Hidden c) (map snd commands))"

section \<open>Construction and destruction\<close>

text \<open>The commands in the order in which the constructor registers them; \<open>Help\<close> follows.\<close>

definition shell_commands :: "nat \<Rightarrow> nat \<Rightarrow> string \<Rightarrow> bool \<Rightarrow> bool \<Rightarrow> bool \<Rightarrow> Command list" where
  "shell_commands pDb pStmt columnSeparator printNoHeader fixedPrintSize printRowNr =
     [ExecuteSql pStmt, Select SelFirst pStmt, Select SelLast pStmt, Select SelNext pStmt, Select SelPrev pStmt,
      Print CurrentRecord pStmt columnSeparator (\<not> printNoHeader) printRowNr fixedPrintSize 0,
      Print AllRecords pStmt columnSeparator (\<not> printNoHeader) printRowNr fixedPrintSize 0,
      Commit pDb, Rollback pDb, Exit, DbInfo pDb,
      ListCatalog TableTypes pDb (\<not> printNoHeader), ListCatalog Schemas pDb (\<not> printNoHeader),
      ListCatalog Catalogs pDb (\<not> printNoHeader),
      Find Short pDb (\<not> printNoHeader) printRowNr fixedPrintSize columnSeparator,
      Find Interactive pDb (\<not> printNoHeader) printRowNr fixedPrintSize columnSeparator,
      CreateTracPages TracDbInfo pDb, CreateTracPages TracTestTables pDb]"

definition register_commands :: "ext \<Rightarrow> Command list \<Rightarrow> ('z, unit) xprog" where
  "register_commands X cs = thenM (forM cs (RegisterCommand X))
     (bindM (getsM (\<lambda>w. Help_new (GetCommands (xe_commands (shell w))))) (RegisterCommand X))"

text \<open>
  The members go in the reverse order of their declaration: the commands and \<open>m_pStmt\<close>, which own the one statement
  together, the columns, and \<open>m_stmt\<close>.
\<close>

definition drop_columns :: "ext \<Rightarrow> ('z, unit) xprog" where
  "drop_columns X = bindM (getsM (\<lambda>w. xe_currentColumns (shell w))) (\<lambda>as.
     thenM (mod_shell (\<lambda>x. x\<lparr>xe_currentColumns := []\<rparr>)) (forM as (ColumnBindable_destroy X)))"

definition ExodbcExec_destroy :: "ext \<Rightarrow> ('z, unit) xprog" where
  "ExodbcExec_destroy X = seqM
     [mod_shell (\<lambda>x. x\<lparr>xe_commands := []\<rparr>),
      bindM (getsM (\<lambda>w. xe_pStmt (shell w))) (\<lambda>p. case p of None \<Rightarrow> skipM | Some s \<Rightarrow> Statement_destroy X s),
      drop_columns X,
      bindM (getsM (\<lambda>w. xe_stmt (shell w))) (Statement_destroy X)]"

text \<open>What is passed to \<open>Init\<close> of the statement as \<open>scrollableCursor\<close> is \<open>m_forwardOnlyCursors\<close>.\<close>

definition ExodbcExec_body :: "ext \<Rightarrow> ('z, unit) xprog" where
  "ExodbcExec_body X = thenM (exASSERT ''charColSize >= 0'' (\<lambda>w. xe_charColSize (shell w) \<ge> 0))
     (thenM (whenM (\<lambda>w. xe_charColumnMode (shell w) = CharAuto) (mod_shell (\<lambda>x. x\<lparr>xe_charColumnMode := CharMode\<rparr>)))
     (bindM (getsM shell) (\<lambda>x. thenM (Statement_Init X (xe_stmt x) (Some (xe_pDb x)) (xe_forwardOnlyCursors x))
       (bindM (Statement_of X (Some (xe_pDb x)) (xe_forwardOnlyCursors x)) (\<lambda>s.
          thenM (mod_shell (\<lambda>x. x\<lparr>xe_pStmt := Some s\<rparr>))
            (register_commands X (shell_commands (xe_pDb x) s (xe_columnSeparator x) (xe_printNoHeader x)
               (xe_fixedPrintSize x) (xe_printRowNr x))))))))"

definition ExodbcExec_new ::
  "ext \<Rightarrow> nat \<Rightarrow> bool \<Rightarrow> bool \<Rightarrow> string \<Rightarrow> bool \<Rightarrow> bool \<Rightarrow> bool \<Rightarrow> CharColumnMode \<Rightarrow> int \<Rightarrow> string \<Rightarrow> ('z, unit) xprog" where
  "ExodbcExec_new X pDb exitOnError forwardOnlyCursors columnSeparator printNoHeader fixedPrintSize printRowNr charColMode
     charColSize sqlSeparator = bindM Statement_new (\<lambda>s. thenM
       (mod_shell (\<lambda>_. \<lparr>xe_exitOnError = exitOnError, xe_pDb = pDb, xe_stmt = s, xe_forwardOnlyCursors = forwardOnlyCursors,
          xe_currentColumns = [], xe_columnSeparator = columnSeparator, xe_printNoHeader = printNoHeader,
          xe_fixedPrintSize = fixedPrintSize, xe_printRowNr = printRowNr, xe_charColumnMode = charColMode,
          xe_charColSize = charColSize, xe_sqlSeparator = sqlSeparator, xe_pStmt = None, xe_commands = [], xe_exitFlag = False\<rparr>))
       (catchM (ExodbcExec_body X) (\<lambda>ex. thenM (ExodbcExec_destroy X) (throwM ex))))"

section \<open>Binding the columns of a result\<close>

definition with_pStmt :: "(nat \<Rightarrow> ('z, 'a) xprog) \<Rightarrow> ('z, 'a) xprog" where
  "with_pStmt f = bindM (getsM (\<lambda>w. xe_pStmt (shell w))) (\<lambda>p. case p of None \<Rightarrow> undefM | Some s \<Rightarrow> f s)"

definition sqllen :: "int \<Rightarrow> int" where
  "sqllen i = (i + 2 ^ 63) mod 2 ^ 64 - 2 ^ 63"

definition shell_buffer_size :: "int \<Rightarrow> int \<Rightarrow> int" where
  "shell_buffer_size charColSize charSize = (if charColSize > 0 then sqllen (charColSize + 1) else sqllen (charSize + 3))"

definition column_kind :: "CharColumnMode \<Rightarrow> ColumnBufferKind" where
  "column_kind mode = (if mode = WCharMode then WCharColumnBuffer else CharColumnBuffer)"

text \<open>If binding throws, the pointer to the buffer goes out of scope.\<close>

definition bind_shell_column :: "ext \<Rightarrow> shellenv \<Rightarrow> nat \<Rightarrow> nat \<Rightarrow> ('z, unit) xprog" where
  "bind_shell_column X E s colNr = bindM (getsM shell) (\<lambda>x.
     bindM (DescribeColumn X s colNr) (\<lambda>colDesc.
     thenM (exASSERT ''m_charColumnMode != CharColumnMode::Auto'' (\<lambda>_. xe_charColumnMode x \<noteq> CharAuto))
     (let bufferSize = shell_buffer_size (xe_charColSize x) (cd_charSize colDesc); kind = column_kind (xe_charColumnMode x) in
      bindM (bindM (liftM (ColumnBuffer_array kind bufferSize (cd_name colDesc) (cd_sqlType colDesc) (EnumFlags_of CF_SELECT)))
               make_buffer) (\<lambda>a.
      catchM (seqM
        [LOG E LL_Debug (boost_format X
           ''Binding column nr %d: name: '%s'; charsize: %d; buffersize: %d; buffertype: %s''
           [show_nat colNr, cd_name colDesc, show_int (cd_charSize colDesc), show_int bufferSize,
            if kind = WCharColumnBuffer then ''SQLWCHAR'' else ''SQLCHAR'']),
         Statement_BindColumn X s a colNr,
         bindM (bindM (getsM (\<lambda>w. StringColumnWrapper_new (buf w a))) liftM) (\<lambda>_.
           mod_shell (\<lambda>x. x\<lparr>xe_currentColumns := xe_currentColumns x @ [a]\<rparr>))])
        (\<lambda>ex. thenM (ColumnBindable_destroy X a) (throwM ex))))))"

text \<open>
  The loop counts in a \<open>SQLSMALLINT\<close>: with as many columns as it can hold, the number after the last is negative and the
  loop goes on.
\<close>

definition BindColumns :: "ext \<Rightarrow> shellenv \<Rightarrow> ('z, unit) xprog" where
  "BindColumns X E = thenM (exASSERT ''m_currentColumns.empty()'' (\<lambda>w. xe_currentColumns (shell w) = []))
     (with_pStmt (\<lambda>s. bindM (GetNrOfColumns X s) (\<lambda>nrOfCols.
        if nrOfCols = 0 then LOG E LL_Warning ''No columns available in current result set.''
        else thenM (forM [1..<nat nrOfCols + 1] (bind_shell_column X E s))
               (if nrOfCols = SHRT_MAX then fuelM else skipM))))"

definition Shell_UnbindColumns :: "ext \<Rightarrow> shellenv \<Rightarrow> ('z, unit) xprog" where
  "Shell_UnbindColumns X E = bindM (getsM (\<lambda>w. length (xe_currentColumns (shell w)))) (\<lambda>k. seqM
     [LOG E LL_Debug (boost_format X ''Unbinding %d columns'' [show_nat k]),
      with_pStmt (UnbindColumns X),
      drop_columns X])"

section \<open>Run\<close>

text \<open>A line as a command: the first word behind the exclamation mark, and the other words.\<close>

definition parse_command ::
  "ext \<Rightarrow> shellenv \<Rightarrow> (string \<times> Command) list \<Rightarrow> string \<Rightarrow> (exn, Command option \<times> string list) res" where
  "parse_command X E commands input =
     (if boost_starts_with E input COMMAND_PREFIX
      then (case boost_split X (drop 1 input) (CHR '' '') of
              [] \<Rightarrow> Undef
            | cmd # args \<Rightarrow> res_bind (GetCommand commands cmd False) (\<lambda>c. Ok (c, args)))
      else Ok (None, []))"

definition execute_sql :: "ext \<Rightarrow> shellenv \<Rightarrow> nat \<Rightarrow> string \<Rightarrow> ('z, unit) xprog" where
  "execute_sql X E n input = thenM
     (if boost_starts_with E input ''!''
      then LOG E LL_Warning (boost_format X
             ''Input starts with '!', but is not recognized as a command, executing as SQL.'' [])
      else skipM)
     (bindM (bindM (getsM (\<lambda>w. GetCommand (xe_commands (shell w)) ExecuteSql_NAME True)) liftM) (\<lambda>c. case c of
        None \<Rightarrow> throwM (AssertionException ''pExec'')
      | Some pExec \<Rightarrow>
          thenM (whenM (\<lambda>w. xe_currentColumns (shell w) \<noteq> []) (Shell_UnbindColumns X E))
          (thenM (Execute X E n pExec [input])
          (bindM (with_pStmt (GetNrOfColumns X)) (\<lambda>nrOfCols. if nrOfCols > 0 then BindColumns X E else skipM)))))"

definition process_line :: "ext \<Rightarrow> shellenv \<Rightarrow> nat \<Rightarrow> string \<Rightarrow> ('z, unit) xprog" where
  "process_line X E n input =
     bindM (bindM (getsM (\<lambda>w. parse_command X E (xe_commands (shell w)) input)) liftM) (\<lambda>(c, args). case c of
       Some pCommand \<Rightarrow> Execute X E n pCommand args
     | None \<Rightarrow> execute_sql X E n input)"

text \<open>One round of the loop; \<open>Some\<close> is a value that \<open>Run\<close> returns at once.\<close>

definition run_line :: "ext \<Rightarrow> shellenv \<Rightarrow> nat \<Rightarrow> string \<Rightarrow> ('z, int option) xprog" where
  "run_line X E n input =
     (if input = [] then returnM None
      else catchM (thenM (process_line X E n input) (returnM None))
        (\<lambda>ex. if is_SqlResultException ex
              then bindM (getsM (\<lambda>w. xe_exitOnError (shell w))) (\<lambda>exitOnError.
                if exitOnError then thenM (LOG E LL_Error (sh_text E ex)) (returnM (Some 10))
                else thenM (LOG E LL_Warning (sh_text E ex)) (returnM None))
              else thenM (LOG E LL_Error (sh_text E ex)) (returnM (Some 20))))"

fun run_loop ::
  "ext \<Rightarrow> shellenv \<Rightarrow> nat \<Rightarrow> ('z, GetCommandResult \<times> string) xprog \<Rightarrow> nat \<Rightarrow> ('z, int) xprog" where
  "run_loop X E n getNext 0 = fuelM"
| "run_loop X E n getNext (Suc k) =
     bindM getNext (\<lambda>(getCmdResult, input).
     bindM (run_line X E n input) (\<lambda>r. case r of
       Some code \<Rightarrow> returnM code
     | None \<Rightarrow> ifM (\<lambda>w. getCmdResult = HAVE_COMMAND \<and> \<not> xe_exitFlag (shell w)) (run_loop X E n getNext k) (returnM 0)))"

definition Run ::
  "ext \<Rightarrow> shellenv \<Rightarrow> nat \<Rightarrow> nat \<Rightarrow> ('z, GetCommandResult \<times> string) xprog \<Rightarrow> ('z, int) xprog" where
  "Run X E n k pInGen = thenM
     (LOG E LL_Info (boost_format X ''Ready to execute SQL. Type '!exit' to exit, or '!help' for help.'' []))
     (run_loop X E n pInGen k)"

end
