(* ===== verification/ExecMain.thy ===== *)
theory ExecMain
  imports ExecShell
begin

text \<open>
  \<open>main\<close> of the sample program (\<open>ExodbcExec.cpp\<close>): the usage text, the arguments, connecting, and running the shell.

  The handler it registers has the member \<open>m_hasCustomLogLevel\<close> that no constructor initialises; \<open>indeterminate\<close> is the value
  it happens to have (\<open>None\<close>: reading it is undefined, which is what the standard says).
\<close>

section \<open>Usage\<close>

definition usage_lines :: "string list" where
  "usage_lines =
     [''Usage: exodbcexec  [OPTION]... [-DSN <dsn> [-U <user>] [-P <pass>] | -CS <connectionString>] '',
      [],
      ''Opens a connection to a database to execute SQL against the database.'',
      ''Requires a Data Source Name (DSN) or Connection String (CS) to connect.'',
      ''A DSN or a CS must be passed as arguments. If no argument '-DSN' or '-CS' is'',
      ''passed or invalid arguments are passed, 2 is returned.'',
      [],
      ''To connect using a DSN use the arguments:'',
      '' -DSN      <dsn>         Data Source Name'',
      '' -U        <user>        Username. Optional.'',
      '' -P        <pass>        Password. Optional.'',
      [],
      ''To connect using a CS use the argument:'',
      '' -CS       <cs>          Connection String'',
      [],
      ''OPTION can be:'',
      '' --addRowNr              When printing column values, add a column in front'',
      ''                         that prints the row number. Default is false.'',
      '' --autoCommitOn          Enable auto commit. Default is to commit manual.'',
      '' --charColType    <type> The SQL C Type of the column buffers to create.'',
      ''                         Must be either 'SQLCHAR' or 'SQLWCHAR'.'',
      ''                         Default is to use 'SQLWCHAR' on windows and'',
      ''                         'SQLCHAR' else.'',
      '' --charColSize    <size> The size in number of characters for the column'',
      ''                         buffers to create for data exchange. If not set'',
      ''                         or set to 0, the database is queried about the size'',
      ''                         of a column before corresponding buffers are'',
      ''                         created.'',
      '' --columnSeparator <str> Character or String displayed to separate values'',
      ''                         of different columns when printing column data.'',
      ''                         Default is '||'.'',
      '' --exitOnError           Exits with a non-zero status if SQL execution'',
      ''                         fails or any SQL related call fails. Default is to'',
      ''                         log a warning and continue.'',
      '' --fixedPrintSize        When printing column values, format them with a'',
      ''                         fixed size. The print size of the field is equal'',
      ''                         to the number of characters that the corresponding'',
      ''                         buffer holds.'',
      '' --forwardOnlyCursors    Disables the commands '!prev', '!first' and'',
      ''                         '!last'. Only '!next' can be used to iterate'',
      ''                         records. If not set, positionable cursors are'',
      ''                         enabled by default.'',
      '' --help                  Show this text and return with -1.'',
      '' --logLevel <level>      Set the Log Level. <level> can be 'Debug', Info','',
      ''                         'Output', 'Warning' or 'Error'. Default is 'Info'.'',
      ''                         On 'Output', only results from queries and warnings'',
      ''                         or errors are printed.'',
      '' --noHeader              Do not add a header row with column names when'',
      ''                         printing column data. Default is to add a header'',
      '' --odbcVersion <version> Set ODBC Version to use. Valid values are '2', '3'' @ quote,
      ''                         or '3.8'. Default is '3'.'',
      '' --silent                Hides all output, except '!help'.'',
      '' --sqlSeparator    <str> Character or String to separate SQL commands.'',
      ''                         If set, every SQL command is tokenized using the'',
      ''                         passed <str> as delimiter. Each token is then'',
      ''                         executed in its own SQLExecute call.'',
      ''                         Defaults to not set.'',
      ''                         Note: If one query fails, query execution is'',
      ''                         aborted.'']"

definition printUsage :: "('z, unit) xprog" where
  "printUsage = forM usage_lines WRITE_STDOUT_ENDL"

section \<open>Arguments\<close>

record MainArgs =
  ma_user :: string
  ma_pass :: string
  ma_dsn :: string
  ma_cs :: string
  ma_columnSeparator :: string
  ma_sqlSeparator :: string
  ma_silent :: bool
  ma_exitOnError :: bool
  ma_forwardOnlyCursors :: bool
  ma_autoCommit :: bool
  ma_noHeader :: bool
  ma_fixedPrintSize :: bool
  ma_addRowNr :: bool
  ma_forceCharCols :: bool
  ma_forceWCharCols :: bool
  ma_enableUtf16TextMode :: bool
  ma_charColSize :: int
  ma_odbcVersion :: OdbcVersion

definition MainArgs_default :: MainArgs where
  "MainArgs_default = \<lparr>ma_user = [], ma_pass = [], ma_dsn = [], ma_cs = [], ma_columnSeparator = ''||'',
     ma_sqlSeparator = [], ma_silent = False, ma_exitOnError = False, ma_forwardOnlyCursors = False, ma_autoCommit = False,
     ma_noHeader = False, ma_fixedPrintSize = False, ma_addRowNr = False, ma_forceCharCols = False, ma_forceWCharCols = False,
     ma_enableUtf16TextMode = False, ma_charColSize = 0, ma_odbcVersion = V_3\<rparr>"

text \<open>
  The body of the loop is a sequence of \<open>if\<close>s: a key, whether an argument must follow, and what is done with it. The result
  is a return code (\<open>Inl\<close>) or the arguments so far (\<open>Inr\<close>). An argument that is the value of the one before is looked at
  like any other.
\<close>

type_synonym 'z arg_action = "string \<Rightarrow> MainArgs \<Rightarrow> ('z, int + MainArgs) xprog"

definition set_arg :: "(string \<Rightarrow> MainArgs \<Rightarrow> MainArgs) \<Rightarrow> 'z arg_action" where
  "set_arg f = (\<lambda>v m. returnM (Inr (f v m)))"

definition arg_charColSize :: "ext \<Rightarrow> shellenv \<Rightarrow> 'z arg_action" where
  "arg_charColSize X E = (\<lambda>v m.
     let n = (case boost_lexical_int E v of None \<Rightarrow> - 1 | Some i \<Rightarrow> i) in
     if n < 0 then thenM (WRITE_STDOUT_ENDL (boost_format X (''Invalid charColSize value '%s'' @ quote @ ''.'') [v])) (returnM (Inl 2))
     else returnM (Inr (m\<lparr>ma_charColSize := n\<rparr>)))"

definition arg_charColType :: "ext \<Rightarrow> 'z arg_action" where
  "arg_charColType X = (\<lambda>v m.
     if boost_iequals X ''SQLCHAR'' v then returnM (Inr (m\<lparr>ma_forceCharCols := True\<rparr>))
     else if boost_iequals X ''SQLWCHAR'' v then returnM (Inr (m\<lparr>ma_forceWCharCols := True\<rparr>))
     else thenM (WRITE_STDERR_ENDL (boost_format X (''Unknown charColType '%s'' @ quote @ ''.'') [v])) (returnM (Inl 2)))"

definition arg_odbcVersion :: "ext \<Rightarrow> 'z arg_action" where
  "arg_odbcVersion X = (\<lambda>v m.
     if boost_iequals X ''2'' v then returnM (Inr (m\<lparr>ma_odbcVersion := V_2\<rparr>))
     else if boost_iequals X ''3'' v then returnM (Inr (m\<lparr>ma_odbcVersion := V_3\<rparr>))
     else if boost_iequals X ''3.8'' v then returnM (Inr (m\<lparr>ma_odbcVersion := V_3_8\<rparr>))
     else thenM (WRITE_STDERR_ENDL (boost_format X (''Unknown OdvcVersion '%s'' @ quote @ ''.'') [v])) (returnM (Inl 2)))"

definition arg_logLevel :: "ext \<Rightarrow> shellenv \<Rightarrow> 'z arg_action" where
  "arg_logLevel X E = (\<lambda>v m.
     let level = (\<lambda>l. thenM (on_log (SetGlobalLogLevel l)) (returnM (Inr m))) in
     if boost_iequals X v ''Debug'' then level LL_Debug
     else if boost_iequals X v ''Info'' then level LL_Info
     else if boost_iequals X v ''Output'' then level LL_Output
     else if boost_iequals X v ''Warning'' then level LL_Warning
     else if boost_iequals X v ''Error'' then level LL_Error
     else thenM (LOG E LL_Error (boost_format X (''Unknown Log Level '%s'' @ quote @ ''.'') [v])) (returnM (Inl 2)))"

definition options :: "ext \<Rightarrow> shellenv \<Rightarrow> (string \<times> bool \<times> 'z arg_action) list" where
  "options X E =
     [(''--help'', False, \<lambda>v m. thenM printUsage (returnM (Inl (- 1)))),
      (''-U'', True, set_arg (\<lambda>v m. m\<lparr>ma_user := v\<rparr>)),
      (''-P'', True, set_arg (\<lambda>v m. m\<lparr>ma_pass := v\<rparr>)),
      (''-DSN'', True, set_arg (\<lambda>v m. m\<lparr>ma_dsn := v\<rparr>)),
      (''-CS'', True, set_arg (\<lambda>v m. m\<lparr>ma_cs := v\<rparr>)),
      (''--columnSeparator'', True, set_arg (\<lambda>v m. m\<lparr>ma_columnSeparator := v\<rparr>)),
      (''--sqlSeparator'', True, set_arg (\<lambda>v m. m\<lparr>ma_sqlSeparator := v\<rparr>)),
      (''--charColSize'', True, arg_charColSize X E),
      (''--charColType'', True, arg_charColType X),
      (''--autoCommitOn'', False, set_arg (\<lambda>v m. m\<lparr>ma_autoCommit := True\<rparr>)),
      (''--enableUtf16TextMode'', False, set_arg (\<lambda>v m. m\<lparr>ma_enableUtf16TextMode := True\<rparr>)),
      (''--fixedPrintSize'', False, set_arg (\<lambda>v m. m\<lparr>ma_fixedPrintSize := True\<rparr>)),
      (''--addRowNr'', False, set_arg (\<lambda>v m. m\<lparr>ma_addRowNr := True\<rparr>)),
      (''--silent'', False, set_arg (\<lambda>v m. m\<lparr>ma_silent := True\<rparr>)),
      (''--noHeader'', False, set_arg (\<lambda>v m. m\<lparr>ma_noHeader := True\<rparr>)),
      (''--forwardOnlyCursors'', False, set_arg (\<lambda>v m. m\<lparr>ma_forwardOnlyCursors := True\<rparr>)),
      (''--exitOnError'', False, set_arg (\<lambda>v m. m\<lparr>ma_exitOnError := True\<rparr>)),
      (''--odbcVersion'', True, arg_odbcVersion X),
      (''--logLevel'', True, arg_logLevel X E)]"

fun apply_options ::
  "shellenv \<Rightarrow> string \<Rightarrow> string option \<Rightarrow> (string \<times> bool \<times> 'z arg_action) list \<Rightarrow> MainArgs \<Rightarrow> ('z, int + MainArgs) xprog" where
  "apply_options E arg argNext [] m = returnM (Inr m)"
| "apply_options E arg argNext ((key, needsNext, act) # opts) m =
     (if boost_equals E arg key \<and> (needsNext \<longrightarrow> argNext \<noteq> None)
      then bindM (act (case argNext of None \<Rightarrow> [] | Some v \<Rightarrow> v) m) (\<lambda>r. case r of
             Inl code \<Rightarrow> returnM (Inl code)
           | Inr m' \<Rightarrow> apply_options E arg argNext opts m')
      else apply_options E arg argNext opts m)"

fun parse_args :: "ext \<Rightarrow> shellenv \<Rightarrow> string list \<Rightarrow> MainArgs \<Rightarrow> ('z, int + MainArgs) xprog" where
  "parse_args X E [] m = returnM (Inr m)"
| "parse_args X E (arg # argv) m =
     bindM (apply_options E arg (case argv of [] \<Rightarrow> None | v # _ \<Rightarrow> Some v) (options X E) m) (\<lambda>r. case r of
       Inl code \<Rightarrow> returnM (Inl code)
     | Inr m' \<Rightarrow> parse_args X E argv m')"

section \<open>main\<close>

definition main_handler :: "bool option \<Rightarrow> LogHandler" where
  "main_handler indeterminate =
     StdLogHandler ((SetHideLogLevel LL_Output (SetHideLogLevel LL_Info (SetShowFileInfo False LogHandlerBase_new)))
       \<lparr>lh_hasCustomLogLevel := indeterminate\<rparr>) False False"

definition char_mode :: "MainArgs \<Rightarrow> CharColumnMode" where
  "char_mode m = (if ma_forceCharCols m then CharMode else if ma_forceWCharCols m then WCharMode else CharAuto)"

definition run_shell :: "ext \<Rightarrow> shellenv \<Rightarrow> nat \<Rightarrow> nat \<Rightarrow> nat \<Rightarrow> MainArgs \<Rightarrow> ('z, int) xprog" where
  "run_shell X E n k pDb m = thenM
     (ExodbcExec_new X pDb (ma_exitOnError m) (ma_forwardOnlyCursors m) (ma_columnSeparator m) (ma_noHeader m)
        (ma_fixedPrintSize m) (ma_addRowNr m) (char_mode m) (ma_charColSize m) (ma_sqlSeparator m))
     (finallyM (Run X E n k (GetNextCommand E)) (ExodbcExec_destroy X))"

definition connect_and_run :: "ext \<Rightarrow> shellenv \<Rightarrow> nat \<Rightarrow> nat \<Rightarrow> nat \<Rightarrow> MainArgs \<Rightarrow> ('z, int) xprog" where
  "connect_and_run X E n k pDb m = thenM
     (if ma_cs m \<noteq> []
      then thenM (LOG E LL_Info (boost_format X (''Trying to connect using Connection String '%s'' @ quote @ '' ..'') [ma_cs m]))
             (bindM (Open_connectionString X n pDb (ma_cs m) False) (\<lambda>_. skipM))
      else thenM (LOG E LL_Info (boost_format X (''Trying to connect using DSN '%s', User '%s' and Password '%s'' @ quote @ '' ..'')
               [ma_dsn m, ma_user m, ma_pass m]))
             (Open_dsn X n pDb (ma_dsn m) (ma_user m) (ma_pass m)))
     (bindM (getsM (\<lambda>w. props w pDb)) (\<lambda>ps.
      bindM (liftM (GetDbmsName ps)) (\<lambda>dbmsName. bindM (liftM (GetDriverName ps)) (\<lambda>driverName.
      thenM (LOG E LL_Info (boost_format X (''Successfully connected to database system '%s' using driver '%s'' @ quote @ ''.'')
        [dbmsName, driverName]))
      (thenM (if ma_autoCommit m
              then seqM [LOG E LL_Info ''Enabling auto commit ..'', SetCommitMode X pDb AUTO, LOG E LL_Info ''auto commit is on.'']
              else skipM)
        (run_shell X E n k pDb m))))))"

definition with_environment :: "ext \<Rightarrow> shellenv \<Rightarrow> nat \<Rightarrow> nat \<Rightarrow> MainArgs \<Rightarrow> ('z, int) xprog" where
  "with_environment X E n k m = bindM (Environment_of X (ma_odbcVersion m)) (\<lambda>pEnv. finallyM
     (bindM (Database_of X (Some pEnv)) (\<lambda>pDb. finallyM (connect_and_run X E n k pDb m) (Database_destroy X pDb)))
     (Environment_destroy X pEnv))"

definition main_body :: "ext \<Rightarrow> shellenv \<Rightarrow> bool option \<Rightarrow> nat \<Rightarrow> nat \<Rightarrow> string list \<Rightarrow> ('z, int) xprog" where
  "main_body X E indeterminate n k argv =
     bindM (on_log (new_handler (main_handler indeterminate))) (\<lambda>h.
     thenM (on_log ClearLogHandlers)
     (thenM (on_log (RegisterLogHandler (Some h)))
     (bindM (parse_args X E argv MainArgs_default) (\<lambda>r. case r of
        Inl code \<Rightarrow> returnM code
      | Inr m \<Rightarrow>
          if ma_dsn m = [] \<and> ma_cs m = [] \<or> ma_dsn m \<noteq> [] \<and> ma_cs m \<noteq> []
          then thenM (LOG E LL_Error ''Must use either '-CS' or '-DSN [-U <user>] [-P <pass>]', cannot use both.'') (returnM 2)
          else thenM (if ma_silent m then on_log (SetGlobalLogLevel LL_None) else skipM) (with_environment X E n k m)))))"

definition exodbcexec_main :: "ext \<Rightarrow> shellenv \<Rightarrow> bool option \<Rightarrow> nat \<Rightarrow> nat \<Rightarrow> string list \<Rightarrow> ('z, int) xprog" where
  "exodbcexec_main X E indeterminate n k argv =
     (if length argv \<le> 1 then thenM printUsage (returnM 2)
      else catchM (main_body X E indeterminate n k argv)
        (\<lambda>ex. thenM (LOG E LL_Error (sh_text E ex)) (returnM 1)))"

end
