(* ===== verification/ExecHalt.thy ===== *)
theory ExecHalt
  imports ExecMain TableOpen
begin

text \<open>
  Which operations of the shell of the sample program come to an end, whatever the driver answers: a calculus \<open>stops\<close> with
  its rules in the collection \<open>halt\<close>, the operations of the library that the commands use, the commands without a loop
  that waits for the driver, and what every command leaves as it is (\<open>outside\<close>).
\<close>

named_theorems halt "programs that come to an end"

definition stops :: "('e, 's, 'a) prog \<Rightarrow> bool" where
  "stops m \<longleftrightarrow> (\<forall>w. fst (m w) \<noteq> OutOfFuel)"

lemma stops_fst: "stops m \<Longrightarrow> fst (m w) \<noteq> OutOfFuel"
  by (simp add: stops_def)

section \<open>The calculus\<close>

lemma stopsD: "stops m \<Longrightarrow> m w = (r, w') \<Longrightarrow> r \<noteq> OutOfFuel"
  unfolding stops_def by (metis fst_conv)

lemma stops_simple [halt]:
  "stops (returnM x)" "stops (throwM e)" "stops undefM" "stops (getsM g)" "stops skipM" "stops (modifyM h)"
  "stops (exASSERT s c)" "stops (throw_handle X fn ret ht hh)"
  by (simp_all add: stops_def)

lemma stops_liftM [halt]: "r \<noteq> OutOfFuel \<Longrightarrow> stops (liftM r)"
  by (simp add: stops_def)

lemma stops_bindM_value:
  assumes "stops m" and "\<And>w x w'. m w = (Ok x, w') \<Longrightarrow> stops (g x)"
  shows "stops (bindM m g)"
  unfolding stops_def
proof
  fix w
  obtain r w' where "m w = (r, w')" by (cases "m w")
  with stopsD[OF assms(1) this] show "fst (bindM m g w) \<noteq> OutOfFuel"
    using assms(2) by (cases r) (simp_all add: bindM_exec stops_fst)
qed

lemma stops_bindM [halt]: "stops m \<Longrightarrow> (\<And>x. stops (g x)) \<Longrightarrow> stops (bindM m g)"
  by (rule stops_bindM_value)

lemma stops_read [halt]: "(\<And>w. g w \<noteq> OutOfFuel) \<Longrightarrow> stops (bindM (getsM g) liftM)"
  by (simp add: stops_def)

lemma stops_thenM [halt]: "stops m \<Longrightarrow> stops n \<Longrightarrow> stops (thenM m n)"
  by (simp add: thenM_def stops_bindM)

lemma stops_catchM [halt]:
  assumes "stops m" and "\<And>e. stops (h e)"
  shows "stops (catchM m h)"
  unfolding stops_def
proof
  fix w
  obtain r w' where "m w = (r, w')" by (cases "m w")
  with assms stopsD[OF assms(1) this] show "fst (catchM m h w) \<noteq> OutOfFuel"
    by (cases r) (simp_all add: catchM_exec stops_fst)
qed

lemma stops_finallyM [halt]:
  assumes "stops m" and "stops d"
  shows "stops (finallyM m d)"
  unfolding stops_def
proof
  fix w
  obtain r w' where "m w = (r, w')" by (cases "m w")
  with assms stopsD[OF assms(1) this] show "fst (finallyM m d w) \<noteq> OutOfFuel"
    by (cases r) (simp_all add: finallyM_def stops_fst stops_thenM stops_simple)
qed

lemma stops_tryM [halt]: "stops m \<Longrightarrow> stops (tryM m)"
  by (simp add: tryM_def halt)

lemma stops_noexceptM [halt]: "stops m \<Longrightarrow> stops (noexceptM m)"
  by (simp add: noexceptM_def halt)

lemma stops_ifM [halt]: "stops m \<Longrightarrow> stops n \<Longrightarrow> stops (ifM c m n)"
  by (simp add: stops_def)

lemma stops_whenM [halt]: "stops m \<Longrightarrow> stops (whenM c m)"
  by (simp add: stops_def)

lemma stops_seqM [halt]: "stops (seqM [])" "stops m \<Longrightarrow> stops (seqM ms) \<Longrightarrow> stops (seqM (m # ms))"
  by (simp_all add: halt)

lemma stops_forM [halt]: "(\<And>x. stops (g x)) \<Longrightarrow> stops (forM xs g)"
  by (induction xs) (auto intro: halt)

lemma stops_if [halt]: "(c \<Longrightarrow> stops m) \<Longrightarrow> (\<not> c \<Longrightarrow> stops n) \<Longrightarrow> stops (if c then m else n)"
  by simp

lemma stops_option [halt]: "stops m \<Longrightarrow> (\<And>x. stops (g x)) \<Longrightarrow> stops (case v of None \<Rightarrow> m | Some x \<Rightarrow> g x)"
  by (cases v) simp_all

lemma stops_prod [halt]: "(\<And>x y. stops (g x y)) \<Longrightarrow> stops (case v of (x, y) \<Rightarrow> g x y)"
  by (cases v) simp

section \<open>Handles, buffers and statements\<close>

lemma stops_prims [halt]:
  "stops (odbc X c)" "stops (mod_hnd p f)" "stops (mod_bnd b g)" "stops new_address" "stops (mod_stm s k)"
  "stops (mod_props d j)" "stops (receive_row X)" "stops (mod_shell u)"
  "stops (THROW_IFN_SUCCEEDED X fn ret ht hh)" "stops (THROW_IFN_SUCCESS X fn ret ht hh)"
  by (simp_all add: stops_def mod_props_def THROW_IFN_SUCCEEDED_def THROW_IFN_SUCCESS_def)

lemma stops_fire [halt]: "(\<And>b. stops (s b)) \<Longrightarrow> stops (fire X sig s p)"
  unfolding fire_def by (intro halt)

lemma stops_slots [halt]:
  "(\<And>q. stops (rel q)) \<Longrightarrow> stops (OnResetParams rel p b)"
  "(\<And>q. stops (rel q)) \<Longrightarrow> stops (OnUnbindColumns rel p b)"
  unfolding OnResetParams_def OnUnbindColumns_def disconnect_reset_def disconnect_unbind_def
  by (intro halt; assumption)+

lemma stops_Free_body [halt]: "(\<And>q. stops (relp q)) \<Longrightarrow> stops (Free_body X l relp p)"
  unfolding Free_body_def Let_def by (intro halt; assumption)

lemma stops_release_body [halt]: "(\<And>q. stops (relp q)) \<Longrightarrow> stops (release_body X l relp p)"
  unfolding release_body_def by (intro halt; assumption)

lemma stops_release [halt]: "stops (SqlHandle_release X l p)"
  by (induction l arbitrary: p) (auto intro: halt)

lemma stops_handle_ops [halt]:
  "stops (shared_copy p)" "stops (SqlHandle_ResetParams X l p)" "stops (SqlHandle_UnbindColumns X l p)"
  "stops (ConnectUnbindColumnsSignal p b)" "stops (SqlDescHandle_new X v t)"
  "stops (SetDescriptionField_desc X d r fld val)" "stops (CloseStmtHandle X v m)"
  unfolding shared_copy_def SqlHandle_ResetParams_def SqlHandle_UnbindColumns_def ConnectUnbindColumnsSignal_def
    SqlDescHandle_new_def SetDescriptionField_desc_def SetDescriptionField_def CloseStmtHandle_def
  by (intro halt)+

lemma stops_destroy [halt]: "stops (ColumnBindable_destroy X c)"
  unfolding ColumnBindable_destroy_def destroy_loop_def disconnect_reset_def disconnect_unbind_def by (intro halt)

lemma stops_BindColumn [halt]: "stops (BindColumn X c nr v)"
  unfolding BindColumn_def BindColumn_numeric_def BindColumnImpl_def set_fields_def connect_unbind_def by (intro halt)

lemma stops_on_buf [halt]: "stops m \<Longrightarrow> stops (on_buf a m)"
  unfolding stops_def on_buf_def by (metis (no_types, lifting) case_prod_beta fst_conv)

lemma stops_make_buffer [halt]: "stops (make_buffer b)"
  unfolding make_buffer_def by (intro halt)

lemma stops_hstmt [halt]:
  "(\<And>p. stops (f p)) \<Longrightarrow> stops (with_ptr s f)" "(\<And>p. stops (f p)) \<Longrightarrow> stops (with_hstmt s f)"
  "(\<And>p. stops (f p)) \<Longrightarrow> stops (with_db s f)" "(\<And>p. stops (f p)) \<Longrightarrow> stops (deref_hstmt s f)"
  "stops (call_hstmt X fn q call)"
  unfolding with_ptr_def with_hstmt_def with_db_def deref_hstmt_def call_hstmt_def by (intro halt; assumption)+

lemma get_ends: "get_USmallInt v \<noteq> OutOfFuel"
  by (cases v) simp_all

lemma res_ends: "GetMaxColumnNameLen ps \<noteq> OutOfFuel" "GetQueryName b \<noteq> OutOfFuel" "StringColumnWrapper_new b \<noteq> OutOfFuel"
  "ColumnBuffer_array k n q t flags \<noteq> OutOfFuel" "GetCommand cs name h \<noteq> OutOfFuel"
  by (auto simp: GetMaxColumnNameLen_def positive_or_def GetUSmallInt_def GetProperty_def get_ends GetQueryName_def StringColumnWrapper_new_def
      assert_then_def ColumnBuffer_array_def GetCommand_def Let_def split: res.split option.splits)

lemma stops_cursor [halt]:
  "stops (fetched_reply X fn h r)" "stops (SelectNext X s)" "stops (SelectFetchScroll X s o' k)" "stops (SelectClose X s)"
  "stops (ExecuteDirect X s sql)" "stops (GetNrOfColumns X s)" "stops (DescribeColumn X s nr)"
  "stops (Statement_BindColumn X s c nr)" "stops (UnbindColumns X s)"
  unfolding fetched_reply_def SelectNext_def SelectFetchScroll_def SelectClose_def ExecuteDirect_def GetNrOfColumns_def
    DescribeColumn_def ColumnDescription_query_def row_asserts_def Statement_BindColumn_def UnbindColumns_def
  by (intro halt res_ends)+

lemma stops_transactions [halt]: "stops (CommitTrans X d)" "stops (RollbackTrans X d)"
  unfolding CommitTrans_def RollbackTrans_def dbc_allocated_def with_hdbc_def by (intro halt)+

section \<open>The log\<close>

lemma stops_on_log: "stops m \<Longrightarrow> stops (on_log m)"
  by (simp add: stops_def on_log_def split: prod.split) (metis fst_conv)

lemma stops_LogMessage: "stops (LogMessage L level msg file line func)"
proof -
  have h: "CustomLogLevelHidesMsg b level \<noteq> OutOfFuel" for b
    by (simp add: CustomLogLevelHidesMsg_def split: option.split bool.split)
  have "stops (OnLogMessage L a level msg file line func)" for a
    unfolding OnLogMessage_def
  proof (intro halt)
    fix x
    show "stops (case x of
        StdLogHandler b e out \<Rightarrow> StdLogHandler_OnLogMessage b e out level msg file line func
      | NullLogHandler b \<Rightarrow> skipM
      | FileLogHandler b ts path first isOpen \<Rightarrow>
          FileLogHandler_OnLogMessage L a b ts path first isOpen level msg file line func)"
      by (cases x) (auto simp: StdLogHandler_OnLogMessage_def FileLogHandler_OnLogMessage_def WriteStdErr_def WriteStdOut_def
          append_file_def open_logfile_def set_handler_def Let_def intro!: halt h)
  qed
  then show ?thesis unfolding LogMessage_def by (intro halt)
qed

lemma stops_LOG [halt]: "stops (LOG E level msg)" "stops (WRITE_STDOUT_ENDL msg)" "stops (WRITE_STDERR_ENDL msg)"
  unfolding LOG_def WRITE_STDOUT_ENDL_def WRITE_STDERR_ENDL_def WriteStdOut_def WriteStdErr_def
  by (intro stops_on_log stops_LogMessage halt)+

section \<open>The shell\<close>

text \<open>
  What is assumed of the code outside: reading a wide column comes to an end, and no result has as many columns as
  \<open>BindColumns\<close> cannot count (with 32767 its loop does not end).
\<close>

definition shell_env :: "ext \<Rightarrow> shellenv \<Rightarrow> bool" where
  "shell_env X E \<longleftrightarrow> (\<forall>cs h. onum (driver X (SQLNumResultCols h # cs)) \<noteq> SHRT_MAX)"

text \<open>The commands without a loop that waits for the driver.\<close>

fun loop_free :: "Command \<Rightarrow> bool" where
  "loop_free (Print AllRecords s sep h r fx wd) = False"
| "loop_free (DbInfo d) = False"
| "loop_free (ListCatalog m d h) = False"
| "loop_free (Find m d h r fx sep) = False"
| "loop_free (CreateTracPages m d) = False"
| "loop_free c = True"

lemma cells_end: "print_cell X fx b s \<noteq> OutOfFuel" "header_cells X fx bs \<noteq> OutOfFuel" "command_lines X E c k \<noteq> OutOfFuel"
proof -
  show c: "print_cell X fx b s \<noteq> OutOfFuel" for b s
    by (auto simp: print_cell_def res_bind_def assert_then_def GetQueryName_def Let_def split: res.splits if_splits)
  show "header_cells X fx bs \<noteq> OutOfFuel"
    by (induction bs) (use c in \<open>auto simp: res_bind_def GetQueryName_def split: res.splits if_splits\<close>)
  show "command_lines X E c k \<noteq> OutOfFuel"
    by (simp add: command_lines_def assert_then_def Let_def)
qed

lemma stops_GetString [halt]: "stops GetString"
  unfolding GetString_def throw_if_null_def by (intro halt res_ends)

lemma stops_GetWString [halt]: "stops GetWString"
  unfolding GetWString_def throw_if_null_def by (intro halt res_ends)

lemma stops_commands [halt]:
  shows "stops (ExecuteSql_Execute X E s args)" and "stops Exit_Execute" and "stops (Select_Execute X E m s)"
    and "stops (Commit_Execute X d)" and "stops (Rollback_Execute X d)" and "stops (Help_Execute X E cs)"
    and "stops (Print_Execute X E n CurrentRecord s sep h r fx wd)"
proof -
  show "stops (ExecuteSql_Execute X E s args)"
    unfolding ExecuteSql_Execute_def ExecuteTimed_def by (intro halt)
  show "stops Exit_Execute" unfolding Exit_Execute_def by (intro halt)
  show "stops (Select_Execute X E m s)"
    unfolding Select_Execute_def by (cases m) (simp_all, auto simp: SelectFirst_def SelectLast_def SelectPrev_def intro!: halt)
  show "stops (Commit_Execute X d)" "stops (Rollback_Execute X d)"
    unfolding Commit_Execute_def Rollback_Execute_def by (intro halt)+
  show "stops (Help_Execute X E cs)"
    unfolding Help_Execute_def Help_WriteText_def Help_WriteCommand_def by (intro halt cells_end)
  have t: "stops (column_text E a)" for a
    unfolding column_text_def StringColumnWrapper_GetValue_def StringColumnWrapper_access_def bad_get_def
    by (intro halt conversions_never_stick)
  have c: "stops (record_cells X E fx as)" for as
  proof (induction as)
    case (Cons a as)
    then show ?case unfolding record_cells.simps by (intro stops_read halt cells_end t)
  qed (unfold record_cells.simps, intro halt)
  have "stops (GetRecordRow X E sep r fx wd 1)"
    unfolding GetRecordRow_def CurrentRecordToString_def by (intro halt c)
  moreover have "stops (GetHeaderRows X sep r fx wd)"
    unfolding GetHeaderRows_def GetHeaderRow_def by (intro halt cells_end)
  ultimately show "stops (Print_Execute X E n CurrentRecord s sep h r fx wd)"
    unfolding Print_Execute_def Let_def by (auto intro!: halt)
qed


lemma stops_with_pStmt [halt]: "(\<And>s. stops (f s)) \<Longrightarrow> stops (with_pStmt f)"
  unfolding with_pStmt_def by (intro halt)

lemma stops_bind_shell_column [halt]: "stops (bind_shell_column X E s nr)"
  unfolding bind_shell_column_def Let_def by (intro stops_read halt res_ends)

lemma stops_drop_columns [halt]: "stops (drop_columns X)" "stops (Shell_UnbindColumns X E)"
  unfolding Shell_UnbindColumns_def drop_columns_def by (intro halt)+

lemma GetNrOfColumns_countable:
  assumes "shell_env X E" and "GetNrOfColumns X s w = (Ok k, w')"
  shows "k \<noteq> SHRT_MAX"
  using assms unfolding GetNrOfColumns_def with_hstmt_def with_ptr_def call_hstmt_def shell_env_def
  by (auto elim!: bindM_OkE thenM_OkE split: option.splits if_splits simp: THROW_IFN_SUCCEEDED_def odbc_def Let_def)

lemma stops_BindColumns [halt]:
  assumes "shell_env X E"
  shows "stops (BindColumns X E)"
proof -
  have "stops (bindM (GetNrOfColumns X s) (\<lambda>nrOfCols.
      if nrOfCols = 0 then LOG E LL_Warning ''No columns available in current result set.''
      else thenM (forM [1..<nat nrOfCols + 1] (bind_shell_column X E s)) (if nrOfCols = SHRT_MAX then fuelM else skipM)))" for s
    using GetNrOfColumns_countable[OF assms] by (intro stops_bindM_value halt) blast
  then show ?thesis unfolding BindColumns_def by (intro stops_thenM stops_simple stops_with_pStmt)
qed

lemma stops_Execute:
  assumes "loop_free c"
  shows "stops (Execute X E n c args)"
  using assms by (cases c rule: loop_free.cases) (auto intro: halt)

text \<open>A line that is executed as SQL, when what is registered for it is \<open>ExecuteSql\<close>.\<close>

definition executes_sql :: "(string \<times> Command) list \<Rightarrow> bool" where
  "executes_sql commands \<longleftrightarrow> (\<exists>s. map_of commands ExecuteSql_NAME = Some (ExecuteSql s))"

fun quick_line :: "(exn, Command option \<times> string list) res \<Rightarrow> bool" where
  "quick_line (Ok (Some c, args)) = loop_free c"
| "quick_line r = True"


section \<open>What the commands leave alone\<close>

text \<open>\<open>apart f\<close>: \<open>f\<close> reads nothing of the library and not the log; it may read the shell and what is still to be read.\<close>

definition apart :: "('z xworld_scheme \<Rightarrow> 'b) \<Rightarrow> bool" where
  "apart f \<longleftrightarrow> over f \<and> (\<forall>w l. f (w\<lparr>logs := l\<rparr>) = f w)"

lemma apart_log [pres]:
  assumes "apart f"
  shows "preserves f (on_log m)" and "preserves f (LOG E level msg)" and "preserves f (WRITE_STDOUT_ENDL msg)"
proof -
  show l: "preserves f (on_log m)" for m
    using assms by (simp add: preserves_def on_log_def apart_def split: prod.split)
  show "preserves f (LOG E level msg)" "preserves f (WRITE_STDOUT_ENDL msg)"
    unfolding LOG_def WRITE_STDOUT_ENDL_def by (rule l)+
qed

lemma over_cursor [pres]:
  assumes "over f"
  shows "preserves f (SelectNext X s)" and "preserves f (SelectFetchScroll X s o' k)" and "preserves f (ExecuteDirect X s sql)"
    and "preserves f (GetNrOfColumns X s)" and "preserves f (DescribeColumn X s nr)" and "preserves f (UnbindColumns X s)"
    and "preserves f (CommitTrans X d)" and "preserves f (RollbackTrans X d)"
proof -
  note o = assms over_above[OF assms] over_beyond[OF assms] beyond_calls[OF over_beyond[OF assms]]
  note d = with_hstmt_def with_ptr_def with_db_def call_hstmt_def fetched_reply_def
  show "preserves f (SelectNext X s)" unfolding SelectNext_def d by (intro pres o)
  show "preserves f (SelectFetchScroll X s o' k)" unfolding SelectFetchScroll_def d by (intro pres o)
  show "preserves f (ExecuteDirect X s sql)" unfolding ExecuteDirect_def SelectClose_def d by (intro pres o)
  show "preserves f (GetNrOfColumns X s)" unfolding GetNrOfColumns_def d by (intro pres o)
  show "preserves f (DescribeColumn X s nr)"
    unfolding DescribeColumn_def ColumnDescription_query_def row_asserts_def d by (intro pres o)
  show "preserves f (UnbindColumns X s)" unfolding UnbindColumns_def d by (intro pres o)
  show "preserves f (CommitTrans X d)" "preserves f (RollbackTrans X d)"
    unfolding CommitTrans_def RollbackTrans_def dbc_allocated_def with_hdbc_def by (intro pres o)+
qed

text \<open>The table of commands and the input.\<close>

definition outside :: "'z xworld_scheme \<Rightarrow> (string \<times> Command) list \<times> int list list" where
  "outside w = (xe_commands (shell w), stdin w)"

lemma apart_outside: "apart outside"
  by (simp add: apart_def over_def beyond_def above_def outside_def)

lemma outside_mod_shell [pres]: "(\<And>x. xe_commands (u x) = xe_commands x) \<Longrightarrow> preserves outside (mod_shell u)"
  by (simp add: preserves_def outside_def)

lemmas outside_base = apart_outside apart_outside[unfolded apart_def, THEN conjunct1]
  over_above[OF apart_outside[unfolded apart_def, THEN conjunct1]]


lemma preserves_noexceptM [pres]: "preserves f m \<Longrightarrow> preserves f (noexceptM m)"
  unfolding noexceptM_def by (intro pres)

lemma preserves_with_pStmt [pres]: "(\<And>s. preserves f (g s)) \<Longrightarrow> preserves f (with_pStmt g)"
  unfolding with_pStmt_def by (intro pres)

lemma preserves_ExecuteTimed [pres]: "preserves f m \<Longrightarrow> preserves f (ExecuteTimed E m)"
  unfolding ExecuteTimed_def by (intro pres)

lemma outside_columns [pres]:
  "preserves outside (drop_columns X)" "preserves outside (Shell_UnbindColumns X E)" "preserves outside (BindColumns X E)"
proof -
  show d: "preserves outside (drop_columns X)"
    unfolding drop_columns_def by (intro pres outside_base) simp
  show "preserves outside (Shell_UnbindColumns X E)"
    unfolding Shell_UnbindColumns_def by (intro pres outside_base d)
  have "preserves outside (bind_shell_column X E s nr)" for s nr
    unfolding bind_shell_column_def Let_def by (intro pres outside_base) simp
  then show "preserves outside (BindColumns X E)"
    unfolding BindColumns_def by (intro pres outside_base)
qed

lemma outside_Print [pres]: "preserves outside (Print_Execute X E n m s sep h r fx wd)"
proof -
  have c: "preserves outside (record_cells X E fx as)" for as
  proof (induction as)
    case (Cons a as)
    then show ?case unfolding record_cells.simps column_text_def by (intro pres outside_base)
  qed (unfold record_cells.simps, intro pres)
  have r: "preserves outside (GetRecordRow X E sep r fx wd nr)" for nr
    unfolding GetRecordRow_def CurrentRecordToString_def by (intro pres c)
  have l: "preserves outside (print_loop X k s (\<lambda>nr. bindM (GetRecordRow X E sep r fx wd nr) (LOG E LL_Output)) i b)" for k i b
  proof (induction k arbitrary: i b)
    case (Suc k)
    then show ?case unfolding print_loop.simps by (intro pres outside_base r)
  qed (unfold print_loop.simps, intro pres)
  show ?thesis
    unfolding Print_Execute_def GetHeaderRows_def GetHeaderRow_def Let_def SelectFirst_def by (intro pres outside_base r l)
qed

lemma outside_Execute [pres]:
  assumes "loop_free c"
  shows "preserves outside (Execute X E n c args)"
proof (cases c)
  case (ExecuteSql s)
  then show ?thesis by (simp add: ExecuteSql_Execute_def) (intro pres outside_base)
next
  case Exit
  then show ?thesis by (simp add: Exit_Execute_def) (intro pres, simp)
next
  case (Select m s)
  have "preserves outside (Select_call X m s)"
    by (cases m) (auto simp: SelectFirst_def SelectLast_def SelectPrev_def intro!: pres outside_base)
  with Select show ?thesis by (simp add: Select_Execute_def) (intro pres outside_base)
next
  case (Help cs)
  show ?thesis
    unfolding Help Execute.simps Help_Execute_def Help_WriteText_def Help_WriteCommand_def by (intro pres outside_base)
qed (use assms in \<open>auto simp: Commit_Execute_def Rollback_Execute_def intro!: pres outside_base\<close>)


section \<open>A line\<close>

text \<open>What \<open>execute_sql\<close> does once \<open>ExecuteSql\<close> has been found.\<close>

definition sql_steps :: "ext \<Rightarrow> shellenv \<Rightarrow> nat \<Rightarrow> string \<Rightarrow> nat \<Rightarrow> ('z, unit) xprog" where
  "sql_steps X E n input s = thenM
     (if boost_starts_with E input ''!''
      then LOG E LL_Warning (boost_format X ''Input starts with '!', but is not recognized as a command, executing as SQL.'' [])
      else skipM)
     (thenM (whenM (\<lambda>w. xe_currentColumns (shell w) \<noteq> []) (Shell_UnbindColumns X E))
     (thenM (Execute X E n (ExecuteSql s) [input])
     (bindM (with_pStmt (GetNrOfColumns X)) (\<lambda>nrOfCols. if nrOfCols > 0 then BindColumns X E else skipM))))"

lemma sql_steps_rules: "shell_env X E \<Longrightarrow> stops (sql_steps X E n input s)" "preserves outside (sql_steps X E n input s)"
proof -
  assume x: "shell_env X E"
  then show "stops (sql_steps X E n input s)" unfolding sql_steps_def by (intro halt stops_Execute) simp_all
next
  show "preserves outside (sql_steps X E n input s)" unfolding sql_steps_def by (intro pres outside_base) simp
qed

lemma execute_sql_steps:
  assumes "map_of (xe_commands (shell w)) ExecuteSql_NAME = Some (ExecuteSql s)"
  shows "execute_sql X E n input w = sql_steps X E n input s w"
proof -
  let ?warn = "if boost_starts_with E input ''!''
      then LOG E LL_Warning (boost_format X ''Input starts with '!', but is not recognized as a command, executing as SQL.'' [])
      else skipM"
  obtain r w' where w': "?warn w = (r, w')" by (cases "?warn w")
  have "preserves outside ?warn" by (intro pres outside_base)
  with w' have "xe_commands (shell w') = xe_commands (shell w)" by (auto simp: outside_def dest: preservesD)
  then have "GetCommand (xe_commands (shell w')) ExecuteSql_NAME True = Ok (Some (ExecuteSql s))"
    using assms by (simp add: GetCommand_def assert_then_def ExecuteSql_NAME_def)
  with w' show ?thesis
    unfolding execute_sql_def sql_steps_def thenM_exec[of ?warn] by (simp add: bindM_exec split: res.split)
qed

lemma parse_command_ends: "parse_command X E cs input \<noteq> OutOfFuel"
  by (simp add: parse_command_def res_bind_def GetCommand_def assert_then_def split: list.split)

text \<open>A whole line that is SQL or a command without such a loop.\<close>

lemma run_line_rules:
  fixes w :: "'z xworld_scheme"
  assumes "shell_env X E" and "executes_sql (xe_commands (shell w))"
    and "quick_line (parse_command X E (xe_commands (shell w)) input)"
    and "run_line X E n input w = (r, w')"
  shows "r \<noteq> OutOfFuel \<and> outside w' = outside w"
proof -
  obtain s where s: "map_of (xe_commands (shell w)) ExecuteSql_NAME = Some (ExecuteSql s)"
    using assms(2) by (auto simp: executes_sql_def)
  have p: "fst (process_line X E n input w) \<noteq> OutOfFuel \<and> outside (snd (process_line X E n input w)) = outside w"
  proof (cases "parse_command X E (xe_commands (shell w)) input")
    case (Ok v)
    obtain c args where v: "v = (c, args)" by (cases v)
    show ?thesis
    proof (cases c)
      case None
      with Ok v have "process_line X E n input w = sql_steps X E n input s w"
        by (simp add: process_line_def execute_sql_steps[OF s])
      then show ?thesis
        by (simp add: stops_fst[OF sql_steps_rules(1)[OF assms(1)]] sql_steps_rules(2)[unfolded preserves_def, rule_format])
    next
      case (Some d)
      with Ok v assms(3) have "loop_free d" "process_line X E n input w = Execute X E n d args w"
        by (simp_all add: process_line_def)
      then show ?thesis
        by (simp add: stops_fst[OF stops_Execute] outside_Execute[unfolded preserves_def, rule_format])
    qed
  qed (use parse_command_ends in \<open>auto simp: process_line_def bindM_exec\<close>)
  define handler :: "exn \<Rightarrow> ('z, int option) xprog" where "handler = (\<lambda>ex. if is_SqlResultException ex
      then bindM (getsM (\<lambda>w. xe_exitOnError (shell w))) (\<lambda>exitOnError.
        if exitOnError then thenM (LOG E LL_Error (sh_text E ex)) (returnM (Some 10))
        else thenM (LOG E LL_Warning (sh_text E ex)) (returnM None))
      else thenM (LOG E LL_Error (sh_text E ex)) (returnM (Some 20)))"
  have h: "stops (handler ex)" "preserves outside (handler ex)" for ex
    unfolding handler_def by (intro halt, intro pres outside_base)
  obtain q w1 where q: "process_line X E n input w = (q, w1)" by (cases "process_line X E n input w")
  with p have q': "q \<noteq> OutOfFuel" "outside w1 = outside w" by simp_all
  show ?thesis
  proof (cases "input = []")
    case False
    with assms(4) have run: "catchM (thenM (process_line X E n input) (returnM None)) handler w = (r, w')"
      unfolding run_line_def handler_def by simp
    show ?thesis
    proof (cases q)
      case (Exn ex)
      with run q have "handler ex w1 = (r, w')" by simp
      with h[of ex] q' show ?thesis by (auto dest: stopsD preservesD)
    qed (use run q q' in \<open>auto simp: catchM_exec thenM_exec\<close>)
  qed (use assms(4) in \<open>auto simp: run_line_def\<close>)
qed

end
