(* ===== verification/ExecProps.thy ===== *)
theory ExecProps
  imports ExecHalt
begin

text \<open>
  What the shell of the sample program promises: that it ends when it reads an exit command (over the interface of its
  source of commands), which value it returns, and what its table of commands holds.
\<close>

section \<open>The source of the commands\<close>

text \<open>
  The interface \<open>InputGenerator\<close>: \<open>pending\<close> are the commands still to come, as a function of what is left of the input.
  The generator hands them over one by one and does not touch the shell.
\<close>

locale command_source =
  fixes next_command :: "('z, GetCommandResult \<times> string) xprog"
    and pending :: "int list list \<Rightarrow> string list"
  assumes next_pending: "pending (stdin w) = l # ls \<Longrightarrow>
    \<exists>w'. next_command w = (Ok (HAVE_COMMAND, l), w') \<and> pending (stdin w') = ls \<and> shell w' = shell w"
begin

lemma run_loop_exits:
  assumes "shell_env X E" and "executes_sql (xe_commands (shell w))"
    and "pending (stdin w) = pre @ e # rest" and "length pre < k"
    and "\<forall>l\<in>set pre. quick_line (parse_command X E (xe_commands (shell w)) l)"
    and "parse_command X E (xe_commands (shell w)) e = Ok (Some Exit, args)" and "e \<noteq> []"
  shows "fst (run_loop X E n next_command k w) \<noteq> OutOfFuel"
  using assms(2-6)
proof (induction pre arbitrary: k w)
  case Nil
  from Nil(3) obtain k' where k: "k = Suc k'" by (cases k) auto
  from next_pending[of w e rest] Nil(2) obtain w1 where
    w1: "next_command w = (Ok (HAVE_COMMAND, e), w1)" "shell w1 = shell w" by auto
  have "run_line X E n e w1 = (Ok None, w1\<lparr>shell := (shell w1)\<lparr>xe_exitFlag := True\<rparr>\<rparr>)"
    using Nil(5) w1(2) assms(7) by (simp add: run_line_def process_line_def Exit_Execute_def)
  with k w1 show ?case by simp
next
  case (Cons l pre)
  from Cons.prems(3) obtain k' where k: "k = Suc k'" by (cases k) auto
  from next_pending[of w l "pre @ e # rest"] Cons.prems(2) obtain w1 where
    w1: "next_command w = (Ok (HAVE_COMMAND, l), w1)" "pending (stdin w1) = pre @ e # rest" "shell w1 = shell w" by auto
  obtain r w2 where r: "run_line X E n l w1 = (r, w2)" by (cases "run_line X E n l w1")
  from run_line_rules[OF assms(1) _ _ this] Cons.prems w1(3)
  have o: "r \<noteq> OutOfFuel" "xe_commands (shell w2) = xe_commands (shell w)" "stdin w2 = stdin w1"
    by (auto simp: outside_def)
  have "fst (run_loop X E n next_command k' w2) \<noteq> OutOfFuel"
    using Cons.prems w1(2) k by (intro Cons.IH) (simp_all add: o)
  with k w1(1) r o(1) show ?case
    by (cases r) (simp_all add: bindM_exec split: option.split)
qed

lemma Run_exits:
  assumes "shell_env X E" and "executes_sql (xe_commands (shell w))"
    and "pending (stdin w) = pre @ e # rest" and "length pre < k"
    and "\<forall>l\<in>set pre. quick_line (parse_command X E (xe_commands (shell w)) l)"
    and "parse_command X E (xe_commands (shell w)) e = Ok (Some Exit, args)" and "e \<noteq> []"
  shows "fst (Run X E n k next_command w) \<noteq> OutOfFuel"
proof -
  let ?hello = "LOG E LL_Info (boost_format X ''Ready to execute SQL. Type '!exit' to exit, or '!help' for help.'' [])"
  obtain r w1 where r: "?hello w = (r, w1)" by (cases "?hello w")
  have "stops ?hello" "preserves outside ?hello" by (intro halt, intro pres outside_base)
  with r have "r \<noteq> OutOfFuel" "outside w1 = outside w" by (auto dest: stopsD preservesD)
  moreover from this assms have "fst (run_loop X E n next_command k w1) \<noteq> OutOfFuel"
    by (intro run_loop_exits[where pre = pre and e = e and rest = rest and args = args]) (simp_all add: outside_def)
  ultimately show ?thesis using r by (cases r) (simp_all add: Run_def thenM_exec)
qed

end

text \<open>The lines of standard input, as far as they can be converted.\<close>

fun decoded :: "shellenv \<Rightarrow> int list list \<Rightarrow> string list" where
  "decoded E [] = []"
| "decoded E (line # lines) = (case utf16ToUtf8 (sh_codecvt E) line of Ok s \<Rightarrow> s # decoded E lines | _ \<Rightarrow> [])"

interpretation std_in: command_source "GetNextCommand E" "decoded E" for E
proof
  fix w :: "'a xworld_scheme" and l ls
  assume "decoded E (stdin w) = l # ls"
  then obtain line lines where "stdin w = line # lines" "utf16ToUtf8 (sh_codecvt E) line = Ok l" "decoded E lines = ls"
    by (cases "stdin w") (auto split: res.splits)
  then show "\<exists>w'. GetNextCommand E w = (Ok (HAVE_COMMAND, l), w') \<and> decoded E (stdin w') = ls \<and> shell w' = shell w"
    by (simp add: GetNextCommand_def thenM_exec)
qed


section \<open>Returning\<close>


text \<open>A shell over the one statement, and the functions of Boost it uses.\<close>

definition small_shellenv :: shellenv where
  "small_shellenv = \<lparr>sh_site = small_site, sh_codecvt = strict_codecvt,
     sh_millis = (\<lambda>_ _. 0), sh_text = (\<lambda>_. ''error''), boost_starts_with = (\<lambda>s p. take (length p) s = p),
     boost_istarts_with = (\<lambda>s p. take (length p) s = p), boost_iends_with = (\<lambda>s p. drop (length s - length p) s = p),
     boost_equals = (=), boost_trim = (\<lambda>s. s), boost_lower = (\<lambda>s. s), boost_upper = (\<lambda>s. s),
     boost_lexical_int = (\<lambda>_. None)\<rparr>"

definition small_shell :: "bool \<Rightarrow> (string \<times> Command) list \<Rightarrow> string list \<Rightarrow> xworld" where
  "small_shell scroll commands lines = tworld.extend
     (sworld.extend (small_stmt scroll) \<lparr>tabs = (\<lambda>_. small_table []), held = (\<lambda>_. False)\<rparr>)
     \<lparr>shell = \<lparr>xe_exitOnError = False, xe_pDb = 6, xe_stmt = 2, xe_forwardOnlyCursors = False, xe_currentColumns = [],
        xe_columnSeparator = ''||'', xe_printNoHeader = False, xe_fixedPrintSize = False, xe_printRowNr = False,
        xe_charColumnMode = CharMode, xe_charColSize = 0, xe_sqlSeparator = [], xe_pStmt = Some 3,
        xe_commands = commands, xe_exitFlag = False\<rparr>,
      stdin = map (map of_char) lines, logs = small_log\<rparr>"

lemma small_shell_simps [simp]:
  "xe_commands (shell (small_shell scroll commands lines)) = commands"
  "stdin (small_shell scroll commands lines) = map (map of_char) lines"
  "logs (small_shell scroll commands lines) = small_log"
  "stms (small_shell scroll commands lines) = stms (small_stmt scroll)"
  "hnd (small_shell scroll commands lines) = hnd (small_stmt scroll)"
  "calls (small_shell scroll commands lines) = calls (small_stmt scroll)"
  "xe_exitFlag (shell (small_shell scroll commands lines)) = False"
  by (simp_all add: small_shell_def tworld.defs sworld.defs small_stmt_def dworld.defs)

lemma small_shellenv_simps [simp]:
  "sh_codecvt small_shellenv = strict_codecvt" "boost_starts_with small_shellenv = (\<lambda>s p. take (length p) s = p)"
  "sh_site small_shellenv = small_site" "sh_text small_shellenv ex = ''error''"
  by (simp_all add: small_shellenv_def)

definition ascii :: "string \<Rightarrow> bool" where
  "ascii s \<longleftrightarrow> (\<forall>c\<in>set s. of_char c < (0x80 :: nat))"

lemma small_shell_lines: "\<forall>l\<in>set lines. ascii l \<Longrightarrow> decoded small_shellenv (stdin (small_shell scroll commands lines)) = lines"
proof -
  assume "\<forall>l\<in>set lines. ascii l"
  then have "decoded small_shellenv (map (map of_char) lines) = lines"
    by (induction lines) (simp_all add: ascii_def utf16ToUtf8_ascii)
  then show ?thesis by simp
qed


text \<open>At the end of the input the stream keeps returning empty lines.\<close>

lemma ready_LOG:
  assumes "log_ready (logs w)"
  shows "\<exists>l. LOG E level msg w = (Ok (), w\<lparr>logs := l\<rparr>) \<and> log_ready l"
proof -
  define l where "l = snd (LogMessage (log_env (sh_site E)) level msg (log_file (sh_site E)) (log_line (sh_site E))
      (log_function (sh_site E)) (logs w))"
  from only_writes_LogMessage[OF assms] have "fst (LogMessage (log_env (sh_site E)) level msg (log_file (sh_site E))
      (log_line (sh_site E)) (log_function (sh_site E)) (logs w)) = Ok ()" "manager l = manager (logs w)"
    "\<And>a. handler_base (handlers l a) = handler_base (handlers (logs w) a)"
    unfolding only_writes_def l_def by blast+
  with assms have "LOG E level msg w = (Ok (), w\<lparr>logs := l\<rparr>)" "log_ready l"
    by (auto simp: LOG_def on_log_def l_def log_ready_def split: prod.split)
  then show ?thesis by blast
qed

lemma utf16ToUtf8_empty: "utf16ToUtf8 L [] = Ok []"
  using utf16ToUtf8_ascii[of "[]"] by simp

lemma run_loop_eof:
  "stdin w = [] \<Longrightarrow> \<not> xe_exitFlag (shell w) \<Longrightarrow>
   fst (run_loop X E n (GetNextCommand E) k w) = OutOfFuel"
  by (induction k arbitrary: w) (simp_all add: GetNextCommand_def thenM_exec run_line_def utf16ToUtf8_empty)

text \<open>
  C29. When standard input ends without an exit command, the shell does not return: \<open>GetNextCommand\<close> reports a command at the
  end of the input too, an empty line, and \<open>Run\<close> reads again, for any number of rounds.
\<close>

theorem Run_ignores_eof:
  assumes "stdin w = []" and "\<not> xe_exitFlag (shell w)" and "log_ready (logs w)"
  shows "fst (Run X E n k (GetNextCommand E) w) = OutOfFuel"
proof -
  obtain l where "LOG E LL_Info (boost_format X ''Ready to execute SQL. Type '!exit' to exit, or '!help' for help.'' []) w =
      (Ok (), w\<lparr>logs := l\<rparr>)" using ready_LOG[OF assms(3)] by blast
  with assms show ?thesis by (simp add: Run_def run_loop_eof)
qed

lemma Run_ignores_eof_witness:
  "fst (Run (ref_ext good_driver) small_shellenv 0 1000 (GetNextCommand small_shellenv) (small_shell False [] [])) = OutOfFuel"
  by (rule Run_ignores_eof) (simp_all add: log_ready_def small_log_def has_level_def ClearLogLevel_def)


section \<open>The value that is returned\<close>

lemma shell_LOG: "LOG E level msg w = (r, w') \<Longrightarrow> shell w' = shell w"
  by (auto simp: LOG_def on_log_def split: prod.splits)

lemma run_line_codes:
  assumes "run_line X E n input w = (Ok (Some c), w')"
  shows "c = 10 \<and> xe_exitOnError (shell w') \<or> c = 20"
  using assms
  by (auto simp: run_line_def bindM_exec thenM_exec catchM_exec dest: shell_LOG split: if_splits res.splits prod.splits)

lemma run_loop_codes:
  assumes "run_loop X E n (GetNextCommand E) k w = (Ok c, w')"
  shows "c = 0 \<and> xe_exitFlag (shell w') \<or> c = 10 \<and> xe_exitOnError (shell w') \<or> c = 20"
  using assms
proof (induction k arbitrary: w)
  case (Suc k)
  have have_command: "fst p = HAVE_COMMAND" if "GetNextCommand E v = (Ok p, v')" for p and v v' :: "'a xworld_scheme"
    using that by (auto simp: GetNextCommand_def thenM_exec bindM_exec split: res.splits)
  obtain p w1 where p: "GetNextCommand E w = (Ok p, w1)"
    and q: "(\<lambda>(g, input). bindM (run_line X E n input) (\<lambda>r. case r of
       Some code \<Rightarrow> returnM code
     | None \<Rightarrow> ifM (\<lambda>w. g = HAVE_COMMAND \<and> \<not> xe_exitFlag (shell w)) (run_loop X E n (GetNextCommand E) k) (returnM 0)))
      p w1 = (Ok c, w')"
    using Suc.prems unfolding run_loop.simps by (rule bindM_OkE)
  obtain input where i: "p = (HAVE_COMMAND, input)" using have_command[OF p] by (cases p) auto
  from q[unfolded i] obtain r w2 where r: "run_line X E n input w1 = (Ok r, w2)"
    and rest: "(case r of Some code \<Rightarrow> returnM code
      | None \<Rightarrow> ifM (\<lambda>w. \<not> xe_exitFlag (shell w)) (run_loop X E n (GetNextCommand E) k) (returnM 0)) w2 = (Ok c, w')"
    by (auto elim: bindM_OkE)
  show ?case
  proof (cases r)
    case None
    with rest show ?thesis by (auto dest: Suc.IH split: if_splits)
  next
    case (Some code)
    with rest r show ?thesis by (auto dest: run_line_codes)
  qed
qed simp

text \<open>
  What the value of \<open>Run\<close> says: 0 is returned only if the exit command was given, 10 only if the shell was started with
  \<open>--exitOnError\<close>, and otherwise the value is 20.
\<close>

theorem Run_value:
  assumes "Run X E n k (GetNextCommand E) w = (Ok c, w')"
  shows "c = 0 \<and> xe_exitFlag (shell w') \<or> c = 10 \<and> xe_exitOnError (shell w') \<or> c = 20"
  using assms unfolding Run_def by (auto elim!: thenM_OkE dest: run_loop_codes)

lemma small_shell_next:
  "ascii x \<Longrightarrow> GetNextCommand small_shellenv ((small_shell scroll commands (x # xs))\<lparr>logs := l\<rparr>) =
     (Ok (HAVE_COMMAND, x), (small_shell scroll commands xs)\<lparr>logs := l\<rparr>)"
  by (simp add: GetNextCommand_def thenM_exec ascii_def utf16ToUtf8_ascii) (simp add: small_shell_def tworld.defs)

lemma Run_value_witness:
  "\<exists>w'. Run (ref_ext good_driver) small_shellenv 0 1 (GetNextCommand small_shellenv) (small_shell False [(''q'', Exit)] [''!q'']) =
     (Ok 0, w') \<and> xe_exitFlag (shell w')"
proof -
  let ?w = "small_shell False [(''q'', Exit)] [''!q'']"
  have "log_ready (logs ?w)" by (simp add: log_ready_def small_log_def has_level_def ClearLogLevel_def)
  from ready_LOG[OF this] obtain l where l: "LOG small_shellenv LL_Info
      (boost_format (ref_ext good_driver) ''Ready to execute SQL. Type '!exit' to exit, or '!help' for help.'' []) ?w =
      (Ok (), ?w\<lparr>logs := l\<rparr>)" by blast
  then obtain w' where run: "Run (ref_ext good_driver) small_shellenv 0 1 (GetNextCommand small_shellenv) ?w = (Ok 0, w')"
    by (simp add: Run_def small_shell_next ascii_def run_line_def process_line_def parse_command_def COMMAND_PREFIX_def
        GetCommand_def assert_then_def res_bind_def ref_ext_def Exit_Execute_def)
  from Run_value[OF this] run show ?thesis by auto
qed


section \<open>The table of commands\<close>

definition with_commands :: "(string \<times> Command) list \<Rightarrow> 'z xworld_scheme \<Rightarrow> 'z xworld_scheme" where
  "with_commands m w = w\<lparr>shell := (shell w)\<lparr>xe_commands := m\<rparr>\<rparr>"

lemma with_commands_simps [simp]:
  "xe_commands (shell (with_commands m w)) = m" "with_commands m (with_commands m' w) = with_commands m w"
  "with_commands (xe_commands (shell w)) w = w" "stms (with_commands m w) = stms w"
  "mod_shell (\<lambda>x. x\<lparr>xe_commands := f (xe_commands x)\<rparr>) w = (Ok (), with_commands (f (xe_commands (shell w))) w)"
  by (simp_all add: with_commands_def)

lemma register_free:
  assumes "\<forall>a\<in>set as. map_of (xe_commands (shell w)) a = None"
  shows "forM as (\<lambda>a. exASSERT ''m_commands.find(*it) == m_commands.end()'' (\<lambda>w. map_of (xe_commands (shell w)) a = None)) w =
    (Ok (), w)"
  using assms by (induction as) simp_all

lemma register_put:
  "forM as (\<lambda>a. mod_shell (\<lambda>x. x\<lparr>xe_commands := map_put a c (xe_commands x)\<rparr>)) w =
    (Ok (), with_commands (fold (\<lambda>a. map_put a c) as (xe_commands (shell w))) w)"
  by (induction as arbitrary: w) (simp_all del: mod_shell_exec)

lemma fold_put:
  "map_inv m \<Longrightarrow> map_inv (fold (\<lambda>a. map_put a c) as m) \<and>
    map_of (fold (\<lambda>a. map_put a c) as m) = (\<lambda>a. if a \<in> set as then Some c else map_of m a)"
  by (induction as arbitrary: m) (auto simp: fun_eq_iff)

text \<open>Registering a command whose names are free.\<close>

lemma RegisterCommand_ok:
  assumes "map_inv (xe_commands (shell w))" and "\<forall>a\<in>set (GetAliases c). map_of (xe_commands (shell w)) a = None"
  shows "\<exists>m. RegisterCommand X c w = (Ok (), with_commands m w) \<and> map_inv m \<and>
    map_of m = (\<lambda>a. if a \<in> set (GetAliases c) then Some c else map_of (xe_commands (shell w)) a)"
  using fold_put[OF assms(1), of c "GetAliases c"]
  by (auto simp: RegisterCommand_def register_free[OF assms(2)] register_put)

lemma register_list:
  assumes "map_inv (xe_commands (shell w))" and "distinct (concat (map GetAliases cs))"
    and "\<forall>a\<in>set (concat (map GetAliases cs)). map_of (xe_commands (shell w)) a = None"
  shows "\<exists>m. forM cs (RegisterCommand X) w = (Ok (), with_commands m w) \<and> map_inv m \<and>
    map_of m = (\<lambda>a. case find (\<lambda>c. a \<in> set (GetAliases c)) cs of Some c \<Rightarrow> Some c | None \<Rightarrow> map_of (xe_commands (shell w)) a)"
  using assms
proof (induction cs arbitrary: w)
  case Nil
  then show ?case by (intro exI[of _ "xe_commands (shell w)"]) simp
next
  case (Cons c cs)
  from Cons.prems(3) have "\<forall>a\<in>set (GetAliases c). map_of (xe_commands (shell w)) a = None" by simp
  from RegisterCommand_ok[OF Cons.prems(1) this, of X] obtain m where
    m: "RegisterCommand X c w = (Ok (), with_commands m w)" "map_inv m"
      "map_of m = (\<lambda>a. if a \<in> set (GetAliases c) then Some c else map_of (xe_commands (shell w)) a)" by blast
  let ?w = "with_commands m w"
  have "map_inv (xe_commands (shell ?w))" "distinct (concat (map GetAliases cs))"
    "\<forall>a\<in>set (concat (map GetAliases cs)). map_of (xe_commands (shell ?w)) a = None"
    using m Cons.prems by auto
  from Cons.IH[OF this, unfolded with_commands_simps] obtain m' where m':
    "forM cs (RegisterCommand X) ?w = (Ok (), with_commands m' w)" "map_inv m'"
    "map_of m' = (\<lambda>a. case find (\<lambda>c. a \<in> set (GetAliases c)) cs of Some c \<Rightarrow> Some c | None \<Rightarrow> map_of m a)" by blast
  have "a \<notin> set (GetAliases d)" if "a \<in> set (GetAliases c)" "d \<in> set cs" for a d
    using Cons.prems(2) that by auto
  then have "find (\<lambda>d. a \<in> set (GetAliases d)) cs = None" if "a \<in> set (GetAliases c)" for a
    using that by (auto simp: find_None_iff)
  with m m' show ?case by (auto simp: fun_eq_iff split: option.split)
qed

lemma shell_aliases:
  "distinct (concat (map GetAliases (shell_commands d s sep nh fx rn)))"
  "''help'' \<notin> set (concat (map GetAliases (shell_commands d s sep nh fx rn)))"
  "''h'' \<notin> set (concat (map GetAliases (shell_commands d s sep nh fx rn)))"
  by (simp_all add: shell_commands_def ExecuteSql_NAME_def)


lemma find_distinct:
  "distinct (concat (map f cs)) \<Longrightarrow> find (\<lambda>c. a \<in> set (f c)) cs = Some c \<longleftrightarrow> c \<in> set cs \<and> a \<in> set (f c)"
  by (induction cs) auto

lemma some_name: "[] \<notin> set (GetAliases c)" "first_alias c \<in> set (GetAliases c)"
proof -
  have "[] \<notin> set (GetAliases c) \<and> GetAliases c \<noteq> []"
  proof (cases c)
    case (Select m s)
    then show ?thesis by (cases m) simp_all
  next
    case (Print m s sep h r fx wd)
    then show ?thesis by (cases m) simp_all
  next
    case (ListCatalog m d h)
    then show ?thesis by (cases m) simp_all
  next
    case (Find m d h r fx sep)
    then show ?thesis by (cases m) simp_all
  next
    case (CreateTracPages m d)
    then show ?thesis by (cases m) simp_all
  qed (simp_all add: ExecuteSql_NAME_def)
  then show "[] \<notin> set (GetAliases c)" "first_alias c \<in> set (GetAliases c)"
    by (auto simp: first_alias_def split: list.split)
qed

text \<open>The commands \<open>Help\<close> lists are those it is given, in the order of their first names.\<close>

lemma help_list:
  assumes "inj_on first_alias (set cs)"
  shows "\<exists>hs. Help_new cs = Help hs \<and> set hs = set cs \<and> sorted_wrt (<) (map first_alias hs)"
proof -
  define m where "m cs = fold (\<lambda>c. map_insert_new (first_alias c) c) cs []" for cs
  have "map_inv (m cs) \<and> (\<forall>(k, c)\<in>set (m cs). k = first_alias c) \<and> snd ` set (m cs) = set cs" (is "?P cs")
    using assms
  proof (induction cs rule: rev_induct)
    case (snoc c cs)
    then have IH: "?P cs" by (simp add: inj_on_def)
    have snoc_m: "m (cs @ [c]) = map_insert_new (first_alias c) c (m cs)" by (simp add: m_def)
    have inv: "map_inv (m (cs @ [c]))" using IH by (simp add: snoc_m smap.inv_insert_new)
    have e: "(k, v) \<in> set (m (cs @ [c])) \<longleftrightarrow> map_of (m (cs @ [c])) k = Some v" "(k, v) \<in> set (m cs) \<longleftrightarrow> map_of (m cs) k = Some v"
      for k v by (rule smap.entry_find[OF inv], rule smap.entry_find[OF conjunct1[OF IH]])
    show ?case
    proof (cases "map_of (m cs) (first_alias c)")
      case None
      then have "map_of (m (cs @ [c])) = (map_of (m cs))(first_alias c \<mapsto> c)"
        using IH by (simp add: snoc_m map_insert_new_def)
      with e None have "set (m (cs @ [c])) = insert (first_alias c, c) (set (m cs))" by (auto split: if_splits)
      with IH inv show ?thesis by auto
    next
      case (Some d)
      then have "(first_alias c, d) \<in> set (m cs)" using e by simp
      with IH have "\<forall>(k, c)\<in>set (m cs). k = first_alias c" "snd (first_alias c, d) \<in> set cs"
        by (blast, metis imageI)
      with \<open>(first_alias c, d) \<in> set (m cs)\<close> have "first_alias d = first_alias c" "d \<in> set cs" by auto
      with snoc.prems have "d = c" by (simp add: inj_on_def)
      with Some IH \<open>d \<in> set cs\<close> show ?thesis by (auto simp: snoc_m map_insert_new_def)
    qed
  qed (simp add: m_def)
  then have s: "sorted_wrt (<) (map fst (m cs))" "set (map snd (m cs)) = set cs"
    and "map fst (m cs) = map first_alias (map snd (m cs))"
    by (auto simp: map_inv_def)
  then have "sorted_wrt (<) (map first_alias (map snd (m cs)))" by metis
  with s(2) show ?thesis by (simp add: Help_new_def m_def)
qed

lemma GetCommands_set: "map_inv m \<Longrightarrow> set (GetCommands m) = {c. \<not> Hidden c \<and> (\<exists>a. map_of m a = Some c)}"
proof -
  assume "map_inv m"
  note e = smap.entry_find[OF this]
  show "set (GetCommands m) = {c. \<not> Hidden c \<and> (\<exists>a. map_of m a = Some c)}"
    unfolding e[symmetric] by (force simp: GetCommands_def)
qed

text \<open>
  C37. After construction the table of commands is complete and unambiguous: registering the commands of the shell does not
  fail, every command that is not hidden is found under each of its names and under no other, SQL is executed by the
  hidden one, and \<open>!help\<close> lists every command that is not hidden, besides itself, in the order of their first names.
\<close>

theorem commands_registered:
  assumes "xe_commands (shell w) = []"
  shows "\<exists>m cs. register_commands X (shell_commands d s sep nh fx rn) w = (Ok (), with_commands m w) \<and> executes_sql m \<and>
    set cs = {c \<in> set (shell_commands d s sep nh fx rn). \<not> Hidden c} \<and> sorted_wrt (<) (map first_alias cs) \<and>
    (\<forall>name c. GetCommand m name False = Ok (Some c) \<longleftrightarrow> name \<in> set (GetAliases c) \<and> (c = Help cs \<or> c \<in> set cs))"
proof -
  let ?cs = "shell_commands d s sep nh fx rn"
  note a = shell_aliases[of d s sep nh fx rn]
  have "map_inv (xe_commands (shell w))" "\<forall>a\<in>set (concat (map GetAliases ?cs)). map_of (xe_commands (shell w)) a = None"
    using assms by simp_all
  from register_list[OF this(1) a(1) this(2), of X] obtain m1 where
    m1: "forM ?cs (RegisterCommand X) w = (Ok (), with_commands m1 w)" "map_inv m1"
      "map_of m1 = (\<lambda>a. case find (\<lambda>c. a \<in> set (GetAliases c)) ?cs of Some c \<Rightarrow> Some c
        | None \<Rightarrow> map_of (xe_commands (shell w)) a)" by blast
  have at: "map_of m1 name = Some c \<longleftrightarrow> c \<in> set ?cs \<and> name \<in> set (GetAliases c)" for name c
    using m1(3) assms find_distinct[OF a(1), of name c] by (auto split: option.split)
  have listed: "set (GetCommands m1) = {c \<in> set ?cs. \<not> Hidden c}"
    using at some_name(2) by (auto simp: GetCommands_set[OF m1(2)])
  have "inj_on first_alias (set ?cs)"
  proof (rule inj_onI)
    fix c c' assume c: "c \<in> set ?cs" "c' \<in> set ?cs" and e: "first_alias c = first_alias c'"
    from c at some_name(2) have "map_of m1 (first_alias c) = Some c" "map_of m1 (first_alias c') = Some c'" by blast+
    with e show "c = c'" by (metis option.inject)
  qed
  then have "inj_on first_alias (set (GetCommands m1))" by (rule inj_on_subset) (auto simp: listed)
  from help_list[OF this] obtain hs where
    hs: "Help_new (GetCommands m1) = Help hs" "set hs = set (GetCommands m1)" "sorted_wrt (<) (map first_alias hs)" by blast
  have "map_of m1 ''help'' = None" "map_of m1 ''h'' = None" using at a(2,3) by (auto simp: not_Some_eq[symmetric])
  then have "map_inv (xe_commands (shell (with_commands m1 w)))"
    "\<forall>a\<in>set (GetAliases (Help hs)). map_of (xe_commands (shell (with_commands m1 w))) a = None" using m1(2) by simp_all
  from RegisterCommand_ok[OF this, of X] obtain m where
    m: "RegisterCommand X (Help hs) (with_commands m1 w) = (Ok (), with_commands m w)"
      "map_of m = (\<lambda>a. if a \<in> set (GetAliases (Help hs)) then Some (Help hs) else map_of m1 a)"
    unfolding with_commands_simps by blast
  have reg: "register_commands X ?cs w = (Ok (), with_commands m w)"
    using m1(1) hs(1) m(1) by (simp add: register_commands_def)
  have sql: "executes_sql m"
    using m(2) at[of ExecuteSql_NAME "ExecuteSql s"] by (simp add: executes_sql_def ExecuteSql_NAME_def shell_commands_def)
  have no_help: "Help hs \<notin> set ?cs" by (simp add: shell_commands_def)
  have "GetCommand m name False = Ok (Some c) \<longleftrightarrow> name \<in> set (GetAliases c) \<and> (c = Help hs \<or> c \<in> set hs)" for name c
  proof (cases "name \<in> set (GetAliases (Help hs))")
    case True
    have "name \<notin> set (GetAliases c)" if "c \<in> set ?cs" using that True a(2,3) by auto
    with True m(2) hs(2) listed show ?thesis by (auto simp: GetCommand_def assert_then_def)
  next
    case False
    then have "GetCommand m name False = Ok (Some c) \<longleftrightarrow> name \<noteq> [] \<and> map_of m1 name = Some c \<and> \<not> Hidden c"
      using m(2) by (auto simp: GetCommand_def assert_then_def split: option.split)
    with False at some_name(1) hs(2) listed show ?thesis by auto
  qed
  with reg sql hs(2,3) listed show ?thesis by (intro exI[of _ m] exI[of _ hs]) simp
qed


lemma commands_registered_witness:
  "\<exists>m. register_commands (ref_ext good_driver) (shell_commands 6 3 ''|'' False False False) (small_shell False [] []) =
      (Ok (), with_commands m (small_shell False [] [])) \<and> GetCommand m ''rt'' False = Ok (Some (Rollback 6))"
proof -
  have "xe_commands (shell (small_shell False [] [])) = []" by simp
  from commands_registered[OF this, of "ref_ext good_driver" 6 3 "''|''" False False False] obtain m cs where
    m: "register_commands (ref_ext good_driver) (shell_commands 6 3 ''|'' False False False) (small_shell False [] []) =
      (Ok (), with_commands m (small_shell False [] []))"
    and cs: "set cs = {c \<in> set (shell_commands 6 3 ''|'' False False False). \<not> Hidden c}"
    and find: "\<forall>name c. GetCommand m name False = Ok (Some c) \<longleftrightarrow> name \<in> set (GetAliases c) \<and> (c = Help cs \<or> c \<in> set cs)"
    by blast
  have "Rollback 6 \<in> set cs" unfolding cs by (simp add: shell_commands_def)
  with m find show ?thesis by auto
qed

end
