(* ===== verification/ExecScroll.thy ===== *)
theory ExecScroll
  imports ExecProps
begin

text \<open>
  What the cursor options of the shell of the sample program mean for its commands: \<open>!printAll\<close> against a reference without
  a loop that waits for the driver, and \<open>!first\<close>, \<open>!last\<close> and \<open>!prev\<close> in a shell started without \<open>--forwardOnlyCursors\<close>.
\<close>

section \<open>Printing all records\<close>

text \<open>The position of a cursor over \<open>n\<close> rows.\<close>

lemma cursor_pos_bounds: "0 \<le> n \<Longrightarrow> 0 \<le> cursor_pos n h cs \<and> cursor_pos n h cs \<le> n + 1"
proof (induction cs)
  case (Cons c cs)
  have "0 \<le> cursor_move n op p \<and> cursor_move n op p \<le> n + 1" if "0 \<le> p" "p \<le> n + 1" for op p
    using that Cons.prems by (cases op) auto
  with Cons show ?case by (simp split: option.split)
qed simp

text \<open>What a fetch reads of the state: the calls so far, the statements and the handles.\<close>

definition fetching :: "'z xworld_scheme \<Rightarrow> odbc_call list \<times> (nat \<Rightarrow> ExecutableStatement) \<times> (nat \<Rightarrow> SqlHandle)" where
  "fetching w = (calls w, stms w, hnd w)"

lemma fetching_log [pres]: "preserves fetching (LOG E level msg)"
  by (simp add: preserves_def fetching_def LOG_def on_log_def split: prod.split)

lemma fetching_on_buf [pres]: "preserves fetching (on_buf c m)"
  by (simp add: preserves_def fetching_def on_buf_def split: prod.split)

definition print_row :: "ext \<Rightarrow> shellenv \<Rightarrow> string \<Rightarrow> bool \<Rightarrow> bool \<Rightarrow> nat \<Rightarrow> nat \<Rightarrow> ('z, unit) xprog" where
  "print_row X E sep rn fx wd i = bindM (GetRecordRow X E sep rn fx wd i) (LOG E LL_Output)"

lemma fetching_print_row: "preserves fetching (print_row X E sep rn fx wd i)"
proof -
  have "preserves fetching (record_cells X E fx as)" for as
  proof (induction as)
    case (Cons a as)
    then show ?case unfolding record_cells.simps column_text_def by (intro pres)
  qed (unfold record_cells.simps, intro pres)
  then show ?thesis
    unfolding print_row_def GetRecordRow_def CurrentRecordToString_def by (intro pres)
qed

definition print_header :: "ext \<Rightarrow> shellenv \<Rightarrow> bool \<Rightarrow> string \<Rightarrow> bool \<Rightarrow> bool \<Rightarrow> nat \<Rightarrow> ('z, unit) xprog" where
  "print_header X E hdr sep rn fx wd =
     (if hdr then bindM (GetHeaderRows X sep rn fx wd) (\<lambda>headers. forM headers (LOG E LL_Output)) else skipM)"

lemma fetching_print_header: "preserves fetching (print_header X E hdr sep rn fx wd)"
  unfolding print_header_def GetHeaderRows_def GetHeaderRow_def by (intro pres)

text \<open>A fetch that is answered, and what the command does when \<open>m\<close> rows are left: a fixed number of steps.\<close>

definition fetch :: "ext \<Rightarrow> nat \<Rightarrow> ('z, unit) xprog" where
  "fetch X h = modifyM (after_row X (SQLFetch h))"

definition print_remaining ::
  "ext \<Rightarrow> shellenv \<Rightarrow> nat \<Rightarrow> nat \<Rightarrow> string \<Rightarrow> bool \<Rightarrow> bool \<Rightarrow> bool \<Rightarrow> nat \<Rightarrow> ('z, unit) xprog" where
  "print_remaining X E h m sep hdr rn fx wd = seqM
     [print_header X E hdr sep rn fx wd,
      fetch X h,
      forM [1..<Suc m] (\<lambda>i. thenM (print_row X E sep rn fx wd i) (fetch X h)),
      LOG E LL_Info ''No more results available.'']"

lemma fetch_exec: "fetch X h w = (Ok (), after_row X (SQLFetch h) w)"
  by (simp add: fetch_def)

lemma thenM_stops [simp]:
  "m s = (Undef, s') \<Longrightarrow> thenM m q s = (Undef, s')" "m s = (OutOfFuel, s') \<Longrightarrow> thenM m q s = (OutOfFuel, s')"
  by (simp_all add: thenM_exec)

lemma thenM_at: "m v = m' v' \<Longrightarrow> thenM m q v = thenM m' q v'"
  by (simp add: thenM_exec)

lemma print_loop_fetches:
  assumes "cursor_driver X h n" and "\<And>i. preserves fetching (row i)"
    and "usable s h False w" and "p = cursor_pos n h (calls w)" and "1 \<le> p" and "p \<le> n + 1" and "nat (n + 1 - p) < k"
  shows "print_loop X k s row i (on_row n p) w = forM [i..<i + nat (n + 1 - p)] (\<lambda>j. thenM (row j) (fetch X h)) w"
  using assms(3-)
proof (induction k arbitrary: i p w)
  case (Suc k)
  show ?case
  proof (cases "p \<le> n")
    case True
    define m where "m = nat (n + 1 - (p + 1))"
    have m: "nat (n + 1 - p) = Suc m" using True by (simp add: m_def)
    have b: "on_row n p" using True Suc.prems(3) by (simp add: on_row_def)
    obtain r v where r: "row i w = (r, v)" by (cases "row i w")
    from preservesD[OF assms(2) r] have v: "calls v = calls w" "stms v = stms w" "hnd v = hnd w" by (simp_all add: fetching_def)
    with Suc.prems(1) have u: "usable s h False v" by (simp add: usable_def)
    let ?v = "after_row X (SQLFetch h) v"
    from select_op_step[where op = Next, of s h v X n] u assms(1) True v Suc.prems(2)
    have next_row: "SelectNext X s v = (Ok (on_row n (p + 1)), ?v)" by simp
    have "print_loop X k s row (i + 1) (on_row n (p + 1)) ?v =
        forM [i + 1..<i + 1 + m] (\<lambda>j. thenM (row j) (fetch X h)) ?v"
      unfolding m_def using u v True Suc.prems by (intro Suc.IH) simp_all
    then show ?thesis
      using b r next_row fetch_exec[of X h v] unfolding m
      by (cases r) (simp_all add: upt_conv_Cons thenM_regroup del: upt_Suc)
  next
    case False
    with Suc.prems(3,4) show ?thesis by (simp add: on_row_def)
  qed
qed simp

text \<open>
  C19. \<open>!printAll\<close> on a cursor that \<open>IsForwardOnlyCursor\<close> reports as forward only prints every remaining record exactly once
  and comes to an end: on a driver with a result of \<open>n\<close> rows that behaves as documented, it is equal to the reference that
  fetches once, prints \<open>n - pos\<close> records, fetching after each, and reports the end; for every fuel above the
  number of remaining records.
\<close>

theorem printAll_remaining:
  assumes "cursor_driver X h n" and "0 \<le> n" and "usable s h False w" and "IsForwardOnlyCursor w s"
    and "xe_currentColumns (shell w) \<noteq> []" and "m = nat (n - cursor_pos n h (calls w))" and "m < k"
  shows "Print_Execute X E k AllRecords s sep hdr rn fx wd w = print_remaining X E h m sep hdr rn fx wd w"
proof -
  obtain r v where r: "print_header X E hdr sep rn fx wd w = (r, v)" by (cases "print_header X E hdr sep rn fx wd w")
  from preservesD[OF fetching_print_header r] have v: "calls v = calls w" "stms v = stms w" "hnd v = hnd w"
    by (simp_all add: fetching_def)
  with assms(3,4) have u: "usable s h False v" "IsForwardOnlyCursor v s" by (simp_all add: usable_def IsForwardOnlyCursor_def)
  define p where "p = cursor_pos n h (SQLFetch h # calls v)"
  have p: "p = min (cursor_pos n h (calls w) + 1) (n + 1)" by (simp add: p_def v)
  let ?v = "after_row X (SQLFetch h) v"
  from select_op_step[where op = Next, of s h v X n] u(1) assms(1) v
  have first: "SelectNext X s v = (Ok (on_row n p), ?v)" by (simp add: p)
  note bounds = cursor_pos_bounds[OF assms(2), of h "calls w"]
  have m: "nat (n + 1 - p) = m" using bounds assms(6) by (simp add: p)
  have "print_loop X k s (print_row X E sep rn fx wd) 1 (on_row n p) ?v =
      forM [1..<1 + nat (n + 1 - p)] (\<lambda>j. thenM (print_row X E sep rn fx wd j) (fetch X h)) ?v"
    using assms(1) fetching_print_row u(1) bounds assms(7) m
    by (intro print_loop_fetches) (simp_all add: p_def v assms(2))
  with first u(2) have at_v: "bindM (ifM (\<lambda>w. IsForwardOnlyCursor w s) (SelectNext X s) (SelectFirst X s))
        (print_loop X k s (print_row X E sep rn fx wd) 1) v =
      forM [1..<Suc m] (\<lambda>j. thenM (print_row X E sep rn fx wd j) (fetch X h)) ?v" by (simp add: m del: upt_Suc)
  have loop: "thenM (bindM (ifM (\<lambda>w. IsForwardOnlyCursor w s) (SelectNext X s) (SelectFirst X s))
        (print_loop X k s (print_row X E sep rn fx wd) 1)) (LOG E LL_Info ''No more results available.'') v =
      thenM (forM [1..<Suc m] (\<lambda>j. thenM (print_row X E sep rn fx wd j) (fetch X h)))
        (LOG E LL_Info ''No more results available.'') ?v" by (rule thenM_at) (rule at_v)
  have "Print_Execute X E k AllRecords s sep hdr rn fx wd w = thenM (print_header X E hdr sep rn fx wd) (thenM
      (bindM (ifM (\<lambda>w. IsForwardOnlyCursor w s) (SelectNext X s) (SelectFirst X s))
        (print_loop X k s (print_row X E sep rn fx wd) 1)) (LOG E LL_Info ''No more results available.'')) w"
    using assms(5) by (simp add: Print_Execute_def Let_def print_row_def[abs_def] print_header_def)
  also have "\<dots> = print_remaining X E h m sep hdr rn fx wd w"
    using r loop fetch_exec[of X h v] unfolding print_remaining_def
    by (cases r) (simp_all add: thenM_skipM_right del: upt_Suc)
  finally show ?thesis .
qed


lemma printAll_remaining_witness:
  "\<exists>w :: xworld. Print_Execute (ref_ext (rows_driver 3 8)) small_shellenv 4 AllRecords 3 ''||'' True False False 0 w =
     print_remaining (ref_ext (rows_driver 3 8)) small_shellenv 8 3 ''||'' True False False 0 w \<and> xe_currentColumns (shell w) = [4]"
proof -
  define w :: xworld where "w = (small_shell True [] [])\<lparr>shell := (shell (small_shell True [] []))\<lparr>xe_currentColumns := [4]\<rparr>\<rparr>"
  have w: "usable 3 8 False w" "IsForwardOnlyCursor w 3" "xe_currentColumns (shell w) = [4]" "calls w = []"
    by (simp_all add: w_def usable_def IsForwardOnlyCursor_def small_stmt_defs)
  have "Print_Execute (ref_ext (rows_driver 3 8)) small_shellenv 4 AllRecords 3 ''||'' True False False 0 w =
      print_remaining (ref_ext (rows_driver 3 8)) small_shellenv 8 3 ''||'' True False False 0 w"
    by (rule printAll_remaining[OF rows_driver_ok _ w(1,2)]) (simp_all add: w)
  with w(3) show ?thesis by blast
qed

section \<open>A shell that cannot scroll\<close>

lemma above_stms: "above (\<lambda>w :: 'z sworld_scheme. stms w)"
  by (simp add: above_def)

definition not_scrollable :: "nat \<Rightarrow> 'z sworld_scheme \<Rightarrow> bool" where
  "not_scrollable s w \<longleftrightarrow> \<not> es_scrollableCursor (stms w s)"

lemma not_scrollable_stms: "preserves (\<lambda>w. stms w) m \<Longrightarrow> keeps (not_scrollable s) m"
  by (rule keeps_preserves[where f = "\<lambda>w. stms w"]) (simp_all add: not_scrollable_def)

lemma keeps_not_scrollable [keep]:
  "(\<And>t. es_scrollableCursor (f t) \<longrightarrow> es_scrollableCursor t) \<Longrightarrow> keeps (not_scrollable s) (mod_stm u f)"
  by (auto simp: keeps_def not_scrollable_def)

lemma keeps_prims_not_scrollable [keep]:
  "keeps (not_scrollable s) (odbc X c)" "keeps (not_scrollable s) (THROW_IFN_SUCCEEDED X fn ret ht h)"
  "keeps (not_scrollable s) (exASSERT t b)" "keeps (not_scrollable s) (SqlHandle_make_shared X l v)"
  "keeps (not_scrollable s) (release_option X l v)" "keeps (not_scrollable s) (SqlHandle_UnbindColumns X l p)"
  "keeps (not_scrollable s) (SqlHandle_ResetParams X l p)"
  unfolding THROW_IFN_SUCCEEDED_def release_option_def
  by (rule not_scrollable_stms, intro pres above_stms)+

lemma Statement_Init_not_scrollable: "keeps (not_scrollable s) (Statement_Init X u d False)"
proof -
  have "keeps (not_scrollable s) (release_hstmt X u)"
    unfolding release_hstmt_def by (intro keep) simp
  then show ?thesis
    unfolding Statement_Init_def SetCursorOptions_def Statement_Reset_def with_hstmt_def with_ptr_def with_db_def call_hstmt_def
      deref_hstmt_def
    by (intro keep) simp_all
qed


lemma Statement_of_not_scrollable:
  assumes "Statement_of X d False w = (Ok s, w')"
  shows "not_scrollable s w'"
proof -
  obtain u w1 where u: "Statement_new w = (Ok u, w1)"
    and rest: "thenM (catchM (Statement_Init X u d False) (\<lambda>ex. thenM (release_hstmt X u) (throwM ex))) (returnM u) w1 = (Ok s, w')"
    using assms unfolding Statement_of_def by (rule bindM_OkE)
  from rest have s: "s = u" by (auto elim: thenM_OkE)
  have "not_scrollable u w1" using u
    by (auto simp: Statement_new_def not_scrollable_def new_address_def bindM_exec thenM_exec)
  moreover have "keeps (not_scrollable u) (release_hstmt X u)"
    unfolding release_hstmt_def by (intro keep) simp
  then have "keeps (not_scrollable u) (thenM (catchM (Statement_Init X u d False) (\<lambda>ex. thenM (release_hstmt X u) (throwM ex))) (returnM u))"
    by (intro keep Statement_Init_not_scrollable)
  ultimately show ?thesis using rest s by (auto dest: keepsD)
qed

definition statement_of_shell :: "'z xworld_scheme \<Rightarrow> (nat \<Rightarrow> ExecutableStatement) \<times> nat option" where
  "statement_of_shell w = (stms w, xe_pStmt (shell w))"

lemma register_keeps_statement: "preserves statement_of_shell (register_commands X cs)"
proof -
  have m: "preserves statement_of_shell (mod_shell f)" if "\<And>x. xe_pStmt (f x) = xe_pStmt x" for f
    using that by (simp add: preserves_def statement_of_shell_def)
  have a: "preserves statement_of_shell (exASSERT t b)" for t b
    by (simp add: preserves_def)
  show ?thesis unfolding register_commands_def RegisterCommand_def by (intro pres m a) simp_all
qed

lemma ExodbcExec_new_not_scrollable:
  assumes "ExodbcExec_new X d x False sep nh fx rn cm charSize sqlsep w = (Ok (), w1)" and "xe_pStmt (shell w1) = Some s"
  shows "not_scrollable s w1"
proof -
  obtain u v where "Statement_new w = (Ok u, v)"
    and t: "thenM (mod_shell (\<lambda>_. \<lparr>xe_exitOnError = x, xe_pDb = d, xe_stmt = u, xe_forwardOnlyCursors = False,
          xe_currentColumns = [], xe_columnSeparator = sep, xe_printNoHeader = nh,
          xe_fixedPrintSize = fx, xe_printRowNr = rn, xe_charColumnMode = cm,
          xe_charColSize = charSize, xe_sqlSeparator = sqlsep, xe_pStmt = None, xe_commands = [], xe_exitFlag = False\<rparr>))
       (catchM (ExodbcExec_body X) (\<lambda>ex. thenM (ExodbcExec_destroy X) (throwM ex))) v = (Ok (), w1)"
    using assms(1) unfolding ExodbcExec_new_def by (rule bindM_OkE)
  from t obtain y v1 where "mod_shell (\<lambda>_. \<lparr>xe_exitOnError = x, xe_pDb = d, xe_stmt = u, xe_forwardOnlyCursors = False,
          xe_currentColumns = [], xe_columnSeparator = sep, xe_printNoHeader = nh,
          xe_fixedPrintSize = fx, xe_printRowNr = rn, xe_charColumnMode = cm,
          xe_charColSize = charSize, xe_sqlSeparator = sqlsep, xe_pStmt = None, xe_commands = [], xe_exitFlag = False\<rparr>) v = (Ok y, v1)"
    and "catchM (ExodbcExec_body X) (\<lambda>ex. thenM (ExodbcExec_destroy X) (throwM ex)) v1 = (Ok (), w1)"
    by (rule thenM_OkE)
  then have flag: "\<not> xe_forwardOnlyCursors (shell v1)" and body: "ExodbcExec_body X v1 = (Ok (), w1)"
    by (auto simp: catchM_exec thenM_exec split: prod.splits res.splits)
  have mode: "preserves (\<lambda>w. xe_forwardOnlyCursors (shell w)) (whenM (\<lambda>w. xe_charColumnMode (shell w) = CharAuto)
      (mod_shell (\<lambda>x. x\<lparr>xe_charColumnMode := CharMode\<rparr>)))" by (simp add: preserves_def)
  from body flag obtain e v2 p v3 cs where st: "Statement_of X (Some e) False v2 = (Ok p, v3)"
    and reg: "register_commands X cs (v3\<lparr>shell := (shell v3)\<lparr>xe_pStmt := Some p\<rparr>\<rparr>) = (Ok (), w1)"
    unfolding ExodbcExec_body_def
    by (auto elim!: thenM_OkE bindM_OkE dest!: preservesD[OF mode] split: if_splits)
  from preservesD[OF register_keeps_statement reg] assms(2) Statement_of_not_scrollable[OF st] show ?thesis
    by (simp add: statement_of_shell_def not_scrollable_def)
qed


text \<open>
  C28. A shell started without \<open>--forwardOnlyCursors\<close> cannot scroll: in the state its constructor leaves, a line with
  \<open>!first\<close>, \<open>!last\<close> or \<open>!prev\<close> fails the assertion that the cursor is scrollable, without a call of the driver, and ends the
  session with the value 20. (The constructor hands \<open>m_forwardOnlyCursors\<close> over where \<open>Init\<close> expects \<open>scrollableCursor\<close>.)
\<close>

theorem default_shell_cannot_scroll:
  assumes "ExodbcExec_new X d x False sep nh fx rn cm charSize sqlsep w = (Ok (), w1)"
    and "xe_pStmt (shell w1) = Some s" and "log_ready (logs w1)"
    and "parse_command X E (xe_commands (shell w1)) input = Ok (Some (Select mode s), args)"
    and "mode \<noteq> SelNext" and "input \<noteq> []"
  shows "\<exists>l. run_line X E n input w1 = (Ok (Some 20), w1\<lparr>logs := l\<rparr>)"
proof -
  have "\<not> es_scrollableCursor (stms w1 s)"
    using ExodbcExec_new_not_scrollable[OF assms(1,2)] by (simp add: not_scrollable_def)
  then have "Select_Execute X E mode s w1 = (Exn (AssertionException ''m_scrollableCursor''), w1)"
    using assms(5) by (cases mode) (simp_all add: Select_Execute_def SelectFirst_def SelectLast_def SelectPrev_def SelectFetchScroll_def)
  then have "process_line X E n input w1 = (Exn (AssertionException ''m_scrollableCursor''), w1)"
    using assms(4) by (simp add: process_line_def)
  moreover obtain l where "LOG E LL_Error (sh_text E (AssertionException ''m_scrollableCursor'')) w1 = (Ok (), w1\<lparr>logs := l\<rparr>)"
    using ready_LOG[OF assms(3)] by blast
  ultimately show ?thesis using assms(6) by (auto simp: run_line_def)
qed


lemmas statement_defs = Statement_new_def Statement_Init_def Statement_of_def SetCursorOptions_def with_hstmt_def with_ptr_def
  with_db_def call_hstmt_def release_hstmt_def release_option_def SqlHandle_make_shared_def SqlHandle_AllocateWithParent_def
  new_address_def mod_hnd_def shared_copy_def SqlHandle_IsAllocated_def SqlHandle_GetHandle_def SqlHandle_init_def IsOpen_def
  SQL_SUCCEEDED_def

lemma default_shell_cannot_scroll_witness:
  "\<exists>w1 l. ExodbcExec_new (ref_ext good_driver) 6 False False ''||'' False False False CharAuto 0 [] (small_shell False [] []) =
       (Ok (), w1) \<and> run_line (ref_ext good_driver) small_shellenv 0 ''!first'' w1 = (Ok (Some 20), w1\<lparr>logs := l\<rparr>)"
proof -
  let ?X = "ref_ext good_driver" and ?cs = "shell_commands 6 32 ''||'' False False False"
  define w0 where "w0 = snd (bindM Statement_new (\<lambda>s. mod_shell (\<lambda>_. \<lparr>xe_exitOnError = False, xe_pDb = 6, xe_stmt = s,
      xe_forwardOnlyCursors = False, xe_currentColumns = [], xe_columnSeparator = ''||'', xe_printNoHeader = False,
      xe_fixedPrintSize = False, xe_printRowNr = False, xe_charColumnMode = CharAuto, xe_charColSize = 0, xe_sqlSeparator = [],
      xe_pStmt = None, xe_commands = [], xe_exitFlag = False\<rparr>)) (small_shell False [] []))"
  have start: "ExodbcExec_new ?X 6 False False ''||'' False False False CharAuto 0 [] (small_shell False [] []) =
      catchM (ExodbcExec_body ?X) (\<lambda>ex. thenM (ExodbcExec_destroy ?X) (throwM ex)) w0"
    by (simp add: ExodbcExec_new_def w0_def statement_defs thenM_exec bindM_exec)
  obtain w2 where w2: "ExodbcExec_body ?X w0 = register_commands ?X ?cs w2"
    and pStmt: "xe_pStmt (shell w2) = Some 32" and free: "xe_commands (shell w2) = []" and log: "logs w2 = small_log"
    apply (rule that)
       apply (simp add: w0_def ExodbcExec_body_def statement_defs small_shell_def tworld.defs sworld.defs small_stmt_defs)
    apply simp_all
    done
  from commands_registered[OF free, of ?X 6 32 "''||''" False False False] obtain m cs where
    reg: "register_commands ?X ?cs w2 = (Ok (), with_commands m w2)"
    and cs: "set cs = {c \<in> set ?cs. \<not> Hidden c}"
    and find: "\<forall>name c. GetCommand m name False = Ok (Some c) \<longleftrightarrow> name \<in> set (GetAliases c) \<and> (c = Help cs \<or> c \<in> set cs)"
    by blast
  let ?w1 = "with_commands m w2"
  have new: "ExodbcExec_new ?X 6 False False ''||'' False False False CharAuto 0 [] (small_shell False [] []) = (Ok (), ?w1)"
    using start w2 reg by simp
  have "Select SelFirst 32 \<in> set cs" unfolding cs by (simp add: shell_commands_def)
  with find have "GetCommand m ''first'' False = Ok (Some (Select SelFirst 32))" by simp
  then have parse: "parse_command ?X small_shellenv (xe_commands (shell ?w1)) ''!first'' = Ok (Some (Select SelFirst 32), [])"
    by (simp add: parse_command_def COMMAND_PREFIX_def ref_ext_def res_bind_def)
  have "xe_pStmt (shell ?w1) = Some 32" "log_ready (logs ?w1)"
    using pStmt log by (simp_all add: with_commands_def log_ready_def small_log_def has_level_def ClearLogLevel_def)
  from default_shell_cannot_scroll[OF new this parse] new show ?thesis by auto
qed

end
