(* ===== verification/ExecExit.thy ===== *)
theory ExecExit
  imports ExecScroll
begin

text \<open>
  How \<open>main\<close> of the sample program ends: the values it returns, that no exception leaves it, and that arguments it refuses
  never reach the driver.
\<close>

section \<open>The values a program can return\<close>

definition returns :: "'a set \<Rightarrow> ('e, 's, 'a) prog \<Rightarrow> bool" where
  "returns C m \<longleftrightarrow> (\<forall>w c w'. m w = (Ok c, w') \<longrightarrow> c \<in> C)"

named_theorems rets "the values a program can return"

lemma returnsD: "returns C m \<Longrightarrow> m w = (Ok c, w') \<Longrightarrow> c \<in> C"
  by (auto simp: returns_def)

lemma returns_simple [rets]: "c \<in> C \<Longrightarrow> returns C (returnM c)" "returns C (throwM e)" "returns C undefM" "returns C fuelM"
  by (simp_all add: returns_def)

lemma returns_bindM [rets]: "(\<And>x. returns C (f x)) \<Longrightarrow> returns C (bindM m f)"
  by (auto simp: returns_def elim!: bindM_OkE)

lemma returns_bindM_value: "returns D m \<Longrightarrow> (\<And>x. x \<in> D \<Longrightarrow> returns C (f x)) \<Longrightarrow> returns C (bindM m f)"
  unfolding returns_def by (blast elim!: bindM_OkE)

lemma returns_thenM [rets]: "returns C n \<Longrightarrow> returns C (thenM m n)"
  by (auto simp: returns_def elim!: thenM_OkE)

lemma returns_catchM [rets]: "returns C m \<Longrightarrow> (\<And>e. returns C (h e)) \<Longrightarrow> returns C (catchM m h)"
  unfolding returns_def by (blast elim!: catchM_cases)

lemma returns_finallyM [rets]: "returns C m \<Longrightarrow> returns C (finallyM m d)"
  unfolding returns_def
proof (intro allI impI)
  fix w c w'
  assume r: "\<forall>w c w'. m w = (Ok c, w') \<longrightarrow> c \<in> C" and f: "finallyM m d w = (Ok c, w')"
  obtain x v where x: "m w = (Ok x, v)" and "thenM d (returnM x) v = (Ok c, w')"
    using f by (auto simp: finallyM_def elim: thenM_OkE split: prod.splits res.splits)
  then have "x = c" by (auto elim: thenM_OkE)
  with r x show "c \<in> C" by blast
qed

lemma returns_if [rets]: "(b \<Longrightarrow> returns C m) \<Longrightarrow> (\<not> b \<Longrightarrow> returns C n) \<Longrightarrow> returns C (if b then m else n)"
  by simp

lemma returns_Run: "returns {0, 10, 20} (Run X E n k (GetNextCommand E))"
  unfolding returns_def using Run_value by blast

lemma returns_connect: "returns {0, 10, 20} (connect_and_run X E n k d m)"
  unfolding connect_and_run_def run_shell_def by (intro rets returns_Run)

lemma returns_environment: "returns {0, 10, 20} (with_environment X E n k m)"
  unfolding with_environment_def by (intro rets returns_connect)

text \<open>Parsing either refuses with -1 or 2 or has arguments.\<close>

definition refusals :: "(int + MainArgs) set" where
  "refusals = {Inl (- 1), Inl 2} \<union> range Inr"

lemma returns_option:
  assumes "(key, needs, act) \<in> set (options X E)"
  shows "returns refusals (act v m)"
proof -
  have "returns refusals (arg_charColSize X E v m)" "returns refusals (arg_charColType X v m)"
    "returns refusals (arg_odbcVersion X v m)" "returns refusals (arg_logLevel X E v m)"
    "returns refusals (thenM printUsage (returnM (Inl (- 1))))" "\<And>f. returns refusals (set_arg f v m)"
    unfolding arg_charColSize_def arg_charColType_def arg_odbcVersion_def arg_logLevel_def set_arg_def Let_def
    by (intro rets; simp add: refusals_def)+
  with assms show ?thesis by (auto simp: options_def)
qed

lemma returns_apply_options:
  "set opts \<subseteq> set (options X E) \<Longrightarrow> returns refusals (apply_options E arg argNext opts m)"
proof (induction opts arbitrary: argNext m)
  case (Cons opt opts)
  obtain key needs act where opt: "opt = (key, needs, act)" by (cases opt)
  have a: "returns refusals (act v m)" for v
    by (rule returns_option[of key needs act X E]) (use Cons.prems opt in auto)
  have rest: "returns refusals (apply_options E arg n opts m')" for n m'
    using Cons by simp
  show ?case unfolding opt apply_options.simps
    by (intro returns_if returns_bindM_value[OF a]) (auto simp: rest split: sum.split intro: returns_simple)
qed (simp add: refusals_def returns_simple)

lemma returns_parse_args: "returns refusals (parse_args X E argv m)"
proof (induction argv arbitrary: m)
  case (Cons arg argv)
  show ?case unfolding parse_args.simps
    by (intro returns_bindM_value[OF returns_apply_options]) (auto intro: rets Cons split: sum.split)
qed (simp add: refusals_def returns_simple)

section \<open>Exceptions\<close>

lemma nothrow_liftM: "(\<And>e. r \<noteq> Exn e) \<Longrightarrow> nothrow (liftM r)"
  by (simp add: nothrow_def)

lemma nothrow_on_log: "nothrow m \<Longrightarrow> nothrow (on_log m)"
  by (simp add: nothrow_def on_log_def split: prod.split) (metis fst_conv)

lemma nothrow_LogMessage: "nothrow (LogMessage L level msg file line func)"
proof -
  have h: "CustomLogLevelHidesMsg b level \<noteq> Exn e" for b e
    by (simp add: CustomLogLevelHidesMsg_def split: option.split bool.split)
  have "nothrow (OnLogMessage L a level msg file line func)" for a
    unfolding OnLogMessage_def
  proof (intro quiet)
    fix x
    show "nothrow (case x of
        StdLogHandler b e out \<Rightarrow> StdLogHandler_OnLogMessage b e out level msg file line func
      | NullLogHandler b \<Rightarrow> skipM
      | FileLogHandler b ts path first isOpen \<Rightarrow>
          FileLogHandler_OnLogMessage L a b ts path first isOpen level msg file line func)"
      by (cases x) (auto simp: StdLogHandler_OnLogMessage_def FileLogHandler_OnLogMessage_def WriteStdErr_def WriteStdOut_def
          append_file_def open_logfile_def set_handler_def Let_def intro!: quiet nothrow_liftM h)
  qed
  then show ?thesis unfolding LogMessage_def by (intro quiet)
qed

lemma nothrow_LOG [quiet]: "nothrow (LOG E level msg)" "nothrow (WRITE_STDOUT_ENDL msg)"
  unfolding LOG_def WRITE_STDOUT_ENDL_def WriteStdOut_def by (intro nothrow_on_log nothrow_LogMessage quiet)+

section \<open>Refused arguments\<close>

text \<open>The program makes no call of the driver when it returns -1 or 2.\<close>

definition refuses_early :: "('z, int) xprog \<Rightarrow> bool" where
  "refuses_early m \<longleftrightarrow> (\<forall>w c w'. m w = (Ok c, w') \<and> c \<in> {- 1, 2} \<longrightarrow> calls w' = calls w)"

lemma refuses_calls: "preserves calls m \<Longrightarrow> refuses_early m"
  by (auto simp: refuses_early_def dest: preservesD)

lemma refuses_returns: "returns {0, 10, 20} m \<Longrightarrow> refuses_early m"
  by (fastforce simp: refuses_early_def dest: returnsD)

lemma refuses_bindM: "preserves calls m \<Longrightarrow> (\<And>x. refuses_early (f x)) \<Longrightarrow> refuses_early (bindM m f)"
  unfolding refuses_early_def by (fastforce elim!: bindM_OkE dest: preservesD)

lemma refuses_thenM: "preserves calls m \<Longrightarrow> refuses_early n \<Longrightarrow> refuses_early (thenM m n)"
  by (simp add: thenM_def refuses_bindM)

lemma refuses_if: "(b \<Longrightarrow> refuses_early m) \<Longrightarrow> (\<not> b \<Longrightarrow> refuses_early n) \<Longrightarrow> refuses_early (if b then m else n)"
  by simp

lemma calls_on_log: "preserves calls (on_log m)" "preserves calls (LOG E level msg)" "preserves calls (WRITE_STDOUT_ENDL msg)"
  "preserves calls (WRITE_STDERR_ENDL msg)"
  by (simp_all add: preserves_def LOG_def WRITE_STDOUT_ENDL_def WRITE_STDERR_ENDL_def on_log_def split: prod.split)

lemma calls_parse_args: "preserves calls (parse_args X E argv m)"
proof -
  have o: "preserves calls (act v m)" if "(key, needs, act) \<in> set (options X E)" for key needs act v m
  proof -
    have "preserves calls (arg_charColSize X E v m)" "preserves calls (arg_charColType X v m)"
      "preserves calls (arg_odbcVersion X v m)" "preserves calls (arg_logLevel X E v m)"
      "preserves calls (thenM printUsage (returnM (Inl (- 1) :: int + MainArgs)))" "\<And>f. preserves calls (set_arg f v m)"
      unfolding arg_charColSize_def arg_charColType_def arg_odbcVersion_def arg_logLevel_def set_arg_def Let_def printUsage_def
      by (intro calls_on_log pres)+
    with that show ?thesis by (auto simp: options_def)
  qed
  have a: "set opts \<subseteq> set (options X E) \<Longrightarrow> preserves calls (apply_options E arg argNext opts m)" for opts arg argNext m
  proof (induction opts arbitrary: m)
    case (Cons opt opts)
    obtain key needs act where opt: "opt = (key, needs, act)" by (cases opt)
    with Cons.prems have act: "preserves calls (act v m)" for v by (intro o) auto
    have "preserves calls (apply_options E arg argNext opts m')" for m' using Cons by simp
    with act show ?case unfolding opt apply_options.simps
      by (intro preserves_if preserves_bindM) (auto intro: pres split: sum.split)
  qed (simp add: pres)
  show ?thesis
  proof (induction argv arbitrary: m)
    case (Cons arg argv)
    then show ?case unfolding parse_args.simps
      by (intro preserves_bindM a) (auto intro: pres split: sum.split)
  qed (simp add: pres)
qed


lemma refuses_main: "refuses_early (main_body X E indeterminate n k argv)"
proof -
  have run: "refuses_early (with_environment X E n k m)" for m
    by (rule refuses_returns[OF returns_environment])
  have after: "refuses_early (case r of Inl code \<Rightarrow> returnM code
      | Inr m \<Rightarrow>
          if ma_dsn m = [] \<and> ma_cs m = [] \<or> ma_dsn m \<noteq> [] \<and> ma_cs m \<noteq> []
          then thenM (LOG E LL_Error ''Must use either '-CS' or '-DSN [-U <user>] [-P <pass>]', cannot use both.'') (returnM 2)
          else thenM (if ma_silent m then on_log (SetGlobalLogLevel LL_None) else skipM) (with_environment X E n k m))" for r
  proof (cases r)
    case (Inl code)
    then show ?thesis by (simp add: refuses_early_def)
  next
    case (Inr m)
    show ?thesis unfolding Inr sum.case
      by (intro refuses_if refuses_thenM[OF _ run] refuses_calls calls_on_log pres)
  qed
  show ?thesis unfolding main_body_def
    by (intro refuses_bindM refuses_thenM calls_on_log calls_parse_args after)
qed

lemma returns_main: "returns {- 1, 0, 2, 10, 20} (main_body X E indeterminate n k argv)"
proof -
  have run: "returns {- 1, 0, 2, 10, 20} (with_environment X E n k m)" for m
    using returns_environment by (fastforce simp: returns_def)
  show ?thesis unfolding main_body_def
    by (intro returns_bindM returns_thenM returns_bindM_value[OF returns_parse_args])
      (auto simp: refusals_def split: sum.split intro!: rets run)
qed

text \<open>
  C27. How the program ends: no exception leaves \<open>main\<close>, its value is one of -1 (help), 0, 1 (an exception before the shell
  or from its construction), 2 (arguments refused), 10 and 20 (the values of \<open>Run\<close>), and when the arguments are refused or the
  help is shown the driver has not been called.
\<close>

theorem main_ends:
  assumes "exodbcexec_main X E indeterminate n k argv w = (r, w')"
  shows "(\<forall>ex. r \<noteq> Exn ex) \<and> (\<forall>c. r = Ok c \<longrightarrow> c \<in> {- 1, 0, 1, 2, 10, 20} \<and> (c \<in> {- 1, 2} \<longrightarrow> calls w' = calls w))"
proof (cases "length argv \<le> 1")
  case True
  have "nothrow (thenM printUsage (returnM 2) :: ('a, int) xprog)" "preserves calls (thenM printUsage (returnM (2 :: int)) :: ('a, int) xprog)"
    "returns {2} (thenM printUsage (returnM 2) :: ('a, int) xprog)"
    unfolding printUsage_def by (intro quiet, intro calls_on_log pres, intro rets) simp
  with True assms show ?thesis
    by (auto simp: exodbcexec_main_def dest: nothrowD preservesD returnsD)
next
  case False
  let ?h = "\<lambda>ex. thenM (LOG E LL_Error (sh_text E ex)) (returnM 1) :: ('a, int) xprog"
  from False assms have run: "catchM (main_body X E indeterminate n k argv) ?h w = (r, w')"
    by (simp add: exodbcexec_main_def)
  have h: "nothrow (?h ex)" "returns {1} (?h ex)" for ex by (intro quiet, intro rets) simp
  from run show ?thesis
  proof (cases rule: catchM_cases)
    case (handled ex v)
    with h[of ex] show ?thesis by (auto dest: nothrowD returnsD)
  next
    case through
    with refuses_main[of X E indeterminate n k argv] show ?thesis
      by (auto simp: refuses_early_def dest: returnsD[OF returns_main])
  qed
qed

text \<open>Without arguments the usage is printed and 2 returned, whatever the world.\<close>

lemma forM_returns: "(\<And>x w. \<exists>w'. f x w = (Ok (), w')) \<Longrightarrow> \<exists>w'. forM xs f w = (Ok (), w')"
proof (induction xs arbitrary: w)
  case (Cons x xs)
  then obtain v where "f x w = (Ok (), v)" by blast
  then show ?case using Cons by (simp add: thenM_exec)
qed simp

lemma stdout_returns: "\<exists>w'. WRITE_STDOUT_ENDL msg w = (Ok (), w')"
  unfolding WRITE_STDOUT_ENDL_def WriteStdOut_def on_log_def modifyM_def prod.case by (rule exI) (rule refl)

lemma main_ends_witness:
  "\<exists>w'. exodbcexec_main (ref_ext good_driver) small_shellenv None 0 0 [''exodbcexec''] (small_shell False [] []) = (Ok 2, w') \<and>
     calls w' = calls (small_shell False [] [])"
proof -
  let ?w = "small_shell False [] []"
  obtain v where "printUsage ?w = (Ok (), v)" unfolding printUsage_def using forM_returns[of WRITE_STDOUT_ENDL, OF stdout_returns] by blast
  then have "exodbcexec_main (ref_ext good_driver) small_shellenv None 0 0 [''exodbcexec''] ?w = (Ok 2, v)"
    by (simp add: exodbcexec_main_def thenM_step)
  with main_ends[OF this] show ?thesis by simp
qed

end
