(* ===== verification/Samples.thy ===== *)
theory Samples
  imports ExecExit
begin

text \<open>
  Two small sample programs: \<open>samples/ListOdbcSources\<close>, which prints the data sources of the driver manager, and
  \<open>samples/OdbcConnect\<close>, which is meant to test a connection. They share the printing macros with the shell and run on its
  state.
\<close>

section \<open>ListOdbcSources\<close>

record SourcesArgs =
  sa_systemOnly :: bool
  sa_userOnly :: bool
  sa_showArch :: bool
  sa_odbcVersion :: OdbcVersion

definition SourcesArgs_default :: SourcesArgs where
  "SourcesArgs_default = \<lparr>sa_systemOnly = False, sa_userOnly = False, sa_showArch = False, sa_odbcVersion = V_3\<rparr>"

definition ListSources_usage :: "string list" where
  "ListSources_usage =
     [''Usage: listodbcsources  [OPTION]...'',
      '''',
      ''Search for ODBC DSN entries and prints found entries to stdout.'',
      ''Searches for ODBC DSN entries of type 'All' as default.'',
      ''OPTION can be:'',
      '' --systemOnly            If passed, only System DSN entries are searched.'',
      '' --userOnly              If passed, only User DSN entries are searched.'',
      '' --odbcVersion <version> Set ODBC Version to use. Valid values are '2', '3'' @ quote,
      ''                         or '3.8'. Default is '3'.'',
      '' --showArch              If set, tests if sizeof(void*) is 4 or 8 and prints'',
      ''                         the result as 'x86' for 4 and 'x64' for 8.'']"

definition ListSources_printUsage :: "('z, unit) xprog" where
  "ListSources_printUsage = forM ListSources_usage WRITE_STDOUT_ENDL"

definition ListSources_version :: "ext \<Rightarrow> string \<Rightarrow> OdbcVersion option" where
  "ListSources_version X v =
     (if boost_iequals X ''2'' v then Some V_2
      else if boost_iequals X ''3'' v then Some V_3
      else if boost_iequals X ''3.8'' v then Some V_3_8
      else None)"

definition ListSources_flags :: "shellenv \<Rightarrow> string \<Rightarrow> SourcesArgs \<Rightarrow> SourcesArgs" where
  "ListSources_flags E arg a =
     (let a1 = (if boost_equals E arg ''--systemOnly'' then a\<lparr>sa_systemOnly := True\<rparr> else a);
          a2 = (if boost_equals E arg ''--userOnly'' then a1\<lparr>sa_userOnly := True\<rparr> else a1)
      in if boost_equals E arg ''--showArch'' then a2\<lparr>sa_showArch := True\<rparr> else a2)"

fun ListSources_parse :: "ext \<Rightarrow> shellenv \<Rightarrow> string list \<Rightarrow> SourcesArgs \<Rightarrow> ('z, int + SourcesArgs) xprog" where
  "ListSources_parse X E [] a = returnM (Inr a)"
| "ListSources_parse X E (arg # argv) a =
     (if boost_equals E arg ''-help'' \<or> boost_equals E arg ''--help''
      then thenM ListSources_printUsage (returnM (Inl 0))
      else if boost_equals E arg ''--odbcVersion'' \<and> argv \<noteq> []
      then case ListSources_version X (hd argv) of
             Some v \<Rightarrow> ListSources_parse X E argv ((ListSources_flags E arg a)\<lparr>sa_odbcVersion := v\<rparr>)
           | None \<Rightarrow> thenM (WRITE_STDERR_ENDL (boost_format X (''Unknown OdvcVersion '%s'' @ quote) [hd argv])) (returnM (Inl 1))
      else ListSources_parse X E argv (ListSources_flags E arg a))"

text \<open>\<open>ptr\<close> is \<open>sizeof(void*)\<close>.\<close>

definition ListSources_showArch :: "ext \<Rightarrow> nat \<Rightarrow> ('z, unit) xprog" where
  "ListSources_showArch X ptr = WRITE_STDOUT_ENDL (boost_format X
     (if ptr = 4 then ''sizeof(void*) is %d, indicating 'x86'' @ quote
      else if ptr = 8 then ''sizeof(void*) is %d, indicating 'x64'' @ quote
      else ''sizeof(void*) is %d, indicating unknown architecture.'') [show_nat ptr])"

definition ListSources_mode :: "SourcesArgs \<Rightarrow> Environments.ListMode \<times> string" where
  "ListSources_mode a =
     (if sa_systemOnly a then (LM_System, ''System'')
      else if sa_userOnly a then (LM_User, ''User'')
      else (LM_All, ''All''))"

definition source_lines :: "ext \<Rightarrow> string \<Rightarrow> SDataSource list \<Rightarrow> string list" where
  "source_lines X name sources =
     [boost_format X ''Found %d DSN entries of type '%s':'' [show_nat (length sources), name],
      [],
      boost_format X '' %-20s %s'' [''Name'', ''Description''],
      ''===================================================================''] @
     map (\<lambda>s. boost_format X '' %-20s %s'' [ds_dsn s, ds_description s]) sources"

definition ListSources_run :: "ext \<Rightarrow> nat \<Rightarrow> nat \<Rightarrow> SourcesArgs \<Rightarrow> ('z, int) xprog" where
  "ListSources_run X n ptr a = thenM (if sa_showArch a then ListSources_showArch X ptr else skipM)
     (bindM (Environment_of X (sa_odbcVersion a)) (\<lambda>env. finallyM
       (bindM (ListDataSources X n env (fst (ListSources_mode a))) (\<lambda>sources.
        thenM (forM (source_lines X (snd (ListSources_mode a)) sources) WRITE_STDOUT_ENDL) (returnM 0)))
       (Environment_destroy X env)))"

definition ListSources_conflict :: "ext \<Rightarrow> ('z, int) xprog" where
  "ListSources_conflict X = thenM
     (WRITE_STDERR_ENDL (boost_format X (''Setting '%s' and '%s' will result in no data sources found'')
       [''--systemOnly'', ''--userOnly''])) (returnM 1)"

definition ListSources_body :: "ext \<Rightarrow> shellenv \<Rightarrow> nat \<Rightarrow> nat \<Rightarrow> string list \<Rightarrow> ('z, int) xprog" where
  "ListSources_body X E n ptr argv = bindM (ListSources_parse X E argv SourcesArgs_default) (\<lambda>r. case r of
     Inl code \<Rightarrow> returnM code
   | Inr a \<Rightarrow>
       if sa_systemOnly a \<and> sa_userOnly a
       then ListSources_conflict X
       else ListSources_run X n ptr a)"

definition ListSources_main :: "ext \<Rightarrow> shellenv \<Rightarrow> nat \<Rightarrow> nat \<Rightarrow> string list \<Rightarrow> ('z, int) xprog" where
  "ListSources_main X E n ptr argv = catchM (ListSources_body X E n ptr argv)
     (\<lambda>ex. thenM (WRITE_STDERR_ENDL (sh_text E ex)) (returnM 0))"

section \<open>OdbcConnect\<close>

text \<open>
  The arguments are parsed by \<open>boost::program_options\<close>, which is a parameter: \<open>parse\<close> gives the text of the exception it throws,
  or the map of variables, where a variable has a value and says whether that is the default. \<open>describe\<close> is what printing the
  description of the options gives. Exceptions of the standard library are their texts here.

  \<open>main\<close> has a \<open>return 0\<close> behind the checks of the arguments. The rest of the function, which parses the arguments a second
  time and connects, cannot be reached, and has no definition here.
\<close>

type_synonym variables_map = "(string \<times> bool \<times> string) list"

definition vm_given :: "variables_map \<Rightarrow> string \<Rightarrow> bool" where
  "vm_given vm opt \<longleftrightarrow> (\<exists>v. map_of vm opt = Some (False, v))"

definition conflicting_options :: "variables_map \<Rightarrow> string \<Rightarrow> string \<Rightarrow> string option" where
  "conflicting_options vm opt1 opt2 =
     (if vm_given vm opt1 \<and> vm_given vm opt2
      then Some (''Conflicting options '' @ quote @ opt1 @ quote @ '' and '' @ quote @ opt2 @ quote @ ''.'')
      else None)"

definition option_dependency :: "variables_map \<Rightarrow> string \<Rightarrow> string \<Rightarrow> string option" where
  "option_dependency vm for_what required_option =
     (if vm_given vm for_what \<and> \<not> vm_given vm required_option
      then Some (''Option '' @ quote @ for_what @ quote @ '' requires option '' @ quote @ required_option @ quote @ ''.'')
      else None)"

definition OdbcConnect_printUsage :: "string \<Rightarrow> ('z, unit) xprog" where
  "OdbcConnect_printUsage describe = seqM
     [WRITE_STDOUT_ENDL ''Usage: odbcconnect [OPTION] ConnectionString'', WRITE_STDOUT_ENDL describe]"

definition OdbcConnect_check :: "variables_map \<Rightarrow> string option" where
  "OdbcConnect_check vm =
     (case option_dependency vm ''user'' ''dsn'' of
        Some what \<Rightarrow> Some what
      | None \<Rightarrow> (case option_dependency vm ''pass'' ''dsn'' of
            Some what \<Rightarrow> Some what
          | None \<Rightarrow> (case map_of vm ''ConnectionString'' of
                Some (_, c # cs) \<Rightarrow> None
              | _ \<Rightarrow> Some ''A ConnectionString must be passed'')))"

definition OdbcConnect_refuse :: "string \<Rightarrow> ('z, int) xprog" where
  "OdbcConnect_refuse what = thenM (WRITE_STDERR_ENDL what) (thenM (WRITE_STDERR_ENDL [])
     (thenM (WRITE_STDERR_ENDL ''see --help for more information'') (returnM 1)))"

definition OdbcConnect_main ::
  "('a list \<Rightarrow> string + variables_map) \<Rightarrow> string \<Rightarrow> 'a list \<Rightarrow> ('z, int) xprog" where
  "OdbcConnect_main parse describe argv = (case parse argv of
     Inr vm \<Rightarrow>
       if map_of vm ''help'' \<noteq> None then thenM (OdbcConnect_printUsage describe) (returnM 1)
       else (case OdbcConnect_check vm of None \<Rightarrow> returnM 0 | Some what \<Rightarrow> OdbcConnect_refuse what)
   | Inl what \<Rightarrow> OdbcConnect_refuse what)"

section \<open>Programs that only print\<close>

text \<open>\<open>prints x m\<close>: \<open>m\<close> returns \<open>x\<close> and does nothing but write to the log and the standard streams.\<close>

definition prints :: "'a \<Rightarrow> ('z, 'a) xprog \<Rightarrow> bool" where
  "prints x m \<longleftrightarrow> (\<forall>w. \<exists>l. m w = (Ok x, w\<lparr>logs := l\<rparr>))"

named_theorems printing "programs that only print"

lemma printsI: "(\<And>w. \<exists>l. m w = (Ok x, w\<lparr>logs := l\<rparr>)) \<Longrightarrow> prints x m"
  unfolding prints_def by (rule allI)

lemma printsD: "prints x m \<Longrightarrow> \<exists>l. m w = (Ok x, w\<lparr>logs := l\<rparr>)"
  unfolding prints_def by (rule spec)

lemma same_logs: "\<exists>l. (r, w) = (r, w\<lparr>logs := l\<rparr>)"
  by (rule exI[of _ "logs w"]) simp

lemma prints_returnM [printing]: "prints x (returnM x)" "prints () skipM"
  by (rule printsI, simp only: exec, rule same_logs)+

lemma prints_thenM [printing]: "prints () m \<Longrightarrow> prints x n \<Longrightarrow> prints x (thenM m n)"
proof (rule printsI)
  fix w
  assume m: "prints () m" and n: "prints x n"
  obtain l where "m w = (Ok (), w\<lparr>logs := l\<rparr>)" using printsD[OF m] by blast
  moreover obtain l' where "n (w\<lparr>logs := l\<rparr>) = (Ok x, w\<lparr>logs := l, logs := l'\<rparr>)" using printsD[OF n] by blast
  ultimately show "\<exists>l. thenM m n w = (Ok x, w\<lparr>logs := l\<rparr>)" by (intro exI[of _ l']) simp
qed

lemma prints_forM [printing]: "(\<And>x. prints () (f x)) \<Longrightarrow> prints () (forM xs f)"
  by (induction xs) (simp_all add: prints_returnM prints_thenM)

lemma prints_macros [printing]: "prints () (WRITE_STDOUT_ENDL msg)" "prints () (WRITE_STDERR_ENDL msg)"
  unfolding WRITE_STDOUT_ENDL_def WRITE_STDERR_ENDL_def WriteStdOut_def WriteStdErr_def on_log_def modifyM_def prod.case
  by (rule printsI, rule exI, rule refl)+

lemma printsE: "prints x m \<Longrightarrow> \<exists>w'. m w = (Ok x, w') \<and> calls w' = calls w"
  using printsD[of x m w] by auto

section \<open>What the programs return\<close>


text \<open>
  \<open>listodbcsources\<close> lets no exception out of \<open>main\<close> and returns 0 or 1; 1 says that the arguments were refused, before the
  driver manager was called. An error of the driver manager is printed and the value is 0 all the same.
\<close>

lemma prints_rules: "prints x m \<Longrightarrow> preserves calls m" "prints x m \<Longrightarrow> returns {x} m" "prints x m \<Longrightarrow> nothrow m"
  unfolding preserves_def returns_def nothrow_def using printsE[of x m] by (metis fst_conv snd_conv insertI1 res.inject(1) res.distinct(1))+

definition parsed_sources :: "(int + SourcesArgs) set" where
  "parsed_sources = {Inl 0, Inl 1} \<union> range Inr"

lemma ListSources_parse_rules:
  "preserves calls (ListSources_parse X E argv a)"
  "returns parsed_sources (ListSources_parse X E argv a)"
proof -
  have u: "prints (Inl c :: int + SourcesArgs) (thenM ListSources_printUsage (returnM (Inl c)))"
    "prints (Inl c :: int + SourcesArgs) (thenM (WRITE_STDERR_ENDL msg) (returnM (Inl c)))" for c msg
    unfolding ListSources_printUsage_def by (intro printing)+
  show "preserves calls (ListSources_parse X E argv a)"
  proof (induction argv arbitrary: a)
    case (Cons arg argv)
    show ?case unfolding ListSources_parse.simps
      by (intro preserves_if prints_rules(1)[OF u(1)]) (auto split: option.split intro: Cons pres prints_rules(1)[OF u(2)])
  qed (simp add: pres)
  show "returns parsed_sources (ListSources_parse X E argv a)"
  proof (induction argv arbitrary: a)
    case (Cons arg argv)
    have r: "returns parsed_sources m" if "prints (Inl c :: int + SourcesArgs) m" "c \<in> {0, 1}" for c m
      using prints_rules(2)[OF that(1)] that(2) by (auto simp: returns_def parsed_sources_def)
    have ok: "returns parsed_sources (returnM (Inr a))" for a by (rule returns_simple) (simp add: parsed_sources_def)
    show ?case unfolding ListSources_parse.simps
      by (intro returns_if r[OF u(1)]) (auto split: option.split intro: Cons ok r[OF u(2)])
  qed (simp add: returns_simple parsed_sources_def)
qed

lemma returns_ListSources_run: "returns {0} (ListSources_run X n ptr a)"
  unfolding ListSources_run_def by (intro rets) simp

theorem listsources_ends:
  assumes "ListSources_main X E n ptr argv w = (r, w')"
  shows "(\<forall>ex. r \<noteq> Exn ex) \<and> (\<forall>c. r = Ok c \<longrightarrow> c \<in> {0, 1} \<and> (c = 1 \<longrightarrow> calls w' = calls w))"
proof -
  let ?h = "\<lambda>ex. thenM (WRITE_STDERR_ENDL (sh_text E ex)) (returnM (0 :: int)) :: ('a, int) xprog"
  have "prints 0 (?h ex)" for ex by (intro printing)
  note h = prints_rules(2,3)[OF this]
  from assms have "catchM (ListSources_body X E n ptr argv) ?h w = (r, w')" by (simp add: ListSources_main_def)
  then show ?thesis
  proof (cases rule: catchM_cases)
    case (handled ex v)
    with h[of ex] show ?thesis by (auto dest: nothrowD returnsD)
  next
    case through
    have "c \<in> {0, 1} \<and> (c = 1 \<longrightarrow> calls w' = calls w)" if "r = Ok c" for c
    proof -
      from through that obtain p v where p: "ListSources_parse X E argv SourcesArgs_default w = (Ok p, v)"
        and rest: "(case p of Inl code \<Rightarrow> returnM code
          | Inr a \<Rightarrow>
            if sa_systemOnly a \<and> sa_userOnly a
            then ListSources_conflict X
            else ListSources_run X n ptr a) v = (Ok c, w')"
        unfolding ListSources_body_def by (auto elim: bindM_OkE)
      note v = preservesD[OF ListSources_parse_rules(1) p] returnsD[OF ListSources_parse_rules(2) p]
      show ?thesis
      proof (cases p)
        case (Inl code)
        with rest v show ?thesis by (auto simp: parsed_sources_def)
      next
        case (Inr a)
        have "prints 1 (ListSources_conflict X :: ('a, int) xprog)" unfolding ListSources_conflict_def by (intro printing)
        note conflict = preservesD[OF prints_rules(1)[OF this]] returnsD[OF prints_rules(2)[OF this]]
        from Inr rest v show ?thesis
          by (auto dest: returnsD[OF returns_ListSources_run] conflict split: if_splits)
      qed
    qed
    with through show ?thesis by auto
  qed
qed

end
