(* ===== verification/SqlStructs.thy ===== *)
theory SqlStructs
  imports OdbcApi
begin

text \<open>
  \<open>SqlStructHelper.h/.cpp\<close>: the structures of ODBC for times, dates, time stamps and numbers.

  The members have the widths of the ODBC types; a \<open>SQLSMALLINT\<close> member is a word that \<open>sint\<close> reads. The clock of
  \<open>InitUtcTimestamp\<close> and the printing of the fraction, a \<open>float\<close>, are arguments.
\<close>

section \<open>The structures\<close>

record SQL_TIME_STRUCT =
  time_hour :: "16 word"
  time_minute :: "16 word"
  time_second :: "16 word"

record SQL_DATE_STRUCT =
  date_year :: "16 word"
  date_month :: "16 word"
  date_day :: "16 word"

record SQL_TIMESTAMP_STRUCT =
  ts_year :: "16 word"
  ts_month :: "16 word"
  ts_day :: "16 word"
  ts_hour :: "16 word"
  ts_minute :: "16 word"
  ts_second :: "16 word"
  ts_fraction :: "32 word"

record SQL_NUMERIC_STRUCT =
  num_precision :: "8 word"
  num_scale :: "8 word"
  num_sign :: "8 word"
  num_val :: "8 word list"

definition SQL_MAX_NUMERIC_LEN :: nat where
  "SQL_MAX_NUMERIC_LEN = 16"

definition InitTime :: "16 word \<Rightarrow> 16 word \<Rightarrow> 16 word \<Rightarrow> SQL_TIME_STRUCT" where
  "InitTime hour minute second = \<lparr>time_hour = hour, time_minute = minute, time_second = second\<rparr>"

definition InitDate :: "16 word \<Rightarrow> 16 word \<Rightarrow> 16 word \<Rightarrow> SQL_DATE_STRUCT" where
  "InitDate day month year = \<lparr>date_year = year, date_month = month, date_day = day\<rparr>"

definition InitTimestamp ::
  "16 word \<Rightarrow> 16 word \<Rightarrow> 16 word \<Rightarrow> 32 word \<Rightarrow> 16 word \<Rightarrow> 16 word \<Rightarrow> 16 word \<Rightarrow> SQL_TIMESTAMP_STRUCT" where
  "InitTimestamp hour minute second fraction day month year =
     \<lparr>ts_year = year, ts_month = month, ts_day = day, ts_hour = hour, ts_minute = minute, ts_second = second,
      ts_fraction = fraction\<rparr>"

text \<open>The members of C's \<open>struct tm\<close> that are read; \<open>tm_mon\<close> counts from 0 and \<open>tm_year\<close> from 1900.\<close>

record tm =
  tm_sec :: int
  tm_min :: int
  tm_hour :: int
  tm_mday :: int
  tm_mon :: int
  tm_year :: int

definition InitUtcTimestamp :: "tm \<Rightarrow> SQL_TIMESTAMP_STRUCT" where
  "InitUtcTimestamp utc_tm =
     \<lparr>ts_year = word_of_int (1900 + tm_year utc_tm), ts_month = word_of_int (tm_mon utc_tm),
      ts_day = word_of_int (tm_mday utc_tm), ts_hour = word_of_int (tm_hour utc_tm),
      ts_minute = word_of_int (tm_min utc_tm), ts_second = word_of_int (tm_sec utc_tm), ts_fraction = 0\<rparr>"

text \<open>\<open>memcpy\<close> of 16 bytes: reading past the end of a shorter array is undefined.\<close>

definition InitNumeric :: "8 word \<Rightarrow> 8 word \<Rightarrow> 8 word \<Rightarrow> 8 word list \<Rightarrow> (exn, SQL_NUMERIC_STRUCT) res" where
  "InitNumeric precision scale sign val =
     (if length val < SQL_MAX_NUMERIC_LEN then Undef
      else Ok \<lparr>num_precision = precision, num_scale = scale, num_sign = sign, num_val = take SQL_MAX_NUMERIC_LEN val\<rparr>)"

definition InitNullNumeric :: SQL_NUMERIC_STRUCT where
  "InitNullNumeric =
     \<lparr>num_precision = 0, num_scale = 0, num_sign = 0, num_val = replicate SQL_MAX_NUMERIC_LEN 0\<rparr>"

definition IsTimeEqual :: "SQL_TIME_STRUCT \<Rightarrow> SQL_TIME_STRUCT \<Rightarrow> bool" where
  "IsTimeEqual t1 t2 \<longleftrightarrow>
     time_hour t1 = time_hour t2 \<and> time_minute t1 = time_minute t2 \<and> time_second t1 = time_second t2"

definition IsDateEqual :: "SQL_DATE_STRUCT \<Rightarrow> SQL_DATE_STRUCT \<Rightarrow> bool" where
  "IsDateEqual d1 d2 \<longleftrightarrow> date_day d1 = date_day d2 \<and> date_month d1 = date_month d2 \<and> date_year d1 = date_year d2"

definition IsTimestampEqual :: "SQL_TIMESTAMP_STRUCT \<Rightarrow> SQL_TIMESTAMP_STRUCT \<Rightarrow> bool" where
  "IsTimestampEqual ts1 ts2 \<longleftrightarrow>
     ts_hour ts1 = ts_hour ts2 \<and> ts_minute ts1 = ts_minute ts2 \<and> ts_second ts1 = ts_second ts2 \<and>
     ts_fraction ts1 = ts_fraction ts2 \<and>
     ts_day ts1 = ts_day ts2 \<and> ts_month ts1 = ts_month ts2 \<and> ts_year ts1 = ts_year ts2"

definition show_word :: "16 word \<Rightarrow> string" where
  "show_word n = show_nat (unat n)"

text \<open>\<open>printFraction\<close> is \<open>boost::format\<close> with \<open>%f\<close> on the quotient.\<close>

definition TimestampToSqlString :: "ext \<Rightarrow> (32 word \<Rightarrow> string) \<Rightarrow> SQL_TIMESTAMP_STRUCT \<Rightarrow> bool \<Rightarrow> string" where
  "TimestampToSqlString X printFraction ts includeFraction =
     boost_format X ''%04d-%02d-%02d %02d:%02d:%02d''
       [show_int (sint (ts_year ts)), show_word (ts_month ts), show_word (ts_day ts),
        show_word (ts_hour ts), show_word (ts_minute ts), show_word (ts_second ts)] @
     (if includeFraction then ''.'' @ printFraction (ts_fraction ts) else [])"

section \<open>Equality and text\<close>

lemma equality_of_structs:
  "IsTimeEqual t1 t2 \<longleftrightarrow> t1 = t2" "IsDateEqual d1 d2 \<longleftrightarrow> d1 = d2" "IsTimestampEqual ts1 ts2 \<longleftrightarrow> ts1 = ts2"
  for t1 t2 :: SQL_TIME_STRUCT and d1 d2 :: SQL_DATE_STRUCT and ts1 ts2 :: SQL_TIMESTAMP_STRUCT
  by (auto simp: IsTimeEqual_def IsDateEqual_def IsTimestampEqual_def intro: SQL_TIME_STRUCT.equality
      SQL_DATE_STRUCT.equality SQL_TIMESTAMP_STRUCT.equality)

text \<open>\<open>%0nd\<close> of \<open>boost::format\<close> on the text of a number that is not negative: zeros in front up to the width.\<close>

definition pad :: "nat \<Rightarrow> string \<Rightarrow> string" where
  "pad n s = replicate (n - length s) (CHR ''0'') @ s"

definition timestamp_format_ok :: "ext \<Rightarrow> bool" where
  "timestamp_format_ok X \<longleftrightarrow> (\<forall>y mo d h mi s. list_all (list_all is_digit) [y, mo, d, h, mi, s] \<longrightarrow>
     boost_format X ''%04d-%02d-%02d %02d:%02d:%02d'' [y, mo, d, h, mi, s] =
       pad 4 y @ ''-'' @ pad 2 mo @ ''-'' @ pad 2 d @ '' '' @ pad 2 h @ '':'' @ pad 2 mi @ '':'' @ pad 2 s)"

text \<open>The number a padded text stands for.\<close>

lemma digits_value_append: "digits_value (s @ t) = digits_value s * 10 ^ length t + digits_value t"
proof (induction t rule: rev_induct)
  case (snoc c t)
  then show ?case by (simp add: digits_value_def algebra_simps)
qed (simp add: digits_value_def)

lemma digits_value_pad: "digits_value (pad n s) = digits_value s"
proof -
  have "digits_value (replicate k (CHR ''0'')) = 0" for k
    by (induction k) (simp_all add: digits_value_def)
  then show ?thesis by (simp add: pad_def digits_value_append)
qed

lemma show_digit:
  assumes "d < 10"
  shows "is_digit (char_of (48 + d :: nat))" and "(of_char (char_of (48 + d :: nat)) :: int) = 48 + int d"
proof -
  have "48 + d < 256" using assms by simp
  then have n: "(of_char (char_of (48 + d :: nat)) :: nat) = 48 + d" by simp
  then show "is_digit (char_of (48 + d :: nat))" using assms by (simp add: is_digit_def)
  have "char_of (48 + d) = char_of (int (48 + d))" by (simp only: char_of_nat)
  then have "(of_char (char_of (48 + d :: nat)) :: int) = int (48 + d) mod 256" by (simp only: of_char_of)
  with assms show "(of_char (char_of (48 + d :: nat)) :: int) = 48 + int d" by simp
qed

lemma show_base_step:
  "show_base 10 n = (if n < 10 then [] else show_base 10 (n div 10)) @ [char_of (48 + n mod 10)]"
  by (subst show_base.simps) (simp add: Let_def of_char_def)

lemma show_nat_digits: "list_all is_digit (show_nat n) \<and> digits_value (show_nat n) = int n"
  unfolding show_nat_def
proof (induction n rule: less_induct)
  case (less n)
  have d: "n mod 10 < 10" by simp
  have one: "digits_value [c] = of_char c - 48" for c by (simp add: digits_value_def)
  show ?case
  proof (cases "n < 10")
    case True
    then show ?thesis using show_digit[of n] by (simp add: show_base_step[of n] one)
  next
    case False
    then have "n div 10 < n" by simp
    moreover have "int (n div 10) * 10 + int (n mod 10) = int n" by (simp add: zdiv_int zmod_int)
    ultimately show ?thesis
      using less.IH[of "n div 10"] False show_digit[OF d] by (simp add: show_base_step[of n] one digits_value_append)
  qed
qed

lemma show_nat_length: "n < 10 ^ k \<Longrightarrow> 0 < k \<Longrightarrow> length (show_nat n) \<le> k"
  unfolding show_nat_def
proof (induction k arbitrary: n)
  case (Suc k)
  show ?case
  proof (cases "n < 10")
    case False
    with Suc.prems have "n div 10 < 10 ^ k" "0 < k" by (auto intro: gr0I)
    from Suc.IH[OF this] False show ?thesis by (simp add: show_base_step[of n])
  qed (simp add: show_base_step[of n])
qed simp

lemma pad_show_nat: "n < 10 ^ k \<Longrightarrow> 0 < k \<Longrightarrow> length (pad k (show_nat n)) = k"
  using show_nat_length[of n k] by (simp add: pad_def)

text \<open>Fields of a fixed width can be told apart from the text alone.\<close>

lemma pad_append_inj:
  "a < 10 ^ k \<Longrightarrow> b < 10 ^ k \<Longrightarrow> 0 < k \<Longrightarrow> pad k (show_nat a) @ s = pad k (show_nat b) @ t \<Longrightarrow> a = b \<and> s = t"
proof -
  assume k: "a < 10 ^ k" "b < 10 ^ k" "0 < k" and e: "pad k (show_nat a) @ s = pad k (show_nat b) @ t"
  have "pad k (show_nat a) = pad k (show_nat b) \<and> s = t"
    using e pad_show_nat[OF k(1,3)] pad_show_nat[OF k(2,3)] by simp
  then have "digits_value (show_nat a) = digits_value (show_nat b)" "s = t" by (metis digits_value_pad)+
  then show ?thesis by (simp add: show_nat_digits)
qed

definition fields_fit :: "SQL_TIMESTAMP_STRUCT \<Rightarrow> bool" where
  "fields_fit ts \<longleftrightarrow> 0 \<le> sint (ts_year ts) \<and> sint (ts_year ts) < 10000 \<and>
     list_all (\<lambda>n. unat n < 100) [ts_month ts, ts_day ts, ts_hour ts, ts_minute ts, ts_second ts]"

text \<open>One field: the next two characters give it, and a separator follows.\<close>

lemma peel_field:
  assumes "unat a < 100" and "unat b < 100" and "pad 2 (show_word a) @ s = pad 2 (show_word b) @ t"
  shows "a = b" and "s = t"
  using pad_append_inj[of "unat a" 2 "unat b" s t] assms by (simp_all add: show_word_def word_unat_eq_iff)

text \<open>What follows the month, the day and the hour.\<close>

definition rest3 :: "SQL_TIMESTAMP_STRUCT \<Rightarrow> string" where
  "rest3 ts = pad 2 (show_word (ts_minute ts)) @ '':'' @ pad 2 (show_word (ts_second ts)) @ []"

definition rest2 :: "SQL_TIMESTAMP_STRUCT \<Rightarrow> string" where
  "rest2 ts = pad 2 (show_word (ts_hour ts)) @ '':'' @ rest3 ts"

definition rest1 :: "SQL_TIMESTAMP_STRUCT \<Rightarrow> string" where
  "rest1 ts = pad 2 (show_word (ts_day ts)) @ '' '' @ rest2 ts"

lemma timestamp_text:
  assumes "timestamp_format_ok X" and "fields_fit ts"
  shows "TimestampToSqlString X pf ts False = pad 4 (show_nat (nat (sint (ts_year ts)))) @ ''-'' @
     pad 2 (show_word (ts_month ts)) @ ''-'' @ rest1 ts"
proof -
  have "show_int (sint (ts_year ts)) = show_nat (nat (sint (ts_year ts)))"
    using assms(2) by (simp add: show_int_def fields_fit_def)
  with assms(1) show ?thesis
    by (simp add: TimestampToSqlString_def timestamp_format_ok_def show_word_def show_nat_digits rest1_def rest2_def rest3_def)
qed

text \<open>
  What \<open>TimestampToSqlString\<close> returns for a time stamp, in the form \<open>YYYY-MM-DD hh:mm:ss\<close>, has
  19 characters and determines the time stamp up to its fraction: for years of at most four digits and
  other fields of at most two, two time stamps with the same text and the same fraction are equal, as
  \<open>IsTimestampEqual\<close> says.
\<close>

theorem timestamp_text_determines:
  assumes "timestamp_format_ok X" and "fields_fit ts1" and "fields_fit ts2"
  shows "length (TimestampToSqlString X pf ts1 False) = 19 \<and>
    (TimestampToSqlString X pf ts1 False = TimestampToSqlString X pf ts2 False \<and> ts_fraction ts1 = ts_fraction ts2
     \<longleftrightarrow> IsTimestampEqual ts1 ts2)"
proof -
  have small: "unat (ts_month ts) < 100" "unat (ts_day ts) < 100" "unat (ts_hour ts) < 100" "unat (ts_minute ts) < 100"
      "unat (ts_second ts) < 100" "nat (sint (ts_year ts)) < 10 ^ 4" "0 \<le> sint (ts_year ts)" if "fields_fit ts" for ts
    using that by (auto simp: fields_fit_def)
  have l: "length (TimestampToSqlString X pf ts1 False) = 19"
    using small[OF assms(2)] by (simp add: timestamp_text[OF assms(1,2)] rest1_def rest2_def rest3_def show_word_def pad_show_nat)
  note one = small[OF assms(2)] and two = small[OF assms(3)]
  have det: "ts_year ts1 = ts_year ts2 \<and> ts_month ts1 = ts_month ts2 \<and> ts_day ts1 = ts_day ts2 \<and> ts_hour ts1 = ts_hour ts2 \<and>
      ts_minute ts1 = ts_minute ts2 \<and> ts_second ts1 = ts_second ts2"
    if e: "TimestampToSqlString X pf ts1 False = TimestampToSqlString X pf ts2 False"
  proof -
    from pad_append_inj[OF one(6) two(6) zero_less_numeral e[unfolded timestamp_text[OF assms(1,2)] timestamp_text[OF assms(1,3)]]]
    have y: "nat (sint (ts_year ts1)) = nat (sint (ts_year ts2))" and mo: "pad 2 (show_word (ts_month ts1)) @ ''-'' @ rest1 ts1 =
        pad 2 (show_word (ts_month ts2)) @ ''-'' @ rest1 ts2"
      by simp_all
    from y one(7) two(7) have "sint (ts_year ts1) = sint (ts_year ts2)" by simp
    then have "ts_year ts1 = ts_year ts2" by (simp add: signed_word_eqI)
    moreover note m = peel_field[OF one(1) two(1) mo]
    moreover from m(2) have d: "pad 2 (show_word (ts_day ts1)) @ '' '' @ rest2 ts1 = pad 2 (show_word (ts_day ts2)) @ '' '' @ rest2 ts2"
      by (simp add: rest1_def)
    moreover note d' = peel_field[OF one(2) two(2) d]
    moreover from d'(2) have h: "pad 2 (show_word (ts_hour ts1)) @ '':'' @ rest3 ts1 = pad 2 (show_word (ts_hour ts2)) @ '':'' @ rest3 ts2"
      by (simp add: rest2_def)
    moreover note h' = peel_field[OF one(3) two(3) h]
    moreover from h'(2) have mi: "pad 2 (show_word (ts_minute ts1)) @ '':'' @ pad 2 (show_word (ts_second ts1)) @ [] =
        pad 2 (show_word (ts_minute ts2)) @ '':'' @ pad 2 (show_word (ts_second ts2)) @ []"
      by (simp add: rest3_def)
    moreover note mi' = peel_field[OF one(4) two(4) mi]
    moreover from mi'(2) have "pad 2 (show_word (ts_second ts1)) @ [] = pad 2 (show_word (ts_second ts2)) @ []" by simp
    from peel_field(1)[OF one(5) two(5) this] have "ts_second ts1 = ts_second ts2" .
    ultimately show ?thesis by blast
  qed
  have "TimestampToSqlString X pf ts1 False = TimestampToSqlString X pf ts2 False \<and> ts_fraction ts1 = ts_fraction ts2
      \<longleftrightarrow> IsTimestampEqual ts1 ts2"
  proof
    assume "TimestampToSqlString X pf ts1 False = TimestampToSqlString X pf ts2 False \<and> ts_fraction ts1 = ts_fraction ts2"
    with det show "IsTimestampEqual ts1 ts2" by (simp add: IsTimestampEqual_def)
  qed (simp add: equality_of_structs)
  with l show ?thesis by blast
qed

definition iso_format :: "string \<Rightarrow> string list \<Rightarrow> string" where
  "iso_format f xs = (case xs of [y, mo, d, h, mi, s] \<Rightarrow>
     pad 4 y @ ''-'' @ pad 2 mo @ ''-'' @ pad 2 d @ '' '' @ pad 2 h @ '':'' @ pad 2 mi @ '':'' @ pad 2 s | _ \<Rightarrow> [])"

lemma timestamp_text_determines_witness:
  "length (TimestampToSqlString (ref_ext (\<lambda>_. reply_rc SQL_ERROR)\<lparr>boost_format := iso_format\<rparr>) (\<lambda>_. []) (InitTimestamp 13 55 56 123 26 1 1983) False) = 19 \<and>
   TimestampToSqlString (ref_ext (\<lambda>_. reply_rc SQL_ERROR)\<lparr>boost_format := iso_format\<rparr>) (\<lambda>_. []) (InitTimestamp 13 55 56 123 26 1 1983) False \<noteq>
   TimestampToSqlString (ref_ext (\<lambda>_. reply_rc SQL_ERROR)\<lparr>boost_format := iso_format\<rparr>) (\<lambda>_. []) (InitTimestamp 13 55 57 123 26 1 1983) False"
proof -
  let ?X = "ref_ext (\<lambda>_. reply_rc SQL_ERROR)\<lparr>boost_format := iso_format\<rparr>"
  have "timestamp_format_ok ?X" by (simp add: timestamp_format_ok_def iso_format_def)
  moreover have "fields_fit (InitTimestamp 13 55 56 123 26 1 1983)" "fields_fit (InitTimestamp 13 55 57 123 26 1 1983)"
    by (simp_all add: fields_fit_def InitTimestamp_def)
  ultimately show ?thesis
    using timestamp_text_determines[of ?X "InitTimestamp 13 55 56 123 26 1 1983" "InitTimestamp 13 55 57 123 26 1 1983" "\<lambda>_. []"]
    by (simp add: IsTimestampEqual_def InitTimestamp_def)
qed

end
