(* ===== verification/SampleIntro.thy ===== *)
theory SampleIntro
  imports Samples SqlStructs
begin

text \<open>
  \<open>samples/ShortIntro\<close>: a program that uses most of the library on one table: it connects, creates a table, reads it through
  a \<open>Table\<close> with automatic columns, updates and inserts rows through the buffers of the columns, inserts ten more through a prepared
  statement bound to the same buffers, commits, and reads the table again.

  The pointers to buffers that \<open>main\<close> keeps are \<open>held\<close> while they live; the objects are destroyed in the reverse order of their
  declarations. \<open>clock\<close> is the time \<open>gmtime\<close> gives, \<open>n\<close> the fuel of the loops over rows.
\<close>

section \<open>Time stamps in a buffer\<close>

text \<open>
  An element of a \<open>TypeTimestampColumnBuffer\<close> is the sixteen bytes of the structure, the first member in the lowest.
\<close>

definition below :: "16 word \<Rightarrow> int \<Rightarrow> int" where
  "below a x = uint a + 2 ^ 16 * x"

definition timestamp_bits :: "SQL_TIMESTAMP_STRUCT \<Rightarrow> int" where
  "timestamp_bits ts = below (ts_year ts) (below (ts_month ts) (below (ts_day ts) (below (ts_hour ts)
     (below (ts_minute ts) (below (ts_second ts) (uint (ts_fraction ts)))))))"

definition bits_timestamp :: "int \<Rightarrow> SQL_TIMESTAMP_STRUCT" where
  "bits_timestamp x0 =
     (let x1 = x0 div 2 ^ 16; x2 = x1 div 2 ^ 16; x3 = x2 div 2 ^ 16; x4 = x3 div 2 ^ 16; x5 = x4 div 2 ^ 16;
          x6 = x5 div 2 ^ 16
      in \<lparr>ts_year = word_of_int x0, ts_month = word_of_int x1, ts_day = word_of_int x2, ts_hour = word_of_int x3,
          ts_minute = word_of_int x4, ts_second = word_of_int x5, ts_fraction = word_of_int x6\<rparr>)"

lemma below_simps: "word_of_int (below a x) = a" "below a x div 2 ^ 16 = x"
proof -
  have "uint a < 2 ^ 16" "0 \<le> uint a" using unsigned_less[of a] by simp_all
  then have m: "below a x mod 2 ^ 16 = uint a" and d: "below a x div 2 ^ 16 = x" by (simp_all add: below_def)
  from m have "uint (word_of_int (below a x) :: 16 word) = uint a"
    by (simp only: unsigned_of_int take_bit_eq_mod) simp
  then show "word_of_int (below a x) = a" "below a x div 2 ^ 16 = x" using d by (simp_all only: word_uint_eq_iff)
qed

lemma timestamp_bits_inverse: "bits_timestamp (timestamp_bits ts) = ts"
  by (simp only: bits_timestamp_def timestamp_bits_def below_simps Let_def) simp

section \<open>The program\<close>

definition intro_hold :: "nat \<Rightarrow> ('z, 'a) xprog \<Rightarrow> ('z, 'a) xprog" where
  "intro_hold c m = thenM (modifyM (\<lambda>w. w\<lparr>held := (held w)(c := True)\<rparr>))
     (finallyM m (modifyM (\<lambda>w. w\<lparr>held := (held w)(c := False)\<rparr>)))"

definition intro_default_connection :: string where
  "intro_default_connection =
     ''Driver={SQL Server Native Client 11.0};Server=192.168.56.20'' @ [CHR 0x5C] @
     ''EXODBC,1433;Database=exodbc;Uid=ex;Pwd=extest;''"

definition intro_schema :: "ext \<Rightarrow> shellenv \<Rightarrow> nat \<Rightarrow> ('z, unit) xprog" where
  "intro_schema X E d = seqM
     [catchM (seqM [ExecSql X d ''DROP TABLE T1'' NotFailOnNoData, CommitTrans X d])
        (\<lambda>ex. if is_SqlResultException ex then WRITE_STDOUT_ENDL (''Warning: Drop failed: '' @ sh_text E ex) else throwM ex),
      ifM (\<lambda>w. m_dbms (props w d) = DB2)
        (ExecSql X d ''CREATE TABLE T1 ( id INTEGER NOT NULL PRIMARY KEY, name varchar(16), lastUpdate timestamp)'' NotFailOnNoData)
        (ExecSql X d ''CREATE TABLE T1 ( id INTEGER NOT NULL PRIMARY KEY, name varchar(16), lastUpdate datetime)'' NotFailOnNoData),
      ExecSql X d (''INSERT INTO T1 (id, name, lastUpdate) VALUES(101, 'Cat', '1993-10-24 21:12:04'' @ quote @ '')'') NotFailOnNoData,
      ExecSql X d (''INSERT INTO T1 (id, name, lastUpdate) VALUES(102, 'Dog', '2011-08-01 04:02:06'' @ quote @ '')'') NotFailOnNoData,
      CommitTrans X d]"

text \<open>One row: the three buffers, read from left to right.\<close>

definition intro_row :: "ext \<Rightarrow> shellenv \<Rightarrow> nat \<Rightarrow> nat \<Rightarrow> nat \<Rightarrow> ('z, unit) xprog" where
  "intro_row X E pIdCol name pLastUpdateCol =
     bindM (on_buf pIdCol GetValue) (\<lambda>i.
     bindM (on_buf name (StringColumnWrapper_GetValue (sh_codecvt E))) (\<lambda>s.
     bindM (on_buf pLastUpdateCol GetValue) (\<lambda>ts.
       WRITE_STDOUT_ENDL (boost_format X ''%4d %16s %s''
         [show_int i, s, TimestampToSqlString X (\<lambda>_. []) (bits_timestamp ts) False]))))"

fun intro_rows :: "ext \<Rightarrow> nat \<Rightarrow> nat \<Rightarrow> ('z, unit) xprog \<Rightarrow> ('z, unit) xprog" where
  "intro_rows X 0 t row = fuelM"
| "intro_rows X (Suc n) t row =
     bindM (Table_select_op X t Next) (\<lambda>more. if more then thenM row (intro_rows X n t row) else skipM)"

text \<open>The second time the loop reads the time stamp once before, into a variable that is not used.\<close>

definition intro_print :: "ext \<Rightarrow> shellenv \<Rightarrow> nat \<Rightarrow> nat \<Rightarrow> nat \<Rightarrow> nat \<Rightarrow> nat \<Rightarrow> bool \<Rightarrow> ('z, unit) xprog" where
  "intro_print X E n t pIdCol name pLastUpdateCol again = seqM
     [WRITE_STDOUT_ENDL (''Printing content of Table 'T1'' @ quote @ '':''),
      WRITE_STDOUT_ENDL [],
      Table_Select X t [] [],
      WRITE_STDOUT_ENDL (boost_format X ''%4s %16s %s'' [''id'', ''name'', ''lastUpdate'']),
      WRITE_STDOUT_ENDL ''=============================='',
      intro_rows X n t (thenM (if again then bindM (on_buf pLastUpdateCol GetValue) (\<lambda>_. skipM) else skipM)
        (intro_row X E pIdCol name pLastUpdateCol)),
      WRITE_STDOUT_ENDL []]"

definition intro_set ::
  "shellenv \<Rightarrow> (odbc_call list \<Rightarrow> tm) \<Rightarrow> nat \<Rightarrow> nat \<Rightarrow> nat \<Rightarrow> int \<Rightarrow> string \<Rightarrow> ('z, unit) xprog" where
  "intro_set E clock pIdCol name pLastUpdateCol i s = seqM
     [on_buf pIdCol (SetValue_elem i),
      bindM (getsM calls) (\<lambda>cs. on_buf pLastUpdateCol (SetValue_elem (timestamp_bits (InitUtcTimestamp (clock cs))))),
      on_buf name (StringColumnWrapper_SetValue (sh_codecvt E) s)]"

definition intro_set_name_first ::
  "shellenv \<Rightarrow> (odbc_call list \<Rightarrow> tm) \<Rightarrow> nat \<Rightarrow> nat \<Rightarrow> nat \<Rightarrow> int \<Rightarrow> string \<Rightarrow> ('z, unit) xprog" where
  "intro_set_name_first E clock pIdCol name pLastUpdateCol i s = seqM
     [on_buf pIdCol (SetValue_elem i),
      on_buf name (StringColumnWrapper_SetValue (sh_codecvt E) s),
      bindM (getsM calls) (\<lambda>cs. on_buf pLastUpdateCol (SetValue_elem (timestamp_bits (InitUtcTimestamp (clock cs)))))]"

definition intro_insert_many ::
  "ext \<Rightarrow> shellenv \<Rightarrow> (odbc_call list \<Rightarrow> tm) \<Rightarrow> nat \<Rightarrow> nat \<Rightarrow> nat \<Rightarrow> nat \<Rightarrow> nat list \<Rightarrow> ('z, unit) xprog" where
  "intro_insert_many X E clock stmt pIdCol name pLastUpdateCol is = forM is (\<lambda>i. thenM
     (intro_set_name_first E clock pIdCol name pLastUpdateCol (int i) (boost_format X ''Insert: %d'' [show_nat i]))
     (ExecutePrepared X stmt))"

definition intro_prepared ::
  "ext \<Rightarrow> shellenv \<Rightarrow> (odbc_call list \<Rightarrow> tm) \<Rightarrow> nat \<Rightarrow> nat \<Rightarrow> nat \<Rightarrow> nat \<Rightarrow> nat \<Rightarrow> nat \<Rightarrow> ('z, unit) xprog" where
  "intro_prepared X E clock n d t pIdCol name pLastUpdateCol = bindM (Statement_of_db X (Some d)) (\<lambda>stmt. finallyM
     (thenM (Prepare X stmt ''INSERT INTO T1 (id, name, lastUpdate) VALUES(?, ?, ?)'')
     (bindM (GetColumnBufferPtrVariant X t 1) (\<lambda>pNameCol. seqM
       [Statement_BindParameter X stmt pIdCol 1 False,
        Statement_BindParameter X stmt pNameCol 2 False,
        Statement_BindParameter X stmt pLastUpdateCol 3 False,
        intro_insert_many X E clock stmt pIdCol name pLastUpdateCol [300..<310],
        CommitTrans X d,
        intro_print X E n t pIdCol name pLastUpdateCol True])))
     (Statement_destroy X stmt))"

definition intro_columns ::
  "ext \<Rightarrow> shellenv \<Rightarrow> (odbc_call list \<Rightarrow> tm) \<Rightarrow> nat \<Rightarrow> nat \<Rightarrow> nat \<Rightarrow> nat \<Rightarrow> nat \<Rightarrow> nat \<Rightarrow> ('z, unit) xprog" where
  "intro_columns X E clock n d t pIdCol name pLastUpdateCol = seqM
     [intro_print X E n t pIdCol name pLastUpdateCol False,
      intro_set E clock pIdCol name pLastUpdateCol 101 ''Updated'',
      UpdateByPkValues X t,
      intro_set E clock pIdCol name pLastUpdateCol 200 ''Inserted'',
      Insert X t,
      intro_prepared X E clock n d t pIdCol name pLastUpdateCol]"

definition intro_table :: "ext \<Rightarrow> shellenv \<Rightarrow> (odbc_call list \<Rightarrow> tm) \<Rightarrow> nat \<Rightarrow> nat \<Rightarrow> nat \<Rightarrow> ('z, unit) xprog" where
  "intro_table X E clock n d t = thenM (Table_Open X n t (EnumFlags_of TOF_CHECK_EXISTANCE))
     (bindM (GetColumnBufferPtr X t LongColumnBuffer 0) (\<lambda>pIdCol. intro_hold pIdCol
     (bindM (GetColumnBufferPtr X t TypeTimestampColumnBuffer 2) (\<lambda>pLastUpdateCol. intro_hold pLastUpdateCol
     (bindM (GetColumnBufferPtrVariant X t 1) (\<lambda>name.
      thenM (bindM (getsM (\<lambda>w. StringColumnWrapper_new (buf w name))) liftM)
        (intro_hold name (intro_columns X E clock n d t pIdCol name pLastUpdateCol))))))))"

definition intro_connected ::
  "ext \<Rightarrow> shellenv \<Rightarrow> (odbc_call list \<Rightarrow> tm) \<Rightarrow> nat \<Rightarrow> nat \<Rightarrow> string \<Rightarrow> ('z, unit) xprog" where
  "intro_connected X E clock n d connectionString = seqM
     [WRITE_STDOUT_ENDL (boost_format X ''Connecting to: %s'' [connectionString]),
      bindM (Open_connectionString X n d connectionString False) (\<lambda>_. skipM),
      bindM (getsM (\<lambda>w. props w d)) (\<lambda>ps. bindM (liftM (GetDbmsName ps)) (\<lambda>dbms. bindM (liftM (GetDriverName ps)) (\<lambda>driver.
        WRITE_STDOUT_ENDL (boost_format X ''Connected to: %s, using %s'' [dbms, driver])))),
      intro_schema X E d,
      bindM (Table_of_names X (Some d) (EnumFlags_of AF_READ_WRITE) ''T1'' [] [] []) (\<lambda>t.
        finallyM (intro_table X E clock n d t) (Table_destroy X t))]"

definition intro_main :: "ext \<Rightarrow> shellenv \<Rightarrow> (odbc_call list \<Rightarrow> tm) \<Rightarrow> nat \<Rightarrow> string list \<Rightarrow> ('z, int) xprog" where
  "intro_main X E clock n argv = thenM
     (catchM
       (bindM (Environment_of X V_3) (\<lambda>pEnv. finallyM
         (bindM (Database_of X (Some pEnv)) (\<lambda>pDb. finallyM
           (intro_connected X E clock n pDb (case argv of _ # cs # _ \<Rightarrow> cs | _ \<Rightarrow> intro_default_connection))
           (Database_destroy X pDb)))
         (Environment_destroy X pEnv)))
       (\<lambda>ex. WRITE_STDERR_ENDL (sh_text E ex)))
     (returnM 0)"

section \<open>How it ends\<close>

text \<open>No exception of the library leaves \<open>main\<close>, and the value is 0 whatever happened.\<close>

lemma nothrow_catchM: "(\<And>e. nothrow (h e)) \<Longrightarrow> nothrow (catchM m h)"
  unfolding nothrow_def by (metis catchM_cases fst_conv prod.exhaust_sel)

theorem intro_ends:
  assumes "intro_main X E clock n argv w = (r, w')"
  shows "(\<forall>ex. r \<noteq> Exn ex) \<and> (\<forall>c. r = Ok c \<longrightarrow> c = 0)"
proof -
  have "nothrow (intro_main X E clock n argv)" "returns {0} (intro_main X E clock n argv)"
    unfolding intro_main_def by (intro quiet nothrow_catchM prints_rules(3)[OF prints_macros(2)], intro rets) simp
  with assms show ?thesis by (auto dest: nothrowD returnsD)
qed

end
